(* ===== verification/Prelude.thy ===== *)
theory Prelude
  imports Main "HOL-Library.Monad_Syntax"
begin

text \<open>
  The vocabulary every other theory of the library is written in.

  \<^item> \<open>error\<close> is Go's \<open>error\<close> interface: the concrete error types the operator creates or
    inspects, with \<open>Wrap\<close> for \<open>fmt.Errorf("...: %w", err)\<close>.
  \<^item> \<open>('s, 'a) prog\<close> is a Go function that may read and write the state \<open>'s\<close>, and that returns a
    value (\<open>Ok\<close>), returns a non-nil error (\<open>Err\<close>) or panics (\<open>Panic\<close>, a nil dereference).
    The state after the call is always there: a Go function that fails keeps the side effects
    it had before it failed.
  \<^item> \<open>call m h k\<close> is the Go idiom \<open>x, err := m(); if err != nil { h(err) }; k(x)\<close>; a panic in \<open>m\<close>
    leaves both \<open>h\<close> and \<open>k\<close> out.
  \<^item> \<open>wp\<close> and \<open>keeps\<close> are the two judgements the component theories prove: a weakest
    precondition that computes by rewriting (collection \<open>wp_simps\<close>), and preservation of a state
    predicate by every outcome (collection \<open>keeps_rules\<close>).
\<close>

named_theorems wp_simps \<open>rewriting of weakest preconditions\<close>
named_theorems keeps_rules \<open>introduction rules for the preservation of a state predicate\<close>
named_theorems prog_defs \<open>the combinators, unfolded to evaluate a concrete run\<close>

section \<open>Go errors\<close>

datatype error =
    ErrorString string                     \<comment> \<open>\<open>errors.New\<close>, \<open>fmt.Errorf\<close> without \<open>%w\<close>\<close>
  | Wrap string error                      \<comment> \<open>\<open>fmt.Errorf("<text>: %w", err)\<close>\<close>
  | StatusError string string              \<comment> \<open>an answer of the API server: reason, message\<close>
  | ControllerReconcileError string        \<comment> \<open>\<open>controllers.ControllerReconcileError\<close>\<close>
  | OCMError int string string             \<comment> \<open>\<open>ocm.OCMError\<close>: StatusCode, Code, Reason\<close>

text \<open>\<open>errors.As\<close> on the chain of wrapped errors, for the two types the operator looks for.\<close>

fun asControllerReconcileError :: "error \<Rightarrow> string option" where
  "asControllerReconcileError (ControllerReconcileError reason) = Some reason"
| "asControllerReconcileError (Wrap _ e) = asControllerReconcileError e"
| "asControllerReconcileError _ = None"

fun asOCMError :: "error \<Rightarrow> bool" where
  "asOCMError (OCMError _ _ _) = True"
| "asOCMError (Wrap _ e) = asOCMError e"
| "asOCMError _ = False"

text \<open>\<open>errors.Is\<close>: the chain of wrapped errors contains the target.\<close>

fun errorsIs :: "error \<Rightarrow> error \<Rightarrow> bool" where
  "errorsIs (Wrap m e) target = (Wrap m e = target \<or> errorsIs e target)"
| "errorsIs e target = (e = target)"

section \<open>Decimal numerals\<close>

text \<open>What \<open>fmt.Sprint\<close> and \<open>%d\<close> print for a number.\<close>

fun digits10 :: "nat \<Rightarrow> string" where
  "digits10 n = (if n < 10 then [char_of (48 + n)] else digits10 (n div 10) @ [char_of (48 + n mod 10)])"

declare digits10.simps [simp del]

definition sprintInt :: "int \<Rightarrow> string" where
  "sprintInt i = (if i < 0 then ''-'' @ digits10 (nat (- i)) else digits10 (nat i))"

text \<open>The text an error prints.\<close>

fun errorText :: "error \<Rightarrow> string" where
  "errorText (ErrorString m) = m"
| "errorText (Wrap m e) = m @ '': '' @ errorText e"
| "errorText (StatusError _ m) = m"
| "errorText (ControllerReconcileError reason) = reason"
| "errorText (OCMError status code reason) =
     ''HTTP '' @ sprintInt status @ '': '' @ code @ '': '' @ reason"

section \<open>Programs\<close>

datatype 'a outcome = Ok 'a | Err error | Panic

type_synonym ('s, 'a) prog = "'s \<Rightarrow> 'a outcome \<times> 's"

definition ret :: "'a \<Rightarrow> ('s, 'a) prog" where
  "ret v = (\<lambda>s. (Ok v, s))"

definition throw :: "error \<Rightarrow> ('s, 'a) prog" where
  "throw e = (\<lambda>s. (Err e, s))"

definition panic :: "('s, 'a) prog" where
  "panic = (\<lambda>s. (Panic, s))"

definition gets :: "('s \<Rightarrow> 'a) \<Rightarrow> ('s, 'a) prog" where
  "gets f = (\<lambda>s. (Ok (f s), s))"

definition modify :: "('s \<Rightarrow> 's) \<Rightarrow> ('s, unit) prog" where
  "modify f = (\<lambda>s. (Ok (), f s))"

definition call :: "('s, 'a) prog \<Rightarrow> (error \<Rightarrow> ('s, 'b) prog) \<Rightarrow> ('a \<Rightarrow> ('s, 'b) prog) \<Rightarrow> ('s, 'b) prog"
where
  "call m h k = (\<lambda>s. case m s of
      (Ok v, s') \<Rightarrow> k v s'
    | (Err e, s') \<Rightarrow> h e s'
    | (Panic, s') \<Rightarrow> (Panic, s'))"

text \<open>\<open>bindp m k\<close> returns the error unchanged: \<open>if err != nil { return err }\<close>.\<close>

definition bindp :: "('s, 'a) prog \<Rightarrow> ('a \<Rightarrow> ('s, 'b) prog) \<Rightarrow> ('s, 'b) prog" where
  "bindp m k = call m throw k"

text \<open>A nil pointer that is dereferenced panics.\<close>

definition deref :: "'a option \<Rightarrow> ('s, 'a) prog" where
  "deref p = (case p of None \<Rightarrow> panic | Some v \<Rightarrow> ret v)"

text \<open>A Go \<open>error\<close> result with no other value: \<open>None\<close> is nil.\<close>

definition fromError :: "error option \<Rightarrow> ('s, unit) prog" where
  "fromError e = (case e of None \<Rightarrow> ret () | Some x \<Rightarrow> throw x)"

text \<open>\<open>defer\<close>: the second function runs however the first one ends.\<close>

definition deferring :: "('s, unit) prog \<Rightarrow> ('s, 'a) prog \<Rightarrow> ('s, 'a) prog" where
  "deferring d m = (\<lambda>s. case m s of (r, s') \<Rightarrow> (case d s' of (Panic, s'') \<Rightarrow> (Panic, s'') | (_, s'') \<Rightarrow> (r, s'')))"

lemmas [prog_defs] = ret_def throw_def panic_def gets_def modify_def call_def bindp_def deref_def
  fromError_def

lemma call_cong_ok [simp]: "m s = (Ok v, s') \<Longrightarrow> call m h k s = k v s'"
  by (simp add: call_def)

lemma call_cong_err [simp]: "m s = (Err e, s') \<Longrightarrow> call m h k s = h e s'"
  by (simp add: call_def)

lemma call_cong_panic [simp]: "m s = (Panic, s') \<Longrightarrow> call m h k s = (Panic, s')"
  by (simp add: call_def)

lemma ret_app [simp]: "ret v s = (Ok v, s)"
  by (simp add: ret_def)

lemma throw_app [simp]: "throw e s = (Err e, s)"
  by (simp add: throw_def)

lemma panic_app [simp]: "panic s = (Panic, s)"
  by (simp add: panic_def)

lemma gets_app [simp]: "gets f s = (Ok (f s), s)"
  by (simp add: gets_def)

lemma modify_app [simp]: "modify f s = (Ok (), f s)"
  by (simp add: modify_def)

lemma bindp_eqs [simp]:
  "m s = (Ok v, s') \<Longrightarrow> bindp m k s = k v s'"
  "m s = (Err e, s') \<Longrightarrow> bindp m k s = (Err e, s')"
  "m s = (Panic, s') \<Longrightarrow> bindp m k s = (Panic, s')"
  by (simp_all add: bindp_def)

lemma deref_eqs [simp]: "deref None = panic" "deref (Some v) = ret v"
  by (simp_all add: deref_def)

lemma fromError_eqs [simp]: "fromError None = ret ()" "fromError (Some e) = throw e"
  by (simp_all add: fromError_def)

lemma call_gets [simp]: "call (gets f) h k s = k (f s) s"
  by simp

lemma call_modify [simp]: "call (modify f) h k s = k () (f s)"
  by simp

lemma bindp_gets [simp]: "bindp (gets f) k s = k (f s) s"
  by simp

lemma bindp_modify [simp]: "bindp (modify f) k s = k () (f s)"
  by simp

text \<open>Successful runs, taken apart.\<close>

lemma bindp_ok:
  "bindp m k s = (Ok v, s') \<longleftrightarrow> (\<exists>x s1. m s = (Ok x, s1) \<and> k x s1 = (Ok v, s'))"
  by (auto simp: bindp_def call_def split: prod.splits outcome.splits)

lemma call_ok:
  "call m h k s = (Ok v, s') \<longleftrightarrow>
     (\<exists>x s1. m s = (Ok x, s1) \<and> k x s1 = (Ok v, s')) \<or> (\<exists>e s1. m s = (Err e, s1) \<and> h e s1 = (Ok v, s'))"
  by (auto simp: call_def split: prod.splits outcome.splits)

lemma throw_or_ok [simp]:
  "(case p of Inl e \<Rightarrow> throw (g e) | Inr v \<Rightarrow> k v) s = (Ok x, s') \<longleftrightarrow>
     (\<exists>v. p = Inr v \<and> k v s = (Ok x, s'))"
  by (auto split: sum.splits)

lemma deref_ok [simp]: "deref p s = (Ok v, s') \<longleftrightarrow> p = Some v \<and> s' = s"
  by (cases p) auto

section \<open>Weakest preconditions\<close>

definition wp :: "('s, 'a) prog \<Rightarrow> ('a outcome \<Rightarrow> 's \<Rightarrow> bool) \<Rightarrow> 's \<Rightarrow> bool" where
  "wp m Q s = (case m s of (r, s') \<Rightarrow> Q r s')"

lemma wp_ret [wp_simps]: "wp (ret v) Q s = Q (Ok v) s"
  by (simp add: wp_def)

lemma wp_Pair [wp_simps]: "wp (Pair r) Q s = Q r s"
  by (simp add: wp_def)

lemma wp_throw [wp_simps]: "wp (throw e) Q s = Q (Err e) s"
  by (simp add: wp_def)

lemma wp_panic [wp_simps]: "wp panic Q s = Q Panic s"
  by (simp add: wp_def)

lemma wp_gets [wp_simps]: "wp (gets f) Q s = Q (Ok (f s)) s"
  by (simp add: wp_def)

lemma wp_modify [wp_simps]: "wp (modify f) Q s = Q (Ok ()) (f s)"
  by (simp add: wp_def)

lemma wp_call [wp_simps]:
  "wp (call m h k) Q s =
     wp m (\<lambda>r s'. case r of Ok v \<Rightarrow> wp (k v) Q s' | Err e \<Rightarrow> wp (h e) Q s' | Panic \<Rightarrow> Q Panic s') s"
  by (auto simp: wp_def call_def split: prod.splits outcome.splits)

lemma wp_bindp [wp_simps]:
  "wp (bindp m k) Q s =
     wp m (\<lambda>r s'. case r of Ok v \<Rightarrow> wp (k v) Q s' | Err e \<Rightarrow> Q (Err e) s' | Panic \<Rightarrow> Q Panic s') s"
  by (simp add: bindp_def wp_def call_def split: prod.splits outcome.splits)

lemma wp_deref [wp_simps]:
  "wp (deref p) Q s = (case p of None \<Rightarrow> Q Panic s | Some v \<Rightarrow> Q (Ok v) s)"
  by (simp add: deref_def wp_simps split: option.splits)

lemma wp_fromError [wp_simps]:
  "wp (fromError e) Q s = (case e of None \<Rightarrow> Q (Ok ()) s | Some x \<Rightarrow> Q (Err x) s)"
  by (simp add: fromError_def wp_simps split: option.splits)

lemma wp_if [wp_simps]:
  "wp (if b then m else n) Q s = (if b then wp m Q s else wp n Q s)"
  by simp

lemma wp_conseq: "wp m P s \<Longrightarrow> (\<And>r s'. P r s' \<Longrightarrow> Q r s') \<Longrightarrow> wp m Q s"
  by (auto simp: wp_def split: prod.splits)

lemma wpI: "(\<And>r s'. m s = (r, s') \<Longrightarrow> Q r s') \<Longrightarrow> wp m Q s"
  by (simp add: wp_def split: prod.splits)

lemma wpD: "wp m Q s \<Longrightarrow> m s = (r, s') \<Longrightarrow> Q r s'"
  by (simp add: wp_def)

lemma wp_True [simp]: "wp m (\<lambda>_ _. True) s"
  by (simp add: wp_def split: prod.splits)

section \<open>Preservation of a state predicate\<close>

definition keeps :: "('s \<Rightarrow> bool) \<Rightarrow> ('s, 'a) prog \<Rightarrow> bool" where
  "keeps I m \<longleftrightarrow> (\<forall>s. I s \<longrightarrow> I (snd (m s)))"

lemma keepsI: "(\<And>s r s'. I s \<Longrightarrow> m s = (r, s') \<Longrightarrow> I s') \<Longrightarrow> keeps I m"
  unfolding keeps_def by (metis prod.collapse)

lemma keepsD: "keeps I m \<Longrightarrow> I s \<Longrightarrow> m s = (r, s') \<Longrightarrow> I s'"
  unfolding keeps_def by (metis snd_conv)

lemma keeps_snd: "keeps I m \<Longrightarrow> I s \<Longrightarrow> I (snd (m s))"
  by (simp add: keeps_def)

lemma keeps_wp: "keeps I m \<Longrightarrow> I s \<Longrightarrow> wp m (\<lambda>_ s'. I s') s"
  by (auto simp: wp_def keeps_def split: prod.splits)

lemma keeps_Pair [simp, keeps_rules]: "keeps I (Pair r)"
  by (simp add: keeps_def)

lemma keeps_ret [keeps_rules]: "keeps I (ret v)"
  by (simp add: keeps_def)

lemma keeps_throw [keeps_rules]: "keeps I (throw e)"
  by (simp add: keeps_def)

lemma keeps_panic [keeps_rules]: "keeps I panic"
  by (simp add: keeps_def)

lemma keeps_gets [keeps_rules]: "keeps I (gets f)"
  by (simp add: keeps_def)

lemma keeps_deref [keeps_rules]: "keeps I (deref p)"
  by (cases p) (simp_all add: keeps_rules)

lemma keeps_fromError [keeps_rules]: "keeps I (fromError e)"
  by (cases e) (simp_all add: keeps_rules)

lemma keeps_modify [keeps_rules]: "(\<And>s. I s \<Longrightarrow> I (f s)) \<Longrightarrow> keeps I (modify f)"
  by (simp add: keeps_def)

lemma keeps_call [keeps_rules]:
  "keeps I m \<Longrightarrow> (\<And>e. keeps I (h e)) \<Longrightarrow> (\<And>v. keeps I (k v)) \<Longrightarrow> keeps I (call m h k)"
  by (fastforce simp: keeps_def call_def split: prod.splits outcome.splits)

lemma keeps_bindp [keeps_rules]:
  "keeps I m \<Longrightarrow> (\<And>v. keeps I (k v)) \<Longrightarrow> keeps I (bindp m k)"
  unfolding bindp_def by (intro keeps_rules)

lemma keeps_if [keeps_rules]:
  "(b \<Longrightarrow> keeps I m) \<Longrightarrow> (\<not> b \<Longrightarrow> keeps I n) \<Longrightarrow> keeps I (if b then m else n)"
  by simp

lemma keeps_case_option [keeps_rules]:
  "(p = None \<Longrightarrow> keeps I m) \<Longrightarrow> (\<And>v. p = Some v \<Longrightarrow> keeps I (k v)) \<Longrightarrow>
     keeps I (case p of None \<Rightarrow> m | Some v \<Rightarrow> k v)"
  by (simp split: option.splits)

lemma keeps_case_prod [keeps_rules]:
  "(\<And>a b. p = (a, b) \<Longrightarrow> keeps I (k a b)) \<Longrightarrow> keeps I (case p of (a, b) \<Rightarrow> k a b)"
  by (simp split: prod.splits)

lemma keeps_case_sum [keeps_rules]:
  "(\<And>e. p = Inl e \<Longrightarrow> keeps I (h e)) \<Longrightarrow> (\<And>v. p = Inr v \<Longrightarrow> keeps I (k v)) \<Longrightarrow>
     keeps I (case p of Inl e \<Rightarrow> h e | Inr v \<Rightarrow> k v)"
  by (simp split: sum.splits)

lemma keeps_Let [keeps_rules]: "(\<And>x. keeps I (f x)) \<Longrightarrow> keeps I (let x = t in f x)"
  by (simp add: Let_def)

lemma keeps_conj: "keeps I m \<Longrightarrow> keeps J m \<Longrightarrow> keeps (\<lambda>s. I s \<and> J s) m"
  by (simp add: keeps_def)

text \<open>\<open>yields I m Q\<close>: besides keeping \<open>I\<close>, the value \<open>m\<close> returns satisfies \<open>Q\<close>.\<close>

definition yields :: "('s \<Rightarrow> bool) \<Rightarrow> ('s, 'a) prog \<Rightarrow> ('a \<Rightarrow> bool) \<Rightarrow> bool" where
  "yields I m Q \<longleftrightarrow> (\<forall>s r s'. I s \<longrightarrow> m s = (r, s') \<longrightarrow> I s' \<and> (\<forall>v. r = Ok v \<longrightarrow> Q v))"

lemma yields_keeps: "yields I m Q \<Longrightarrow> keeps I m"
  by (rule keepsI) (auto simp: yields_def)

lemma keeps_yields: "keeps I m \<Longrightarrow> (\<And>v. Q v) \<Longrightarrow> yields I m Q"
  by (auto simp: yields_def dest: keepsD)

lemma yieldsD: "yields I m Q \<Longrightarrow> I s \<Longrightarrow> m s = (Ok v, s') \<Longrightarrow> Q v"
  unfolding yields_def by blast

lemma yields_mono: "yields I m Q' \<Longrightarrow> (\<And>v. Q' v \<Longrightarrow> Q v) \<Longrightarrow> yields I m Q"
  unfolding yields_def by blast

lemma yields_ret: "Q v \<Longrightarrow> yields I (ret v) Q"
  by (auto simp: yields_def)

lemma yields_throw: "yields I (throw e) Q"
  by (auto simp: yields_def)

lemma yields_panic: "yields I panic Q"
  by (auto simp: yields_def)

lemma yields_deref: "(\<And>v. p = Some v \<Longrightarrow> Q v) \<Longrightarrow> yields I (deref p) Q"
  by (cases p) (auto simp: yields_def)

lemma yields_if:
  "(b \<Longrightarrow> yields I m Q) \<Longrightarrow> (\<not> b \<Longrightarrow> yields I n Q) \<Longrightarrow> yields I (if b then m else n) Q"
  by simp

lemma yields_case_sum:
  "(\<And>e. p = Inl e \<Longrightarrow> yields I (h e) Q) \<Longrightarrow> (\<And>v. p = Inr v \<Longrightarrow> yields I (k v) Q) \<Longrightarrow>
     yields I (case p of Inl e \<Rightarrow> h e | Inr v \<Rightarrow> k v) Q"
  by (simp split: sum.splits)

lemma yields_case_prod:
  "(\<And>x y. p = (x, y) \<Longrightarrow> yields I (k x y) Q) \<Longrightarrow> yields I (case p of (x, y) \<Rightarrow> k x y) Q"
  by (simp split: prod.splits)

lemma yields_call:
  assumes "yields I m Q'" "\<And>e. yields I (h e) Q" "\<And>v. Q' v \<Longrightarrow> yields I (k v) Q"
  shows "yields I (call m h k) Q"
  unfolding yields_def
proof (intro allI impI)
  fix s r s' assume I: "I s" and run: "call m h k s = (r, s')"
  obtain r1 s1 where m: "m s = (r1, s1)" by fastforce
  with assms(1) I have I1: "I s1" "\<And>v. r1 = Ok v \<Longrightarrow> Q' v" unfolding yields_def by blast+
  show "I s' \<and> (\<forall>v. r = Ok v \<longrightarrow> Q v)"
  proof (cases r1)
    case (Ok v)
    with m run I1 assms(3) [of v] show ?thesis by (auto simp: yields_def)
  next
    case (Err e)
    with m run I1 assms(2) [of e] show ?thesis by (auto simp: yields_def)
  next
    case Panic
    with m run I1 show ?thesis by auto
  qed
qed

lemma yields_bindp:
  "yields I m Q' \<Longrightarrow> (\<And>v. Q' v \<Longrightarrow> yields I (k v) Q) \<Longrightarrow> yields I (bindp m k) Q"
  unfolding bindp_def by (rule yields_call [of _ _ Q']) (auto intro: yields_throw)

lemma yields_bindp_deref:
  "(\<And>v. p = Some v \<Longrightarrow> yields I (k v) Q) \<Longrightarrow> yields I (bindp (deref p) k) Q"
  by (rule yields_bindp [OF yields_deref])

lemma keeps_bindp_yields:
  assumes "yields I m Q" "\<And>v. Q v \<Longrightarrow> keeps I (k v)"
  shows "keeps I (bindp m k)"
  by (rule yields_keeps [of _ _ "\<lambda>_. True"], rule yields_bindp [OF assms(1)])
     (use assms in \<open>auto intro: keeps_yields\<close>)

lemma keeps_call_yields:
  assumes "yields I m Q" "\<And>e. keeps I (h e)" "\<And>v. Q v \<Longrightarrow> keeps I (k v)"
  shows "keeps I (call m h k)"
  by (rule yields_keeps [of _ _ "\<lambda>_. True"], rule yields_call [OF assms(1)])
     (use assms in \<open>auto intro: keeps_yields\<close>)

section \<open>Strings\<close>

text \<open>\<open>strings.Join\<close>, \<open>strings.Split\<close> on a one-character separator, \<open>strings.TrimSpace\<close>.\<close>

fun joinWith :: "string \<Rightarrow> string list \<Rightarrow> string" where
  "joinWith sep [] = ''''"
| "joinWith sep [x] = x"
| "joinWith sep (x # y # ys) = x @ sep @ joinWith sep (y # ys)"

fun splitOn :: "char \<Rightarrow> string \<Rightarrow> string list" where
  "splitOn c [] = [[]]"
| "splitOn c (x # xs) =
     (case splitOn c xs of
        [] \<Rightarrow> [[x]]
      | w # ws \<Rightarrow> if x = c then [] # w # ws else (x # w) # ws)"

definition isSpace :: "char \<Rightarrow> bool" where
  "isSpace c \<longleftrightarrow> of_char c \<in> {9, 10, 11, 12, 13, 32 :: nat}"

definition trimSpace :: "string \<Rightarrow> string" where
  "trimSpace s = rev (dropWhile isSpace (rev (dropWhile isSpace s)))"

lemma splitOn_nonempty [simp]: "splitOn c xs \<noteq> []"
  by (induction xs) (auto split: list.splits)

lemma joinWith_Cons: "ys \<noteq> [] \<Longrightarrow> joinWith sep (x # ys) = x @ sep @ joinWith sep ys"
  by (cases ys) simp_all

lemma join_split: "joinWith [c] (splitOn c xs) = xs"
proof (induction xs)
  case (Cons x xs)
  obtain w ws where w: "splitOn c xs = w # ws"
    using splitOn_nonempty [of c xs] by (cases "splitOn c xs") auto
  with Cons.IH show ?case
    by (cases ws) auto
qed simp

text \<open>\<open>%q\<close> on the names the operator prints: they hold no character Go would escape.\<close>

definition quoted :: "string \<Rightarrow> string" where
  "quoted s = [CHR 0x22] @ s @ [CHR 0x22]"

end
