(* ===== verification/Api_Types.thy ===== *)
theory Api_Types
  imports Prelude
begin

text \<open>
  The data of the operator: the custom resources of \<open>src/api/v1alpha1\<close> field by field, and of
  the resources defined elsewhere (Kubernetes, OLM, Prometheus operator) the fields the operator
  reads or writes. A Go pointer is an \<open>option\<close> (\<open>None\<close> is nil), a Go map a partial function, a
  nil slice the empty list.
\<close>

type_synonym labels = "string \<rightharpoonup> string"
type_synonym time = int        \<comment> \<open>\<open>time.Time\<close>, nanoseconds\<close>
type_synonym duration = int    \<comment> \<open>\<open>time.Duration\<close>, nanoseconds\<close>

definition nanosPerSecond :: int where
  "nanosPerSecond = 1000000000"

section \<open>Object metadata and conditions\<close>

record OwnerReference =
  or_UID :: string
  or_Name :: string
  or_Controller :: bool

record ObjectMeta =
  Name :: string
  Namespace :: string
  UID :: string
  Generation :: int
  DeletionTimestamp :: "time option"
  Labels :: labels
  Annotations :: labels
  OwnerReferences :: "OwnerReference list"
  Finalizers :: "string list"

text \<open>The zero value of \<open>metav1.ObjectMeta\<close>, with a name and a namespace.\<close>

definition objectMeta :: "string \<Rightarrow> string \<Rightarrow> ObjectMeta" where
  "objectMeta ns n = \<lparr>Name = n, Namespace = ns, UID = '''', Generation = 0, DeletionTimestamp = None,
     Labels = Map.empty, Annotations = Map.empty, OwnerReferences = [], Finalizers = []\<rparr>"

lemma objectMeta_sel [simp]:
  "Name (objectMeta ns n) = n" "Namespace (objectMeta ns n) = ns"
  "Labels (objectMeta ns n) = Map.empty" "Annotations (objectMeta ns n) = Map.empty"
  "OwnerReferences (objectMeta ns n) = []"
  by (simp_all add: objectMeta_def)

record ObjectKey =
  key_Namespace :: string
  key_Name :: string

text \<open>\<open>types.NamespacedName.String\<close> and \<open>client.ObjectKeyFromObject\<close>.\<close>

definition keyString :: "ObjectKey \<Rightarrow> string" where
  "keyString k = key_Namespace k @ ''/'' @ key_Name k"

definition ObjectKeyFromObject :: "ObjectMeta \<Rightarrow> ObjectKey" where
  "ObjectKeyFromObject m = \<lparr>key_Namespace = Namespace m, key_Name = Name m\<rparr>"

lemma ObjectKeyFromObject_sel [simp]:
  "key_Namespace (ObjectKeyFromObject m) = Namespace m" "key_Name (ObjectKeyFromObject m) = Name m"
  by (simp_all add: ObjectKeyFromObject_def)

datatype ConditionStatus = ConditionTrue | ConditionFalse | ConditionUnknown

record Condition =
  c_Type :: string
  c_Status :: ConditionStatus
  c_Reason :: string
  c_Message :: string
  c_ObservedGeneration :: int
  c_LastTransitionTime :: "time option"   \<comment> \<open>\<open>None\<close> is the zero time\<close>

section \<open>\<open>addon_types.go\<close>\<close>

datatype AddonInstallType = OLMAllNamespaces | OLMOwnNamespace | OtherInstallType string

record EnvObject =
  env_Name :: string
  env_Value :: string

record SubscriptionConfig =
  EnvironmentVariables :: "EnvObject list"

record AdditionalCatalogSource =
  acs_Name :: string
  acs_Image :: string

record AddonInstallOLMCommon =
  olm_Namespace :: string
  CatalogSourceImage :: string
  Channel :: string
  PackageName :: string
  PullSecretName :: string
  Config :: "SubscriptionConfig option"
  AdditionalCatalogSources :: "AdditionalCatalogSource list"

text \<open>\<open>AddonInstallOLMAllNamespaces\<close> and \<open>AddonInstallOLMOwnNamespace\<close> inline the common record.\<close>

record AddonInstallSpec =
  install_Type :: AddonInstallType
  install_OLMAllNamespaces :: "AddonInstallOLMCommon option"
  install_OLMOwnNamespace :: "AddonInstallOLMCommon option"

record AddonNamespace =
  ans_Name :: string
  ans_Labels :: labels
  ans_Annotations :: labels

record AddonSecretPropagationReference =
  SourceSecret :: string
  DestinationSecret :: string

record AddonSecretPropagation =
  Secrets :: "AddonSecretPropagationReference list"

record AddonUpgradePolicy =
  up_ID :: string

record MonitoringFederationSpec =
  fed_Namespace :: string
  PortName :: string
  MatchNames :: "string list"
  MatchLabels :: labels

record RHOBSRemoteWriteConfigSpec =
  rw_URL :: string
  rw_OAuth2 :: "string option"      \<comment> \<open>\<open>*monv1.OAuth2\<close>, passed through unread\<close>
  Allowlist :: "string list"

record MonitoringStackSpec =
  RHOBSRemoteWriteConfig :: "RHOBSRemoteWriteConfigSpec option"

record MonitoringSpec =
  Federation :: "MonitoringFederationSpec option"
  MonitoringStack :: "MonitoringStackSpec option"

record AddonPackageOperator =
  po_Image :: string

record AddonSpec =
  DisplayName :: string
  Version :: string
  Paused :: bool
  Namespaces :: "AddonNamespace list"
  CommonLabels :: labels
  CommonAnnotations :: labels
  CorrelationID :: string
  Install :: AddonInstallSpec
  DeleteAckRequired :: bool
  InstallAckRequired :: bool
  UpgradePolicy :: "AddonUpgradePolicy option"
  Monitoring :: "MonitoringSpec option"
  SecretPropagation :: "AddonSecretPropagation option"
  spec_AddonPackageOperator :: "AddonPackageOperator option"

datatype AddonUpgradePolicyValue = AddonUpgradePolicyValueStarted | AddonUpgradePolicyValueCompleted

record AddonUpgradePolicyStatus =
  ups_ID :: string
  ups_Value :: AddonUpgradePolicyValue
  ups_Version :: string
  ups_ObservedGeneration :: int

datatype AddonPhase = PhaseNone | PhasePending | PhaseReady | PhaseTerminating | PhaseError

record AddOnStatusCondition =
  StatusType :: string
  StatusValue :: ConditionStatus
  asc_Reason :: string
  asc_Message :: string

record OCMAddOnStatusHash =
  StatusHash :: string
  hash_ObservedGeneration :: int

record OCMAddOnStatus =
  oas_AddonID :: string
  oas_CorrelationID :: string
  oas_AddonVersion :: string
  oas_StatusConditions :: "AddOnStatusCondition list"
  oas_ObservedGeneration :: int

record AddonStatus =
  ObservedGeneration :: int
  Conditions :: "Condition list"
  Phase :: AddonPhase
  status_UpgradePolicy :: "AddonUpgradePolicyStatus option"
  OCMReportedStatusHash :: "OCMAddOnStatusHash option"
  ObservedVersion :: string
  LastObservedAvailableCSV :: string

record Addon =
  addonMeta :: ObjectMeta
  Spec :: AddonSpec
  Status :: AddonStatus

text \<open>Condition types.\<close>

abbreviation Available :: string where "Available \<equiv> ''Available''"
abbreviation PausedCondition :: string where "PausedCondition \<equiv> ''Paused''"
abbreviation UpgradeStarted :: string where "UpgradeStarted \<equiv> ''UpgradeStarted''"
abbreviation UpgradeSucceeded :: string where "UpgradeSucceeded \<equiv> ''UpgradeSucceeded''"
abbreviation Installed :: string where "Installed \<equiv> ''Installed''"
abbreviation ReadyToBeDeleted :: string where "ReadyToBeDeleted \<equiv> ''ReadyToBeDeleted''"
abbreviation DeleteTimeout :: string where "DeleteTimeout \<equiv> ''DeleteTimeout''"

text \<open>Annotation keys of the delete signal.\<close>

abbreviation DeleteAnnotationFlag :: string where
  "DeleteAnnotationFlag \<equiv> ''addons.managed.openshift.io/delete''"
abbreviation DeleteTimeoutDuration :: string where
  "DeleteTimeoutDuration \<equiv> ''addons.managed.openshift.io/deletetimeout''"

text \<open>Condition reasons.\<close>

abbreviation AddonReasonFullyReconciled :: string where
  "AddonReasonFullyReconciled \<equiv> ''FullyReconciled''"
abbreviation AddonReasonTerminating :: string where
  "AddonReasonTerminating \<equiv> ''Terminating''"
abbreviation AddonReasonConfigError :: string where
  "AddonReasonConfigError \<equiv> ''ConfigurationError''"
abbreviation AddonReasonPaused :: string where
  "AddonReasonPaused \<equiv> ''AddonPaused''"
abbreviation AddonReasonUnreadyCatalogSource :: string where
  "AddonReasonUnreadyCatalogSource \<equiv> ''UnreadyCatalogSource''"
abbreviation AddonReasonUnreadyAdditionalCatalogSource :: string where
  "AddonReasonUnreadyAdditionalCatalogSource \<equiv> ''UnreadyAdditionalCatalogSource''"
abbreviation AddonReasonUnreadyNamespaces :: string where
  "AddonReasonUnreadyNamespaces \<equiv> ''UnreadyNamespaces''"
abbreviation AddonReasonUnreadyMonitoringFederation :: string where
  "AddonReasonUnreadyMonitoringFederation \<equiv> ''UnreadyMonitoringFederation''"
abbreviation AddonReasonUnreadyMonitoringStack :: string where
  "AddonReasonUnreadyMonitoringStack \<equiv> ''UnreadyMonitoringStack''"
abbreviation AddonReasonUnreadyClusterPackageTemplate :: string where
  "AddonReasonUnreadyClusterPackageTemplate \<equiv> ''UnreadyClusterPackageTemplate''"
abbreviation AddonReasonUnreadyCSV :: string where
  "AddonReasonUnreadyCSV \<equiv> ''UnreadyCSV''"
abbreviation AddonReasonMissingCSV :: string where
  "AddonReasonMissingCSV \<equiv> ''MissingCSV''"
abbreviation AddonReasonMissingSecretForPropagation :: string where
  "AddonReasonMissingSecretForPropagation \<equiv> ''MissingSecretForPropagation''"
abbreviation AddonReasonUpgradeStarted :: string where
  "AddonReasonUpgradeStarted \<equiv> ''AddonUpgradeStarted''"
abbreviation AddonReasonUpgradeSucceeded :: string where
  "AddonReasonUpgradeSucceeded \<equiv> ''AddonUpgradeSucceeded''"
abbreviation AddonReasonInstalled :: string where
  "AddonReasonInstalled \<equiv> ''AddonInstalled''"
abbreviation AddonReasonNotInstalled :: string where
  "AddonReasonNotInstalled \<equiv> ''AddonNotInstalled''"
abbreviation AddonReasonReadyToBeDeleted :: string where
  "AddonReasonReadyToBeDeleted \<equiv> ''AddonReadyToBeDeleted''"
abbreviation AddonReasonNotReadyToBeDeleted :: string where
  "AddonReasonNotReadyToBeDeleted \<equiv> ''AddonNotReadyToBeDeleted''"
abbreviation AddonReasonDeletionTimedOut :: string where
  "AddonReasonDeletionTimedOut \<equiv> ''AddonReasonDeletionTimedOut''"
abbreviation AddonReasonInstanceNotInstalled :: string where
  "AddonReasonInstanceNotInstalled \<equiv> ''AddonInstanceNotInstalled''"
abbreviation AddonReasonInstallPlanPending :: string where
  "AddonReasonInstallPlanPending \<equiv> ''AddonInstallPlanPending''"

section \<open>\<open>addoninstance_types.go\<close>\<close>

record AddonInstanceSpec =
  MarkedForDeletion :: bool
  HeartbeatUpdatePeriod :: duration

record AddonInstanceStatus =
  ai_ObservedGeneration :: int
  ai_Conditions :: "Condition list"
  LastHeartbeatTime :: "time option"     \<comment> \<open>\<open>None\<close> is the zero time\<close>

record AddonInstance =
  ai_meta :: ObjectMeta
  ai_Spec :: AddonInstanceSpec
  ai_Status :: AddonInstanceStatus

abbreviation DefaultAddonInstanceName :: string where
  "DefaultAddonInstanceName \<equiv> ''addon-instance''"

definition DefaultAddonInstanceHeartbeatUpdatePeriod :: duration where
  "DefaultAddonInstanceHeartbeatUpdatePeriod = 10 * nanosPerSecond"

abbreviation group_const :: string where
  "group_const \<equiv> ''addons.managed.openshift.io''"

datatype AddonInstanceCondition =
    AddonInstanceConditionHealthy
  | AddonInstanceConditionDegraded
  | AddonInstanceConditionInstalled
  | AddonInstanceConditionReadyToBeDeleted

text \<open>\<open>path.Join(group, string(c))\<close>; none of the names holds a slash or a dot segment.\<close>

fun AddonInstanceCondition_String :: "AddonInstanceCondition \<Rightarrow> string" where
  "AddonInstanceCondition_String AddonInstanceConditionHealthy = group_const @ ''/Healthy''"
| "AddonInstanceCondition_String AddonInstanceConditionDegraded = group_const @ ''/Degraded''"
| "AddonInstanceCondition_String AddonInstanceConditionInstalled = group_const @ ''/Installed''"
| "AddonInstanceCondition_String AddonInstanceConditionReadyToBeDeleted =
     group_const @ ''/ReadyToBeDeleted''"

abbreviation AddonInstanceHealthyReasonReceivingHeartbeats :: string where
  "AddonInstanceHealthyReasonReceivingHeartbeats \<equiv> ''ReceivingHeartbeats''"
abbreviation AddonInstanceHealthyReasonPendingFirstHeartbeat :: string where
  "AddonInstanceHealthyReasonPendingFirstHeartbeat \<equiv> ''PendingFirstHeartbeat''"
abbreviation AddonInstanceHealthyReasonHeartbeatTimeout :: string where
  "AddonInstanceHealthyReasonHeartbeatTimeout \<equiv> ''HeartbeatTimeout''"

section \<open>\<open>addonoperator_types.go\<close>\<close>

abbreviation DefaultAddonOperatorName :: string where
  "DefaultAddonOperatorName \<equiv> ''addon-operator''"

abbreviation AddonOperatorReasonReady :: string where
  "AddonOperatorReasonReady \<equiv> ''AddonOperatorReady''"
abbreviation AddonOperatorReasonPaused :: string where
  "AddonOperatorReasonPaused \<equiv> ''AddonOperatorPaused''"
abbreviation AddonOperatorReasonUnpaused :: string where
  "AddonOperatorReasonUnpaused \<equiv> ''AddonOperatorUnpaused''"

record ClusterSecretReference =
  csr_Name :: string
  csr_Namespace :: string

record AddonOperatorOCM =
  Endpoint :: string
  ocm_Secret :: ClusterSecretReference

record AddonOperatorSpec =
  ao_Paused :: bool
  ExperimentalFeatures :: bool
  FeatureFlags :: string
  OCM :: "AddonOperatorOCM option"

record AddonOperatorStatus =
  ao_ObservedGeneration :: int
  ao_Conditions :: "Condition list"
  ao_LastHeartbeatTime :: "time option"
  ao_Phase :: AddonPhase

abbreviation AddonOperatorAvailable :: string where "AddonOperatorAvailable \<equiv> ''Available''"
abbreviation AddonOperatorPausedCondition :: string where "AddonOperatorPausedCondition \<equiv> ''Paused''"

record AddonOperator =
  ao_meta :: ObjectMeta
  ao_Spec :: AddonOperatorSpec
  ao_Status :: AddonOperatorStatus

section \<open>Resources of other projects: the fields the operator uses\<close>

record NamespaceObj =
  ns_meta :: ObjectMeta
  ns_Phase :: string

abbreviation NamespaceActive :: string where "NamespaceActive \<equiv> ''Active''"

record Secret =
  sec_meta :: ObjectMeta
  sec_Data :: "string \<rightharpoonup> string"
  sec_Type :: string

record ConfigMap =
  cm_meta :: ObjectMeta

record OperatorGroup =
  og_meta :: ObjectMeta
  og_TargetNamespaces :: "string list"

record NetworkPolicySpec =
  np_MatchExpressions :: "(string \<times> string \<times> string list) list"  \<comment> \<open>key, operator, values\<close>
  np_IngressPorts :: "(string \<times> int) list list"                   \<comment> \<open>protocol and port, by rule\<close>
  np_PolicyTypes :: "string list"

record NetworkPolicy =
  np_meta :: ObjectMeta
  np_Spec :: NetworkPolicySpec

record CatalogSourceSpec =
  cs_SourceType :: string
  cs_Publisher :: string
  cs_DisplayName :: string
  cs_Image :: string
  cs_SecurityContextConfig :: string
  cs_Secrets :: "string list"

record CatalogSource =
  cs_meta :: ObjectMeta
  cs_Spec :: CatalogSourceSpec
  cs_LastObservedState :: "string option"   \<comment> \<open>\<open>Status.GRPCConnectionState\<close>\<close>

record SubscriptionSpec =
  sub_CatalogSource :: string
  sub_CatalogSourceNamespace :: string
  sub_Channel :: string
  sub_Package :: string
  sub_Config :: "(string \<times> string) list option"   \<comment> \<open>\<open>Config.Env\<close>\<close>
  sub_InstallPlanApproval :: string

record Subscription =
  sub_meta :: ObjectMeta
  sub_Spec :: "SubscriptionSpec option"
  sub_InstalledCSV :: string
  sub_CurrentCSV :: string
  sub_InstallPlanRef :: "ObjectKey option"

record InstallPlan =
  ip_meta :: ObjectMeta
  ip_Phase :: string

record RichReference =
  rr_Kind :: string
  rr_Namespace :: string
  rr_Name :: string
  rr_Conditions :: "(string \<times> ConditionStatus) list"

record Operator =
  op_meta :: ObjectMeta
  op_Components :: "RichReference list option"

record Endpoint =
  ep_AuthorizationType :: string
  ep_CredentialsName :: string
  ep_CredentialsKey :: string
  ep_CAFile :: string
  ep_ServerName :: string
  ep_HonorLabels :: bool
  ep_Port :: string
  ep_Path :: string
  ep_Scheme :: string
  ep_Interval :: string
  ep_Params :: "string \<rightharpoonup> string list"

record ServiceMonitorSpec =
  sm_Endpoints :: "Endpoint list"
  sm_NamespaceSelector :: "string list"
  sm_Selector :: labels

record ServiceMonitor =
  sm_meta :: ObjectMeta
  sm_Spec :: ServiceMonitorSpec

record ObjectTemplateSource =
  ots_Optional :: bool
  ots_APIVersion :: string
  ots_Kind :: string
  ots_Name :: string
  ots_Namespace :: string
  ots_Items :: "(string \<times> string) list"    \<comment> \<open>key, destination\<close>

record ObjectTemplateSpec =
  cot_Template :: string
  cot_Sources :: "ObjectTemplateSource list"

record ClusterObjectTemplate =
  cot_meta :: ObjectMeta
  cot_Spec :: ObjectTemplateSpec
  cot_Conditions :: "Condition list"

record RelabelConfig =
  rc_Action :: string
  rc_SourceLabels :: "string list"
  rc_Regex :: string

record RemoteWriteSpec =
  rws_URL :: string
  rws_OAuth2 :: "string option"
  rws_WriteRelabelConfigs :: "RelabelConfig list"

record MonitoringStackObjSpec =
  ms_Retention :: string
  ms_ResourceSelector :: labels
  ms_RemoteWrite :: "RemoteWriteSpec list"

record MonitoringStackObj =
  ms_meta :: ObjectMeta
  ms_Spec :: MonitoringStackObjSpec
  ms_Conditions :: "(string \<times> ConditionStatus \<times> string) list"

record Pod =
  pod_meta :: ObjectMeta
  pod_Conditions :: "(string \<times> string \<times> ConditionStatus) list"   \<comment> \<open>type, reason, status\<close>

text \<open>Any object the operator writes, as it appears in the record of calls.\<close>

datatype kobj =
    KAddon Addon
  | KNamespace NamespaceObj
  | KSecret Secret
  | KConfigMap ConfigMap
  | KOperatorGroup OperatorGroup
  | KNetworkPolicy NetworkPolicy
  | KCatalogSource CatalogSource
  | KSubscription Subscription
  | KAddonInstance AddonInstance
  | KServiceMonitor ServiceMonitor
  | KClusterObjectTemplate ClusterObjectTemplate
  | KMonitoringStack MonitoringStackObj

text \<open>The kinds of these objects, to name one in a delete call.\<close>

datatype kind =
    NamespaceKind | SecretKind | ServiceMonitorKind | ClusterObjectTemplateKind

text \<open>Go's \<open>interface{}\<close>, for the values \<open>equality.Semantic.DeepEqual\<close> is given.\<close>

datatype iface =
    IAddonInstanceSpec AddonInstanceSpec
  | IOperatorGroupSpec "string list"
  | INetworkPolicySpec NetworkPolicySpec
  | ICatalogSourceSpec CatalogSourceSpec
  | ISubscriptionSpec "SubscriptionSpec option"
  | IServiceMonitorSpec ServiceMonitorSpec
  | ILabels labels
  | ISecretData "string \<rightharpoonup> string"
  | IObjectTemplateSpec ObjectTemplateSpec
  | IMonitoringStackObjSpec MonitoringStackObjSpec
  | IAddonInstallSpec AddonInstallSpec

end
