(* ===== verification/K8s_Lib.thy ===== *)
theory K8s_Lib
  imports Api_Types
begin

text \<open>
  The library code the operator calls and that is not part of the repository (apimachinery,
  controller-runtime, go-multierror, spew, the OLM API's methods) as one record of functions, an
  argument of every definition that calls it. What the operator relies on is stated by the
  predicates below, one per library, from the documented behaviour of these functions; a theorem
  that needs a law names the predicate as a hypothesis. \<open>refLib\<close> is an executable instance that
  satisfies them all, used to evaluate concrete runs.
\<close>

record lib =
  \<comment> \<open>\<open>k8s.io/apimachinery/pkg/api/meta\<close>; the first argument is the time \<open>SetStatusCondition\<close> reads\<close>
  SetStatusCondition :: "time \<Rightarrow> Condition list \<Rightarrow> Condition \<Rightarrow> Condition list"
  RemoveStatusCondition :: "Condition list \<Rightarrow> string \<Rightarrow> Condition list"
  FindStatusCondition :: "Condition list \<Rightarrow> string \<Rightarrow> Condition option"
  IsStatusConditionTrue :: "Condition list \<Rightarrow> string \<Rightarrow> bool"
  \<comment> \<open>\<open>k8s.io/apimachinery/pkg/labels\<close>\<close>
  LabelsMerge :: "labels \<Rightarrow> labels \<Rightarrow> labels"
  LabelsEquals :: "labels \<Rightarrow> labels \<Rightarrow> bool"
  \<comment> \<open>\<open>k8s.io/apimachinery/pkg/api/equality\<close>\<close>
  SemanticDeepEqual :: "iface \<Rightarrow> iface \<Rightarrow> bool"
  \<comment> \<open>\<open>metav1\<close> and \<open>controllerutil\<close>: owner references, finalizers\<close>
  GetControllerOf :: "ObjectMeta \<Rightarrow> OwnerReference option"
  SetControllerReference :: "ObjectMeta \<Rightarrow> ObjectMeta \<Rightarrow> error + ObjectMeta"
  SetOwnerReference :: "ObjectMeta \<Rightarrow> ObjectMeta \<Rightarrow> error + ObjectMeta"
  ContainsFinalizer :: "ObjectMeta \<Rightarrow> string \<Rightarrow> bool"
  AddFinalizer :: "ObjectMeta \<Rightarrow> string \<Rightarrow> ObjectMeta"
  RemoveFinalizer :: "ObjectMeta \<Rightarrow> string \<Rightarrow> ObjectMeta"
  \<comment> \<open>\<open>k8s.io/apimachinery/pkg/api/errors\<close>, \<open>client.IgnoreNotFound\<close>\<close>
  IsNotFound :: "error \<Rightarrow> bool"
  IsAlreadyExists :: "error \<Rightarrow> bool"
  IgnoreNotFound :: "error \<Rightarrow> error option"
  \<comment> \<open>\<open>go-multierror\<close>\<close>
  MultierrorAppend :: "error list \<Rightarrow> error option \<Rightarrow> error list"
  \<comment> \<open>\<open>operatorsv1alpha1.Subscription.GetInstallPlanApproval\<close>\<close>
  GetInstallPlanApproval :: "Subscription \<Rightarrow> string"
  \<comment> \<open>\<open>spew.ConfigState.Fprintf("%#v", _)\<close> and \<open>rand.SafeEncodeString\<close>\<close>
  SpewDump :: "OCMAddOnStatus \<Rightarrow> string"
  SafeEncodeString :: "string \<Rightarrow> string"
  \<comment> \<open>constants of \<open>package-operator.run\<close> and of the observability operator\<close>
  PkoGroupVersion :: string
  PackageAvailable :: string
  OboAvailableCondition :: string
  OboReconciledCondition :: string

section \<open>Laws\<close>

text \<open>
  \<open>SetStatusCondition\<close>: the condition of the given type is replaced or added and no other is
  touched; its transition time moves exactly when its status changes, to the given time or to
  now. Lookups read the first condition of a type; removal removes the type.
\<close>

definition transitionTime :: "time \<Rightarrow> Condition option \<Rightarrow> Condition \<Rightarrow> time option" where
  "transitionTime now old c =
     (case old of
        Some o' \<Rightarrow> if c_Status o' = c_Status c then c_LastTransitionTime o'
                   else if c_LastTransitionTime c = None then Some now else c_LastTransitionTime c
      | None \<Rightarrow> if c_LastTransitionTime c = None then Some now else c_LastTransitionTime c)"

definition condition_laws :: "lib \<Rightarrow> bool" where
  "condition_laws L \<longleftrightarrow>
     (\<forall>now cs c t. FindStatusCondition L (SetStatusCondition L now cs c) t =
        (if t = c_Type c
         then Some (c\<lparr>c_LastTransitionTime := transitionTime now (FindStatusCondition L cs t) c\<rparr>)
         else FindStatusCondition L cs t)) \<and>
     (\<forall>cs t t'. FindStatusCondition L (RemoveStatusCondition L cs t) t' =
        (if t' = t then None else FindStatusCondition L cs t')) \<and>
     (\<forall>cs t. IsStatusConditionTrue L cs t \<longleftrightarrow>
        (\<exists>c. FindStatusCondition L cs t = Some c \<and> c_Status c = ConditionTrue))"

text \<open>\<open>labels.Merge\<close>: the second map wins; \<open>labels.Equals\<close>: the same entries.\<close>

definition label_laws :: "lib \<Rightarrow> bool" where
  "label_laws L \<longleftrightarrow>
     (\<forall>a b. LabelsMerge L a b = a ++ b) \<and> (\<forall>a b. LabelsEquals L a b \<longleftrightarrow> a = b)"

text \<open>
  \<open>Semantic.DeepEqual\<close> identifies nil and empty slices and maps, which the model's types do not
  distinguish, and compares everything else by value.
\<close>

definition equality_laws :: "lib \<Rightarrow> bool" where
  "equality_laws L \<longleftrightarrow> (\<forall>a b. SemanticDeepEqual L a b \<longleftrightarrow> a = b)"

text \<open>
  \<open>SetControllerReference\<close> makes the owner the controller of the object and changes nothing else
  of its metadata; \<open>SetOwnerReference\<close> changes the owner references only.
\<close>

definition owner_laws :: "lib \<Rightarrow> bool" where
  "owner_laws L \<longleftrightarrow>
     (\<forall>owner obj obj'. SetControllerReference L owner obj = Inr obj' \<longrightarrow>
        (\<exists>ref. GetControllerOf L obj' = Some ref \<and> or_UID ref = UID owner) \<and>
        obj' = obj\<lparr>OwnerReferences := OwnerReferences obj'\<rparr>) \<and>
     (\<forall>obj obj'. OwnerReferences obj = OwnerReferences obj' \<longrightarrow>
        GetControllerOf L obj = GetControllerOf L obj') \<and>
     (\<forall>owner obj obj'. SetOwnerReference L owner obj = Inr obj' \<longrightarrow>
        obj' = obj\<lparr>OwnerReferences := OwnerReferences obj'\<rparr>)"

definition finalizer_laws :: "lib \<Rightarrow> bool" where
  "finalizer_laws L \<longleftrightarrow>
     (\<forall>m f. ContainsFinalizer L m f \<longleftrightarrow> f \<in> set (Finalizers m)) \<and>
     (\<forall>m f. set (Finalizers (AddFinalizer L m f)) = insert f (set (Finalizers m)) \<and>
        AddFinalizer L m f = m\<lparr>Finalizers := Finalizers (AddFinalizer L m f)\<rparr>) \<and>
     (\<forall>m f. set (Finalizers (RemoveFinalizer L m f)) = set (Finalizers m) - {f} \<and>
        RemoveFinalizer L m f = m\<lparr>Finalizers := Finalizers (RemoveFinalizer L m f)\<rparr>)"

definition error_laws :: "lib \<Rightarrow> bool" where
  "error_laws L \<longleftrightarrow>
     (\<forall>r m. IsNotFound L (StatusError r m) \<longleftrightarrow> r = ''NotFound'') \<and>
     (\<forall>m e. IsNotFound L (Wrap m e) \<longleftrightarrow> IsNotFound L e) \<and>
     (\<forall>m. \<not> IsNotFound L (ErrorString m)) \<and>
     (\<forall>r m. IsAlreadyExists L (StatusError r m) \<longleftrightarrow> r = ''AlreadyExists'') \<and>
     (\<forall>e. IgnoreNotFound L e = (if IsNotFound L e then None else Some e)) \<and>
     (\<forall>es. MultierrorAppend L es None = es) \<and>
     (\<forall>es e. MultierrorAppend L es (Some e) = es @ [e])"

definition lib_laws :: "lib \<Rightarrow> bool" where
  "lib_laws L \<longleftrightarrow> condition_laws L \<and> label_laws L \<and> equality_laws L \<and> owner_laws L \<and>
     finalizer_laws L \<and> error_laws L"

lemma lib_lawsD [dest]:
  assumes "lib_laws L"
  shows "condition_laws L" "label_laws L" "equality_laws L" "owner_laws L" "finalizer_laws L"
    "error_laws L"
  using assms by (simp_all add: lib_laws_def)

lemma find_set [simp]:
  "condition_laws L \<Longrightarrow> FindStatusCondition L (SetStatusCondition L now cs c) t =
     (if t = c_Type c
      then Some (c\<lparr>c_LastTransitionTime := transitionTime now (FindStatusCondition L cs t) c\<rparr>)
      else FindStatusCondition L cs t)"
  unfolding condition_laws_def by blast

lemma find_remove [simp]:
  "condition_laws L \<Longrightarrow> FindStatusCondition L (RemoveStatusCondition L cs t) t' =
     (if t' = t then None else FindStatusCondition L cs t')"
  unfolding condition_laws_def by blast

lemma isTrue_iff [simp]:
  "condition_laws L \<Longrightarrow> IsStatusConditionTrue L cs t \<longleftrightarrow>
     (\<exists>c. FindStatusCondition L cs t = Some c \<and> c_Status c = ConditionTrue)"
  unfolding condition_laws_def by blast

lemma labels_merge [simp]: "label_laws L \<Longrightarrow> LabelsMerge L a b = a ++ b"
  by (simp add: label_laws_def)

lemma labels_equals [simp]: "label_laws L \<Longrightarrow> LabelsEquals L a b \<longleftrightarrow> a = b"
  by (simp add: label_laws_def)

lemma semantic_equal [simp]: "equality_laws L \<Longrightarrow> SemanticDeepEqual L a b \<longleftrightarrow> a = b"
  by (simp add: equality_laws_def)

lemma controller_set:
  assumes "owner_laws L" "SetControllerReference L owner obj = Inr obj'"
  obtains ref where "GetControllerOf L obj' = Some ref" "or_UID ref = UID owner"
    "obj' = obj\<lparr>OwnerReferences := OwnerReferences obj'\<rparr>"
  using assms unfolding owner_laws_def by blast

lemma controller_set_meta:
  assumes "owner_laws L" "SetControllerReference L owner obj = Inr obj'"
  shows "Name obj' = Name obj" "Namespace obj' = Namespace obj" "Labels obj' = Labels obj"
    "Annotations obj' = Annotations obj"
proof -
  have eq: "obj' = obj\<lparr>OwnerReferences := OwnerReferences obj'\<rparr>"
    by (rule controller_set [OF assms])
  show "Name obj' = Name obj" by (subst eq) simp
  show "Namespace obj' = Namespace obj" by (subst eq) simp
  show "Labels obj' = Labels obj" by (subst eq) simp
  show "Annotations obj' = Annotations obj" by (subst eq) simp
qed

lemma controller_cong:
  "owner_laws L \<Longrightarrow> OwnerReferences obj = OwnerReferences obj' \<Longrightarrow>
     GetControllerOf L obj = GetControllerOf L obj'"
  unfolding owner_laws_def by blast

lemma contains_finalizer [simp]:
  "finalizer_laws L \<Longrightarrow> ContainsFinalizer L m f \<longleftrightarrow> f \<in> set (Finalizers m)"
  by (simp add: finalizer_laws_def)

lemma add_finalizer_meta:
  assumes "finalizer_laws L"
  shows "set (Finalizers (AddFinalizer L m f)) = insert f (set (Finalizers m))"
    "AddFinalizer L m f = m\<lparr>Finalizers := Finalizers (AddFinalizer L m f)\<rparr>"
  using assms unfolding finalizer_laws_def by blast+

lemma remove_finalizer_meta:
  assumes "finalizer_laws L"
  shows "set (Finalizers (RemoveFinalizer L m f)) = set (Finalizers m) - {f}"
    "RemoveFinalizer L m f = m\<lparr>Finalizers := Finalizers (RemoveFinalizer L m f)\<rparr>"
  using assms unfolding finalizer_laws_def by blast+

lemma not_found_simps [simp]:
  assumes "error_laws L"
  shows "IsNotFound L (StatusError r m) \<longleftrightarrow> r = ''NotFound''"
    "IsNotFound L (Wrap m e) \<longleftrightarrow> IsNotFound L e"
    "\<not> IsNotFound L (ErrorString m)"
    "IsAlreadyExists L (StatusError r m) \<longleftrightarrow> r = ''AlreadyExists''"
    "IgnoreNotFound L e = (if IsNotFound L e then None else Some e)"
    "MultierrorAppend L es None = es"
    "MultierrorAppend L es (Some e) = es @ [e]"
  using assms by (simp_all add: error_laws_def)

section \<open>An instance\<close>

fun findCond :: "Condition list \<Rightarrow> string \<Rightarrow> Condition option" where
  "findCond [] t = None"
| "findCond (c # cs) t = (if c_Type c = t then Some c else findCond cs t)"

fun setCond :: "time \<Rightarrow> Condition list \<Rightarrow> Condition \<Rightarrow> Condition list" where
  "setCond now [] c = [c\<lparr>c_LastTransitionTime := transitionTime now None c\<rparr>]"
| "setCond now (d # cs) c =
     (if c_Type d = c_Type c
      then c\<lparr>c_LastTransitionTime := transitionTime now (Some d) c\<rparr> # cs
      else d # setCond now cs c)"

definition removeCond :: "Condition list \<Rightarrow> string \<Rightarrow> Condition list" where
  "removeCond cs t = filter (\<lambda>c. c_Type c \<noteq> t) cs"

lemma findCond_setCond:
  "findCond (setCond now cs c) t =
     (if t = c_Type c then Some (c\<lparr>c_LastTransitionTime := transitionTime now (findCond cs t) c\<rparr>)
      else findCond cs t)"
  by (induction cs) auto

lemma findCond_removeCond: "findCond (removeCond cs t) t' = (if t' = t then None else findCond cs t')"
  by (induction cs) (auto simp: removeCond_def)

definition controllerRef :: "ObjectMeta \<Rightarrow> OwnerReference option" where
  "controllerRef m = find or_Controller (OwnerReferences m)"

definition setController :: "ObjectMeta \<Rightarrow> ObjectMeta \<Rightarrow> error + ObjectMeta" where
  "setController owner obj =
     (case controllerRef obj of
        Some ref \<Rightarrow> if or_UID ref = UID owner then Inr obj
                    else Inl (ErrorString ''object is already owned by another controller'')
      | None \<Rightarrow> Inr (obj\<lparr>OwnerReferences :=
          \<lparr>or_UID = UID owner, or_Name = Name owner, or_Controller = True\<rparr> # OwnerReferences obj\<rparr>))"

definition setOwner :: "ObjectMeta \<Rightarrow> ObjectMeta \<Rightarrow> error + ObjectMeta" where
  "setOwner owner obj = Inr (obj\<lparr>OwnerReferences :=
     \<lparr>or_UID = UID owner, or_Name = Name owner, or_Controller = False\<rparr> # OwnerReferences obj\<rparr>)"

fun notFound :: "error \<Rightarrow> bool" where
  "notFound (StatusError r _) = (r = ''NotFound'')"
| "notFound (Wrap _ e) = notFound e"
| "notFound _ = False"

fun alreadyExists :: "error \<Rightarrow> bool" where
  "alreadyExists (StatusError r _) = (r = ''AlreadyExists'')"
| "alreadyExists (Wrap _ e) = alreadyExists e"
| "alreadyExists _ = False"

definition refLib :: lib where
  "refLib = \<lparr>
     SetStatusCondition = setCond,
     RemoveStatusCondition = removeCond,
     FindStatusCondition = findCond,
     IsStatusConditionTrue = (\<lambda>cs t. case findCond cs t of None \<Rightarrow> False
                                     | Some c \<Rightarrow> c_Status c = ConditionTrue),
     LabelsMerge = (\<lambda>a b. a ++ b),
     LabelsEquals = (\<lambda>a b. a = b),
     SemanticDeepEqual = (\<lambda>a b. a = b),
     GetControllerOf = controllerRef,
     SetControllerReference = setController,
     SetOwnerReference = setOwner,
     ContainsFinalizer = (\<lambda>m f. f \<in> set (Finalizers m)),
     AddFinalizer = (\<lambda>m f. if f \<in> set (Finalizers m) then m else m\<lparr>Finalizers := Finalizers m @ [f]\<rparr>),
     RemoveFinalizer = (\<lambda>m f. m\<lparr>Finalizers := filter (\<lambda>g. g \<noteq> f) (Finalizers m)\<rparr>),
     IsNotFound = notFound,
     IsAlreadyExists = alreadyExists,
     IgnoreNotFound = (\<lambda>e. if notFound e then None else Some e),
     MultierrorAppend = (\<lambda>es e. case e of None \<Rightarrow> es | Some x \<Rightarrow> es @ [x]),
     GetInstallPlanApproval = (\<lambda>sub. case sub_Spec sub of None \<Rightarrow> ''''
                                     | Some sp \<Rightarrow> sub_InstallPlanApproval sp),
     SpewDump = (\<lambda>st. oas_AddonID st @ oas_CorrelationID st @ oas_AddonVersion st),
     SafeEncodeString = (\<lambda>x. x),
     PkoGroupVersion = ''package-operator.run/v1alpha1'',
     PackageAvailable = ''Available'',
     OboAvailableCondition = ''Available'',
     OboReconciledCondition = ''Reconciled''\<rparr>"

lemma refLib_sel [simp]:
  "SetStatusCondition refLib = setCond" "RemoveStatusCondition refLib = removeCond"
  "FindStatusCondition refLib = findCond"
  "GetControllerOf refLib = controllerRef" "SetControllerReference refLib = setController"
  "SetOwnerReference refLib = setOwner"
  "IsNotFound refLib = notFound" "IsAlreadyExists refLib = alreadyExists"
  by (simp_all add: refLib_def)

lemma refLib_conditions: "condition_laws refLib"
  unfolding condition_laws_def
  by (auto simp: findCond_setCond findCond_removeCond refLib_def split: option.splits)

lemma refLib_owner: "owner_laws refLib"
  unfolding owner_laws_def
  by (auto simp: setController_def setOwner_def controllerRef_def split: option.splits if_splits)

lemma refLib_finalizer: "finalizer_laws refLib"
  unfolding finalizer_laws_def by (auto simp: refLib_def)

lemma refLib_laws: "lib_laws refLib"
  unfolding lib_laws_def
  by (simp add: refLib_conditions refLib_owner refLib_finalizer)
     (simp add: refLib_def label_laws_def equality_laws_def error_laws_def)

end
