(* ===== verification/Operator_Handler.thy ===== *)
theory Operator_Handler
  imports K8s_Lib
begin

text \<open>
  The event handler that turns events on OLM \<open>Operator\<close> objects into reconcile requests for
  Addons (\<open>controllers/addon/handler/operator_resource_eventhandler.go\<close>): two maps that have to
  agree, the four event methods, \<open>Free\<close> and \<open>UpdateMap\<close>. The mutex of the Go type makes every
  method atomic; the methods here are the atomic steps. The locale \<open>resource_map\<close> is the interface
  \<open>operatorResourceHandler\<close> of the Addon controller, with the laws its clients rely on.
\<close>

section \<open>Model\<close>

record OperatorResourceHandler =
  addonKeytoOperatorKeys :: "ObjectKey \<rightharpoonup> ObjectKey list"
  operatorKeyToAddon :: "ObjectKey \<rightharpoonup> ObjectKey"

definition NewOperatorResourceHandler :: OperatorResourceHandler where
  "NewOperatorResourceHandler =
     \<lparr>addonKeytoOperatorKeys = Map.empty, operatorKeyToAddon = Map.empty\<rparr>"

text \<open>Reading a missing key of a Go map gives the zero value, here the nil slice.\<close>

definition operatorKeysOf :: "OperatorResourceHandler \<Rightarrow> ObjectKey \<Rightarrow> ObjectKey list" where
  "operatorKeysOf h a = (case addonKeytoOperatorKeys h a of None \<Rightarrow> [] | Some ks \<Rightarrow> ks)"

fun isKeyPresent :: "ObjectKey list \<Rightarrow> ObjectKey \<Rightarrow> bool" where
  "isKeyPresent [] key = False"
| "isKeyPresent (k # ks) key = (if k = key then True else isKeyPresent ks key)"

text \<open>The work queue is a parameter: \<open>add\<close> is its \<open>Add\<close> method.\<close>

definition enqueueObject ::
  "OperatorResourceHandler \<Rightarrow> ObjectMeta \<Rightarrow> (ObjectKey \<Rightarrow> 'q \<Rightarrow> 'q) \<Rightarrow> 'q \<Rightarrow> 'q" where
  "enqueueObject h obj add q =
     (let operatorKey = ObjectKeyFromObject obj in
      case operatorKeyToAddon h operatorKey of
        None \<Rightarrow> q
      | Some addonKey \<Rightarrow> add addonKey q)"

datatype operatorEvent =
    CreateEvent ObjectMeta
  | UpdateEvent ObjectMeta ObjectMeta      \<comment> \<open>\<open>ObjectOld\<close>, \<open>ObjectNew\<close>\<close>
  | DeleteEvent ObjectMeta
  | GenericEvent ObjectMeta

fun onEvent ::
  "OperatorResourceHandler \<Rightarrow> operatorEvent \<Rightarrow> (ObjectKey \<Rightarrow> 'q \<Rightarrow> 'q) \<Rightarrow> 'q \<Rightarrow> 'q" where
  "onEvent h (CreateEvent obj) add q = enqueueObject h obj add q"
| "onEvent h (UpdateEvent _ objNew) add q = enqueueObject h objNew add q"
| "onEvent h (DeleteEvent obj) add q = enqueueObject h obj add q"
| "onEvent h (GenericEvent obj) add q = enqueueObject h obj add q"

fun deleteOperatorKeys :: "(ObjectKey \<rightharpoonup> ObjectKey) \<Rightarrow> ObjectKey list \<Rightarrow> (ObjectKey \<rightharpoonup> ObjectKey)" where
  "deleteOperatorKeys m [] = m"
| "deleteOperatorKeys m (k # ks) = deleteOperatorKeys (m(k := None)) ks"

definition Free :: "OperatorResourceHandler \<Rightarrow> ObjectMeta \<Rightarrow> OperatorResourceHandler" where
  "Free h addon =
     (let addonKey = ObjectKeyFromObject addon in
      h\<lparr>operatorKeyToAddon := deleteOperatorKeys (operatorKeyToAddon h) (operatorKeysOf h addonKey),
        addonKeytoOperatorKeys := (addonKeytoOperatorKeys h)(addonKey := None)\<rparr>)"

definition UpdateMap ::
  "OperatorResourceHandler \<Rightarrow> ObjectMeta \<Rightarrow> ObjectKey \<Rightarrow> bool \<times> OperatorResourceHandler" where
  "UpdateMap h addon operatorKey =
     (let addonKey = ObjectKeyFromObject addon;
          (changed, h) =
            (if \<not> isKeyPresent (operatorKeysOf h addonKey) operatorKey
             then (True, h\<lparr>addonKeytoOperatorKeys :=
                    (addonKeytoOperatorKeys h)(addonKey \<mapsto> operatorKeysOf h addonKey @ [operatorKey])\<rparr>)
             else (False, h))
      in case operatorKeyToAddon h operatorKey of
           None \<Rightarrow> (True, h\<lparr>operatorKeyToAddon := (operatorKeyToAddon h)(operatorKey \<mapsto> addonKey)\<rparr>)
         | Some aKey \<Rightarrow>
             if aKey \<noteq> addonKey
             then (True, h\<lparr>operatorKeyToAddon := (operatorKeyToAddon h)(operatorKey \<mapsto> addonKey)\<rparr>)
             else (changed, h))"

section \<open>Invariant and behaviour\<close>

text \<open>Every key an event can be routed by is listed with the Addon it is routed to.\<close>

definition handler_wf :: "OperatorResourceHandler \<Rightarrow> bool" where
  "handler_wf h \<longleftrightarrow> (\<forall>k a. operatorKeyToAddon h k = Some a \<longrightarrow> k \<in> set (operatorKeysOf h a))"

text \<open>No Addon lists a key that is routed to another Addon.\<close>

definition handler_exclusive :: "OperatorResourceHandler \<Rightarrow> bool" where
  "handler_exclusive h \<longleftrightarrow> (\<forall>k a. k \<in> set (operatorKeysOf h a) \<longrightarrow> operatorKeyToAddon h k = Some a)"

lemma isKeyPresent_iff [simp]: "isKeyPresent ks k \<longleftrightarrow> k \<in> set ks"
  by (induction ks) auto

lemma deleteOperatorKeys_eq: "deleteOperatorKeys m ks = m |` (- set ks)"
  by (induction ks arbitrary: m) (auto simp: fun_eq_iff restrict_map_def)

lemma operatorKeysOf_upd [simp]:
  "operatorKeysOf (h\<lparr>addonKeytoOperatorKeys := (addonKeytoOperatorKeys h)(a \<mapsto> ks)\<rparr>) b =
     (if b = a then ks else operatorKeysOf h b)"
  "operatorKeysOf (h\<lparr>operatorKeyToAddon := m\<rparr>) b = operatorKeysOf h b"
  by (simp_all add: operatorKeysOf_def)

lemma UpdateMap_routes:
  "operatorKeyToAddon (snd (UpdateMap h addon k)) =
     (operatorKeyToAddon h)(k \<mapsto> ObjectKeyFromObject addon)"
  by (auto simp: UpdateMap_def Let_def fun_eq_iff split: option.splits)

lemma UpdateMap_lists:
  "set (operatorKeysOf (snd (UpdateMap h addon k)) a) =
     set (operatorKeysOf h a) \<union> (if a = ObjectKeyFromObject addon then {k} else {})"
  by (auto simp: UpdateMap_def Let_def operatorKeysOf_def split: option.splits)

lemma UpdateMap_unchanged:
  "fst (UpdateMap h addon k) = False \<longleftrightarrow>
     k \<in> set (operatorKeysOf h (ObjectKeyFromObject addon)) \<and>
     operatorKeyToAddon h k = Some (ObjectKeyFromObject addon)"
  by (auto simp: UpdateMap_def Let_def split: option.splits)

lemma Free_routes:
  "operatorKeyToAddon (Free h addon) =
     operatorKeyToAddon h |` (- set (operatorKeysOf h (ObjectKeyFromObject addon)))"
  by (simp add: Free_def Let_def deleteOperatorKeys_eq)

lemma Free_lists:
  "operatorKeysOf (Free h addon) a =
     (if a = ObjectKeyFromObject addon then [] else operatorKeysOf h a)"
  by (simp add: Free_def Let_def operatorKeysOf_def)

lemma wf_new: "handler_wf NewOperatorResourceHandler"
  by (simp add: handler_wf_def NewOperatorResourceHandler_def)

lemma exclusive_new: "handler_exclusive NewOperatorResourceHandler"
  by (simp add: handler_exclusive_def NewOperatorResourceHandler_def operatorKeysOf_def)

lemma wf_UpdateMap: "handler_wf h \<Longrightarrow> handler_wf (snd (UpdateMap h addon k))"
  by (auto simp: handler_wf_def UpdateMap_routes UpdateMap_lists split: if_splits)

lemma wf_Free: "handler_wf h \<Longrightarrow> handler_wf (Free h addon)"
  by (auto simp: handler_wf_def Free_routes Free_lists restrict_map_def split: if_splits)

lemma exclusive_UpdateMap:
  assumes "handler_exclusive h"
    and "operatorKeyToAddon h k \<in> {None, Some (ObjectKeyFromObject addon)}"
  shows "handler_exclusive (snd (UpdateMap h addon k))"
  using assms by (auto simp: handler_exclusive_def UpdateMap_routes UpdateMap_lists split: if_splits)

lemma exclusive_Free:
  assumes "handler_exclusive h"
  shows "handler_exclusive (Free h addon)"
  using assms unfolding handler_exclusive_def
  by (simp add: Free_routes Free_lists restrict_map_def) (metis option.inject)

section \<open>The interface\<close>

locale resource_map =
  fixes init :: 'h
    and update :: "'h \<Rightarrow> ObjectMeta \<Rightarrow> ObjectKey \<Rightarrow> bool \<times> 'h"
    and free :: "'h \<Rightarrow> ObjectMeta \<Rightarrow> 'h"
    and route :: "'h \<Rightarrow> ObjectKey \<rightharpoonup> ObjectKey"
    and invar :: "'h \<Rightarrow> bool"
  assumes route_init: "route init = Map.empty"
    and route_update: "invar h \<Longrightarrow> route (snd (update h m k)) = (route h)(k \<mapsto> ObjectKeyFromObject m)"
    and update_unchanged: "invar h \<Longrightarrow> \<not> fst (update h m k) \<Longrightarrow> snd (update h m k) = h"
    and update_again: "invar h \<Longrightarrow> \<not> fst (update (snd (update h m k)) m k)"
    and route_free: "invar h \<Longrightarrow> route (free h m) k \<noteq> Some (ObjectKeyFromObject m)"
    and invar_init: "invar init"
    and invar_update: "invar h \<Longrightarrow> invar (snd (update h m k))"
    and invar_free: "invar h \<Longrightarrow> invar (free h m)"
begin

text \<open>
  What the observing phase of the OLM reconciler needs: the first call may ask for a requeue, the
  second never does, and from then on events on the Operator reach the Addon.
\<close>

lemma second_update_settles:
  assumes "invar h"
  shows "update (snd (update h m k)) m k = (False, snd (update h m k))"
proof -
  from assms have "invar (snd (update h m k))" by (rule invar_update)
  moreover from assms have "\<not> fst (update (snd (update h m k)) m k)" by (rule update_again)
  ultimately have "snd (update (snd (update h m k)) m k) = snd (update h m k)"
    by (rule update_unchanged)
  with \<open>\<not> fst (update (snd (update h m k)) m k)\<close> show ?thesis by (auto simp: prod_eq_iff)
qed

lemma settled_routes:
  assumes "invar h" "\<not> fst (update h m k)"
  shows "route h k = Some (ObjectKeyFromObject m)"
proof -
  from assms have "snd (update h m k) = h" by (rule update_unchanged)
  with route_update [OF assms(1), of m k] show ?thesis by (metis fun_upd_same)
qed

text \<open>Handlers reached by any sequence of the two operations satisfy the invariant.\<close>

fun run_ops :: "'h \<Rightarrow> (ObjectMeta \<times> ObjectKey option) list \<Rightarrow> 'h" where
  "run_ops h [] = h"
| "run_ops h ((m, Some k) # ops) = run_ops (snd (update h m k)) ops"
| "run_ops h ((m, None) # ops) = run_ops (free h m) ops"

lemma run_ops_invar: "invar h \<Longrightarrow> invar (run_ops h ops)"
  by (induction h ops rule: run_ops.induct) (auto intro: invar_update invar_free)

end

lemma UpdateMap_unchanged_same:
  assumes "\<not> fst (UpdateMap h m k)"
  shows "snd (UpdateMap h m k) = h"
  using assms by (auto simp: UpdateMap_def Let_def split: option.splits if_splits)

interpretation orh: resource_map NewOperatorResourceHandler UpdateMap Free operatorKeyToAddon handler_wf
proof (unfold_locales, goal_cases)
  case 1 show ?case by (simp add: NewOperatorResourceHandler_def)
next
  case 2 show ?case by (rule UpdateMap_routes)
next
  case 3 then show ?case by (intro UpdateMap_unchanged_same)
next
  case (4 h m k)
  have "fst (UpdateMap (snd (UpdateMap h m k)) m k) = False"
    by (simp only: UpdateMap_unchanged UpdateMap_routes UpdateMap_lists) simp
  then show ?case by simp
next
  case 5 then show ?case by (auto simp: handler_wf_def Free_routes restrict_map_def)
next
  case 6 show ?case by (rule wf_new)
next
  case 7 then show ?case by (rule wf_UpdateMap)
next
  case 8 then show ?case by (rule wf_Free)
qed

section \<open>Routing as a specification\<close>

text \<open>
  The abstract view: one partial map from Operator to Addon. \<open>UpdateMap\<close> stores an entry, \<open>Free\<close>
  removes the entries of one Addon.
\<close>

datatype handlerOp = OpUpdate ObjectMeta ObjectKey | OpFree ObjectMeta

fun specStep :: "(ObjectKey \<rightharpoonup> ObjectKey) \<Rightarrow> handlerOp \<Rightarrow> (ObjectKey \<rightharpoonup> ObjectKey)" where
  "specStep r (OpUpdate m k) = r(k \<mapsto> ObjectKeyFromObject m)"
| "specStep r (OpFree m) = (\<lambda>k. if r k = Some (ObjectKeyFromObject m) then None else r k)"

fun handlerStep :: "OperatorResourceHandler \<Rightarrow> handlerOp \<Rightarrow> OperatorResourceHandler" where
  "handlerStep h (OpUpdate m k) = snd (UpdateMap h m k)"
| "handlerStep h (OpFree m) = Free h m"

text \<open>No two Addons of the history use the same Operator.\<close>

definition ownKeys :: "handlerOp list \<Rightarrow> bool" where
  "ownKeys ops \<longleftrightarrow> (\<forall>m m' k. OpUpdate m k \<in> set ops \<longrightarrow> OpUpdate m' k \<in> set ops \<longrightarrow>
      ObjectKeyFromObject m = ObjectKeyFromObject m')"

definition owner_agrees :: "handlerOp list \<Rightarrow> OperatorResourceHandler \<Rightarrow> bool" where
  "owner_agrees ops h \<longleftrightarrow> (\<forall>m k a. OpUpdate m k \<in> set ops \<longrightarrow> operatorKeyToAddon h k = Some a \<longrightarrow>
      a = ObjectKeyFromObject m)"

lemma ownKeysD:
  "ownKeys ops \<Longrightarrow> OpUpdate m k \<in> set ops \<Longrightarrow> OpUpdate m' k \<in> set ops \<Longrightarrow>
     ObjectKeyFromObject m = ObjectKeyFromObject m'"
  unfolding ownKeys_def by blast

lemma owner_agreesD:
  "owner_agrees ops h \<Longrightarrow> operatorKeyToAddon h k = Some a \<Longrightarrow> OpUpdate m k \<in> set ops \<Longrightarrow>
     a = ObjectKeyFromObject m"
  unfolding owner_agrees_def by blast

lemma Free_refines:
  assumes "handler_wf h" "handler_exclusive h"
  shows "operatorKeyToAddon (Free h m) = specStep (operatorKeyToAddon h) (OpFree m)"
proof
  fix k
  have "k \<in> set (operatorKeysOf h (ObjectKeyFromObject m)) \<longleftrightarrow>
      operatorKeyToAddon h k = Some (ObjectKeyFromObject m)"
    using assms unfolding handler_wf_def handler_exclusive_def by blast
  then show "operatorKeyToAddon (Free h m) k = specStep (operatorKeyToAddon h) (OpFree m) k"
    by (simp add: Free_routes restrict_map_def)
qed

lemma handlerStep_refines:
  assumes "handler_wf h" "handler_exclusive h" "owner_agrees (op # ops) h" "ownKeys (op # ops)"
  shows "operatorKeyToAddon (handlerStep h op) = specStep (operatorKeyToAddon h) op"
    and "handler_wf (handlerStep h op)" and "handler_exclusive (handlerStep h op)"
    and "owner_agrees ops (handlerStep h op)" and "ownKeys ops"
proof -
  show "operatorKeyToAddon (handlerStep h op) = specStep (operatorKeyToAddon h) op"
    using assms by (cases op) (simp_all add: UpdateMap_routes Free_refines del: specStep.simps(2))
  show "handler_wf (handlerStep h op)"
    using assms by (cases op) (simp_all add: wf_UpdateMap wf_Free)
  show "handler_exclusive (handlerStep h op)"
  proof (cases op)
    case (OpUpdate m k)
    then have "OpUpdate m k \<in> set (op # ops)" by simp
    then have "operatorKeyToAddon h k \<in> {None, Some (ObjectKeyFromObject m)}"
      using owner_agreesD [OF assms(3)] by (cases "operatorKeyToAddon h k") auto
    with assms(2) OpUpdate show ?thesis by (simp add: exclusive_UpdateMap)
  qed (use assms in \<open>simp add: exclusive_Free\<close>)
  show "owner_agrees ops (handlerStep h op)"
    unfolding owner_agrees_def
  proof (intro allI impI)
    fix m k a assume m: "OpUpdate m k \<in> set ops" and a: "operatorKeyToAddon (handlerStep h op) k = Some a"
    show "a = ObjectKeyFromObject m"
    proof (cases op)
      case (OpUpdate m' k')
      show ?thesis
      proof (cases "k' = k")
        case True
        with a OpUpdate have "a = ObjectKeyFromObject m'" by (simp add: UpdateMap_routes)
        moreover have "ObjectKeyFromObject m' = ObjectKeyFromObject m"
          by (rule ownKeysD [OF assms(4), of m' k]) (use m OpUpdate True in simp_all)
        ultimately show ?thesis by simp
      next
        case False
        with a OpUpdate have "operatorKeyToAddon h k = Some a" by (simp add: UpdateMap_routes)
        then show ?thesis by (rule owner_agreesD [OF assms(3)]) (simp add: m)
      qed
    next
      case (OpFree m')
      with a have "operatorKeyToAddon h k = Some a"
        by (simp add: Free_routes restrict_map_def split: if_splits)
      then show ?thesis by (rule owner_agreesD [OF assms(3)]) (simp add: m)
    qed
  qed
  show "ownKeys ops"
    using assms(4) unfolding ownKeys_def by (meson list.set_intros(2))
qed

lemma handler_run_refines:
  assumes "handler_wf h" "handler_exclusive h" "owner_agrees ops h" "ownKeys ops"
  shows "operatorKeyToAddon (foldl handlerStep h ops) = foldl specStep (operatorKeyToAddon h) ops"
  using assms
proof (induction ops arbitrary: h)
  case (Cons op ops)
  note step = handlerStep_refines [OF Cons.prems]
  from Cons.IH [OF step(2-5)] show ?case by (simp add: step(1))
qed simp

section \<open>Properties\<close>

text \<open>
  C36: As long as no two Addons use the same Operator object, any history of registrations and
  removals leaves the handler with exactly the routes of the specification: the Operators that
  were registered and whose Addon was not removed since, each with its Addon.
\<close>

theorem handler_refines_routing:
  assumes "ownKeys ops"
  shows "operatorKeyToAddon (foldl handlerStep NewOperatorResourceHandler ops) = foldl specStep Map.empty ops"
proof -
  have "owner_agrees ops NewOperatorResourceHandler"
    by (simp add: owner_agrees_def NewOperatorResourceHandler_def)
  from handler_run_refines [OF wf_new exclusive_new this assms] show ?thesis
    by (simp add: NewOperatorResourceHandler_def)
qed

lemma foldl_handler_wf: "handler_wf h \<Longrightarrow> handler_wf (foldl handlerStep h ops)"
proof (induction ops arbitrary: h)
  case (Cons op ops)
  then show ?case by (cases op) (simp_all add: wf_UpdateMap wf_Free)
qed simp

text \<open>
  C38: Registering an Operator for an Addon asks for a requeue at most once: after any history, a
  second registration reports no change and changes nothing, and from then on each of the four
  kinds of events on that Operator enqueues the Addon.
\<close>

theorem handler_second_update_settles:
  "let h = snd (UpdateMap (foldl handlerStep NewOperatorResourceHandler ops) addon key) in
     UpdateMap h addon key = (False, h) \<and>
     (ObjectKeyFromObject obj = key \<longrightarrow>
        (\<forall>e \<in> {CreateEvent obj, UpdateEvent old obj, DeleteEvent obj, GenericEvent obj}.
           onEvent h e add q = add (ObjectKeyFromObject addon) q))"
proof -
  define h where "h = foldl handlerStep NewOperatorResourceHandler ops"
  have "handler_wf h" unfolding h_def by (rule foldl_handler_wf [OF wf_new])
  then have "UpdateMap (snd (UpdateMap h addon key)) addon key = (False, snd (UpdateMap h addon key))"
    by (rule orh.second_update_settles)
  moreover have "operatorKeyToAddon (snd (UpdateMap h addon key)) key = Some (ObjectKeyFromObject addon)"
    by (simp add: UpdateMap_routes)
  ultimately show ?thesis
    unfolding h_def [symmetric] by (auto simp: Let_def enqueueObject_def)
qed

text \<open>
  When a second Addon registers an Operator that another Addon had registered, the list of the
  first keeps the key, and removing the first Addon removes the route of the second: events on the
  Operator no longer reach the Addon that still exists.
\<close>

lemma handler_free_drops_other_route:
  assumes "ObjectKeyFromObject old \<noteq> ObjectKeyFromObject new"
  shows "let h = foldl handlerStep NewOperatorResourceHandler [OpUpdate old key, OpUpdate new key] in
    operatorKeyToAddon h key = Some (ObjectKeyFromObject new) \<and>
    operatorKeyToAddon (Free h old) key = None \<and>
    foldl specStep Map.empty [OpUpdate old key, OpUpdate new key, OpFree old] key = Some (ObjectKeyFromObject new)"
  using assms
  by (simp add: Let_def UpdateMap_routes Free_routes UpdateMap_lists)

section \<open>Witnesses\<close>

theorem handler_refines_routing_witness:
  "let ops = [OpUpdate (objectMeta '''' ''a'') \<lparr>key_Namespace = '''', key_Name = ''pkg.ns''\<rparr>,
              OpUpdate (objectMeta '''' ''b'') \<lparr>key_Namespace = '''', key_Name = ''pkg.other''\<rparr>,
              OpFree (objectMeta '''' ''a'')]
   in operatorKeyToAddon (foldl handlerStep NewOperatorResourceHandler ops) = foldl specStep Map.empty ops"
  unfolding Let_def by (rule handler_refines_routing) (auto simp: ownKeys_def)

theorem handler_second_update_settles_witness:
  "enqueueObject (snd (UpdateMap NewOperatorResourceHandler (objectMeta '''' ''a'')
       \<lparr>key_Namespace = '''', key_Name = ''pkg.ns''\<rparr>)) (objectMeta '''' ''pkg.ns'') (#) [] =
     [\<lparr>key_Namespace = '''', key_Name = ''a''\<rparr>]"
  using handler_second_update_settles [of "[]" "objectMeta '''' ''a''" "\<lparr>key_Namespace = '''', key_Name = ''pkg.ns''\<rparr>"
      "objectMeta '''' ''pkg.ns''" _ "(#)" "[]"]
  by (simp add: Let_def ObjectKeyFromObject_def)

end
