(* ===== verification/Metrics.thy ===== *)
theory Metrics
  imports K8s_Lib
begin

text \<open>
  The metrics recorder (\<open>internal/metrics/recorder.go\<close>): its in-memory view of the conditions of
  every known Addon, the gauges derived from it, the health information of each Addon and the
  reconcile error counters. A gauge is its value, a vector of gauges a map from label values to
  values; registration and the observed latencies (wall-clock times) are left out. The lock of
  \<open>addonState\<close> makes \<open>RecordAddonMetrics\<close> atomic. The main result is the invariant that the three
  gauges count the Addons the recorder knows.
\<close>

section \<open>Model\<close>

record addonConditions =
  ac_available :: bool
  ac_paused :: bool

record Recorder =
  conditionMap :: "string \<rightharpoonup> addonConditions"        \<comment> \<open>by the UID of the Addon\<close>
  addonsCount :: "string \<Rightarrow> int"                    \<comment> \<open>by \<open>count_by\<close>\<close>
  addonOperatorPaused :: int
  ocmAPIRequests :: nat                            \<comment> \<open>observations of \<open>ocmAPIRequestDuration\<close>\<close>
  addonServiceAPIRequests :: nat
  addonHealthInfo :: "string \<times> string \<times> string \<rightharpoonup> int"  \<comment> \<open>by name, version, reason\<close>
  reconcileErrors :: "string \<times> string \<times> string \<Rightarrow> nat" \<comment> \<open>by controller, reason, CR name\<close>

abbreviation countAvailable :: string where "countAvailable \<equiv> ''available''"
abbreviation countPaused :: string where "countPaused \<equiv> ''paused''"
abbreviation countTotal :: string where "countTotal \<equiv> ''total''"

definition NewRecorder :: Recorder where
  "NewRecorder = \<lparr>conditionMap = Map.empty, addonsCount = (\<lambda>_. 0), addonOperatorPaused = 0,
     ocmAPIRequests = 0, addonServiceAPIRequests = 0, addonHealthInfo = Map.empty,
     reconcileErrors = (\<lambda>_. 0)\<rparr>"

definition incCount :: "string \<Rightarrow> Recorder \<Rightarrow> Recorder" where
  "incCount l r = r\<lparr>addonsCount := (addonsCount r)(l := addonsCount r l + 1)\<rparr>"

definition decCount :: "string \<Rightarrow> Recorder \<Rightarrow> Recorder" where
  "decCount l r = r\<lparr>addonsCount := (addonsCount r)(l := addonsCount r l - 1)\<rparr>"

definition RecordOCMAPIRequests :: "Recorder \<Rightarrow> Recorder" where
  "RecordOCMAPIRequests r = r\<lparr>ocmAPIRequests := Suc (ocmAPIRequests r)\<rparr>"

definition RecordAddonServiceAPIRequests :: "Recorder \<Rightarrow> Recorder" where
  "RecordAddonServiceAPIRequests r = r\<lparr>addonServiceAPIRequests := Suc (addonServiceAPIRequests r)\<rparr>"

definition SetAddonOperatorPaused :: "bool \<Rightarrow> Recorder \<Rightarrow> Recorder" where
  "SetAddonOperatorPaused p r = r\<lparr>addonOperatorPaused := (if p then 1 else 0)\<rparr>"

text \<open>The health entry of an Addon; \<open>healthReason\<close> is \<open>addonHealth.GetReason()\<close>.\<close>

definition healthEntry :: "lib \<Rightarrow> Addon \<Rightarrow> string \<Rightarrow> (string \<times> string \<times> string) \<times> int" where
  "healthEntry L addon healthReason =
     (let healthCond = FindStatusCondition L (Conditions (Status addon)) Available;
          (healthStatus, reason) =
            (case healthCond of
               None \<Rightarrow> (2, ''Unknown'')
             | Some c \<Rightarrow>
                 (case c_Status c of
                    ConditionFalse \<Rightarrow>
                      (0, if length healthReason > 0 then healthReason else c_Reason c)
                  | ConditionTrue \<Rightarrow> (1, c_Reason c)
                  | ConditionUnknown \<Rightarrow> (2, c_Reason c)));
          addonVersion = (if ObservedVersion (Status addon) \<noteq> '''' then ObservedVersion (Status addon)
                          else ''0.0.0'')
      in ((Name (addonMeta addon), addonVersion, reason), healthStatus))"

definition recordAddonHealthInfo :: "lib \<Rightarrow> Addon \<Rightarrow> string \<Rightarrow> Recorder \<Rightarrow> Recorder" where
  "recordAddonHealthInfo L addon healthReason r =
     (let (key, status) = healthEntry L addon healthReason;
          dropped = (\<lambda>k. if fst k = Name (addonMeta addon) then None else addonHealthInfo r k)
      in r\<lparr>addonHealthInfo := dropped(key \<mapsto> status)\<rparr>)"

definition currentConditions :: "lib \<Rightarrow> Addon \<Rightarrow> addonConditions" where
  "currentConditions L addon =
     \<lparr>ac_available = IsStatusConditionTrue L (Conditions (Status addon)) Available,
      ac_paused = IsStatusConditionTrue L (Conditions (Status addon)) PausedCondition\<rparr>"

definition RecordAddonMetrics :: "lib \<Rightarrow> Addon \<Rightarrow> string \<Rightarrow> Recorder \<Rightarrow> Recorder" where
  "RecordAddonMetrics L addon healthReason r =
     (let r = recordAddonHealthInfo L addon healthReason r;
          curr = currentConditions L addon;
          addonUID = UID (addonMeta addon)
      in case conditionMap r addonUID of
           None \<Rightarrow>
             (let r = incCount countTotal (r\<lparr>conditionMap := (conditionMap r)(addonUID \<mapsto> curr)\<rparr>);
                  r = (if ac_available curr then incCount countAvailable r else r)
              in if ac_paused curr then incCount countPaused r else r)
         | Some old \<Rightarrow>
             (let r =
                (if old \<noteq> curr then
                   (let r = (if ac_available old \<noteq> ac_available curr
                             then if ac_available curr then incCount countAvailable r
                                  else decCount countAvailable r
                             else r);
                        r = (if ac_paused old \<noteq> ac_paused curr
                             then if ac_paused curr then incCount countPaused r
                                  else decCount countPaused r
                             else r)
                    in r\<lparr>conditionMap := (conditionMap r)(addonUID \<mapsto> curr)\<rparr>)
                 else r)
              in if DeletionTimestamp (addonMeta addon) \<noteq> None then
                   (let r = decCount countTotal r;
                        r = (if ac_available curr then decCount countAvailable r else r);
                        r = (if ac_paused curr then decCount countPaused r else r)
                    in r\<lparr>conditionMap := (conditionMap r)(addonUID := None)\<rparr>)
                 else r))"

text \<open>
  \<open>ReconcileError\<close>: \<open>Report\<close> counts the errors that carry a \<open>ControllerReconcileError\<close>; a nil
  recorder counts nothing. \<open>Join\<close> keeps the second error as the wrapped one.
\<close>

definition Report :: "string \<Rightarrow> error \<Rightarrow> string \<Rightarrow> Recorder option \<Rightarrow> Recorder option" where
  "Report controller err crName rec =
     (case rec of
        None \<Rightarrow> None
      | Some r \<Rightarrow>
          (case asControllerReconcileError err of
             None \<Rightarrow> Some r
           | Some reason \<Rightarrow>
               Some (r\<lparr>reconcileErrors := (reconcileErrors r)
                 ((controller, reason, crName) := Suc (reconcileErrors r (controller, reason, crName)))\<rparr>)))"

definition Join :: "error option \<Rightarrow> error option \<Rightarrow> error option" where
  "Join err1 err2 =
     (case (err1, err2) of
        (None, Some e2) \<Rightarrow> Some e2
      | (Some e1, None) \<Rightarrow> Some e1
      | (Some e1, Some e2) \<Rightarrow> Some (Wrap (errorText e1) e2)
      | (None, None) \<Rightarrow> None)"

text \<open>The two arguments are non-nil wherever the reconcilers call it.\<close>

definition joinErr :: "error \<Rightarrow> error \<Rightarrow> error" where
  "joinErr e1 e2 = (case Join (Some e1) (Some e2) of Some e \<Rightarrow> e | None \<Rightarrow> e1)"

lemma joinErr_eq [simp]: "joinErr e1 e2 = Wrap (errorText e1) e2"
  by (simp add: joinErr_def Join_def)

section \<open>The gauges count the known Addons\<close>

definition known :: "(string \<rightharpoonup> addonConditions) \<Rightarrow> (addonConditions \<Rightarrow> bool) \<Rightarrow> string set" where
  "known m P = {u. \<exists>c. m u = Some c \<and> P c}"

definition counts_exact :: "(string \<rightharpoonup> addonConditions) \<Rightarrow> (string \<Rightarrow> int) \<Rightarrow> bool" where
  "counts_exact m n \<longleftrightarrow> finite (dom m) \<and>
     n countTotal = int (card (dom m)) \<and>
     n countAvailable = int (card (known m ac_available)) \<and>
     n countPaused = int (card (known m ac_paused))"

definition gauges_exact :: "Recorder \<Rightarrow> bool" where
  "gauges_exact r \<longleftrightarrow> counts_exact (conditionMap r) (addonsCount r)"

lemma finite_known: "finite (dom m) \<Longrightarrow> finite (known m P)"
  by (rule finite_subset [of _ "dom m"]) (auto simp: known_def)

lemma known_mem: "u \<in> known m P \<longleftrightarrow> (case m u of None \<Rightarrow> False | Some c \<Rightarrow> P c)"
  by (simp add: known_def split: option.splits)

lemma known_store: "known (m(u \<mapsto> c)) P = (if P c then insert u (known m P) else known m P - {u})"
  by (auto simp: known_def)

lemma known_drop: "known (m(u := None)) P = known m P - {u}"
  by (auto simp: known_def)

lemma known_dom: "dom m = known m (\<lambda>_. True)"
  by (auto simp: known_def)

lemma card_minus_one: "finite A \<Longrightarrow> int (card (A - {u})) = int (card A) - of_bool (u \<in> A)"
proof (cases "u \<in> A")
  case True
  assume "finite A"
  with True have "Suc (card (A - {u})) = card A" by (intro card_Suc_Diff1)
  then have "int (card A) = int (card (A - {u})) + 1" by linarith
  then have "int (card (A - {u})) = int (card A) - 1" by linarith
  then show ?thesis by (simp only: True of_bool_eq)
qed simp

text \<open>The size of a class of Addons after the entry of one Addon is stored or deleted.\<close>

lemma card_store:
  assumes "finite (dom m)"
  shows "int (card (known (m(u \<mapsto> c)) P)) =
     int (card (known m P)) + of_bool (P c) - of_bool (u \<in> known m P)"
  using finite_known [OF assms, of P]
  by (auto simp: known_store card_minus_one insert_absorb)

lemma card_drop:
  assumes "finite (dom m)"
  shows "int (card (known (m(u := None)) P)) = int (card (known m P)) - of_bool (u \<in> known m P)"
  using finite_known [OF assms, of P] by (simp add: known_drop card_minus_one)

lemma counts_store:
  assumes "counts_exact m n"
    and "n' countTotal = n countTotal + 1 - of_bool (u \<in> dom m)"
    and "n' countAvailable = n countAvailable + of_bool (ac_available c) - of_bool (u \<in> known m ac_available)"
    and "n' countPaused = n countPaused + of_bool (ac_paused c) - of_bool (u \<in> known m ac_paused)"
  shows "counts_exact (m(u \<mapsto> c)) n'"
proof -
  have fin: "finite (dom m)" using assms(1) by (simp add: counts_exact_def)
  have "int (card (dom (m(u \<mapsto> c)))) = int (card (dom m)) + 1 - of_bool (u \<in> dom m)"
    using card_store [OF fin, of u c "\<lambda>_. True"] by (simp only: known_dom) simp
  with assms card_store [OF fin, of u c] fin show ?thesis by (simp add: counts_exact_def)
qed

lemma counts_drop:
  assumes "counts_exact m n"
    and "n' countTotal = n countTotal - of_bool (u \<in> dom m)"
    and "n' countAvailable = n countAvailable - of_bool (u \<in> known m ac_available)"
    and "n' countPaused = n countPaused - of_bool (u \<in> known m ac_paused)"
  shows "counts_exact (m(u := None)) n'"
proof -
  have fin: "finite (dom m)" using assms(1) by (simp add: counts_exact_def)
  have "int (card (dom (m(u := None)))) = int (card (dom m)) - of_bool (u \<in> dom m)"
    using card_drop [OF fin, of u "\<lambda>_. True"] by (simp only: known_dom)
  with assms card_drop [OF fin, of u] fin show ?thesis by (simp add: counts_exact_def)
qed

lemma gauges_exact_new: "gauges_exact NewRecorder"
  by (simp add: gauges_exact_def counts_exact_def NewRecorder_def known_def)

lemma health_frame [simp]:
  "conditionMap (recordAddonHealthInfo L addon reason r) = conditionMap r"
  "addonsCount (recordAddonHealthInfo L addon reason r) = addonsCount r"
  by (simp_all add: recordAddonHealthInfo_def Let_def split: prod.splits)

lemma incCount_sel [simp]:
  "conditionMap (incCount l r) = conditionMap r"
  "addonsCount (incCount l r) = (addonsCount r)(l := addonsCount r l + 1)"
  "conditionMap (decCount l r) = conditionMap r"
  "addonsCount (decCount l r) = (addonsCount r)(l := addonsCount r l - 1)"
  by (simp_all add: incCount_def decCount_def)

text \<open>The two halves of \<open>RecordAddonMetrics\<close>: a new Addon, an Addon it knows.\<close>

lemma record_new:
  assumes "conditionMap r (UID (addonMeta addon)) = None"
  shows "conditionMap (RecordAddonMetrics L addon reason r) =
      (conditionMap r)(UID (addonMeta addon) \<mapsto> currentConditions L addon)"
    and "addonsCount (RecordAddonMetrics L addon reason r) = (addonsCount r)
      (countTotal := addonsCount r countTotal + 1,
       countAvailable := addonsCount r countAvailable + of_bool (ac_available (currentConditions L addon)),
       countPaused := addonsCount r countPaused + of_bool (ac_paused (currentConditions L addon)))"
  using assms by (auto simp: RecordAddonMetrics_def Let_def fun_eq_iff)

lemma record_known:
  assumes "conditionMap r (UID (addonMeta addon)) = Some old"
    and "DeletionTimestamp (addonMeta addon) = None"
  shows "conditionMap (RecordAddonMetrics L addon reason r) =
      (conditionMap r)(UID (addonMeta addon) \<mapsto> currentConditions L addon)"
    and "addonsCount (RecordAddonMetrics L addon reason r) = (addonsCount r)
      (countAvailable := addonsCount r countAvailable +
         of_bool (ac_available (currentConditions L addon)) - of_bool (ac_available old),
       countPaused := addonsCount r countPaused +
         of_bool (ac_paused (currentConditions L addon)) - of_bool (ac_paused old))"
  using assms by (auto simp: RecordAddonMetrics_def Let_def fun_eq_iff)

lemma record_deleted:
  assumes "conditionMap r (UID (addonMeta addon)) = Some old"
    and "DeletionTimestamp (addonMeta addon) \<noteq> None"
  shows "conditionMap (RecordAddonMetrics L addon reason r) =
      (conditionMap r)(UID (addonMeta addon) := None)"
    and "addonsCount (RecordAddonMetrics L addon reason r) = (addonsCount r)
      (countTotal := addonsCount r countTotal - 1,
       countAvailable := addonsCount r countAvailable - of_bool (ac_available old),
       countPaused := addonsCount r countPaused - of_bool (ac_paused old))"
  using assms by (auto simp: RecordAddonMetrics_def Let_def fun_eq_iff)

lemma record_exact:
  assumes "gauges_exact r"
  shows "gauges_exact (RecordAddonMetrics L addon reason r)"
proof -
  let ?u = "UID (addonMeta addon)"
  have exact: "counts_exact (conditionMap r) (addonsCount r)"
    using assms by (simp add: gauges_exact_def)
  show ?thesis
  proof (cases "conditionMap r ?u")
    case None
    then show ?thesis
      unfolding gauges_exact_def record_new [OF None]
      by (intro counts_store [OF exact]) (auto simp: known_mem)
  next
    case (Some old)
    show ?thesis
    proof (cases "DeletionTimestamp (addonMeta addon)")
      case None
      with Some show ?thesis
        unfolding gauges_exact_def record_known [OF Some None]
        by (intro counts_store [OF exact]) (auto simp: known_mem)
    next
      case (Some t)
      then have del: "DeletionTimestamp (addonMeta addon) \<noteq> None" by simp
      from \<open>conditionMap r ?u = Some old\<close> show ?thesis
        unfolding gauges_exact_def record_deleted [OF \<open>conditionMap r ?u = Some old\<close> del]
        by (intro counts_drop [OF exact]) (auto simp: known_mem)
    qed
  qed
qed

section \<open>Properties\<close>

definition recordAll :: "lib \<Rightarrow> (Addon \<times> string) list \<Rightarrow> Recorder \<Rightarrow> Recorder" where
  "recordAll L history r = foldl (\<lambda>r (addon, reason). RecordAddonMetrics L addon reason r) r history"

text \<open>
  C37: However often and in whatever order the Addons of a cluster are recorded, the gauges
  \<open>total\<close>, \<open>available\<close> and \<open>paused\<close> are the numbers of Addons in the recorder's map, and of those in
  it whose last recorded conditions were available or paused. In particular none is negative.
\<close>

theorem metrics_gauges_exact: "gauges_exact (recordAll L history NewRecorder)"
proof -
  have "gauges_exact (recordAll L history r)" if "gauges_exact r" for r
    using that by (induction history arbitrary: r) (auto simp: recordAll_def record_exact)
  then show ?thesis using gauges_exact_new by blast
qed

text \<open>
  After an Addon has been recorded, the health metric has exactly one series with its name, the
  current one, and the series of all other Addons are as they were.
\<close>

theorem metrics_health_unique:
  "addonHealthInfo (RecordAddonMetrics L addon reason r) (name, version, why) =
     (if name = Name (addonMeta addon)
      then if (name, version, why) = fst (healthEntry L addon reason)
           then Some (snd (healthEntry L addon reason)) else None
      else addonHealthInfo r (name, version, why))"
proof -
  have frame: "addonHealthInfo (RecordAddonMetrics L addon reason r) =
      addonHealthInfo (recordAddonHealthInfo L addon reason r)"
    by (auto simp: RecordAddonMetrics_def Let_def incCount_def decCount_def split: option.splits)
  have "fst (fst (healthEntry L addon reason)) = Name (addonMeta addon)"
    by (simp add: healthEntry_def Let_def split: prod.splits)
  then show ?thesis
    unfolding frame by (auto simp: recordAddonHealthInfo_def Let_def split: prod.splits)
qed

text \<open>
  An Addon that is being deleted and that is recorded a second time before it is gone is taken
  for a new one: the first recording removes it from the map and from the total, the second counts
  it again.
\<close>

theorem metrics_deleted_counted_again:
  assumes "conditionMap r (UID (addonMeta addon)) = Some old" "DeletionTimestamp (addonMeta addon) \<noteq> None"
  shows "let once = RecordAddonMetrics L addon reason r; twice = RecordAddonMetrics L addon reason once in
    conditionMap once (UID (addonMeta addon)) = None \<and>
    addonsCount once countTotal = addonsCount r countTotal - 1 \<and>
    conditionMap twice (UID (addonMeta addon)) = Some (currentConditions L addon) \<and>
    addonsCount twice countTotal = addonsCount r countTotal"
proof -
  note once = record_deleted [OF assms, of L reason]
  have "conditionMap (RecordAddonMetrics L addon reason r) (UID (addonMeta addon)) = None"
    by (simp add: once)
  from record_new [OF this, of L reason] once show ?thesis by (simp add: Let_def)
qed

end
