(* ===== verification/Runtime.thy ===== *)
theory Runtime
  imports Operator_Handler Metrics
begin

text \<open>
  What the reconcilers run on: the state of one reconcile call, the Kubernetes clients, and the
  two kinds of steps (a read of the API, a write to it).

  A client of the API server is code of another project and a remote service: it is a record of
  functions on an abstract world \<open>'w\<close>, an argument of the model. A call may return any answer
  and may leave any new world behind, so the theorems hold whatever other actors do to the cluster
  between two calls. Every write is recorded in \<open>st_calls\<close>, with the error it returned; reads are
  not recorded. \<open>time.Now\<close> reads the next entry of the sequence \<open>clock\<close>.
\<close>

section \<open>Clients\<close>

record ('w, 'o) kclient =
  kGet :: "ObjectKey \<Rightarrow> 'w \<Rightarrow> (error + 'o) \<times> 'w"
  kList :: "string \<Rightarrow> labels \<Rightarrow> 'w \<Rightarrow> (error + 'o list) \<times> 'w"  \<comment> \<open>namespace (empty: all), label selector\<close>
  kCreate :: "'o \<Rightarrow> 'w \<Rightarrow> (error + 'o) \<times> 'w"
  kUpdate :: "'o \<Rightarrow> 'w \<Rightarrow> (error + 'o) \<times> 'w"
  kStatusUpdate :: "'o \<Rightarrow> 'w \<Rightarrow> (error + 'o) \<times> 'w"
  kPatch :: "'o \<Rightarrow> 'o \<Rightarrow> 'w \<Rightarrow> (error + 'o) \<times> 'w"        \<comment> \<open>modified, \<open>MergeFrom\<close> base\<close>
  kDelete :: "ObjectKey \<Rightarrow> 'w \<Rightarrow> (error + unit) \<times> 'w"

record 'w cluster =
  k_Addon :: "('w, Addon) kclient"
  k_Namespace :: "('w, NamespaceObj) kclient"
  k_Secret :: "('w, Secret) kclient"
  k_ConfigMap :: "('w, ConfigMap) kclient"
  k_OperatorGroup :: "('w, OperatorGroup) kclient"
  k_NetworkPolicy :: "('w, NetworkPolicy) kclient"
  k_CatalogSource :: "('w, CatalogSource) kclient"
  k_Subscription :: "('w, Subscription) kclient"
  k_InstallPlan :: "('w, InstallPlan) kclient"
  k_Operator :: "('w, Operator) kclient"
  k_AddonInstance :: "('w, AddonInstance) kclient"
  k_ServiceMonitor :: "('w, ServiceMonitor) kclient"
  k_ClusterObjectTemplate :: "('w, ClusterObjectTemplate) kclient"
  k_MonitoringStack :: "('w, MonitoringStackObj) kclient"
  k_Pod :: "('w, Pod) kclient"

text \<open>The fields the reconcilers share.\<close>

record 'w Env =
  theLib :: lib
  client :: "'w cluster"
  uncachedClient :: "'w cluster"
  clock :: "nat \<Rightarrow> time"
  AddonOperatorNamespace :: string

section \<open>State\<close>

text \<open>The requests to the OCM API that \<open>internal/ocm\<close> defines and the reconciler sends.\<close>

datatype UpgradePolicyValue =
    UpgradePolicyValueNone
  | UpgradePolicyValuePending
  | UpgradePolicyValueScheduled
  | UpgradePolicyValueStarted
  | UpgradePolicyValueCompleted
  | UpgradePolicyValueOther string

record UpgradePolicyPatchRequest =
  upp_ID :: string
  upp_Value :: UpgradePolicyValue
  upp_Description :: string

record AddOnStatusPostRequest =
  asp_AddonID :: string
  asp_CorrelationID :: string
  asp_AddonVersion :: string
  asp_StatusConditions :: "AddOnStatusCondition list"

datatype apiCall =
    CallCreate kobj
  | CallUpdate kobj
  | CallStatusUpdate kobj
  | CallPatch kobj
  | CallDelete kind ObjectKey
  | CallPatchUpgradePolicy UpgradePolicyPatchRequest
  | CallPostAddOnStatus AddOnStatusPostRequest

text \<open>
  \<open>st_addon\<close> is the Addon the call works on: every function gets the same pointer and mutates the
  object behind it.
\<close>

record 'w st =
  st_addon :: Addon
  st_world :: 'w
  st_calls :: "(apiCall \<times> error option) list"
  st_ticks :: nat
  st_opHandler :: OperatorResourceHandler
  st_recorder :: "Recorder option"

section \<open>Steps\<close>

definition answer :: "error + 'a \<Rightarrow> 'a outcome" where
  "answer r = (case r of Inl e \<Rightarrow> Err e | Inr v \<Rightarrow> Ok v)"

definition errorOf :: "error + 'a \<Rightarrow> error option" where
  "errorOf r = (case r of Inl e \<Rightarrow> Some e | Inr v \<Rightarrow> None)"

definition apiRead :: "('w \<Rightarrow> (error + 'a) \<times> 'w) \<Rightarrow> ('w st, 'a) prog" where
  "apiRead f = (\<lambda>s. case f (st_world s) of (r, w) \<Rightarrow> (answer r, s\<lparr>st_world := w\<rparr>))"

definition apiWrite :: "apiCall \<Rightarrow> ('w \<Rightarrow> (error + 'a) \<times> 'w) \<Rightarrow> ('w st, 'a) prog" where
  "apiWrite c f = (\<lambda>s. case f (st_world s) of (r, w) \<Rightarrow>
     (answer r, s\<lparr>st_world := w, st_calls := st_calls s @ [(c, errorOf r)]\<rparr>))"

text \<open>Mutating the Addon; the function is given the time a \<open>SetStatusCondition\<close> in it reads.\<close>

definition mutate :: "'w Env \<Rightarrow> (time \<Rightarrow> Addon \<Rightarrow> Addon) \<Rightarrow> ('w st, unit) prog" where
  "mutate E f = modify (\<lambda>s. s\<lparr>st_addon := f (clock E (st_ticks s)) (st_addon s),
     st_ticks := Suc (st_ticks s)\<rparr>)"

definition timeNow :: "'w Env \<Rightarrow> ('w st, time) prog" where
  "timeNow E = (\<lambda>s. (Ok (clock E (st_ticks s)), s\<lparr>st_ticks := Suc (st_ticks s)\<rparr>))"

definition getAddon :: "('w st, Addon) prog" where
  "getAddon = gets st_addon"

lemmas [prog_defs] = answer_def errorOf_def apiRead_def apiWrite_def mutate_def timeNow_def getAddon_def

lemma answer_simps [simp]:
  "answer (Inl e) = Err e" "answer (Inr v) = Ok v" "errorOf (Inl e) = Some e" "errorOf (Inr v) = None"
  "answer r = Ok v' \<longleftrightarrow> r = Inr v'" "answer r = Err e' \<longleftrightarrow> r = Inl e'" "answer r \<noteq> Panic"
  by (auto simp: answer_def errorOf_def split: sum.splits)

lemma errorOf_None: "errorOf r = None \<longleftrightarrow> (\<exists>v. r = Inr v)"
  by (auto simp: errorOf_def split: sum.splits)

lemma wp_apiRead [wp_simps]:
  "wp (apiRead f) Q s = Q (answer (fst (f (st_world s)))) (s\<lparr>st_world := snd (f (st_world s))\<rparr>)"
  by (simp add: wp_def apiRead_def split: prod.splits)

lemma wp_apiWrite [wp_simps]:
  "wp (apiWrite c f) Q s = Q (answer (fst (f (st_world s))))
     (s\<lparr>st_world := snd (f (st_world s)),
        st_calls := st_calls s @ [(c, errorOf (fst (f (st_world s))))]\<rparr>)"
  by (simp add: wp_def apiWrite_def split: prod.splits)

lemma wp_mutate [wp_simps]:
  "wp (mutate E f) Q s = Q (Ok ()) (s\<lparr>st_addon := f (clock E (st_ticks s)) (st_addon s),
     st_ticks := Suc (st_ticks s)\<rparr>)"
  by (simp add: wp_def mutate_def)

lemma wp_timeNow [wp_simps]:
  "wp (timeNow E) Q s = Q (Ok (clock E (st_ticks s))) (s\<lparr>st_ticks := Suc (st_ticks s)\<rparr>)"
  by (simp add: wp_def timeNow_def)

lemma wp_getAddon [wp_simps]: "wp getAddon Q s = Q (Ok (st_addon s)) s"
  by (simp add: wp_def getAddon_def)

lemma mutate_app [simp]:
  "mutate E f s = (Ok (), s\<lparr>st_addon := f (clock E (st_ticks s)) (st_addon s),
     st_ticks := Suc (st_ticks s)\<rparr>)"
  by (simp add: mutate_def)

lemma getAddon_app [simp]: "getAddon s = (Ok (st_addon s), s)"
  by (simp add: getAddon_def)

lemma timeNow_app [simp]:
  "timeNow E s = (Ok (clock E (st_ticks s)), s\<lparr>st_ticks := Suc (st_ticks s)\<rparr>)"
  by (simp add: timeNow_def)

lemma apiRead_cases:
  obtains (err) e where "fst (f (st_world s)) = Inl e" "apiRead f s = (Err e, s\<lparr>st_world := snd (f (st_world s))\<rparr>)"
  | (ok) v where "f (st_world s) = (Inr v, snd (f (st_world s)))"
      "apiRead f s = (Ok v, s\<lparr>st_world := snd (f (st_world s))\<rparr>)"
  by (cases "f (st_world s)"; cases "fst (f (st_world s))") (auto simp: apiRead_def)

section \<open>The typed calls\<close>

definition doGet :: "('w, 'o) kclient \<Rightarrow> ObjectKey \<Rightarrow> ('w st, 'o) prog" where
  "doGet c key = apiRead (kGet c key)"

definition doList :: "('w, 'o) kclient \<Rightarrow> string \<Rightarrow> labels \<Rightarrow> ('w st, 'o list) prog" where
  "doList c ns selector = apiRead (kList c ns selector)"

definition doCreate :: "('w, 'o) kclient \<Rightarrow> ('o \<Rightarrow> kobj) \<Rightarrow> 'o \<Rightarrow> ('w st, 'o) prog" where
  "doCreate c wrap obj = apiWrite (CallCreate (wrap obj)) (kCreate c obj)"

definition doUpdate :: "('w, 'o) kclient \<Rightarrow> ('o \<Rightarrow> kobj) \<Rightarrow> 'o \<Rightarrow> ('w st, 'o) prog" where
  "doUpdate c wrap obj = apiWrite (CallUpdate (wrap obj)) (kUpdate c obj)"

definition doPatch :: "('w, 'o) kclient \<Rightarrow> ('o \<Rightarrow> kobj) \<Rightarrow> 'o \<Rightarrow> 'o \<Rightarrow> ('w st, 'o) prog" where
  "doPatch c wrap obj base = apiWrite (CallPatch (wrap obj)) (kPatch c obj base)"

definition doDelete :: "('w, 'o) kclient \<Rightarrow> kind \<Rightarrow> ObjectKey \<Rightarrow> ('w st, unit) prog" where
  "doDelete c k key = apiWrite (CallDelete k key) (kDelete c key)"

text \<open>
  \<open>r.Update(ctx, addon)\<close> and \<open>r.Status().Update(ctx, addon)\<close> decode the answer of the server into
  the Addon they are given; the Addon keeps its value when the call fails.
\<close>

definition storeAddon :: "apiCall \<Rightarrow> ('w \<Rightarrow> (error + Addon) \<times> 'w) \<Rightarrow> ('w st, unit) prog" where
  "storeAddon c f = bindp (apiWrite c f) (\<lambda>a. modify (\<lambda>s. s\<lparr>st_addon := a\<rparr>))"

definition updateAddon :: "'w Env \<Rightarrow> ('w st, unit) prog" where
  "updateAddon E = bindp getAddon (\<lambda>addon.
     storeAddon (CallUpdate (KAddon addon)) (kUpdate (k_Addon (client E)) addon))"

definition statusUpdateAddon :: "'w Env \<Rightarrow> ('w st, unit) prog" where
  "statusUpdateAddon E = bindp getAddon (\<lambda>addon.
     storeAddon (CallStatusUpdate (KAddon addon)) (kStatusUpdate (k_Addon (client E)) addon))"

lemmas [prog_defs] = doGet_def doList_def doCreate_def doUpdate_def doPatch_def doDelete_def
  storeAddon_def updateAddon_def statusUpdateAddon_def

lemmas typed_calls = doGet_def doList_def doCreate_def doUpdate_def doPatch_def doDelete_def

section \<open>Results of a sub-reconciler\<close>

record subReconcilerResult =
  rs_Stop :: bool
  rs_Requeue :: bool
  rs_RequeueAfter :: "duration option"

definition resultNil :: subReconcilerResult where
  "resultNil = \<lparr>rs_Stop = False, rs_Requeue = False, rs_RequeueAfter = None\<rparr>"

definition resultRetry :: subReconcilerResult where
  "resultRetry = \<lparr>rs_Stop = False, rs_Requeue = True, rs_RequeueAfter = None\<rparr>"

definition resultStop :: subReconcilerResult where
  "resultStop = \<lparr>rs_Stop = True, rs_Requeue = False, rs_RequeueAfter = None\<rparr>"

definition resultRequeue :: subReconcilerResult where
  "resultRequeue = \<lparr>rs_Stop = False, rs_Requeue = True, rs_RequeueAfter = None\<rparr>"

definition resultRequeueAfter :: "duration \<Rightarrow> subReconcilerResult" where
  "resultRequeueAfter t = \<lparr>rs_Stop = False, rs_Requeue = False, rs_RequeueAfter = Some t\<rparr>"

definition IsZero :: "subReconcilerResult \<Rightarrow> bool" where
  "IsZero r \<longleftrightarrow> r = resultNil"

lemma results_distinct [simp]:
  "resultRetry \<noteq> resultNil" "resultStop \<noteq> resultNil" "resultRequeueAfter t \<noteq> resultNil"
  "resultRequeue = resultRetry"
  by (simp_all add: resultNil_def resultRetry_def resultStop_def resultRequeueAfter_def resultRequeue_def)

lemma IsZero_simps [simp]:
  "IsZero resultNil" "\<not> IsZero resultRetry" "\<not> IsZero resultStop" "\<not> IsZero (resultRequeueAfter t)"
  by (simp_all add: IsZero_def)

definition defaultRetryAfterTime :: duration where
  "defaultRetryAfterTime = 10 * nanosPerSecond"

text \<open>The result of a controller, \<open>ctrl.Result\<close>.\<close>

record ctrlResult =
  Requeue :: bool
  RequeueAfter :: duration

definition zeroResult :: ctrlResult where
  "zeroResult = \<lparr>Requeue = False, RequeueAfter = 0\<rparr>"

text \<open>\<open>_, err = f(); if err != nil return err else if !res.IsZero() return res\<close>.\<close>

definition unlessZero ::
  "subReconcilerResult \<Rightarrow> ('s, subReconcilerResult) prog \<Rightarrow> ('s, subReconcilerResult) prog" where
  "unlessZero r k = (if \<not> IsZero r then ret r else k)"

section \<open>What a run keeps\<close>

text \<open>
  The invariant most runs keep: the Addon's identity and specification stay as they are, and
  every call made so far satisfies a predicate. \<open>P\<close> may mention the identity and the
  specification.
\<close>

definition runsOn :: "ObjectMeta \<Rightarrow> AddonSpec \<Rightarrow> (apiCall \<Rightarrow> bool) \<Rightarrow> 'w st \<Rightarrow> bool" where
  "runsOn m sp P s \<longleftrightarrow> addonMeta (st_addon s) = m \<and> Spec (st_addon s) = sp \<and>
     list_all (\<lambda>(c, _). P c) (st_calls s)"

definition sameIdentity :: "(Addon \<Rightarrow> Addon) \<Rightarrow> bool" where
  "sameIdentity f \<longleftrightarrow> (\<forall>a. addonMeta (f a) = addonMeta a \<and> Spec (f a) = Spec a)"

lemma runsOn_apiRead [keeps_rules]: "keeps (runsOn m sp P) (apiRead f)"
  by (auto simp: keeps_def runsOn_def apiRead_def split: prod.splits)

lemma runsOn_apiWrite [keeps_rules]: "P c \<Longrightarrow> keeps (runsOn m sp P) (apiWrite c f)"
  by (auto simp: keeps_def runsOn_def apiWrite_def split: prod.splits)

lemma runsOn_mutate [keeps_rules]:
  "(\<And>t. sameIdentity (f t)) \<Longrightarrow> keeps (runsOn m sp P) (mutate E f)"
  by (auto simp: keeps_def runsOn_def mutate_def sameIdentity_def)

lemma runsOn_timeNow [keeps_rules]: "keeps (runsOn m sp P) (timeNow E)"
  by (auto simp: keeps_def runsOn_def)

lemma runsOn_getAddon [keeps_rules]:
  "(\<And>a. addonMeta a = m \<Longrightarrow> Spec a = sp \<Longrightarrow> keeps (runsOn m sp P) (k a)) \<Longrightarrow>
     keeps (runsOn m sp P) (bindp getAddon k)"
  by (auto simp: keeps_def runsOn_def getAddon_def)

lemma runsOn_doGet [keeps_rules]: "keeps (runsOn m sp P) (doGet c key)"
  unfolding doGet_def by (rule keeps_rules)

lemma runsOn_doList [keeps_rules]: "keeps (runsOn m sp P) (doList c ns sel)"
  unfolding doList_def by (rule keeps_rules)

lemma runsOn_doCreate [keeps_rules]:
  "P (CallCreate (wrap obj)) \<Longrightarrow> keeps (runsOn m sp P) (doCreate c wrap obj)"
  unfolding doCreate_def by (rule keeps_rules)

lemma runsOn_doUpdate [keeps_rules]:
  "P (CallUpdate (wrap obj)) \<Longrightarrow> keeps (runsOn m sp P) (doUpdate c wrap obj)"
  unfolding doUpdate_def by (rule keeps_rules)

lemma runsOn_doPatch [keeps_rules]:
  "P (CallPatch (wrap obj)) \<Longrightarrow> keeps (runsOn m sp P) (doPatch c wrap obj base)"
  unfolding doPatch_def by (rule keeps_rules)

lemma runsOn_doDelete [keeps_rules]:
  "P (CallDelete k key) \<Longrightarrow> keeps (runsOn m sp P) (doDelete c k key)"
  unfolding doDelete_def by (rule keeps_rules)

lemma keeps_unlessZero [keeps_rules]:
  "keeps I k \<Longrightarrow> keeps I (unlessZero r k)"
  unfolding unlessZero_def by (intro keeps_rules)

text \<open>What a read returns is an answer of the client.\<close>

lemma yields_apiRead:
  assumes "keeps I (apiRead f)" "\<And>v w w'. f w = (Inr v, w') \<Longrightarrow> Q v"
  shows "yields I (apiRead f) Q"
  unfolding yields_def
proof (intro allI impI conjI)
  fix s r s' assume "I s" and run: "apiRead f s = (r, s')"
  with assms(1) show "I s'" by (rule keepsD)
  fix v assume "r = Ok v"
  with run have "fst (f (st_world s)) = Inr v" by (auto simp: apiRead_def split: prod.splits)
  then show "Q v" using assms(2) [of "st_world s" v] by (metis prod.collapse)
qed

lemma yields_getAddon:
  "(\<And>a. addonMeta a = m \<Longrightarrow> Spec a = sp \<Longrightarrow> Q a) \<Longrightarrow> yields (runsOn m sp P) getAddon Q"
  by (auto simp: yields_def runsOn_def)

text \<open>
  What the operator relies on of the API server: an object is found under its own key, and a list
  holds only objects of the given namespace with the labels of the selector.
\<close>

definition gets_by_key :: "('o \<Rightarrow> ObjectMeta) \<Rightarrow> ('w, 'o) kclient \<Rightarrow> bool" where
  "gets_by_key meta c \<longleftrightarrow> (\<forall>key w x w'. kGet c key w = (Inr x, w') \<longrightarrow>
     Name (meta x) = key_Name key \<and> Namespace (meta x) = key_Namespace key)"

definition lists_by_label :: "('o \<Rightarrow> ObjectMeta) \<Rightarrow> ('w, 'o) kclient \<Rightarrow> bool" where
  "lists_by_label meta c \<longleftrightarrow> (\<forall>ns sel w xs w'. kList c ns sel w = (Inr xs, w') \<longrightarrow>
     (\<forall>x \<in> set xs. sel \<subseteq>\<^sub>m Labels (meta x) \<and> (ns = '''' \<or> Namespace (meta x) = ns)))"

lemma gets_by_keyD:
  "gets_by_key meta c \<Longrightarrow> kGet c key w = (Inr x, w') \<Longrightarrow> ObjectKeyFromObject (meta x) = key"
  unfolding gets_by_key_def ObjectKeyFromObject_def by (metis ObjectKey.surjective old.unit.exhaust)

lemma yields_doGet:
  assumes "gets_by_key meta c"
  shows "yields (runsOn m sp P) (doGet c key)
    (\<lambda>x. Name (meta x) = key_Name key \<and> Namespace (meta x) = key_Namespace key)"
  unfolding doGet_def
  by (rule yields_apiRead) (use assms in \<open>auto simp: gets_by_key_def intro: keeps_rules\<close>)

lemma yields_doList:
  assumes "lists_by_label meta c"
  shows "yields (runsOn m sp P) (doList c ns sel)
    (\<lambda>xs. \<forall>x \<in> set xs. sel \<subseteq>\<^sub>m Labels (meta x) \<and> (ns = '''' \<or> Namespace (meta x) = ns))"
  unfolding doList_def
  by (rule yields_apiRead) (use assms in \<open>unfold lists_by_label_def, blast intro: keeps_rules\<close>)+

definition env_laws :: "'w Env \<Rightarrow> bool" where
  "env_laws E \<longleftrightarrow> lib_laws (theLib E) \<and>
     gets_by_key ns_meta (k_Namespace (client E)) \<and> lists_by_label ns_meta (k_Namespace (client E)) \<and>
     gets_by_key sec_meta (k_Secret (client E)) \<and> lists_by_label sec_meta (k_Secret (client E)) \<and>
     gets_by_key sec_meta (k_Secret (uncachedClient E)) \<and>
     gets_by_key cs_meta (k_CatalogSource (client E)) \<and>
     gets_by_key sub_meta (k_Subscription (client E)) \<and>
     gets_by_key og_meta (k_OperatorGroup (client E)) \<and>
     gets_by_key np_meta (k_NetworkPolicy (client E)) \<and>
     gets_by_key ai_meta (k_AddonInstance (client E)) \<and>
     gets_by_key sm_meta (k_ServiceMonitor (client E)) \<and> lists_by_label sm_meta (k_ServiceMonitor (client E)) \<and>
     gets_by_key ms_meta (k_MonitoringStack (client E)) \<and>
     gets_by_key cot_meta (k_ClusterObjectTemplate (client E))"

lemma env_lawsD:
  assumes "env_laws E"
  shows "condition_laws (theLib E)" "label_laws (theLib E)" "equality_laws (theLib E)"
    "owner_laws (theLib E)" "finalizer_laws (theLib E)" "error_laws (theLib E)"
    "gets_by_key ns_meta (k_Namespace (client E))" "lists_by_label ns_meta (k_Namespace (client E))"
    "gets_by_key sec_meta (k_Secret (client E))" "lists_by_label sec_meta (k_Secret (client E))"
    "gets_by_key cs_meta (k_CatalogSource (client E))"
    "gets_by_key sub_meta (k_Subscription (client E))"
    "gets_by_key og_meta (k_OperatorGroup (client E))"
    "gets_by_key np_meta (k_NetworkPolicy (client E))"
    "gets_by_key ai_meta (k_AddonInstance (client E))"
    "gets_by_key sec_meta (k_Secret (uncachedClient E))"
    "gets_by_key sm_meta (k_ServiceMonitor (client E))" "lists_by_label sm_meta (k_ServiceMonitor (client E))"
    "gets_by_key ms_meta (k_MonitoringStack (client E))"
    "gets_by_key cot_meta (k_ClusterObjectTemplate (client E))"
  using assms lib_lawsD [of "theLib E"] by (simp_all add: env_laws_def)

text \<open>
  The invariant of code that only talks to the API: the Addon in memory and the clock are left
  alone.
\<close>

definition quiet :: "Addon \<Rightarrow> nat \<Rightarrow> (apiCall \<Rightarrow> bool) \<Rightarrow> 'w st \<Rightarrow> bool" where
  "quiet a n P s \<longleftrightarrow> st_addon s = a \<and> st_ticks s = n \<and> list_all (\<lambda>(c, _). P c) (st_calls s)"

lemma quiet_apiRead [keeps_rules]: "keeps (quiet a n P) (apiRead f)"
  by (auto simp: keeps_def quiet_def apiRead_def split: prod.splits)

lemma quiet_apiWrite [keeps_rules]: "P c \<Longrightarrow> keeps (quiet a n P) (apiWrite c f)"
  by (auto simp: keeps_def quiet_def apiWrite_def split: prod.splits)

lemma quiet_getAddon [keeps_rules]:
  "keeps (quiet a n P) (k a) \<Longrightarrow> keeps (quiet a n P) (bindp getAddon k)"
  by (auto simp: keeps_def quiet_def getAddon_def)

lemma quiet_typed [keeps_rules]:
  "keeps (quiet a n P) (doGet c key)" "keeps (quiet a n P) (doList c' ns sel)"
  unfolding doGet_def doList_def by (intro keeps_rules)+

lemma quiet_doCreate [keeps_rules]:
  "P (CallCreate (wrap obj)) \<Longrightarrow> keeps (quiet a n P) (doCreate c wrap obj)"
  unfolding doCreate_def by (rule keeps_rules)

lemma quiet_doUpdate [keeps_rules]:
  "P (CallUpdate (wrap obj)) \<Longrightarrow> keeps (quiet a n P) (doUpdate c wrap obj)"
  unfolding doUpdate_def by (rule keeps_rules)

lemma quiet_doPatch [keeps_rules]:
  "P (CallPatch (wrap obj)) \<Longrightarrow> keeps (quiet a n P) (doPatch c wrap obj base)"
  unfolding doPatch_def by (rule keeps_rules)

lemma quiet_doDelete [keeps_rules]:
  "P (CallDelete k key) \<Longrightarrow> keeps (quiet a n P) (doDelete c k key)"
  unfolding doDelete_def by (rule keeps_rules)

lemma quiet_addon:
  assumes "\<And>a n. keeps (quiet a n (\<lambda>_. True)) m" "m s = (r, s')"
  shows "st_addon s' = st_addon s" "st_ticks s' = st_ticks s"
  using keepsD [OF assms(1), of "st_addon s" "st_ticks s" s r s'] assms(2)
  by (auto simp: quiet_def list_all_iff)

text \<open>Code that only talks to the API keeps the identity of the Addon.\<close>

lemma quiet_runsOn:
  assumes "\<And>a n. keeps (quiet a n P) m"
  shows "keeps (runsOn mt sp P) m"
proof (rule keepsI)
  fix s r s' assume "runsOn mt sp P s" and run: "m s = (r, s')"
  then have "quiet (st_addon s) (st_ticks s) P s" by (simp add: quiet_def runsOn_def)
  from keepsD [OF assms this run] \<open>runsOn mt sp P s\<close> show "runsOn mt sp P s'"
    by (simp add: quiet_def runsOn_def)
qed

section \<open>Calls that were made\<close>

text \<open>A call that was made stays on record.\<close>

definition recorded :: "apiCall \<times> error option \<Rightarrow> 'w st \<Rightarrow> bool" where
  "recorded x s \<longleftrightarrow> x \<in> set (st_calls s)"

lemma recorded_apiRead [keeps_rules]: "keeps (recorded x) (apiRead f)"
  by (auto simp: keeps_def recorded_def apiRead_def split: prod.splits)

lemma recorded_apiWrite [keeps_rules]: "keeps (recorded x) (apiWrite c f)"
  by (auto simp: keeps_def recorded_def apiWrite_def split: prod.splits)

lemma recorded_mutate [keeps_rules]: "keeps (recorded x) (mutate E f)"
  by (auto simp: keeps_def recorded_def)

lemma recorded_timeNow [keeps_rules]: "keeps (recorded x) (timeNow E)"
  by (auto simp: keeps_def recorded_def)

lemma recorded_getAddon [keeps_rules]: "keeps (recorded x) getAddon"
  unfolding getAddon_def by (rule keeps_gets)

lemma recorded_typed [keeps_rules]:
  "keeps (recorded x) (doGet c1 key)" "keeps (recorded x) (doList c2 ns sel)"
  "keeps (recorded x) (doCreate c3 wrap obj)" "keeps (recorded x) (doUpdate c4 wrap obj')"
  "keeps (recorded x) (doPatch c5 wrap obj'' base)" "keeps (recorded x) (doDelete c6 k key')"
  unfolding typed_calls by (intro keeps_rules)+

lemma recorded_unlessZero:
  "keeps (recorded x) k \<Longrightarrow> keeps (recorded x) (unlessZero r k)"
  by (rule keeps_unlessZero)

text \<open>A write that succeeded is on record without an error.\<close>

lemma write_recorded:
  "apiWrite c f s = (Ok v, s') \<Longrightarrow> recorded (c, None) s'"
  "doCreate kc wrap obj s = (Ok v', s') \<Longrightarrow> recorded (CallCreate (wrap obj), None) s'"
  "doUpdate kc wrap obj s = (Ok v', s') \<Longrightarrow> recorded (CallUpdate (wrap obj), None) s'"
  "doPatch kc wrap obj base s = (Ok v', s') \<Longrightarrow> recorded (CallPatch (wrap obj), None) s'"
  "doDelete kc k key s = (Ok v'', s') \<Longrightarrow> recorded (CallDelete k key, None) s'"
  by (auto simp: typed_calls apiWrite_def recorded_def split: prod.splits)

lemma doGet_ok:
  "gets_by_key meta c \<Longrightarrow> doGet c key s = (Ok x, s') \<Longrightarrow>
     Name (meta x) = key_Name key \<and> Namespace (meta x) = key_Namespace key"
  by (force simp: doGet_def apiRead_def gets_by_key_def answer_def split: prod.splits sum.splits)

section \<open>Invariants of the Addon and of the record of calls\<close>

definition runInv :: "(Addon \<Rightarrow> bool) \<Rightarrow> ((apiCall \<times> error option) list \<Rightarrow> bool) \<Rightarrow> 'w st \<Rightarrow> bool" where
  "runInv A J s \<longleftrightarrow> A (st_addon s) \<and> J (st_calls s)"

definition stable :: "(Addon \<Rightarrow> bool) \<Rightarrow> (Addon \<Rightarrow> Addon) \<Rightarrow> bool" where
  "stable A f \<longleftrightarrow> (\<forall>a. A a \<longrightarrow> A (f a))"

definition admits :: "((apiCall \<times> error option) list \<Rightarrow> bool) \<Rightarrow> apiCall \<Rightarrow> bool" where
  "admits J c \<longleftrightarrow> (\<forall>cs e. J cs \<longrightarrow> J (cs @ [(c, e)]))"

lemma admits_any [simp]: "admits (\<lambda>_. True) c"
  by (simp add: admits_def)

lemma stable_any [simp]: "stable (\<lambda>_. True) f"
  by (simp add: stable_def)

lemma runInv_apiRead [keeps_rules]: "keeps (runInv A J) (apiRead f)"
  by (auto simp: keeps_def runInv_def apiRead_def split: prod.splits)

lemma runInv_apiWrite [keeps_rules]: "admits J c \<Longrightarrow> keeps (runInv A J) (apiWrite c f)"
  by (auto simp: keeps_def runInv_def apiWrite_def admits_def split: prod.splits)

lemma runInv_mutate [keeps_rules]: "(\<And>t. stable A (f t)) \<Longrightarrow> keeps (runInv A J) (mutate E f)"
  by (auto simp: keeps_def runInv_def stable_def)

lemma runInv_modify_addon:
  "stable A f \<Longrightarrow> keeps (runInv A J) (modify (\<lambda>s. s\<lparr>st_addon := f (st_addon s)\<rparr>))"
  by (auto simp: keeps_def runInv_def stable_def)

lemma runInv_timeNow [keeps_rules]: "keeps (runInv A J) (timeNow E)"
  by (auto simp: keeps_def runInv_def)

lemma runInv_getAddon [keeps_rules]: "keeps (runInv A J) getAddon"
  unfolding getAddon_def by (rule keeps_gets)

lemma runInv_reads [keeps_rules]:
  "keeps (runInv A J) (doGet c1 key)" "keeps (runInv A J) (doList c2 ns sel)"
  unfolding typed_calls by (intro keeps_rules)+

lemma runInv_doCreate [keeps_rules]:
  "admits J (CallCreate (wrap obj)) \<Longrightarrow> keeps (runInv A J) (doCreate c wrap obj)"
  unfolding doCreate_def by (rule keeps_rules)

lemma runInv_doUpdate [keeps_rules]:
  "admits J (CallUpdate (wrap obj)) \<Longrightarrow> keeps (runInv A J) (doUpdate c wrap obj)"
  unfolding doUpdate_def by (rule keeps_rules)

lemma runInv_doPatch [keeps_rules]:
  "admits J (CallPatch (wrap obj)) \<Longrightarrow> keeps (runInv A J) (doPatch c wrap obj base)"
  unfolding doPatch_def by (rule keeps_rules)

lemma runInv_doDelete [keeps_rules]:
  "admits J (CallDelete k key) \<Longrightarrow> keeps (runInv A J) (doDelete c k key)"
  unfolding doDelete_def by (rule keeps_rules)

end
