(* ===== verification/Common_Utils.thy ===== *)
theory Common_Utils
  imports Runtime
begin

text \<open>
  \<open>controllers/common_utils.go\<close>, \<open>errors.go\<close> and \<open>defaults.go\<close>: the labels that mark an object as
  belonging to an Addon, the selector that finds such objects again, ownership, and the reasons
  the reconcilers attach to their errors.
\<close>

section \<open>Constants\<close>

abbreviation CommonManagedByLabel :: string where
  "CommonManagedByLabel \<equiv> ''app.kubernetes.io/managed-by''"
abbreviation CommonManagedByValue :: string where
  "CommonManagedByValue \<equiv> ''addon-operator''"
abbreviation CommonCacheLabel :: string where
  "CommonCacheLabel \<equiv> ''addons.managed.openshift.io/cached''"
abbreviation CommonCacheValue :: string where
  "CommonCacheValue \<equiv> ''addon-operator''"
abbreviation CommonInstanceLabel :: string where
  "CommonInstanceLabel \<equiv> ''app.kubernetes.io/instance''"
abbreviation MSOLabel :: string where
  "MSOLabel \<equiv> ''addons.managed.openshift.io/mso''"
abbreviation DefaultOperatorGroupName :: string where
  "DefaultOperatorGroupName \<equiv> ''redhat-layered-product-og''"

abbreviation ErrNotOwnedByUs :: error where
  "ErrNotOwnedByUs \<equiv> ErrorString ''object is not owned by us''"
abbreviation ErrGetAddon :: error where
  "ErrGetAddon \<equiv> ControllerReconcileError ''err_get_addon''"
abbreviation ErrSyncWithExternalAPIs :: error where
  "ErrSyncWithExternalAPIs \<equiv> ControllerReconcileError ''err_sync_with_external_apis''"
abbreviation ErrOCMClientRequest :: error where
  "ErrOCMClientRequest \<equiv> ControllerReconcileError ''err_ocm_client_request''"
abbreviation ErrUpdateAddon :: error where
  "ErrUpdateAddon \<equiv> ControllerReconcileError ''err_update_addon''"
abbreviation ErrNotifyAddon :: error where
  "ErrNotifyAddon \<equiv> ControllerReconcileError ''err_notify_addon''"
abbreviation ErrAckReceivedFromAddon :: error where
  "ErrAckReceivedFromAddon \<equiv> ControllerReconcileError ''err_ack_received_from_addon''"
abbreviation ErrEnsureCreateAddonInstance :: error where
  "ErrEnsureCreateAddonInstance \<equiv> ControllerReconcileError ''err_ensure_create_addoninstance''"
abbreviation ErrEnsureCreateServiceMonitor :: error where
  "ErrEnsureCreateServiceMonitor \<equiv> ControllerReconcileError ''err_ensure_servicemonitor''"
abbreviation ErrEnsureDeleteServiceMonitor :: error where
  "ErrEnsureDeleteServiceMonitor \<equiv> ControllerReconcileError ''err_ensure_delete_servicemonitor''"
abbreviation ErrEnsureCreateMonitoringStack :: error where
  "ErrEnsureCreateMonitoringStack \<equiv> ControllerReconcileError ''err_ensure_create_monitoringstack''"
abbreviation ErrEnsureOperatorGroup :: error where
  "ErrEnsureOperatorGroup \<equiv> ControllerReconcileError ''err_ensure_operator_group''"
abbreviation ErrEnsureNetworkPolicy :: error where
  "ErrEnsureNetworkPolicy \<equiv> ControllerReconcileError ''err_ensure_networkpolicy''"
abbreviation ErrEnsureCatalogSource :: error where
  "ErrEnsureCatalogSource \<equiv> ControllerReconcileError ''err_ensure_catalogsource''"
abbreviation ErrEnsureAdditionalCatalogSource :: error where
  "ErrEnsureAdditionalCatalogSource \<equiv> ControllerReconcileError ''err_ensure_additional_catalogsource''"
abbreviation ErrReconcileSubscription :: error where
  "ErrReconcileSubscription \<equiv> ControllerReconcileError ''err_reconcile_subscription''"
abbreviation ErrObserveCSV :: error where
  "ErrObserveCSV \<equiv> ControllerReconcileError ''err_observe_csv''"
abbreviation ErrEnsureDeleteClusterObjectTemplate :: error where
  "ErrEnsureDeleteClusterObjectTemplate \<equiv>
     ControllerReconcileError ''err_ensure_delete_of_clusterobjecttemplate''"
abbreviation ErrReconcileClusterObjectTemplate :: error where
  "ErrReconcileClusterObjectTemplate \<equiv> ControllerReconcileError ''err_reconcile_cluster_object_template''"
abbreviation ErrCleanupUnknownSecrets :: error where
  "ErrCleanupUnknownSecrets \<equiv> ControllerReconcileError ''err_cleanup_unknown_secrets''"
abbreviation ErrGetDestinationSecretsWithoutNamespace :: error where
  "ErrGetDestinationSecretsWithoutNamespace \<equiv>
     ControllerReconcileError ''err_get_destination_secrets_without_namespace''"
abbreviation ErrReconcileSecretsInAddonNamespaces :: error where
  "ErrReconcileSecretsInAddonNamespaces \<equiv>
     ControllerReconcileError ''err_reconcile_secrets_in_addon_namespaces''"
abbreviation ErrGetAddonInstance :: error where
  "ErrGetAddonInstance \<equiv> ControllerReconcileError ''err_get_addoninstance''"
abbreviation ErrUpdateAddonInstanceStatus :: error where
  "ErrUpdateAddonInstanceStatus \<equiv> ControllerReconcileError ''err_update_addon_instance_status''"
abbreviation ErrExecuteAddonInstanceReconcilePhase :: error where
  "ErrExecuteAddonInstanceReconcilePhase \<equiv> ControllerReconcileError ''err_execute_addon_instance_reconcile_phase''"
abbreviation ErrGetDefaultAddonOperator :: error where
  "ErrGetDefaultAddonOperator \<equiv> ControllerReconcileError ''err_get_default_addon_operator''"
abbreviation ErrAddonOperatorHandleGlobalPause :: error where
  "ErrAddonOperatorHandleGlobalPause \<equiv> ControllerReconcileError ''err_addon_operator_handle_global_pause''"
abbreviation ErrCreateOCMClient :: error where
  "ErrCreateOCMClient \<equiv> ControllerReconcileError ''err_create_ocm_client''"
abbreviation ErrReportAddonOperatorStatus :: error where
  "ErrReportAddonOperatorStatus \<equiv> ControllerReconcileError ''err_report_addonoperator_status''"

section \<open>Labels and ownership\<close>

text \<open>The metadata of an object with the common labels or annotations of an Addon.\<close>

definition AddCommonLabels :: "lib \<Rightarrow> Addon \<Rightarrow> ObjectMeta \<Rightarrow> ObjectMeta" where
  "AddCommonLabels L addon obj =
     (let labels = (Labels obj)(CommonManagedByLabel \<mapsto> CommonManagedByValue,
                                CommonCacheLabel \<mapsto> CommonCacheValue,
                                CommonInstanceLabel \<mapsto> Name (addonMeta addon));
          labels = (if CommonLabels (Spec addon) \<noteq> Map.empty
                    then LabelsMerge L labels (CommonLabels (Spec addon)) else labels)
      in obj\<lparr>Labels := labels\<rparr>)"

definition AddCommonAnnotations :: "lib \<Rightarrow> Addon \<Rightarrow> ObjectMeta \<Rightarrow> ObjectMeta" where
  "AddCommonAnnotations L addon obj =
     (if CommonAnnotations (Spec addon) = Map.empty then obj
      else obj\<lparr>Annotations := LabelsMerge L (Annotations obj) (CommonAnnotations (Spec addon))\<rparr>)"

definition CommonLabelsAsLabelSelector :: "Addon \<Rightarrow> labels" where
  "CommonLabelsAsLabelSelector addon =
     [CommonManagedByLabel \<mapsto> CommonManagedByValue,
      CommonCacheLabel \<mapsto> CommonCacheValue,
      CommonInstanceLabel \<mapsto> Name (addonMeta addon)]"

definition HasSameController :: "lib \<Rightarrow> ObjectMeta \<Rightarrow> ObjectMeta \<Rightarrow> bool" where
  "HasSameController L objA objB =
     (case (GetControllerOf L objA, GetControllerOf L objB) of
        (Some a, Some b) \<Rightarrow> or_UID a = or_UID b
      | _ \<Rightarrow> False)"

text \<open>\<open>labels.Set.AsSelector\<close>: an object matches when it has every label of the set.\<close>

definition selectorMatches :: "labels \<Rightarrow> ObjectMeta \<Rightarrow> bool" where
  "selectorMatches sel obj \<longleftrightarrow> sel \<subseteq>\<^sub>m Labels obj"

text \<open>An Addon whose \<open>commonLabels\<close> leave the three labels of the operator alone.\<close>

definition reservedLabels :: "string set" where
  "reservedLabels = {CommonManagedByLabel, CommonCacheLabel, CommonInstanceLabel}"

section \<open>Lemmas\<close>

lemma AddCommonLabels_frame [simp]:
  "Name (AddCommonLabels L addon obj) = Name obj"
  "Namespace (AddCommonLabels L addon obj) = Namespace obj"
  "Annotations (AddCommonLabels L addon obj) = Annotations obj"
  "OwnerReferences (AddCommonLabels L addon obj) = OwnerReferences obj"
  by (simp_all add: AddCommonLabels_def Let_def)

lemma AddCommonAnnotations_frame [simp]:
  "Name (AddCommonAnnotations L addon obj) = Name obj"
  "Namespace (AddCommonAnnotations L addon obj) = Namespace obj"
  "Labels (AddCommonAnnotations L addon obj) = Labels obj"
  "OwnerReferences (AddCommonAnnotations L addon obj) = OwnerReferences obj"
  by (simp_all add: AddCommonAnnotations_def)

text \<open>The labels an object gets, as one map.\<close>

lemma AddCommonLabels_labels:
  assumes "label_laws L"
  shows "Labels (AddCommonLabels L addon obj) =
     Labels obj ++ CommonLabelsAsLabelSelector addon ++ CommonLabels (Spec addon)"
  using assms
  by (auto simp: AddCommonLabels_def CommonLabelsAsLabelSelector_def Let_def fun_eq_iff map_add_def
      split: option.splits)

lemma selector_finds_labelled:
  assumes "label_laws L" "dom (CommonLabels (Spec addon)) \<inter> reservedLabels = {}"
  shows "selectorMatches (CommonLabelsAsLabelSelector addon) (AddCommonLabels L addon obj)"
proof -
  have "dom (CommonLabelsAsLabelSelector addon) = reservedLabels"
    by (auto simp: CommonLabelsAsLabelSelector_def reservedLabels_def)
  with assms(2) have disj: "dom (CommonLabels (Spec addon)) \<inter> dom (CommonLabelsAsLabelSelector addon) = {}"
    by simp
  then have "CommonLabelsAsLabelSelector addon \<subseteq>\<^sub>m
      Labels obj ++ CommonLabelsAsLabelSelector addon ++ CommonLabels (Spec addon)"
    by (auto simp: map_le_def map_add_def dom_def split: option.splits)
  then show ?thesis
    by (simp add: selectorMatches_def AddCommonLabels_labels [OF assms(1)])
qed

lemma HasSameController_iff:
  "HasSameController L a b \<longleftrightarrow>
     (\<exists>x y. GetControllerOf L a = Some x \<and> GetControllerOf L b = Some y \<and> or_UID x = or_UID y)"
  by (auto simp: HasSameController_def split: option.splits)

lemma HasSameController_owner_cong:
  "owner_laws L \<Longrightarrow> OwnerReferences a = OwnerReferences a' \<Longrightarrow>
     HasSameController L a b = HasSameController L a' b"
  using controller_cong [of L a a'] by (simp add: HasSameController_def)

lemma merge_self [simp]: "(a :: labels) ++ a = a"
  by (auto simp: fun_eq_iff map_add_def split: option.splits)

text \<open>Two merges with the same labels are one.\<close>

lemma merge_idem [simp]: "(a ++ b) ++ b = (a :: labels) ++ b"
  by (auto simp: fun_eq_iff map_add_def split: option.splits)

section \<open>Owned objects\<close>

text \<open>An object that belongs to an Addon: the Addon is its controller, and it has its labels.\<close>

definition ownedMeta :: "lib \<Rightarrow> Addon \<Rightarrow> ObjectMeta \<Rightarrow> bool" where
  "ownedMeta L a om \<longleftrightarrow>
     (\<exists>ref. GetControllerOf L om = Some ref \<and> or_UID ref = UID (addonMeta a)) \<and>
     CommonLabelsAsLabelSelector a ++ CommonLabels (Spec a) \<subseteq>\<^sub>m Labels om"

text \<open>Objects the operator does not label have the Addon as their controller.\<close>

definition ownedBy :: "lib \<Rightarrow> Addon \<Rightarrow> ObjectMeta \<Rightarrow> bool" where
  "ownedBy L a om \<longleftrightarrow> (\<exists>ref. GetControllerOf L om = Some ref \<and> or_UID ref = UID (addonMeta a))"

text \<open>The Addon a run works on, up to its status.\<close>

definition sameAddon :: "Addon \<Rightarrow> Addon \<Rightarrow> bool" where
  "sameAddon a b \<longleftrightarrow> addonMeta a = addonMeta b \<and> Spec a = Spec b"

abbreviation runsFor :: "Addon \<Rightarrow> (apiCall \<Rightarrow> bool) \<Rightarrow> 'w st \<Rightarrow> bool" where
  "runsFor a P \<equiv> runsOn (addonMeta a) (Spec a) P"

lemma selector_cong: "sameAddon a b \<Longrightarrow> CommonLabelsAsLabelSelector a = CommonLabelsAsLabelSelector b"
  by (simp add: CommonLabelsAsLabelSelector_def sameAddon_def)

lemma ownedMeta_cong: "sameAddon a b \<Longrightarrow> ownedMeta L a om = ownedMeta L b om"
  by (simp add: ownedMeta_def CommonLabelsAsLabelSelector_def sameAddon_def)

lemma runsFor_getAddon:
  "(\<And>a. sameAddon a b \<Longrightarrow> keeps (runsFor b P) (k a)) \<Longrightarrow> keeps (runsFor b P) (bindp getAddon k)"
  by (rule runsOn_getAddon) (simp add: sameAddon_def)

lemma yields_runsFor_getAddon: "yields (runsFor b P) getAddon (\<lambda>a. sameAddon a b)"
  by (rule yields_getAddon) (simp add: sameAddon_def)

text \<open>The metadata a new object gets, and the metadata of an object that is adopted.\<close>

lemma ownedMeta_new:
  assumes "label_laws L" "owner_laws L"
    and "SetControllerReference L (addonMeta a) (AddCommonAnnotations L a (AddCommonLabels L a om)) = Inr om'"
  shows "ownedMeta L a om'" and "Name om' = Name om" and "Namespace om' = Namespace om"
proof -
  obtain ref where "GetControllerOf L om' = Some ref" "or_UID ref = UID (addonMeta a)"
    by (rule controller_set [OF assms(2,3)])
  moreover have "Labels om' = Labels om ++ (CommonLabelsAsLabelSelector a ++ CommonLabels (Spec a))"
    using controller_set_meta(3) [OF assms(2,3)] assms(1) by (simp add: AddCommonLabels_labels)
  ultimately show "ownedMeta L a om'" by (simp add: ownedMeta_def del: map_add_assoc)
  show "Name om' = Name om" "Namespace om' = Namespace om"
    using controller_set_meta(1,2) [OF assms(2,3)] by simp_all
qed

lemma ownedMeta_merge:
  assumes "owner_laws L" "ownedMeta L a om"
    and "OwnerReferences cm' = OwnerReferences om" "Labels cm' = ls ++ Labels om"
  shows "ownedMeta L a cm'"
  using assms(2,4) controller_cong [OF assms(1,3)] map_le_trans [OF _ map_le_map_add]
  by (auto simp: ownedMeta_def)

lemma ownedMeta_found:
  assumes "ownedMeta L a om" "dom (CommonLabels (Spec a)) \<inter> reservedLabels = {}"
  shows "selectorMatches (CommonLabelsAsLabelSelector a) om"
proof -
  have "dom (CommonLabelsAsLabelSelector a) = reservedLabels"
    by (auto simp: CommonLabelsAsLabelSelector_def reservedLabels_def)
  with assms(2) have "CommonLabelsAsLabelSelector a \<subseteq>\<^sub>m CommonLabelsAsLabelSelector a ++ CommonLabels (Spec a)"
    by (auto simp: map_le_def map_add_def dom_def split: option.splits)
  with assms(1) show ?thesis
    unfolding ownedMeta_def selectorMatches_def by (blast intro: map_le_trans)
qed


lemma ownedMeta_ownedBy: "ownedMeta L a om \<Longrightarrow> ownedBy L a om"
  by (simp add: ownedMeta_def ownedBy_def)

lemma ownedBy_new:
  assumes "owner_laws L" "SetControllerReference L (addonMeta b) om = Inr om'" "sameAddon b a"
  shows "ownedBy L a om'"
  using controller_set [OF assms(1,2)] assms(3) by (metis ownedBy_def sameAddon_def)

lemma ownedBy_cong: "owner_laws L \<Longrightarrow> OwnerReferences om = OwnerReferences om' \<Longrightarrow> ownedBy L a om = ownedBy L a om'"
  using controller_cong [of L om om'] by (simp add: ownedBy_def)

text \<open>The metadata of a new object that gets the labels but no annotations.\<close>

lemma ownedMeta_new_labels:
  assumes "label_laws L" "owner_laws L"
    and "SetControllerReference L (addonMeta b) (AddCommonLabels L b om) = Inr om'" "sameAddon b a"
  shows "ownedMeta L a om'" and "ObjectKeyFromObject om' = ObjectKeyFromObject om"
proof -
  obtain ref where "GetControllerOf L om' = Some ref" "or_UID ref = UID (addonMeta b)"
    by (rule controller_set [OF assms(2,3)])
  moreover have "Labels om' = Labels om ++ (CommonLabelsAsLabelSelector b ++ CommonLabels (Spec b))"
    using controller_set_meta(3) [OF assms(2,3)] assms(1) by (simp add: AddCommonLabels_labels)
  ultimately have "ownedMeta L b om'" by (simp add: ownedMeta_def del: map_add_assoc)
  with assms(4) show "ownedMeta L a om'" by (simp add: ownedMeta_cong)
  show "ObjectKeyFromObject om' = ObjectKeyFromObject om"
    using controller_set_meta(1,2) [OF assms(2,3)] by (simp add: ObjectKeyFromObject_def)
qed

lemma yields_get:
  assumes "gets_by_key meta c"
  shows "yields (runsOn m sp P) (doGet c key) (\<lambda>x. ObjectKeyFromObject (meta x) = key)"
  unfolding doGet_def
  by (rule yields_apiRead) (auto intro: keeps_rules gets_by_keyD [OF assms])

end
