(* ===== verification/Addon_Status.thy ===== *)
theory Addon_Status
  imports Common_Utils "HOL-Library.Word"
begin

text \<open>
  \<open>controllers/addon/utils.go\<close> and the methods of \<open>api/v1alpha1/addon_types.go\<close>: how the
  reconcilers report the state of an Addon in its status, how they read its install
  configuration, the names they derive from it, and the hash of the status reported to OCM.
  The functions that report are functions on the Addon; the extra argument is the time
  \<open>SetStatusCondition\<close> reads. They run in a reconcile call through \<open>mutate\<close>.
\<close>

unbundle bit_operations_syntax

section \<open>Reporting\<close>

definition setCondition :: "lib \<Rightarrow> time \<Rightarrow> Condition \<Rightarrow> Addon \<Rightarrow> Addon" where
  "setCondition L now c a =
     a\<lparr>Status := (Status a)\<lparr>Conditions := SetStatusCondition L now (Conditions (Status a)) c\<rparr>\<rparr>"

definition removeCondition :: "lib \<Rightarrow> string \<Rightarrow> Addon \<Rightarrow> Addon" where
  "removeCondition L t a =
     a\<lparr>Status := (Status a)\<lparr>Conditions := RemoveStatusCondition L (Conditions (Status a)) t\<rparr>\<rparr>"

definition findCondition :: "lib \<Rightarrow> string \<Rightarrow> Addon \<Rightarrow> Condition option" where
  "findCondition L t a = FindStatusCondition L (Conditions (Status a)) t"

definition condition :: "string \<Rightarrow> ConditionStatus \<Rightarrow> string \<Rightarrow> string \<Rightarrow> int \<Rightarrow> Condition" where
  "condition t st reason msg gen = \<lparr>c_Type = t, c_Status = st, c_Reason = reason, c_Message = msg,
     c_ObservedGeneration = gen, c_LastTransitionTime = None\<rparr>"

text \<open>\<open>addon.Status.ObservedGeneration = addon.Generation\<close>, \<open>addon.Status.Phase = p\<close>.\<close>

definition observeGeneration :: "Addon \<Rightarrow> Addon" where
  "observeGeneration a = a\<lparr>Status := (Status a)\<lparr>ObservedGeneration := Generation (addonMeta a)\<rparr>\<rparr>"

definition setPhase :: "AddonPhase \<Rightarrow> Addon \<Rightarrow> Addon" where
  "setPhase p a = a\<lparr>Status := (Status a)\<lparr>Phase := p\<rparr>\<rparr>"

definition reportObservedVersion :: "Addon \<Rightarrow> Addon" where
  "reportObservedVersion a = a\<lparr>Status := (Status a)\<lparr>ObservedVersion := Version (Spec a)\<rparr>\<rparr>"

definition reportReadinessStatus :: "lib \<Rightarrow> time \<Rightarrow> Addon \<Rightarrow> Addon" where
  "reportReadinessStatus L now a =
     (let a = setCondition L now (condition Available ConditionTrue AddonReasonFullyReconciled
                ''All components are ready.'' (Generation (addonMeta a))) a;
          a = setPhase PhaseReady (observeGeneration a)
      in a\<lparr>Status := (Status a)\<lparr>ObservedVersion := Version (Spec a)\<rparr>\<rparr>)"

definition reportTerminationStatus :: "lib \<Rightarrow> time \<Rightarrow> Addon \<Rightarrow> Addon" where
  "reportTerminationStatus L now a =
     (let a = setCondition L now (condition Available ConditionFalse AddonReasonTerminating
                '''' (Generation (addonMeta a))) a
      in setPhase PhaseTerminating (observeGeneration a))"

text \<open>\<open>ObservedGeneration\<close> is not set in the condition of a configuration error.\<close>

definition reportConfigurationError :: "lib \<Rightarrow> string \<Rightarrow> time \<Rightarrow> Addon \<Rightarrow> Addon" where
  "reportConfigurationError L message now a =
     (let a = setCondition L now (condition Available ConditionFalse AddonReasonConfigError message 0) a
      in setPhase PhaseError (observeGeneration a))"

definition reportAddonPauseStatus :: "lib \<Rightarrow> string \<Rightarrow> time \<Rightarrow> Addon \<Rightarrow> Addon" where
  "reportAddonPauseStatus L reason now a =
     observeGeneration (setCondition L now
       (condition PausedCondition ConditionTrue reason '''' (Generation (addonMeta a))) a)"

definition reportAddonReadyToBeDeletedStatus :: "lib \<Rightarrow> ConditionStatus \<Rightarrow> time \<Rightarrow> Addon \<Rightarrow> Addon" where
  "reportAddonReadyToBeDeletedStatus L value now a =
     (if value = ConditionTrue
      then observeGeneration (setCondition L now
        (condition ReadyToBeDeleted value AddonReasonReadyToBeDeleted
           ''Addon is ready to be deleted.'' (Generation (addonMeta a))) a)
      else observeGeneration (setCondition L now
        (condition ReadyToBeDeleted value AddonReasonNotReadyToBeDeleted
           ''Addon is not yet ready to be deleted.'' (Generation (addonMeta a))) a))"

definition reportAddonDeletionTimedOut :: "lib \<Rightarrow> time \<Rightarrow> Addon \<Rightarrow> Addon" where
  "reportAddonDeletionTimedOut L now a =
     observeGeneration (setCondition L now
       (condition DeleteTimeout ConditionTrue AddonReasonDeletionTimedOut
          ''Addon deletion has timed out.'' (Generation (addonMeta a))) a)"

definition removeAddonPauseCondition :: "lib \<Rightarrow> Addon \<Rightarrow> Addon" where
  "removeAddonPauseCondition L a = observeGeneration (removeCondition L PausedCondition a)"

definition reportLastObservedAvailableCSV :: "string \<Rightarrow> Addon \<Rightarrow> Addon" where
  "reportLastObservedAvailableCSV csvName a =
     a\<lparr>Status := (Status a)\<lparr>LastObservedAvailableCSV := csvName\<rparr>\<rparr>"

definition reportAddonUpgradeSucceeded :: "lib \<Rightarrow> time \<Rightarrow> Addon \<Rightarrow> Addon" where
  "reportAddonUpgradeSucceeded L now a =
     (if findCondition L UpgradeStarted a \<noteq> None
      then observeGeneration (setCondition L now
        (condition UpgradeSucceeded ConditionTrue AddonReasonUpgradeSucceeded
           ''Addon upgrade has succeeded.'' (Generation (addonMeta a)))
        (removeCondition L UpgradeStarted a))
      else a)"

definition reportAddonUpgradeStarted :: "lib \<Rightarrow> time \<Rightarrow> Addon \<Rightarrow> Addon" where
  "reportAddonUpgradeStarted L now a =
     (let a = (if findCondition L UpgradeSucceeded a \<noteq> None
               then removeCondition L UpgradeSucceeded a else a)
      in observeGeneration (setCondition L now
        (condition UpgradeStarted ConditionTrue AddonReasonUpgradeStarted
           ''Addon upgrade has started.'' (Generation (addonMeta a))) a))"

definition reportUninstalledCondition :: "lib \<Rightarrow> time \<Rightarrow> Addon \<Rightarrow> Addon" where
  "reportUninstalledCondition L now a =
     (if findCondition L Installed a \<noteq> None
      then observeGeneration (setCondition L now
        (condition Installed ConditionFalse AddonReasonNotInstalled
           ''Addon has been uninstalled.'' (Generation (addonMeta a))) a)
      else a)"

definition reportInstalledCondition :: "lib \<Rightarrow> time \<Rightarrow> Addon \<Rightarrow> Addon" where
  "reportInstalledCondition L now a =
     observeGeneration (setCondition L now
       (condition Installed ConditionTrue AddonReasonInstalled
          ''Addon has been successfully installed.'' (Generation (addonMeta a))) a)"

definition addonUpgradeStarted :: "lib \<Rightarrow> Addon \<Rightarrow> bool" where
  "addonUpgradeStarted L a =
     (case findCondition L UpgradeStarted a of
        Some c \<Rightarrow> c_Status c = ConditionTrue
      | None \<Rightarrow> False)"

definition addonIsBeingUpgraded :: "Addon \<Rightarrow> bool" where
  "addonIsBeingUpgraded a =
     (if Version (Spec a) \<noteq> '''' \<and> ObservedVersion (Status a) \<noteq> ''''
      then Version (Spec a) \<noteq> ObservedVersion (Status a)
      else False)"

definition installedConditionMissing :: "lib \<Rightarrow> Addon \<Rightarrow> bool" where
  "installedConditionMissing L a = (findCondition L Installed a = None)"

definition reportInstalledConditionFalse :: "lib \<Rightarrow> time \<Rightarrow> Addon \<Rightarrow> Addon" where
  "reportInstalledConditionFalse L now a =
     observeGeneration (setCondition L now
       (condition Installed ConditionFalse AddonReasonNotInstalled
          ''Addon is not yet installed.'' (Generation (addonMeta a))) a)"

definition reportPendingStatus :: "lib \<Rightarrow> string \<Rightarrow> string \<Rightarrow> time \<Rightarrow> Addon \<Rightarrow> Addon" where
  "reportPendingStatus L reason msg now a =
     setPhase PhasePending (observeGeneration (setCondition L now
       (condition Available ConditionFalse reason msg (Generation (addonMeta a))) a))"

definition reportCatalogSourceUnreadinessStatus :: "lib \<Rightarrow> string \<Rightarrow> time \<Rightarrow> Addon \<Rightarrow> Addon" where
  "reportCatalogSourceUnreadinessStatus L message =
     reportPendingStatus L AddonReasonUnreadyCatalogSource
       (''CatalogSource connection is not ready: '' @ message)"

definition reportAdditionalCatalogSourceUnreadinessStatus ::
  "lib \<Rightarrow> string \<Rightarrow> time \<Rightarrow> Addon \<Rightarrow> Addon" where
  "reportAdditionalCatalogSourceUnreadinessStatus L message =
     reportPendingStatus L AddonReasonUnreadyAdditionalCatalogSource
       (''CatalogSource connection is not ready: '' @ message)"

definition reportUnreadyNamespaces :: "lib \<Rightarrow> string list \<Rightarrow> time \<Rightarrow> Addon \<Rightarrow> Addon" where
  "reportUnreadyNamespaces L unreadyNamespaces =
     reportPendingStatus L AddonReasonUnreadyNamespaces
       (''Namespaces not yet in Active phase: '' @ joinWith '', '' unreadyNamespaces)"

definition reportUnreadyCSV :: "lib \<Rightarrow> string \<Rightarrow> time \<Rightarrow> Addon \<Rightarrow> Addon" where
  "reportUnreadyCSV L message =
     reportPendingStatus L AddonReasonUnreadyCSV (''ClusterServiceVersion is not ready: '' @ message)"

definition reportMissingCSV :: "lib \<Rightarrow> time \<Rightarrow> Addon \<Rightarrow> Addon" where
  "reportMissingCSV L =
     reportPendingStatus L AddonReasonMissingCSV ''ClusterServiceVersion is missing.''"

definition reportInstallPlanPending :: "lib \<Rightarrow> time \<Rightarrow> Addon \<Rightarrow> Addon" where
  "reportInstallPlanPending L =
     reportPendingStatus L AddonReasonInstallPlanPending ''InstallPlan is waiting for approval.''"

definition reportPendingAddonInstanceInstallation :: "lib \<Rightarrow> time \<Rightarrow> Addon \<Rightarrow> Addon" where
  "reportPendingAddonInstanceInstallation L =
     reportPendingStatus L AddonReasonInstanceNotInstalled ''Addon instance is not yet installed.''"

definition reportUnreadyMonitoringFederation :: "lib \<Rightarrow> string \<Rightarrow> time \<Rightarrow> Addon \<Rightarrow> Addon" where
  "reportUnreadyMonitoringFederation L message =
     reportPendingStatus L AddonReasonUnreadyMonitoringFederation
       (''Monitoring Federation is not ready: '' @ message)"

definition reportUnreadyMonitoringStack :: "lib \<Rightarrow> string \<Rightarrow> time \<Rightarrow> Addon \<Rightarrow> Addon" where
  "reportUnreadyMonitoringStack L message =
     reportPendingStatus L AddonReasonUnreadyMonitoringStack
       (''MonitoringStack is not ready: '' @ message)"

definition reportUnreadyClusterObjectTemplate :: "lib \<Rightarrow> time \<Rightarrow> Addon \<Rightarrow> Addon" where
  "reportUnreadyClusterObjectTemplate L =
     reportPendingStatus L AddonReasonUnreadyClusterPackageTemplate
       ''PackageOperator ClusterPackageTemplate is not ready''"

definition markedForDeletion :: "Addon \<Rightarrow> bool" where
  "markedForDeletion a = (Annotations (addonMeta a) DeleteAnnotationFlag \<noteq> None)"

section \<open>Methods of \<open>addon_types.go\<close>\<close>

definition IsAvailable :: "lib \<Rightarrow> Addon \<Rightarrow> bool" where
  "IsAvailable L a = IsStatusConditionTrue L (Conditions (Status a)) Available"

text \<open>Called only where \<open>Spec.UpgradePolicy\<close> is not nil; \<open>None\<close> is the nil dereference.\<close>

definition SetUpgradePolicyStatus :: "AddonUpgradePolicyValue \<Rightarrow> Addon \<Rightarrow> Addon option" where
  "SetUpgradePolicyStatus val a =
     (case UpgradePolicy (Spec a) of
        None \<Rightarrow> None
      | Some p \<Rightarrow> Some (a\<lparr>Status := (Status a)\<lparr>status_UpgradePolicy := Some
          \<lparr>ups_ID = up_ID p, ups_Value = val, ups_Version = Version (Spec a),
           ups_ObservedGeneration = Generation (addonMeta a)\<rparr>\<rparr>\<rparr>))"

definition UpgradeCompleteForCurrentVersion :: "Addon \<Rightarrow> bool" where
  "UpgradeCompleteForCurrentVersion a =
     (case status_UpgradePolicy (Status a) of
        None \<Rightarrow> False
      | Some p \<Rightarrow> ups_Version p = Version (Spec a) \<and> ups_Value p = AddonUpgradePolicyValueCompleted)"

definition GetInstallOLMCommon :: "Addon \<Rightarrow> error + AddonInstallOLMCommon" where
  "GetInstallOLMCommon a =
     (case install_Type (Install (Spec a)) of
        OLMAllNamespaces \<Rightarrow>
          (case install_OLMAllNamespaces (Install (Spec a)) of
             Some c \<Rightarrow> Inr c
           | None \<Rightarrow> Inl (ErrorString ''addon install OLM common not found''))
      | OLMOwnNamespace \<Rightarrow>
          (case install_OLMOwnNamespace (Install (Spec a)) of
             Some c \<Rightarrow> Inr c
           | None \<Rightarrow> Inl (ErrorString ''addon install OLM common not found''))
      | OtherInstallType _ \<Rightarrow> Inl (ErrorString ''addon install OLM common not found''))"

section \<open>Install configuration\<close>

text \<open>
  \<open>parseAddonInstallConfig\<close> returns \<open>(nil, true)\<close> or \<open>(config, false)\<close>: here \<open>None\<close> or
  \<open>Some config\<close>.
\<close>

definition configError :: "'w Env \<Rightarrow> string \<Rightarrow> ('w st, 'a option) prog" where
  "configError E message =
     bindp (mutate E (reportConfigurationError (theLib E) message)) (\<lambda>_. ret None)"

definition parseAddonInstallConfig :: "'w Env \<Rightarrow> ('w st, AddonInstallOLMCommon option) prog" where
  "parseAddonInstallConfig E = bindp getAddon (\<lambda>addon.
     case install_Type (Install (Spec addon)) of
       OLMOwnNamespace \<Rightarrow>
         (case install_OLMOwnNamespace (Install (Spec addon)) of
            None \<Rightarrow> configError E
              ''.spec.install.ownNamespace.namespace is required when .spec.install.type = OwnNamespace''
          | Some c \<Rightarrow>
              if olm_Namespace c = '''' then configError E
                ''.spec.install.ownNamespace.namespace is required when .spec.install.type = OwnNamespace''
              else if CatalogSourceImage c = '''' then configError E
                (''.spec.install.ownNamespace.catalogSourceImage is'' @
                 ''required when .spec.install.type = OwnNamespace'')
              else ret (Some c))
     | OLMAllNamespaces \<Rightarrow>
         (case install_OLMAllNamespaces (Install (Spec addon)) of
            None \<Rightarrow> configError E
              (''.spec.install.allNamespaces.namespace is required when'' @
               '' .spec.install.type = AllNamespaces'')
          | Some c \<Rightarrow>
              if olm_Namespace c = '''' then configError E
                (''.spec.install.allNamespaces.namespace is required when'' @
                 '' .spec.install.type = AllNamespaces'')
              else if CatalogSourceImage c = '''' then configError E
                (''.spec.install.allNamespaces.catalogSourceImage is required'' @
                 ''when .spec.install.type = AllNamespaces'')
              else ret (Some c))
     | OtherInstallType _ \<Rightarrow> ret None)"

text \<open>The loop over the additional catalog sources: an incomplete entry ends it.\<close>

definition incompleteSource :: "AdditionalCatalogSource \<Rightarrow> bool" where
  "incompleteSource src \<longleftrightarrow> acs_Image src = '''' \<or> acs_Name src = ''''"

fun collectSources ::
  "'w Env \<Rightarrow> string \<Rightarrow> AdditionalCatalogSource list \<Rightarrow> AdditionalCatalogSource list \<Rightarrow>
     ('w st, AdditionalCatalogSource list option) prog" where
  "collectSources E message [] acc = ret (Some acc)"
| "collectSources E message (src # srcs) acc =
     (if incompleteSource src then configError E message
      else collectSources E message srcs (acc @ [src]))"

definition parseAddonInstallConfigForAdditionalCatalogSources ::
  "'w Env \<Rightarrow> ('w st, (AdditionalCatalogSource list \<times> string \<times> string) option) prog" where
  "parseAddonInstallConfigForAdditionalCatalogSources E = bindp getAddon (\<lambda>addon.
     case install_Type (Install (Spec addon)) of
       OLMOwnNamespace \<Rightarrow> bindp (deref (install_OLMOwnNamespace (Install (Spec addon)))) (\<lambda>c.
         bindp (collectSources E
           (''.spec.install.ownNamespace.additionalCatalogSources'' @ ''requires both image and name'')
           (AdditionalCatalogSources c) []) (\<lambda>srcs.
         ret (map_option (\<lambda>xs. (xs, olm_Namespace c, PullSecretName c)) srcs)))
     | OLMAllNamespaces \<Rightarrow> bindp (deref (install_OLMAllNamespaces (Install (Spec addon)))) (\<lambda>c.
         bindp (collectSources E
           (''.spec.install.allNamespaces.additionalCatalogSources'' @ ''requires both image and name'')
           (AdditionalCatalogSources c) []) (\<lambda>srcs.
         ret (map_option (\<lambda>xs. (xs, olm_Namespace c, PullSecretName c)) srcs)))
     | OtherInstallType _ \<Rightarrow> ret None)"

definition HasMonitoringFederation :: "Addon \<Rightarrow> bool" where
  "HasMonitoringFederation a =
     (case Monitoring (Spec a) of None \<Rightarrow> False | Some m \<Rightarrow> Federation m \<noteq> None)"

definition HasMonitoringStack :: "Addon \<Rightarrow> bool" where
  "HasMonitoringStack a =
     (case Monitoring (Spec a) of None \<Rightarrow> False | Some m \<Rightarrow> MonitoringStack m \<noteq> None)"

definition HasAdditionalCatalogSources :: "Addon \<Rightarrow> ('s, bool) prog" where
  "HasAdditionalCatalogSources a =
     (case install_Type (Install (Spec a)) of
        OLMOwnNamespace \<Rightarrow> bindp (deref (install_OLMOwnNamespace (Install (Spec a))))
          (\<lambda>c. ret (length (AdditionalCatalogSources c) > 0))
      | OLMAllNamespaces \<Rightarrow> bindp (deref (install_OLMAllNamespaces (Install (Spec a))))
          (\<lambda>c. ret (length (AdditionalCatalogSources c) > 0))
      | OtherInstallType _ \<Rightarrow> ret False)"

text \<open>The zero value of the options when the type is neither of the two known ones.\<close>

definition zeroInstallOptions :: AddonInstallOLMCommon where
  "zeroInstallOptions = \<lparr>olm_Namespace = '''', CatalogSourceImage = '''', Channel = '''',
     PackageName = '''', PullSecretName = '''', Config = None, AdditionalCatalogSources = []\<rparr>"

definition GetCommonInstallOptions :: "Addon \<Rightarrow> ('s, AddonInstallOLMCommon) prog" where
  "GetCommonInstallOptions a =
     (case install_Type (Install (Spec a)) of
        OLMAllNamespaces \<Rightarrow> deref (install_OLMAllNamespaces (Install (Spec a)))
      | OLMOwnNamespace \<Rightarrow> deref (install_OLMOwnNamespace (Install (Spec a)))
      | OtherInstallType _ \<Rightarrow> ret zeroInstallOptions)"

section \<open>Names\<close>

definition GetMonitoringNamespaceName :: "Addon \<Rightarrow> string" where
  "GetMonitoringNamespaceName a = ''redhat-monitoring-'' @ Name (addonMeta a)"

definition GetMonitoringFederationServiceMonitorName :: "Addon \<Rightarrow> string" where
  "GetMonitoringFederationServiceMonitorName a = ''federated-sm-'' @ Name (addonMeta a)"

definition getPrimaryCatalogSourceName :: "Addon \<Rightarrow> string" where
  "getPrimaryCatalogSourceName a = ''addon-'' @ Name (addonMeta a) @ ''-catalog''"

definition getCatalogSourceNetworkPolicyName :: "Addon \<Rightarrow> string" where
  "getCatalogSourceNetworkPolicyName a = ''addon-'' @ Name (addonMeta a) @ ''-catalogs''"

definition CatalogSourceName :: "Addon \<Rightarrow> string" where
  "CatalogSourceName a = ''addon-'' @ Name (addonMeta a) @ ''-catalog''"

definition SubscriptionName :: "Addon \<Rightarrow> string" where
  "SubscriptionName a = ''addon-'' @ Name (addonMeta a)"

section \<open>The hash of the reported status\<close>

definition mapToAddonStatusConditions :: "Condition list \<Rightarrow> AddOnStatusCondition list" where
  "mapToAddonStatusConditions conds =
     map (\<lambda>obj. \<lparr>StatusType = c_Type obj, StatusValue = c_Status obj, asc_Reason = c_Reason obj,
       asc_Message = c_Message obj\<rparr>) conds"

text \<open>\<open>hash/fnv\<close>, 32-bit FNV-1a.\<close>

definition fnvStep :: "32 word \<Rightarrow> char \<Rightarrow> 32 word" where
  "fnvStep h c = (h XOR of_nat (of_char c)) * 16777619"

definition fnv32a :: "string \<Rightarrow> 32 word" where
  "fnv32a s = foldl fnvStep 2166136261 s"

definition hashOCMAddonStatus :: "lib \<Rightarrow> OCMAddOnStatus \<Rightarrow> string" where
  "hashOCMAddonStatus L st = SafeEncodeString L (digits10 (unat (fnv32a (SpewDump L st))))"

definition HashCurrentAddonStatus :: "lib \<Rightarrow> Addon \<Rightarrow> string" where
  "HashCurrentAddonStatus L a = hashOCMAddonStatus L
     \<lparr>oas_AddonID = Name (addonMeta a), oas_CorrelationID = CorrelationID (Spec a),
      oas_AddonVersion = Version (Spec a),
      oas_StatusConditions = mapToAddonStatusConditions (Conditions (Status a)),
      oas_ObservedGeneration = 0\<rparr>"

section \<open>What the reports do\<close>

lemmas report_defs = reportReadinessStatus_def reportTerminationStatus_def
  reportConfigurationError_def reportAddonPauseStatus_def reportAddonReadyToBeDeletedStatus_def
  reportAddonDeletionTimedOut_def removeAddonPauseCondition_def reportLastObservedAvailableCSV_def
  reportAddonUpgradeSucceeded_def reportAddonUpgradeStarted_def reportUninstalledCondition_def
  reportInstalledCondition_def reportInstalledConditionFalse_def reportPendingStatus_def
  reportObservedVersion_def

lemmas pending_defs = reportCatalogSourceUnreadinessStatus_def
  reportAdditionalCatalogSourceUnreadinessStatus_def reportUnreadyNamespaces_def
  reportUnreadyCSV_def reportMissingCSV_def reportInstallPlanPending_def
  reportPendingAddonInstanceInstallation_def reportUnreadyMonitoringFederation_def
  reportUnreadyMonitoringStack_def reportUnreadyClusterObjectTemplate_def

lemmas status_prims = setCondition_def removeCondition_def observeGeneration_def setPhase_def

text \<open>Every report leaves the identity and the specification of the Addon alone.\<close>

lemma sameIdentity_reports [simp, keeps_rules]:
  "sameIdentity (reportReadinessStatus L now)"
  "sameIdentity (reportTerminationStatus L now)"
  "sameIdentity (reportConfigurationError L msg now)"
  "sameIdentity (reportAddonPauseStatus L reason now)"
  "sameIdentity (reportAddonReadyToBeDeletedStatus L value now)"
  "sameIdentity (reportAddonDeletionTimedOut L now)"
  "sameIdentity (removeAddonPauseCondition L)"
  "sameIdentity (reportLastObservedAvailableCSV csv)"
  "sameIdentity (reportAddonUpgradeSucceeded L now)"
  "sameIdentity (reportAddonUpgradeStarted L now)"
  "sameIdentity (reportUninstalledCondition L now)"
  "sameIdentity (reportInstalledCondition L now)"
  "sameIdentity (reportInstalledConditionFalse L now)"
  "sameIdentity reportObservedVersion"
  "sameIdentity (reportPendingStatus L reason msg now)"
  "sameIdentity (removeCondition L t)"
  by (simp_all add: sameIdentity_def report_defs status_prims Let_def)

lemma sameIdentity_pending [simp, keeps_rules]:
  "sameIdentity (reportCatalogSourceUnreadinessStatus L msg now)"
  "sameIdentity (reportAdditionalCatalogSourceUnreadinessStatus L msg now)"
  "sameIdentity (reportUnreadyNamespaces L names now)"
  "sameIdentity (reportUnreadyCSV L msg now)"
  "sameIdentity (reportMissingCSV L now)"
  "sameIdentity (reportInstallPlanPending L now)"
  "sameIdentity (reportPendingAddonInstanceInstallation L now)"
  "sameIdentity (reportUnreadyMonitoringFederation L msg now)"
  "sameIdentity (reportUnreadyMonitoringStack L msg now)"
  "sameIdentity (reportUnreadyClusterObjectTemplate L now)"
  by (simp_all add: pending_defs)

text \<open>How a lookup sees each of the building blocks.\<close>

lemma findCondition_set [simp]:
  "condition_laws L \<Longrightarrow> findCondition L t (setCondition L now c a) =
     (if t = c_Type c
      then Some (c\<lparr>c_LastTransitionTime := transitionTime now (findCondition L t a) c\<rparr>)
      else findCondition L t a)"
  by (simp add: findCondition_def setCondition_def)

lemma findCondition_remove [simp]:
  "condition_laws L \<Longrightarrow> findCondition L t (removeCondition L t' a) =
     (if t = t' then None else findCondition L t a)"
  by (simp add: findCondition_def removeCondition_def)

lemma findCondition_frame [simp]:
  "findCondition L t (observeGeneration a) = findCondition L t a"
  "findCondition L t (setPhase p a) = findCondition L t a"
  "findCondition L t (a\<lparr>Status := (Status a)\<lparr>ObservedVersion := v\<rparr>\<rparr>) = findCondition L t a"
  "findCondition L t (reportLastObservedAvailableCSV csv a) = findCondition L t a"
  "findCondition L t (reportObservedVersion a) = findCondition L t a"
  by (simp_all add: findCondition_def observeGeneration_def setPhase_def
      reportLastObservedAvailableCSV_def reportObservedVersion_def)

lemma condition_sel [simp]:
  "c_Type (condition t st reason msg gen) = t" "c_Status (condition t st reason msg gen) = st"
  "c_Reason (condition t st reason msg gen) = reason" "c_Message (condition t st reason msg gen) = msg"
  "c_LastTransitionTime (condition t st reason msg gen) = None"
  by (simp_all add: condition_def)

lemma IsAvailable_iff:
  "condition_laws L \<Longrightarrow>
     IsAvailable L a \<longleftrightarrow> (\<exists>c. findCondition L Available a = Some c \<and> c_Status c = ConditionTrue)"
  by (simp add: IsAvailable_def findCondition_def)

text \<open>A pending report makes the Addon unavailable, with the reason and message given.\<close>

lemma pending_unavailable:
  assumes "condition_laws L"
  shows "\<not> IsAvailable L (reportPendingStatus L reason msg now a)"
    and "Phase (Status (reportPendingStatus L reason msg now a)) = PhasePending"
  using assms
  by (auto simp: IsAvailable_iff reportPendingStatus_def)
     (simp add: status_prims)

lemma config_error_unavailable:
  assumes "condition_laws L"
  shows "\<not> IsAvailable L (reportConfigurationError L msg now a)"
  using assms by (auto simp: IsAvailable_iff reportConfigurationError_def Let_def)

section \<open>The install configuration, as a function of the specification\<close>

definition installConfig :: "AddonSpec \<Rightarrow> AddonInstallOLMCommon option" where
  "installConfig sp =
     (case (case install_Type (Install sp) of
              OLMOwnNamespace \<Rightarrow> install_OLMOwnNamespace (Install sp)
            | OLMAllNamespaces \<Rightarrow> install_OLMAllNamespaces (Install sp)
            | OtherInstallType _ \<Rightarrow> None) of
        None \<Rightarrow> None
      | Some c \<Rightarrow> if olm_Namespace c \<noteq> '''' \<and> CatalogSourceImage c \<noteq> '''' then Some c else None)"

definition knownInstallType :: "AddonSpec \<Rightarrow> bool" where
  "knownInstallType sp \<longleftrightarrow> install_Type (Install sp) \<in> {OLMOwnNamespace, OLMAllNamespaces}"

lemma parse_ok:
  "installConfig (Spec (st_addon s)) = Some c \<Longrightarrow> parseAddonInstallConfig E s = (Ok (Some c), s)"
  by (auto simp: parseAddonInstallConfig_def installConfig_def split: AddonInstallType.splits
      option.splits if_splits)

lemma parse_stop:
  assumes "installConfig (Spec (st_addon s)) = None"
  shows "\<exists>msg. parseAddonInstallConfig E s =
    (Ok None, if knownInstallType (Spec (st_addon s))
              then s\<lparr>st_addon := reportConfigurationError (theLib E) msg (clock E (st_ticks s)) (st_addon s),
                     st_ticks := Suc (st_ticks s)\<rparr>
              else s)"
  using assms
  by (cases "install_Type (Install (Spec (st_addon s)))")
     (force simp: parseAddonInstallConfig_def installConfig_def knownInstallType_def configError_def
      split: option.splits if_splits)+

lemma parse_value: "fst (parseAddonInstallConfig E s) = Ok (installConfig (Spec (st_addon s)))"
  using parse_ok [of s _ E] parse_stop [of s E]
  by (cases "installConfig (Spec (st_addon s))") auto

lemma parse_runsOn: "keeps (runsOn m sp P) (parseAddonInstallConfig E)"
  unfolding parseAddonInstallConfig_def configError_def
  by (intro keeps_rules, auto split: AddonInstallType.splits option.splits intro!: keeps_rules)

lemma runsOn_parse [keeps_rules]:
  assumes "keeps (runsOn m sp P) (k (installConfig sp))"
  shows "keeps (runsOn m sp P) (bindp (parseAddonInstallConfig E) k)"
proof (rule keepsI)
  fix s r s' assume inv: "runsOn m sp P s" and run: "bindp (parseAddonInstallConfig E) k s = (r, s')"
  obtain s1 where s1: "parseAddonInstallConfig E s = (Ok (installConfig sp), s1)"
    using parse_value [of E s] inv by (metis prod.collapse runsOn_def)
  with run have "k (installConfig sp) s1 = (r, s')" by simp
  moreover from s1 inv have "runsOn m sp P s1" by (rule keepsD [OF parse_runsOn, rotated])
  ultimately show "runsOn m sp P s'" using assms by (metis keepsD)
qed

text \<open>The three readers of the install configuration agree where the first accepts it.\<close>

lemma GetInstallOLMCommon_config:
  "installConfig (Spec a) = Some c \<Longrightarrow> GetInstallOLMCommon a = Inr c"
  by (auto simp: installConfig_def GetInstallOLMCommon_def
      split: AddonInstallType.splits option.splits if_splits)

lemma GetCommonInstallOptions_config:
  "installConfig (Spec a) = Some c \<Longrightarrow> GetCommonInstallOptions a = ret c"
  by (auto simp: installConfig_def GetCommonInstallOptions_def
      split: AddonInstallType.splits option.splits if_splits)

lemma GetCommonInstallOptions_cases:
  "GetCommonInstallOptions a s = (Panic, s) \<or> (\<exists>c. GetCommonInstallOptions a s = (Ok c, s))"
  by (auto simp: GetCommonInstallOptions_def deref_def split: AddonInstallType.splits option.splits)

lemma keeps_GetCommonInstallOptions [keeps_rules]: "keeps I (GetCommonInstallOptions a)"
  unfolding GetCommonInstallOptions_def
  by (auto split: AddonInstallType.splits intro!: keeps_rules)

lemma keeps_HasAdditionalCatalogSources [keeps_rules]: "keeps I (HasAdditionalCatalogSources a)"
  unfolding HasAdditionalCatalogSources_def
  by (auto split: AddonInstallType.splits intro!: keeps_rules)

lemma collectSources_runsOn [keeps_rules]:
  "keeps (runsOn m sp P) (collectSources E msg srcs acc)"
  by (induction E msg srcs acc rule: collectSources.induct)
     (auto simp: configError_def intro!: keeps_rules)

lemma parseAdditional_runsOn [keeps_rules]:
  "keeps (runsOn m sp P) (parseAddonInstallConfigForAdditionalCatalogSources E)"
  unfolding parseAddonInstallConfigForAdditionalCatalogSources_def
  by (intro keeps_rules, auto split: AddonInstallType.splits intro!: keeps_rules)

lemma collectSources_ok:
  "list_all (\<lambda>x. \<not> incompleteSource x) srcs \<Longrightarrow>
     collectSources E msg srcs acc s = (Ok (Some (acc @ srcs)), s)"
  by (induction E msg srcs acc rule: collectSources.induct) auto

lemma yields_parse:
  assumes "yields (runsOn m sp P) (k (installConfig sp)) Q"
  shows "yields (runsOn m sp P) (bindp (parseAddonInstallConfig E) k) Q"
proof (rule yields_bindp [of _ _ "\<lambda>r. r = installConfig sp"])
  show "yields (runsOn m sp P) (parseAddonInstallConfig E) (\<lambda>r. r = installConfig sp)"
    unfolding yields_def
  proof (intro allI impI conjI)
    fix s r s' assume inv: "runsOn m sp P s" and run: "parseAddonInstallConfig E s = (r, s')"
    then show "runsOn m sp P s'" by (rule keepsD [OF parse_runsOn])
    fix v assume "r = Ok v"
    with parse_value [of E s] run inv show "v = installConfig sp" by (simp add: runsOn_def)
  qed
qed (use assms in simp)

end
