(* ===== verification/Csv_Refs.thy ===== *)
theory Csv_Refs
  imports Addon_Status
begin

text \<open>
  The OLM \<open>Operator\<close> object of an Addon and the ClusterServiceVersion it refers to
  (\<open>controllers/addon/phase_observe_operatorresource.go\<close>, helper functions, and the two getters of
  \<open>olm_reconciler.go\<close>).
\<close>

abbreviation CSVPhaseSucceeded :: string where "CSVPhaseSucceeded \<equiv> ''Succeeded''"
abbreviation CSVPhaseFailed :: string where "CSVPhaseFailed \<equiv> ''Failed''"

definition generateOperatorResourceName :: "Addon \<Rightarrow> ('s, string) prog" where
  "generateOperatorResourceName addon = bindp (GetCommonInstallOptions addon)
     (\<lambda>opts. ret (PackageName opts @ ''.'' @ olm_Namespace opts))"

text \<open>The loops over the conditions and over the references, with their early returns.\<close>

fun csvPhaseOf :: "(string \<times> ConditionStatus) list \<Rightarrow> string" where
  "csvPhaseOf [] = ''''"
| "csvPhaseOf ((t, st) # cs) =
     (if t = ''Succeeded'' then (if st = ConditionTrue then CSVPhaseSucceeded else CSVPhaseFailed)
      else csvPhaseOf cs)"

definition getCSVPhase :: "RichReference option \<Rightarrow> string" where
  "getCSVPhase ref = (case ref of None \<Rightarrow> '''' | Some r \<Rightarrow> csvPhaseOf (rr_Conditions r))"

fun findCSVRef :: "ObjectKey \<Rightarrow> RichReference list \<Rightarrow> RichReference option" where
  "findCSVRef csv [] = None"
| "findCSVRef csv (c # cs) =
     (if rr_Kind c = ''ClusterServiceVersion'' \<and> rr_Name c = key_Name csv \<and>
         rr_Namespace c = key_Namespace csv
      then Some c else findCSVRef csv cs)"

definition findConcernedCSVReference :: "ObjectKey \<Rightarrow> Operator \<Rightarrow> RichReference option" where
  "findConcernedCSVReference csv operator =
     (case op_Components operator of None \<Rightarrow> None | Some refs \<Rightarrow> findCSVRef csv refs)"

definition CSVmissing :: "Operator \<Rightarrow> ObjectKey \<Rightarrow> bool" where
  "CSVmissing operator csvKey = (findConcernedCSVReference csvKey operator = None)"

definition addonUpgradeConcluded :: "lib \<Rightarrow> Addon \<Rightarrow> ObjectKey \<Rightarrow> string \<Rightarrow> bool" where
  "addonUpgradeConcluded L addon currentCSV phase =
     (if addonUpgradeStarted L addon
      then keyString currentCSV \<noteq> LastObservedAvailableCSV (Status addon) \<and> phase = CSVPhaseSucceeded
      else False)"

definition GetSubscription :: "'w Env \<Rightarrow> string \<Rightarrow> string \<Rightarrow> ('w st, Subscription) prog" where
  "GetSubscription E name namespace =
     doGet (k_Subscription (client E)) \<lparr>key_Namespace = namespace, key_Name = name\<rparr>"

definition GetInstallPlan :: "'w Env \<Rightarrow> string \<Rightarrow> string \<Rightarrow> ('w st, InstallPlan) prog" where
  "GetInstallPlan E name namespace =
     doGet (k_InstallPlan (client E)) \<lparr>key_Namespace = namespace, key_Name = name\<rparr>"

lemma findCSVRef_sound:
  "findCSVRef csv refs = Some r \<Longrightarrow> r \<in> set refs \<and> rr_Kind r = ''ClusterServiceVersion'' \<and>
     rr_Name r = key_Name csv \<and> rr_Namespace r = key_Namespace csv"
  by (induction csv refs rule: findCSVRef.induct) (auto split: if_splits)

lemma findCSVRef_None:
  "findCSVRef csv refs = None \<longleftrightarrow>
     (\<forall>r \<in> set refs. \<not> (rr_Kind r = ''ClusterServiceVersion'' \<and> rr_Name r = key_Name csv \<and>
        rr_Namespace r = key_Namespace csv))"
  by (induction csv refs rule: findCSVRef.induct) auto

lemma csvPhase_succeeded:
  "csvPhaseOf cs = CSVPhaseSucceeded \<longleftrightarrow> map_of cs ''Succeeded'' = Some ConditionTrue"
  by (induction cs rule: csvPhaseOf.induct) auto

lemma keeps_generateOperatorResourceName [keeps_rules]: "keeps I (generateOperatorResourceName a)"
  unfolding generateOperatorResourceName_def by (intro keeps_rules)

lemma runsOn_GetSubscription [keeps_rules]: "keeps (runsOn m sp P) (GetSubscription E n ns)"
  unfolding GetSubscription_def by (intro keeps_rules)

lemma runsOn_GetInstallPlan [keeps_rules]: "keeps (runsOn m sp P) (GetInstallPlan E n ns)"
  unfolding GetInstallPlan_def by (intro keeps_rules)

end
