(* ===== verification/Go_Duration.thy ===== *)
theory Go_Duration
  imports Prelude "HOL-Library.Log_Nat"
begin

text \<open>
  \<open>time.ParseDuration\<close> of the Go standard library, which the deletion reconciler calls on the
  value of an annotation. Characters are bytes; unsigned 64-bit sums are taken modulo \<open>2 ^ 64\<close>
  where they can wrap. The one floating-point expression, the fraction of a unit, is evaluated
  with round-to-nearest-even on 53 bits, as float64 does; every intermediate value is a normal
  number. The result is in nanoseconds.
\<close>

section \<open>The fraction of a unit\<close>

text \<open>A float64 is a pair \<open>(m, e)\<close> that stands for \<open>m * 2 ^ e\<close>.\<close>

definition roundHalfEven :: "nat \<Rightarrow> nat \<Rightarrow> nat" where
  "roundHalfEven p q =
     (let m = p div q; r = p mod q in
      if 2 * r > q \<or> (2 * r = q \<and> odd m) then m + 1 else m)"

definition scaled :: "nat \<Rightarrow> nat \<Rightarrow> int \<Rightarrow> nat \<times> nat" where
  "scaled p q e = (if e \<ge> 0 then (p, q * 2 ^ nat e) else (p * 2 ^ nat (- e), q))"

definition float64OfRat :: "nat \<Rightarrow> nat \<Rightarrow> nat \<times> int" where
  "float64OfRat p q =
     (if p = 0 then (0, 0)
      else let e = int (floorlog 2 p) - int (floorlog 2 q) - 53;
               (a, b) = scaled p q e;
               e = (if a div b \<ge> 2 ^ 53 then e + 1 else e);
               (a, b) = scaled p q e
           in (roundHalfEven a b, e))"

text \<open>\<open>uint64(float64(f) * (float64(unit) / scale))\<close>.\<close>

definition fractionOf :: "nat \<Rightarrow> nat \<Rightarrow> nat \<Rightarrow> nat" where
  "fractionOf f unit scale =
     (let (mf, ef) = float64OfRat f 1;
          (mq, eq) = float64OfRat unit scale;
          (mp, ep) = float64OfRat (mf * mq) 1;
          e = ef + eq + ep
      in if e \<ge> 0 then mp * 2 ^ nat e else mp div 2 ^ nat (- e))"

section \<open>Parsing\<close>

definition isDigit :: "char \<Rightarrow> bool" where
  "isDigit c \<longleftrightarrow> 48 \<le> (of_char c :: nat) \<and> (of_char c :: nat) \<le> 57"

definition digitVal :: "char \<Rightarrow> nat" where
  "digitVal c = of_char c - 48"

fun leadingInt :: "nat \<Rightarrow> string \<Rightarrow> (nat \<times> string) option" where
  "leadingInt x [] = Some (x, [])"
| "leadingInt x (c # cs) =
     (if \<not> isDigit c then Some (x, c # cs)
      else if x > 2 ^ 63 div 10 then None
      else let y = x * 10 + digitVal c in if y > 2 ^ 63 then None else leadingInt y cs)"

fun leadingFraction :: "nat \<Rightarrow> nat \<Rightarrow> bool \<Rightarrow> string \<Rightarrow> nat \<times> nat \<times> string" where
  "leadingFraction x scale overflow [] = (x, scale, [])"
| "leadingFraction x scale overflow (c # cs) =
     (if \<not> isDigit c then (x, scale, c # cs)
      else if overflow then leadingFraction x scale True cs
      else if x > (2 ^ 63 - 1) div 10 then leadingFraction x scale True cs
      else let y = x * 10 + digitVal c in
           if y > 2 ^ 63 then leadingFraction x scale True cs
           else leadingFraction y (scale * 10) False cs)"

definition unitMap :: "string \<Rightarrow> nat option" where
  "unitMap u =
     map_of [(''ns'', 1), (''us'', 1000), ([CHR 0xC2, CHR 0xB5, CHR 0x73], 1000),
       ([CHR 0xCE, CHR 0xBC, CHR 0x73], 1000), (''ms'', 1000000), (''s'', 1000000000),
       (''m'', 60000000000), (''h'', 3600000000000)] u"

definition isUnitChar :: "char \<Rightarrow> bool" where
  "isUnitChar c \<longleftrightarrow> c \<noteq> CHR ''.'' \<and> \<not> isDigit c"

text \<open>One turn of the loop: a number and a unit; the value in nanoseconds and what is left.\<close>

definition parseTerm :: "string \<Rightarrow> (nat \<times> string) option" where
  "parseTerm s =
     (case s of
        [] \<Rightarrow> None
      | c # _ \<Rightarrow>
          if \<not> (c = CHR ''.'' \<or> isDigit c) then None
          else
            (case leadingInt 0 s of
               None \<Rightarrow> None
             | Some (v, s1) \<Rightarrow>
                 (let pre = (length s \<noteq> length s1);
                      (f, scale, post, s2) =
                        (case s1 of
                           c # cs \<Rightarrow>
                             if c = CHR ''.''
                             then (let (f, scale, s2) = leadingFraction 0 1 False cs
                                   in (f, scale, length cs \<noteq> length s2, s2))
                             else (0, 1, False, s1)
                         | [] \<Rightarrow> (0, 1, False, s1))
                  in if \<not> pre \<and> \<not> post then None
                     else
                       (let u = takeWhile isUnitChar s2; s3 = dropWhile isUnitChar s2
                        in if u = [] then None
                           else
                             (case unitMap u of
                                None \<Rightarrow> None
                              | Some unit \<Rightarrow>
                                  if v > 2 ^ 63 div unit then None
                                  else
                                    (let v = v * unit
                                     in if f > 0
                                        then (let v = v + fractionOf f unit scale
                                              in if v > 2 ^ 63 then None else Some (v, s3))
                                        else Some (v, s3)))))))"

text \<open>The loop consumes at least the unit in each turn.\<close>

lemma leadingInt_shorter: "leadingInt x s = Some (v, r) \<Longrightarrow> length r \<le> length s"
  by (induction s arbitrary: x) (fastforce simp: Let_def split: if_splits)+

lemma leadingFraction_shorter:
  "leadingFraction x sc ov s = (f, sc', r) \<Longrightarrow> length r \<le> length s"
  by (induction x sc ov s rule: leadingFraction.induct) (auto simp: Let_def split: if_splits)

lemma parseTerm_shorter: "parseTerm s = Some (v, r) \<Longrightarrow> length r < length s"
  by (auto simp: parseTerm_def Let_def split: list.splits option.splits if_splits prod.splits
      dest!: leadingInt_shorter leadingFraction_shorter
      intro!: le_imp_less_Suc le_trans [OF length_dropWhile_le])

function parseTerms :: "nat \<Rightarrow> string \<Rightarrow> nat option" where
  "parseTerms d s =
     (if s = [] then Some d
      else case parseTerm s of
        None \<Rightarrow> None
      | Some (v, r) \<Rightarrow>
          let d = (d + v) mod 2 ^ 64 in if d > 2 ^ 63 then None else parseTerms d r)"
  by pat_completeness auto
termination
  by (relation "measure (\<lambda>(d, s). length s)") (auto dest: parseTerm_shorter)

declare parseTerms.simps [simp del]

definition ParseDuration :: "string \<Rightarrow> int option" where
  "ParseDuration s =
     (let (neg, s) =
        (case s of
           c # cs \<Rightarrow> if c = CHR ''-'' \<or> c = CHR ''+'' then (c = CHR ''-'', cs) else (False, s)
         | [] \<Rightarrow> (False, s))
      in if s = ''0'' then Some 0
         else if s = [] then None
         else
           (case parseTerms 0 s of
              None \<Rightarrow> None
            | Some d \<Rightarrow>
                if neg then Some (- int d)
                else if d > 2 ^ 63 - 1 then None
                else Some (int d)))"

section \<open>What it accepts\<close>

lemma isDigit_char_of: "(n :: nat) < 10 \<Longrightarrow> isDigit (char_of (48 + n))"
  by (simp add: isDigit_def)

lemma digitVal_char_of: "(n :: nat) < 10 \<Longrightarrow> digitVal (char_of (48 + n)) = n"
  by (simp add: digitVal_def)

text \<open>A numeral of a number in range is read back, whatever follows it.\<close>

lemma leadingInt_digit:
  assumes "x * 10 + n \<le> 2 ^ 63" "n < 10"
  shows "leadingInt x (char_of (48 + n) # rest) = leadingInt (x * 10 + n) rest"
proof -
  have "\<not> x > 2 ^ 63 div 10" using assms by linarith
  then show ?thesis using assms by (simp add: isDigit_char_of digitVal_char_of Let_def)
qed

lemma leadingInt_digits10:
  "n \<le> 2 ^ 63 \<Longrightarrow> leadingInt 0 (digits10 n @ rest) = leadingInt n rest"
proof (induction n arbitrary: rest rule: digits10.induct)
  case (1 n)
  show ?case
  proof (cases "n < 10")
    case True
    with leadingInt_digit [of 0 n rest] show ?thesis by (simp add: digits10.simps)
  next
    case False
    then have "digits10 n @ rest = digits10 (n div 10) @ (char_of (48 + n mod 10) # rest)"
      by (subst digits10.simps) simp
    moreover have "leadingInt 0 (digits10 (n div 10) @ (char_of (48 + n mod 10) # rest)) =
        leadingInt (n div 10) (char_of (48 + n mod 10) # rest)"
      using 1 False by simp
    moreover have "leadingInt (n div 10) (char_of (48 + n mod 10) # rest) =
        leadingInt (n div 10 * 10 + n mod 10) rest"
      using 1 by (intro leadingInt_digit) simp_all
    ultimately show ?thesis by simp
  qed
qed

lemma digits10_first: "\<exists>c cs. digits10 n = c # cs \<and> isDigit c"
proof (induction n rule: digits10.induct)
  case (1 n)
  then show ?case
    by (cases "n < 10") (auto simp: digits10.simps [of n] isDigit_def)
qed

lemma digits10_not_unit: "digits10 n \<noteq> []"
  using digits10_first [of n] by auto

definition unitString :: "string \<Rightarrow> bool" where
  "unitString u \<longleftrightarrow> u \<noteq> [] \<and> list_all isUnitChar u"

lemma leadingInt_unit: "unitString u \<Longrightarrow> leadingInt n u = Some (n, u)"
  by (cases u) (auto simp: unitString_def isUnitChar_def)

lemma parseTerm_whole:
  assumes "unitString u" "unitMap u = Some unit" "n * unit \<le> 2 ^ 63" "unit > 0"
  shows "parseTerm (digits10 n @ u) = Some (n * unit, [])"
proof -
  obtain c cs where c: "digits10 n = c # cs" "isDigit c" using digits10_first by blast
  have "n \<le> n * unit" using assms(4) by simp
  then have "n \<le> 2 ^ 63" using assms(3) by linarith
  then have li: "leadingInt 0 (digits10 n @ u) = Some (n, u)"
    by (simp only: leadingInt_digits10 leadingInt_unit [OF assms(1)])
  have le: "n \<le> 2 ^ 63 div unit" using assms(3,4) by (simp add: less_eq_div_iff_mult_less_eq)
  obtain d ds where u: "u = d # ds" "d \<noteq> CHR ''.''"
    using assms(1) by (cases u) (auto simp: unitString_def isUnitChar_def)
  have tk: "takeWhile isUnitChar u = u" "dropWhile isUnitChar u = []"
    using assms(1) by (simp_all add: unitString_def list_all_iff takeWhile_eq_all_conv dropWhile_eq_Nil_conv)
  show ?thesis
    unfolding parseTerm_def li using c u tk assms(2) le
    by (simp add: Let_def)
qed

lemma ParseDuration_whole:
  assumes "unitString u" "unitMap u = Some unit" "n * unit < 2 ^ 63" "unit > 0"
  shows "ParseDuration (digits10 n @ u) = Some (int (n * unit))"
proof -
  obtain c cs where c: "digits10 n = c # cs" "isDigit c" using digits10_first by blast
  have sign: "c \<noteq> CHR ''-''" "c \<noteq> CHR ''+''" using c(2) by (auto simp: isDigit_def)
  have nz: "digits10 n @ u \<noteq> ''0''"
  proof
    assume "digits10 n @ u = ''0''"
    with c assms(1) show False by (cases cs) (auto simp: unitString_def)
  qed
  have "parseTerm (digits10 n @ u) = Some (n * unit, [])"
    using assms by (intro parseTerm_whole) simp_all
  moreover have "(n * unit) mod 2 ^ 64 = n * unit" using assms(3) by (intro mod_less) simp
  ultimately have "parseTerms 0 (digits10 n @ u) = Some (n * unit)"
    using assms(3) c(1) by (subst parseTerms.simps) (simp add: Let_def parseTerms.simps)
  then show ?thesis
    using c(1) sign nz assms(3) by (auto simp: ParseDuration_def)
qed

end
