(* ===== verification/Ref_Cluster.thy ===== *)
theory Ref_Cluster
  imports Common_Utils
begin

text \<open>
  A concrete environment to evaluate runs in: clients over a fixed stock of objects that find an
  object by its key, answer NotFound otherwise, and accept every write by answering with the
  object they were sent. Theorems are never stated about it; their witnesses run on it.
\<close>

record stock =
  so_Addon :: "Addon list"
  so_Namespace :: "NamespaceObj list"
  so_Secret :: "Secret list"
  so_ConfigMap :: "ConfigMap list"
  so_OperatorGroup :: "OperatorGroup list"
  so_NetworkPolicy :: "NetworkPolicy list"
  so_CatalogSource :: "CatalogSource list"
  so_Subscription :: "Subscription list"
  so_InstallPlan :: "InstallPlan list"
  so_Operator :: "Operator list"
  so_AddonInstance :: "AddonInstance list"
  so_ServiceMonitor :: "ServiceMonitor list"
  so_ClusterObjectTemplate :: "ClusterObjectTemplate list"
  so_MonitoringStack :: "MonitoringStackObj list"
  so_Pod :: "Pod list"

definition emptyStock :: stock where
  "emptyStock = \<lparr>so_Addon = [], so_Namespace = [], so_Secret = [], so_ConfigMap = [],
     so_OperatorGroup = [], so_NetworkPolicy = [], so_CatalogSource = [], so_Subscription = [],
     so_InstallPlan = [], so_Operator = [], so_AddonInstance = [], so_ServiceMonitor = [],
     so_ClusterObjectTemplate = [], so_MonitoringStack = [], so_Pod = []\<rparr>"

definition notFoundError :: error where
  "notFoundError = StatusError ''NotFound'' ''not found''"

definition hasKey :: "('o \<Rightarrow> ObjectMeta) \<Rightarrow> ObjectKey \<Rightarrow> 'o \<Rightarrow> bool" where
  "hasKey meta key x \<longleftrightarrow> Name (meta x) = key_Name key \<and> Namespace (meta x) = key_Namespace key"

definition lookupKey :: "('o \<Rightarrow> ObjectMeta) \<Rightarrow> 'o list \<Rightarrow> ObjectKey \<Rightarrow> error + 'o" where
  "lookupKey meta xs key = (case find (hasKey meta key) xs of None \<Rightarrow> Inl notFoundError | Some x \<Rightarrow> Inr x)"

definition stockClient :: "('o \<Rightarrow> ObjectMeta) \<Rightarrow> 'o list \<Rightarrow> (unit, 'o) kclient" where
  "stockClient meta xs = \<lparr>
     kGet = (\<lambda>key w. (lookupKey meta xs key, w)),
     kList = (\<lambda>ns sel w. (Inr (filter (\<lambda>x. (ns = '''' \<or> Namespace (meta x) = ns) \<and>
        selectorMatches sel (meta x)) xs), w)),
     kCreate = (\<lambda>x w. (Inr x, w)),
     kUpdate = (\<lambda>x w. (Inr x, w)),
     kStatusUpdate = (\<lambda>x w. (Inr x, w)),
     kPatch = (\<lambda>x base w. (Inr x, w)),
     kDelete = (\<lambda>key w. (case lookupKey meta xs key of Inl e \<Rightarrow> Inl e | Inr _ \<Rightarrow> Inr (), w))\<rparr>"

definition stockCluster :: "stock \<Rightarrow> unit cluster" where
  "stockCluster c = \<lparr>
     k_Addon = stockClient addonMeta (so_Addon c),
     k_Namespace = stockClient ns_meta (so_Namespace c),
     k_Secret = stockClient sec_meta (so_Secret c),
     k_ConfigMap = stockClient cm_meta (so_ConfigMap c),
     k_OperatorGroup = stockClient og_meta (so_OperatorGroup c),
     k_NetworkPolicy = stockClient np_meta (so_NetworkPolicy c),
     k_CatalogSource = stockClient cs_meta (so_CatalogSource c),
     k_Subscription = stockClient sub_meta (so_Subscription c),
     k_InstallPlan = stockClient ip_meta (so_InstallPlan c),
     k_Operator = stockClient op_meta (so_Operator c),
     k_AddonInstance = stockClient ai_meta (so_AddonInstance c),
     k_ServiceMonitor = stockClient sm_meta (so_ServiceMonitor c),
     k_ClusterObjectTemplate = stockClient cot_meta (so_ClusterObjectTemplate c),
     k_MonitoringStack = stockClient ms_meta (so_MonitoringStack c),
     k_Pod = stockClient pod_meta (so_Pod c)\<rparr>"

definition refEnv :: "stock \<Rightarrow> unit Env" where
  "refEnv c = \<lparr>theLib = refLib, client = stockCluster c, uncachedClient = stockCluster c,
     clock = (\<lambda>n. int n * nanosPerSecond), AddonOperatorNamespace = ''addon-operator''\<rparr>"

definition refInstall :: AddonInstallOLMCommon where
  "refInstall = \<lparr>olm_Namespace = ''ns'', CatalogSourceImage = ''img'', Channel = ''alpha'',
     PackageName = ''pkg'', PullSecretName = '''', Config = None, AdditionalCatalogSources = []\<rparr>"

definition refSpec :: AddonSpec where
  "refSpec = \<lparr>DisplayName = ''Reference'', Version = ''1.0.0'', Paused = False,
     Namespaces = [\<lparr>ans_Name = ''ns'', ans_Labels = Map.empty, ans_Annotations = Map.empty\<rparr>],
     CommonLabels = Map.empty, CommonAnnotations = Map.empty, CorrelationID = '''',
     Install = \<lparr>install_Type = OLMOwnNamespace, install_OLMAllNamespaces = None,
       install_OLMOwnNamespace = Some refInstall\<rparr>,
     DeleteAckRequired = False, InstallAckRequired = False, UpgradePolicy = None, Monitoring = None,
     SecretPropagation = None, spec_AddonPackageOperator = None\<rparr>"

definition refStatus :: AddonStatus where
  "refStatus = \<lparr>ObservedGeneration = 0, Conditions = [], Phase = PhasePending,
     status_UpgradePolicy = None, OCMReportedStatusHash = None, ObservedVersion = '''',
     LastObservedAvailableCSV = ''''\<rparr>"

definition refAddon :: Addon where
  "refAddon = \<lparr>addonMeta = (objectMeta '''' ''ref'')\<lparr>UID := ''u1''\<rparr>, Spec = refSpec, Status = refStatus\<rparr>"

definition refState :: "Addon \<Rightarrow> unit st" where
  "refState a = \<lparr>st_addon = a, st_world = (), st_calls = [], st_ticks = 0,
     st_opHandler = NewOperatorResourceHandler, st_recorder = None\<rparr>"

lemma refAddon_sel [simp]:
  "Name (addonMeta refAddon) = ''ref''" "UID (addonMeta refAddon) = ''u1''" "Spec refAddon = refSpec"
  "Status refAddon = refStatus"
  by (simp_all add: refAddon_def)

lemmas ref_objects = refAddon_def refSpec_def refStatus_def refInstall_def objectMeta_def

lemma refEnv_sel [simp]:
  "theLib (refEnv c) = refLib" "client (refEnv c) = stockCluster c"
  "uncachedClient (refEnv c) = stockCluster c" "clock (refEnv c) n = int n * nanosPerSecond"
  "AddonOperatorNamespace (refEnv c) = ''addon-operator''"
  by (simp_all add: refEnv_def)

lemma refState_sel [simp]:
  "st_addon (refState a) = a" "st_calls (refState a) = []" "st_ticks (refState a) = 0"
  "st_world (refState a) = ()" "st_opHandler (refState a) = NewOperatorResourceHandler"
  "st_recorder (refState a) = None"
  by (simp_all add: refState_def)

lemmas ref_eval = refEnv_def refState_def stockCluster_def stockClient_def lookupKey_def hasKey_def
  notFoundError_def emptyStock_def refLib_def nanosPerSecond_def removeCond_def transitionTime_def

lemma find_hasKey:
  "find (hasKey meta key) xs = Some x \<Longrightarrow> Name (meta x) = key_Name key \<and> Namespace (meta x) = key_Namespace key"
  by (induction xs) (auto simp: hasKey_def split: if_splits)

lemma stock_gets: "gets_by_key meta (stockClient meta xs)"
  by (auto simp: gets_by_key_def stockClient_def lookupKey_def split: option.splits dest: find_hasKey)

lemma stock_lists: "lists_by_label meta (stockClient meta xs)"
  by (auto simp: lists_by_label_def stockClient_def selectorMatches_def)

lemma refEnv_laws: "env_laws (refEnv c)"
  by (simp add: env_laws_def refLib_laws stock_gets stock_lists stockCluster_def)

section \<open>The recorder\<close>

definition deletedAddon :: Addon where
  "deletedAddon = refAddon\<lparr>addonMeta := (addonMeta refAddon)\<lparr>DeletionTimestamp := Some 0\<rparr>\<rparr>"

theorem metrics_deleted_counted_again_witness:
  "addonsCount (RecordAddonMetrics refLib deletedAddon '''' (RecordAddonMetrics refLib deletedAddon ''''
     (RecordAddonMetrics refLib refAddon '''' NewRecorder))) countTotal = 1"
proof -
  let ?r = "RecordAddonMetrics refLib refAddon '''' NewRecorder"
  have r: "conditionMap ?r (UID (addonMeta deletedAddon)) = Some (currentConditions refLib refAddon)"
    "addonsCount ?r countTotal = 1"
    by (simp_all add: record_new deletedAddon_def ref_objects NewRecorder_def)
  have "DeletionTimestamp (addonMeta deletedAddon) \<noteq> None" by (simp add: deletedAddon_def)
  from metrics_deleted_counted_again [OF r(1) this, of refLib "''''"] r(2) show ?thesis
    by (simp add: Let_def)
qed

end
