(* ===== verification/Deletion.thy ===== *)
theory Deletion
  imports Csv_Refs Go_Duration Ref_Cluster
begin

text \<open>
  Sub-reconciler 1, the delete signal: \<open>addon_deletion_reconciler.go\<close> and its two strategies,
  \<open>addon_deletion_handler_legacy.go\<close> and \<open>addon_deletion_handler_addon_instance.go\<close>.
  The Go interface \<open>addonDeletionHandler\<close> is a record of programs; the locale \<open>deletion_handler\<close>
  states what the reconciler relies on, and both strategies are shown to satisfy it.
\<close>

section \<open>Model\<close>

record 'w addonDeletionHandler =
  NotifyAddon :: "('w st, unit) prog"
  AckReceivedFromAddon :: "('w st, bool) prog"

subsection \<open>Legacy handler\<close>

definition DeleteConfigMapLabel :: "Addon \<Rightarrow> string" where
  "DeleteConfigMapLabel addon = ''api.openshift.com/addon-'' @ Name (addonMeta addon) @ ''-delete''"

definition createDeleteConfigMap :: "'w Env \<Rightarrow> ('w st, unit) prog" where
  "createDeleteConfigMap E = bindp getAddon (\<lambda>addon.
     bindp (GetCommonInstallOptions addon) (\<lambda>opts.
     bindp (doCreate (k_ConfigMap (client E)) KConfigMap
       \<lparr>cm_meta = (objectMeta (olm_Namespace opts) (Name (addonMeta addon)))
          \<lparr>Labels := [DeleteConfigMapLabel addon \<mapsto> ''true'']\<rparr>\<rparr>) (\<lambda>_.
     ret ())))"

definition legacyNotifyAddon :: "'w Env \<Rightarrow> ('w st, unit) prog" where
  "legacyNotifyAddon E = bindp getAddon (\<lambda>addon.
     bindp (GetCommonInstallOptions addon) (\<lambda>opts.
     call (doGet (k_ConfigMap (uncachedClient E))
            \<lparr>key_Namespace = olm_Namespace opts, key_Name = Name (addonMeta addon)\<rparr>)
       (\<lambda>err. if IsNotFound (theLib E) err then createDeleteConfigMap E else throw err)
       (\<lambda>currentDeleteCM.
          if Labels (cm_meta currentDeleteCM) (DeleteConfigMapLabel addon) = Some ''true''
          then ret ()
          else let modifiedCM = currentDeleteCM\<lparr>cm_meta := (cm_meta currentDeleteCM)
                     \<lparr>Labels := (Labels (cm_meta currentDeleteCM))(DeleteConfigMapLabel addon \<mapsto> ''true'')\<rparr>\<rparr>
               in bindp (doPatch (k_ConfigMap (client E)) KConfigMap modifiedCM currentDeleteCM)
                    (\<lambda>_. ret ()))))"

definition legacyAckReceived :: "'w Env \<Rightarrow> ('w st, bool) prog" where
  "legacyAckReceived E = bindp getAddon (\<lambda>addon.
     bindp (generateOperatorResourceName addon) (\<lambda>opName.
     call (doGet (k_Operator (uncachedClient E)) \<lparr>key_Namespace = '''', key_Name = opName\<rparr>)
       (\<lambda>err. if IsNotFound (theLib E) err then ret False else throw err)
       (\<lambda>operator.
          bindp (GetCommonInstallOptions addon) (\<lambda>opts.
          call (doGet (k_Subscription (client E))
                 \<lparr>key_Namespace = olm_Namespace opts, key_Name = SubscriptionName addon\<rparr>)
            (\<lambda>err. if IsNotFound (theLib E) err then ret False else throw err)
            (\<lambda>currentSubscription.
               ret (CSVmissing operator
                 \<lparr>key_Namespace = olm_Namespace opts, key_Name = sub_CurrentCSV currentSubscription\<rparr>))))))"

definition legacyDeletionHandler :: "'w Env \<Rightarrow> 'w addonDeletionHandler" where
  "legacyDeletionHandler E =
     \<lparr>NotifyAddon = legacyNotifyAddon E, AckReceivedFromAddon = legacyAckReceived E\<rparr>"

subsection \<open>Addon instance handler\<close>

definition fetchAddonInstance :: "'w Env \<Rightarrow> string \<Rightarrow> ('w st, AddonInstance) prog" where
  "fetchAddonInstance E addonNS =
     doGet (k_AddonInstance (client E))
       \<lparr>key_Namespace = addonNS, key_Name = DefaultAddonInstanceName\<rparr>"

definition instanceNotifyAddon :: "'w Env \<Rightarrow> ('w st, unit) prog" where
  "instanceNotifyAddon E = bindp getAddon (\<lambda>addon.
     bindp (GetCommonInstallOptions addon) (\<lambda>opts.
     call (fetchAddonInstance E (olm_Namespace opts))
       (\<lambda>err. if IsNotFound (theLib E) err then ret () else throw err)
       (\<lambda>inst.
          if \<not> MarkedForDeletion (ai_Spec inst)
          then bindp (doUpdate (k_AddonInstance (client E)) KAddonInstance
                 (inst\<lparr>ai_Spec := (ai_Spec inst)\<lparr>MarkedForDeletion := True\<rparr>\<rparr>)) (\<lambda>_. ret ())
          else ret ())))"

definition hasReadyToBeDeletedStatusCondition :: "lib \<Rightarrow> AddonInstance \<Rightarrow> ConditionStatus \<Rightarrow> bool" where
  "hasReadyToBeDeletedStatusCondition L inst expectedValue =
     (case FindStatusCondition L (ai_Conditions (ai_Status inst))
             (AddonInstanceCondition_String AddonInstanceConditionReadyToBeDeleted) of
        None \<Rightarrow> False
      | Some c \<Rightarrow> c_Status c = expectedValue)"

definition instanceAckReceived :: "'w Env \<Rightarrow> ('w st, bool) prog" where
  "instanceAckReceived E = bindp getAddon (\<lambda>addon.
     bindp (GetCommonInstallOptions addon) (\<lambda>opts.
     call (fetchAddonInstance E (olm_Namespace opts))
       (\<lambda>err. if IsNotFound (theLib E) err then ret False else throw err)
       (\<lambda>inst. ret (hasReadyToBeDeletedStatusCondition (theLib E) inst ConditionTrue))))"

definition addonInstanceDeletionHandler :: "'w Env \<Rightarrow> 'w addonDeletionHandler" where
  "addonInstanceDeletionHandler E =
     \<lparr>NotifyAddon = instanceNotifyAddon E, AckReceivedFromAddon = instanceAckReceived E\<rparr>"

subsection \<open>The reconciler\<close>

definition defaultDeleteTimeoutDuration :: duration where
  "defaultDeleteTimeoutDuration = 3600 * nanosPerSecond"

abbreviation DELETION_RECONCILER_NAME :: string where
  "DELETION_RECONCILER_NAME \<equiv> ''deletionReconciler''"

definition awaitingRemoteDeletion :: "lib \<Rightarrow> Addon \<Rightarrow> bool" where
  "awaitingRemoteDeletion L addon =
     (case findCondition L ReadyToBeDeleted addon of
        None \<Rightarrow> False
      | Some c \<Rightarrow> c_Status c = ConditionTrue)"

definition deleteTimeoutInterval :: "Addon \<Rightarrow> duration" where
  "deleteTimeoutInterval addon =
     (case Annotations (addonMeta addon) DeleteTimeoutDuration of
        None \<Rightarrow> defaultDeleteTimeoutDuration
      | Some str \<Rightarrow>
          (case ParseDuration str of
             None \<Rightarrow> defaultDeleteTimeoutDuration
           | Some d \<Rightarrow> d))"

text \<open>The zero \<open>time.Time\<close>, January 1 of year 1.\<close>

definition zeroTime :: time where
  "zeroTime = - 62135596800 * nanosPerSecond"

definition timeOf :: "time option \<Rightarrow> time" where
  "timeOf t = (case t of None \<Rightarrow> zeroTime | Some x \<Rightarrow> x)"

definition deletionTimedOut :: "'w Env \<Rightarrow> ('w st, bool) prog" where
  "deletionTimedOut E = bindp getAddon (\<lambda>addon.
     case findCondition (theLib E) ReadyToBeDeleted addon of
       None \<Rightarrow> ret False
     | Some c \<Rightarrow>
         if c_Status c = ConditionTrue then ret False
         else bindp (timeNow E) (\<lambda>now.
           ret (now > timeOf (c_LastTransitionTime c) + deleteTimeoutInterval addon)))"

definition removeDeleteTimeoutCondition :: "lib \<Rightarrow> Addon \<Rightarrow> Addon" where
  "removeDeleteTimeoutCondition L addon = removeCondition L DeleteTimeout addon"

definition readyToBeDeleted :: "'w Env \<Rightarrow> ('w st, subReconcilerResult) prog" where
  "readyToBeDeleted E =
     bindp (modify (\<lambda>s. s\<lparr>st_addon := removeDeleteTimeoutCondition (theLib E) (st_addon s)\<rparr>)) (\<lambda>_.
     bindp (mutate E (reportAddonReadyToBeDeletedStatus (theLib E) ConditionTrue)) (\<lambda>_.
     ret resultNil))"

definition afterHandlers :: "'w Env \<Rightarrow> ('w st, subReconcilerResult) prog" where
  "afterHandlers E =
     bindp (deletionTimedOut E) (\<lambda>timedOut.
       if timedOut
       then bindp (mutate E (reportAddonDeletionTimedOut (theLib E))) (\<lambda>_. ret resultNil)
       else bindp getAddon (\<lambda>addon. ret (resultRequeueAfter (deleteTimeoutInterval addon))))"

fun runHandlers :: "'w Env \<Rightarrow> 'w addonDeletionHandler list \<Rightarrow> ('w st, subReconcilerResult) prog" where
  "runHandlers E [] = afterHandlers E"
| "runHandlers E (h # hs) =
     call (NotifyAddon h) (\<lambda>err. throw (joinErr err ErrNotifyAddon)) (\<lambda>_.
     call (AckReceivedFromAddon h) (\<lambda>err. throw (joinErr err ErrAckReceivedFromAddon)) (\<lambda>ackReceived.
       if ackReceived then readyToBeDeleted E else runHandlers E hs))"

definition deletionReconcile ::
  "'w Env \<Rightarrow> 'w addonDeletionHandler list \<Rightarrow> ('w st, subReconcilerResult) prog" where
  "deletionReconcile E handlers = bindp getAddon (\<lambda>addon.
     if \<not> markedForDeletion addon \<or> awaitingRemoteDeletion (theLib E) addon then ret resultNil
     else if \<not> DeleteAckRequired (Spec addon) then readyToBeDeleted E
     else bindp (mutate E (reportAddonReadyToBeDeletedStatus (theLib E) ConditionFalse)) (\<lambda>_.
       runHandlers E handlers))"

definition deletionHandlers :: "'w Env \<Rightarrow> 'w addonDeletionHandler list" where
  "deletionHandlers E = [legacyDeletionHandler E, addonInstanceDeletionHandler E]"

section \<open>The contract of a deletion handler\<close>

locale deletion_handler =
  fixes notify :: "('w st, unit) prog"
    and ack :: "('w st, bool) prog"
    and notifies :: "apiCall \<Rightarrow> bool"
  assumes notify_quiet: "(\<And>c. notifies c \<Longrightarrow> P c) \<Longrightarrow> keeps (quiet a n P) notify"
    and ack_quiet: "keeps (quiet a n P) ack"
begin

text \<open>A round of a handler leaves the Addon in memory as it is.\<close>

lemma notify_addon:
  "notify s = (r, s') \<Longrightarrow> st_addon s' = st_addon s \<and> st_ticks s' = st_ticks s"
  using quiet_addon [of notify] notify_quiet [of "\<lambda>_. True"] by blast

lemma ack_addon:
  "ack s = (r, s') \<Longrightarrow> st_addon s' = st_addon s \<and> st_ticks s' = st_ticks s"
  using quiet_addon [of ack] ack_quiet [of _ _ "\<lambda>_. True"] by blast

lemma round_keeps:
  assumes "\<And>c. notifies c \<Longrightarrow> P c" "\<And>e. keeps (runsOn m sp P) (h e)" "\<And>e. keeps (runsOn m sp P) (h' e)"
    and "\<And>b. keeps (runsOn m sp P) (k b)"
  shows "keeps (runsOn m sp P) (call notify h (\<lambda>_. call ack h' k))"
  using assms by (intro keeps_call quiet_runsOn [OF notify_quiet] quiet_runsOn [OF ack_quiet])

end

text \<open>The writes a handler makes to notify an Addon.\<close>

fun notifyCall :: "apiCall \<Rightarrow> bool" where
  "notifyCall (CallCreate (KConfigMap _)) = True"
| "notifyCall (CallPatch (KConfigMap _)) = True"
| "notifyCall (CallUpdate (KAddonInstance inst)) = MarkedForDeletion (ai_Spec inst)"
| "notifyCall _ = False"

interpretation legacy: deletion_handler "legacyNotifyAddon E" "legacyAckReceived E" notifyCall for E
proof (unfold_locales, goal_cases)
  case 1 then show ?case
    unfolding legacyNotifyAddon_def createDeleteConfigMap_def by (intro keeps_rules) auto
next
  case 2 show ?case unfolding legacyAckReceived_def by (intro keeps_rules)
qed

interpretation inst: deletion_handler "instanceNotifyAddon E" "instanceAckReceived E" notifyCall for E
proof (unfold_locales, goal_cases)
  case 1 then show ?case
    unfolding instanceNotifyAddon_def fetchAddonInstance_def by (intro keeps_rules) auto
next
  case 2 show ?case unfolding instanceAckReceived_def fetchAddonInstance_def by (intro keeps_rules)
qed

definition goodHandler :: "'w addonDeletionHandler \<Rightarrow> bool" where
  "goodHandler h \<longleftrightarrow> deletion_handler (NotifyAddon h) (AckReceivedFromAddon h) notifyCall"

lemma good_handlers: "list_all goodHandler (deletionHandlers E)"
  by (simp add: deletionHandlers_def goodHandler_def legacyDeletionHandler_def
      addonInstanceDeletionHandler_def legacy.deletion_handler_axioms inst.deletion_handler_axioms)

section \<open>How the handlers end\<close>

text \<open>
  Three ways: a handler reports the acknowledgement, a call fails, or every handler answered
  without an acknowledgement and the timeout decides. The Addon is as it was until then.
\<close>

lemma runHandlers_cases:
  assumes "list_all goodHandler hs" "runHandlers E hs s = (r, s')"
  shows "(\<exists>h s1 s2. h \<in> set hs \<and> AckReceivedFromAddon h s1 = (Ok True, s2) \<and>
      st_addon s2 = st_addon s \<and> st_ticks s2 = st_ticks s \<and> readyToBeDeleted E s2 = (r, s')) \<or>
    ((\<forall>v. r \<noteq> Ok v) \<and> st_addon s' = st_addon s) \<or>
    (\<exists>s1. st_addon s1 = st_addon s \<and> st_ticks s1 = st_ticks s \<and> afterHandlers E s1 = (r, s'))"
  using assms
proof (induction hs arbitrary: s)
  case (Cons h hs)
  have good: "deletion_handler (NotifyAddon h) (AckReceivedFromAddon h) notifyCall"
    using Cons.prems by (simp add: goodHandler_def)
  obtain rn sn where n: "NotifyAddon h s = (rn, sn)" by fastforce
  note n' = deletion_handler.notify_addon [OF good n]
  show ?case
  proof (cases rn)
    case (Ok u)
    obtain ra sa where a: "AckReceivedFromAddon h sn = (ra, sa)" by fastforce
    note a' = deletion_handler.ack_addon [OF good a]
    show ?thesis
    proof (cases ra)
      case (Ok b)
      show ?thesis
      proof (cases b)
        case True
        then have "readyToBeDeleted E sa = (r, s')"
          using Cons.prems(2) n a \<open>rn = Ok u\<close> Ok by simp
        with True Ok a n' a' show ?thesis by (metis list.set_intros(1))
      next
        case False
        then have "runHandlers E hs sa = (r, s')"
          using Cons.prems(2) n a \<open>rn = Ok u\<close> Ok by simp
        with Cons.IH [of sa] Cons.prems(1) n' a' show ?thesis by (auto intro: list.set_intros)
      qed
    qed (use Cons.prems(2) n a n' a' \<open>rn = Ok u\<close> in auto)
  qed (use Cons.prems(2) n n' in auto)
qed auto

text \<open>What the two ends do to the status.\<close>

lemma readyToBeDeleted_run:
  assumes "condition_laws (theLib E)" "readyToBeDeleted E s = (r, s')"
  shows "r = Ok resultNil" "awaitingRemoteDeletion (theLib E) (st_addon s')"
    "findCondition (theLib E) DeleteTimeout (st_addon s') = None" "st_calls s' = st_calls s"
  using assms
  by (auto simp: readyToBeDeleted_def awaitingRemoteDeletion_def removeDeleteTimeoutCondition_def
      reportAddonReadyToBeDeletedStatus_def)

lemma afterHandlers_run:
  assumes "condition_laws (theLib E)" "afterHandlers E s = (r, s')"
    and "findCondition (theLib E) ReadyToBeDeleted (st_addon s) = Some c" "c_Status c \<noteq> ConditionTrue"
  shows "findCondition (theLib E) ReadyToBeDeleted (st_addon s') = Some c"
    and "if clock E (st_ticks s) > timeOf (c_LastTransitionTime c) + deleteTimeoutInterval (st_addon s)
      then r = Ok resultNil \<and>
        (\<exists>d. findCondition (theLib E) DeleteTimeout (st_addon s') = Some d \<and> c_Status d = ConditionTrue)
      else r = Ok (resultRequeueAfter (deleteTimeoutInterval (st_addon s))) \<and> st_addon s' = st_addon s"
  using assms
  by (auto simp: afterHandlers_def deletionTimedOut_def reportAddonDeletionTimedOut_def split: if_splits)

lemma report_not_ready:
  assumes "condition_laws L"
  shows "\<exists>c. findCondition L ReadyToBeDeleted
      (reportAddonReadyToBeDeletedStatus L ConditionFalse now a) = Some c \<and>
    c_Status c = ConditionFalse \<and> c_LastTransitionTime c =
      (case findCondition L ReadyToBeDeleted a of
         Some c' \<Rightarrow> if c_Status c' = ConditionFalse then c_LastTransitionTime c' else Some now
       | None \<Rightarrow> Some now)"
  using assms
  by (auto simp: reportAddonReadyToBeDeletedStatus_def transitionTime_def split: option.splits)

lemma identity_facts:
  "sameIdentity f \<Longrightarrow> addonMeta (f a) = addonMeta a" "sameIdentity f \<Longrightarrow> Spec (f a) = Spec a"
  by (simp_all add: sameIdentity_def)

lemma deleteTimeoutInterval_cong [simp]:
  "deleteTimeoutInterval (reportAddonReadyToBeDeletedStatus L v now a) = deleteTimeoutInterval a"
  by (simp add: deleteTimeoutInterval_def identity_facts)

section \<open>The reconciler keeps to its calls\<close>

lemma readyToBeDeleted_runsOn: "keeps (runsOn m sp P) (readyToBeDeleted E)"
  unfolding readyToBeDeleted_def removeDeleteTimeoutCondition_def
  by (intro keeps_rules) (auto simp: runsOn_def identity_facts)

lemma runHandlers_runsOn:
  assumes "list_all goodHandler hs" "\<And>c. notifyCall c \<Longrightarrow> P c"
  shows "keeps (runsOn m sp P) (runHandlers E hs)"
  using assms(1)
proof (induction hs)
  case Nil
  show ?case
    unfolding runHandlers.simps afterHandlers_def deletionTimedOut_def
    by (intro keeps_rules runsOn_getAddon sameIdentity_reports)
next
  case (Cons h hs)
  have good: "deletion_handler (NotifyAddon h) (AckReceivedFromAddon h) notifyCall"
    using Cons.prems by (simp add: goodHandler_def)
  with Cons show ?case
    unfolding runHandlers.simps
    by (intro deletion_handler.round_keeps [OF good] keeps_if keeps_throw readyToBeDeleted_runsOn
        assms(2)) auto
qed

lemma deletion_runsOn:
  assumes "\<And>c. notifyCall c \<Longrightarrow> P c"
  shows "keeps (runsOn m sp P) (deletionReconcile E (deletionHandlers E))"
  unfolding deletionReconcile_def
  by (intro runsOn_getAddon keeps_if keeps_ret keeps_bindp runsOn_mutate sameIdentity_reports
      runHandlers_runsOn readyToBeDeleted_runsOn good_handlers assms)

section \<open>What an acknowledgement is\<close>

lemma installOptions_ok:
  "bindp (GetCommonInstallOptions a) k s = (Ok v, s') \<Longrightarrow>
     \<exists>c. GetCommonInstallOptions a s = (Ok c, s) \<and> k c s = (Ok v, s')"
  using GetCommonInstallOptions_cases [of a s] by auto

text \<open>The object the handler read last, and the world that read left behind.\<close>

definition csvGone :: "'w Env \<Rightarrow> Addon \<Rightarrow> AddonInstallOLMCommon \<Rightarrow> 'w \<Rightarrow> bool" where
  "csvGone E addon opts w' \<longleftrightarrow> (\<exists>w1 w2 operator sub.
     kGet (k_Operator (uncachedClient E))
       \<lparr>key_Namespace = '''', key_Name = PackageName opts @ ''.'' @ olm_Namespace opts\<rparr> w1 = (Inr operator, w2) \<and>
     kGet (k_Subscription (client E))
       \<lparr>key_Namespace = olm_Namespace opts, key_Name = SubscriptionName addon\<rparr> w2 = (Inr sub, w') \<and>
     CSVmissing operator \<lparr>key_Namespace = olm_Namespace opts, key_Name = sub_CurrentCSV sub\<rparr>)"

definition instanceReady :: "'w Env \<Rightarrow> AddonInstallOLMCommon \<Rightarrow> 'w \<Rightarrow> bool" where
  "instanceReady E opts w' \<longleftrightarrow> (\<exists>w inst.
     kGet (k_AddonInstance (client E))
       \<lparr>key_Namespace = olm_Namespace opts, key_Name = DefaultAddonInstanceName\<rparr> w = (Inr inst, w') \<and>
     hasReadyToBeDeletedStatusCondition (theLib E) inst ConditionTrue)"

lemma instance_ack:
  assumes "instanceAckReceived E s = (Ok True, s')"
  shows "\<exists>opts. GetCommonInstallOptions (st_addon s) s = (Ok opts, s) \<and> instanceReady E opts (st_world s')"
proof -
  from assms obtain opts where opts: "GetCommonInstallOptions (st_addon s) s = (Ok opts, s)"
    and run: "call (fetchAddonInstance E (olm_Namespace opts))
       (\<lambda>err. if IsNotFound (theLib E) err then ret False else throw err)
       (\<lambda>inst. ret (hasReadyToBeDeletedStatusCondition (theLib E) inst ConditionTrue)) s = (Ok True, s')"
    unfolding instanceAckReceived_def by (auto dest: installOptions_ok)
  let ?f = "kGet (k_AddonInstance (client E))
    \<lparr>key_Namespace = olm_Namespace opts, key_Name = DefaultAddonInstanceName\<rparr>"
  have "instanceReady E opts (st_world s')"
  proof (cases rule: apiRead_cases [of ?f s])
    case (ok inst)
    with run have "s' = s\<lparr>st_world := snd (?f (st_world s))\<rparr>"
      "hasReadyToBeDeletedStatusCondition (theLib E) inst ConditionTrue"
      by (simp_all add: fetchAddonInstance_def doGet_def)
    with ok(1) show ?thesis unfolding instanceReady_def by auto
  qed (use run in \<open>auto simp: fetchAddonInstance_def doGet_def split: if_splits\<close>)
  with opts show ?thesis by blast
qed

lemma legacy_ack:
  assumes "legacyAckReceived E s = (Ok True, s')"
  shows "\<exists>opts. GetCommonInstallOptions (st_addon s) s = (Ok opts, s) \<and>
    csvGone E (st_addon s) opts (st_world s')"
proof -
  let ?a = "st_addon s"
  from assms obtain opts where opts: "GetCommonInstallOptions ?a s = (Ok opts, s)"
    unfolding legacyAckReceived_def generateOperatorResourceName_def
    using GetCommonInstallOptions_cases [of ?a s] by auto
  then have opts': "GetCommonInstallOptions ?a t = (Ok opts, t)" for t :: "'a st"
    by (auto simp: GetCommonInstallOptions_def deref_def split: AddonInstallType.splits option.splits)
  let ?f = "kGet (k_Operator (uncachedClient E))
    \<lparr>key_Namespace = '''', key_Name = PackageName opts @ ''.'' @ olm_Namespace opts\<rparr>"
  let ?g = "kGet (k_Subscription (client E))
    \<lparr>key_Namespace = olm_Namespace opts, key_Name = SubscriptionName ?a\<rparr>"
  note run = assms [unfolded legacyAckReceived_def generateOperatorResourceName_def doGet_def]
  have "csvGone E ?a opts (st_world s')"
  proof (cases rule: apiRead_cases [of ?f s])
    case (ok operator)
    let ?s1 = "s\<lparr>st_world := snd (?f (st_world s))\<rparr>"
    show ?thesis
    proof (cases rule: apiRead_cases [of ?g ?s1])
      case sub: (ok sub)
      with run ok opts' have "s' = ?s1\<lparr>st_world := snd (?g (st_world ?s1))\<rparr>"
        "CSVmissing operator \<lparr>key_Namespace = olm_Namespace opts, key_Name = sub_CurrentCSV sub\<rparr>"
        by simp_all
      with ok(1) sub(1) show ?thesis unfolding csvGone_def by auto
    qed (use run ok opts' in \<open>auto split: if_splits\<close>)
  qed (use run opts' in \<open>auto split: if_splits\<close>)
  with opts show ?thesis by blast
qed

section \<open>Properties\<close>

lemma ack_observed:
  assumes "h \<in> set (deletionHandlers E)" "AckReceivedFromAddon h s1 = (Ok True, s2)"
  shows "\<exists>opts. GetCommonInstallOptions (st_addon s1) s1 = (Ok opts, s1) \<and>
    (csvGone E (st_addon s1) opts (st_world s2) \<or> instanceReady E opts (st_world s2))"
  using assms legacy_ack [of E s1 s2] instance_ack [of E s1 s2]
  by (auto simp: deletionHandlers_def legacyDeletionHandler_def addonInstanceDeletionHandler_def)

lemma readyToBeDeleted_world: "readyToBeDeleted E s = (r, s') \<Longrightarrow> st_world s' = st_world s"
  by (auto simp: readyToBeDeleted_def)

lemma ack_addon_same:
  assumes "h \<in> set (deletionHandlers E)" "AckReceivedFromAddon h s1 = (r, s2)"
  shows "st_addon s1 = st_addon s2"
proof -
  have "goodHandler h" using assms(1) good_handlers [of E] by (simp add: list_all_iff)
  then show ?thesis using assms(2) deletion_handler.ack_addon unfolding goodHandler_def by metis
qed

lemma not_ready_report_awaiting:
  "condition_laws L \<Longrightarrow>
     \<not> awaitingRemoteDeletion L (reportAddonReadyToBeDeletedStatus L ConditionFalse now a)"
  using report_not_ready [of L now a] by (auto simp: awaitingRemoteDeletion_def)

text \<open>The same install options are read at every state, and from every version of the status.\<close>

lemma installOptions_state:
  "GetCommonInstallOptions a s = (Ok opts, s) \<Longrightarrow> Spec b = Spec a \<Longrightarrow>
     GetCommonInstallOptions b t = (Ok opts, t)"
  by (auto simp: GetCommonInstallOptions_def deref_def split: AddonInstallType.splits option.splits)

lemma afterHandlers_not_awaiting:
  assumes "condition_laws (theLib E)" "afterHandlers E s = (r, s')"
    and "findCondition (theLib E) ReadyToBeDeleted (st_addon s) = Some c" "c_Status c = ConditionFalse"
  shows "\<not> awaitingRemoteDeletion (theLib E) (st_addon s')"
  using afterHandlers_run(1) [OF assms(1-3)] assms(4) by (simp add: awaitingRemoteDeletion_def)

text \<open>
  C5: An Addon that requires an acknowledgement is reported ready to be deleted only after one:
  either its ClusterServiceVersion is gone from the OLM Operator object, or its AddonInstance
  reports that it is ready. Nothing is reported without the delete annotation.
\<close>

theorem deletion_ready_needs_ack:
  assumes laws: "condition_laws (theLib E)"
    and run: "deletionReconcile E (deletionHandlers E) s = (r, s')"
    and before: "\<not> awaitingRemoteDeletion (theLib E) (st_addon s)"
    and after: "awaitingRemoteDeletion (theLib E) (st_addon s')"
  shows "markedForDeletion (st_addon s) \<and>
    (DeleteAckRequired (Spec (st_addon s)) \<longrightarrow>
      (\<exists>opts. GetCommonInstallOptions (st_addon s) s = (Ok opts, s) \<and>
        (csvGone E (st_addon s) opts (st_world s') \<or> instanceReady E opts (st_world s'))))"
proof (intro conjI impI)
  show marked: "markedForDeletion (st_addon s)"
    using run before after by (auto simp: deletionReconcile_def split: if_splits)
  assume ack: "DeleteAckRequired (Spec (st_addon s))"
  let ?a = "reportAddonReadyToBeDeletedStatus (theLib E) ConditionFalse (clock E (st_ticks s)) (st_addon s)"
  let ?s = "s\<lparr>st_addon := ?a, st_ticks := Suc (st_ticks s)\<rparr>"
  have run': "runHandlers E (deletionHandlers E) ?s = (r, s')"
    using run before marked ack by (simp add: deletionReconcile_def)
  obtain c where c: "findCondition (theLib E) ReadyToBeDeleted ?a = Some c" "c_Status c = ConditionFalse"
    using report_not_ready [OF laws] by blast
  from runHandlers_cases [OF good_handlers run']
  consider h s1 s2 where "h \<in> set (deletionHandlers E)" "AckReceivedFromAddon h s1 = (Ok True, s2)"
      "st_addon s2 = ?a" "readyToBeDeleted E s2 = (r, s')"
    | "st_addon s' = ?a"
    | s1 where "st_addon s1 = ?a" "afterHandlers E s1 = (r, s')" by auto
  then show "\<exists>opts. GetCommonInstallOptions (st_addon s) s = (Ok opts, s) \<and>
      (csvGone E (st_addon s) opts (st_world s') \<or> instanceReady E opts (st_world s'))"
  proof cases
    case (1 h s1 s2)
    have same: "Spec (st_addon s) = Spec (st_addon s1)" "addonMeta (st_addon s) = addonMeta (st_addon s1)"
      using ack_addon_same [OF 1(1,2)] 1(3) by (simp_all add: identity_facts)
    from ack_observed [OF 1(1,2)] obtain opts
      where opts: "GetCommonInstallOptions (st_addon s1) s1 = (Ok opts, s1)"
        "csvGone E (st_addon s1) opts (st_world s2) \<or> instanceReady E opts (st_world s2)" by blast
    moreover have "csvGone E (st_addon s1) opts = csvGone E (st_addon s) opts"
      by (simp add: fun_eq_iff csvGone_def SubscriptionName_def same)
    ultimately show ?thesis
      using installOptions_state [OF opts(1) same(1)] readyToBeDeleted_world [OF 1(4)] by metis
  next
    case 2
    with after not_ready_report_awaiting [OF laws] show ?thesis by simp
  next
    case (3 s1)
    with after c afterHandlers_not_awaiting [OF laws, of s1 r s' c] show ?thesis by simp
  qed
qed


text \<open>
  C39: A timeout annotation that is a whole number of nanoseconds, microseconds, milliseconds,
  seconds, minutes or hours is read back exactly, as long as it fits a 64-bit duration.
\<close>

theorem delete_timeout_annotation:
  assumes "unitMap u = Some unit" "unitString u" "unit > 0" "n * unit < 2 ^ 63"
    and "Annotations (addonMeta addon) DeleteTimeoutDuration = Some (digits10 n @ u)"
  shows "deleteTimeoutInterval addon = int (n * unit)"
  using ParseDuration_whole [OF assms(2,1,4,3)] assms(5) by (simp add: deleteTimeoutInterval_def)

section \<open>Witnesses\<close>

definition ackAddon :: Addon where
  "ackAddon = refAddon\<lparr>addonMeta := (objectMeta '''' ''ref'')\<lparr>UID := ''u1'',
     Annotations := [DeleteAnnotationFlag \<mapsto> '''', DeleteTimeoutDuration \<mapsto> ''30s'']\<rparr>,
     Spec := refSpec\<lparr>DeleteAckRequired := True\<rparr>\<rparr>"

definition ackInstance :: AddonInstance where
  "ackInstance = \<lparr>ai_meta = objectMeta ''ns'' DefaultAddonInstanceName,
     ai_Spec = \<lparr>MarkedForDeletion = True, HeartbeatUpdatePeriod = 0\<rparr>,
     ai_Status = \<lparr>ai_ObservedGeneration = 0, ai_Conditions =
       [condition (AddonInstanceCondition_String AddonInstanceConditionReadyToBeDeleted) ConditionTrue '''' '''' 0],
       LastHeartbeatTime = None\<rparr>\<rparr>"

definition ackStock :: stock where
  "ackStock = emptyStock\<lparr>so_AddonInstance := [ackInstance]\<rparr>"

lemmas deletion_eval = deletionReconcile_def deletionHandlers_def legacyDeletionHandler_def
  addonInstanceDeletionHandler_def legacyNotifyAddon_def legacyAckReceived_def
  createDeleteConfigMap_def instanceNotifyAddon_def instanceAckReceived_def fetchAddonInstance_def
  hasReadyToBeDeletedStatusCondition_def awaitingRemoteDeletion_def markedForDeletion_def
  readyToBeDeleted_def afterHandlers_def deletionTimedOut_def removeDeleteTimeoutCondition_def
  generateOperatorResourceName_def GetCommonInstallOptions_def

lemma ackAddon_sel [simp]:
  "Annotations (addonMeta ackAddon) = [DeleteAnnotationFlag \<mapsto> '''', DeleteTimeoutDuration \<mapsto> ''30s'']"
  "Spec ackAddon = refSpec\<lparr>DeleteAckRequired := True\<rparr>" "Status ackAddon = refStatus"
  by (simp_all add: ackAddon_def refAddon_def)

lemma ack_run:
  "awaitingRemoteDeletion refLib (st_addon (snd (deletionReconcile (refEnv ackStock)
     (deletionHandlers (refEnv ackStock)) (refState ackAddon))))"
  by (simp add: deletion_eval prog_defs ref_eval ackStock_def ackInstance_def ref_objects
      findCondition_def report_defs status_prims condition_def identity_facts)

theorem deletion_ready_needs_ack_witness:
  "\<exists>opts. GetCommonInstallOptions ackAddon (refState ackAddon) = (Ok opts, refState ackAddon) \<and>
     (csvGone (refEnv ackStock) ackAddon opts () \<or> instanceReady (refEnv ackStock) opts ())"
proof -
  have "\<not> awaitingRemoteDeletion refLib ackAddon"
    by (simp add: awaitingRemoteDeletion_def findCondition_def refStatus_def)
  with deletion_ready_needs_ack [of "refEnv ackStock" "refState ackAddon", OF _ prod.collapse [symmetric]]
  show ?thesis using ack_run refLib_conditions by simp
qed

text \<open>The same Addon with a signal that is 10 seconds old and no instance to acknowledge it.\<close>

definition waitingAddon :: Addon where
  "waitingAddon = ackAddon\<lparr>Status := refStatus\<lparr>Conditions :=
     [(condition ReadyToBeDeleted ConditionFalse '''' '''' 0)\<lparr>c_LastTransitionTime := Some (- 10 * nanosPerSecond)\<rparr>]\<rparr>\<rparr>"

lemma thirty_s: "''30s'' = digits10 30 @ ''s''"
  by code_simp

lemma thirty_seconds: "ParseDuration ''30s'' = Some (30 * nanosPerSecond)"
proof -
  have "ParseDuration (digits10 30 @ ''s'') = Some (int (30 * 1000000000))"
    by (rule ParseDuration_whole) (simp_all add: unitString_def isUnitChar_def isDigit_def unitMap_def)
  then show ?thesis by (simp add: nanosPerSecond_def flip: thirty_s)
qed

lemma waiting_run:
  "fst (deletionReconcile (refEnv emptyStock) (deletionHandlers (refEnv emptyStock))
     (refState waitingAddon)) = Ok (resultRequeueAfter (30 * nanosPerSecond))"
  "\<not> awaitingRemoteDeletion refLib (st_addon (snd (deletionReconcile (refEnv emptyStock)
     (deletionHandlers (refEnv emptyStock)) (refState waitingAddon))))"
  by (simp_all add: deletion_eval prog_defs ref_eval ref_objects waitingAddon_def
      findCondition_def report_defs status_prims condition_def identity_facts timeOf_def
      deleteTimeoutInterval_def thirty_seconds [unfolded nanosPerSecond_def])


theorem delete_timeout_annotation_witness: "deleteTimeoutInterval ackAddon = 30000000000"
  using delete_timeout_annotation [of "''s''" 1000000000 30 ackAddon]
  by (simp add: unitString_def isUnitChar_def isDigit_def unitMap_def flip: thirty_s)

end
