(* ===== verification/Namespaces.thy ===== *)
theory Namespaces
  imports Addon_Status Ref_Cluster
begin

text \<open>
  Sub-reconciler 2, the namespaces of an Addon (\<open>namespace_reconciler.go\<close>, \<open>namespace_options.go\<close>):
  wanted namespaces are created or adopted, labelled namespaces that are no longer wanted are
  deleted.
\<close>

section \<open>Model\<close>

abbreviation NAMESPACE_RECONCILER_NAME :: string where
  "NAMESPACE_RECONCILER_NAME \<equiv> ''namespaceReconciler''"

definition WithNamespaceLabels :: "labels \<Rightarrow> NamespaceObj \<Rightarrow> NamespaceObj" where
  "WithNamespaceLabels ls n = n\<lparr>ns_meta := (ns_meta n)\<lparr>Labels := ls\<rparr>\<rparr>"

definition WithNamespaceAnnotations :: "labels \<Rightarrow> NamespaceObj \<Rightarrow> NamespaceObj" where
  "WithNamespaceAnnotations as n = n\<lparr>ns_meta := (ns_meta n)\<lparr>Annotations := as\<rparr>\<rparr>"

definition reconcileNamespace :: "'w Env \<Rightarrow> NamespaceObj \<Rightarrow> ('w st, NamespaceObj) prog" where
  "reconcileNamespace E namespace =
     call (doGet (k_Namespace (client E)) \<lparr>key_Namespace = '''', key_Name = Name (ns_meta namespace)\<rparr>)
       (\<lambda>err. if IsNotFound (theLib E) err
              then doCreate (k_Namespace (client E)) KNamespace namespace
              else throw err)
       (\<lambda>current.
          let cm = (ns_meta current)\<lparr>OwnerReferences := OwnerReferences (ns_meta namespace)\<rparr>;
              cm = cm\<lparr>Labels := LabelsMerge (theLib E) (Labels cm) (Labels (ns_meta namespace))\<rparr>;
              cm = cm\<lparr>Annotations := LabelsMerge (theLib E) (Annotations cm) (Annotations (ns_meta namespace))\<rparr>
          in doUpdate (k_Namespace (client E)) KNamespace (current\<lparr>ns_meta := cm\<rparr>))"

definition ensureNamespace ::
  "'w Env \<Rightarrow> string \<Rightarrow> (NamespaceObj \<Rightarrow> NamespaceObj) list \<Rightarrow> ('w st, NamespaceObj) prog" where
  "ensureNamespace E name opts = bindp getAddon (\<lambda>addon.
     let namespace = foldl (\<lambda>n opt. opt n) \<lparr>ns_meta = objectMeta '''' name, ns_Phase = ''''\<rparr> opts;
         m = AddCommonAnnotations (theLib E) addon (AddCommonLabels (theLib E) addon (ns_meta namespace))
     in case SetControllerReference (theLib E) (addonMeta addon) m of
          Inl err \<Rightarrow> throw err
        | Inr m \<Rightarrow> reconcileNamespace E (namespace\<lparr>ns_meta := m\<rparr>))"

fun ensureEach :: "'w Env \<Rightarrow> AddonNamespace list \<Rightarrow> string list \<Rightarrow> ('w st, string list) prog" where
  "ensureEach E [] unready = ret unready"
| "ensureEach E (n # ns) unready =
     bindp (ensureNamespace E (ans_Name n)
              [WithNamespaceLabels (ans_Labels n), WithNamespaceAnnotations (ans_Annotations n)]) (\<lambda>ensured.
     ensureEach E ns
       (if ns_Phase ensured \<noteq> NamespaceActive then unready @ [Name (ns_meta ensured)] else unready))"

definition ensureWantedNamespaces :: "'w Env \<Rightarrow> ('w st, subReconcilerResult) prog" where
  "ensureWantedNamespaces E = bindp getAddon (\<lambda>addon.
     bindp (ensureEach E (Namespaces (Spec addon)) []) (\<lambda>unready.
     if length unready > 0
     then bindp (mutate E (reportUnreadyNamespaces (theLib E) unready)) (\<lambda>_.
          ret (resultRequeueAfter defaultRetryAfterTime))
     else ret resultNil))"

definition ensureNamespaceDeletion :: "'w Env \<Rightarrow> string \<Rightarrow> ('w st, unit) prog" where
  "ensureNamespaceDeletion E name =
     call (doDelete (k_Namespace (client E)) NamespaceKind \<lparr>key_Namespace = '''', key_Name = name\<rparr>)
       (\<lambda>err. if \<not> IsNotFound (theLib E) err then throw err else ret ())
       (\<lambda>_. ret ())"

definition getOwnedNamespacesViaCommonLabels :: "'w Env \<Rightarrow> ('w st, NamespaceObj list) prog" where
  "getOwnedNamespacesViaCommonLabels E = bindp getAddon (\<lambda>addon.
     call (doList (k_Namespace (client E)) '''' (CommonLabelsAsLabelSelector addon))
       (\<lambda>err. throw (Wrap ''could not list owned Namespaces'' err)) ret)"

definition wantedNamespaceNames :: "Addon \<Rightarrow> string set" where
  "wantedNamespaceNames addon =
     insert (GetMonitoringNamespaceName addon) (set (map ans_Name (Namespaces (Spec addon))))"

fun deleteUnwanted :: "'w Env \<Rightarrow> string set \<Rightarrow> NamespaceObj list \<Rightarrow> ('w st, unit) prog" where
  "deleteUnwanted E wanted [] = ret ()"
| "deleteUnwanted E wanted (n # ns) =
     (if Name (ns_meta n) \<in> wanted then deleteUnwanted E wanted ns
      else bindp (ensureNamespaceDeletion E (Name (ns_meta n))) (\<lambda>_. deleteUnwanted E wanted ns))"

definition ensureDeletionOfUnwantedNamespaces :: "'w Env \<Rightarrow> ('w st, unit) prog" where
  "ensureDeletionOfUnwantedNamespaces E =
     bindp (getOwnedNamespacesViaCommonLabels E) (\<lambda>currentNamespaces.
     bindp getAddon (\<lambda>addon.
     deleteUnwanted E (wantedNamespaceNames addon) currentNamespaces))"

definition namespaceReconcile :: "'w Env \<Rightarrow> ('w st, subReconcilerResult) prog" where
  "namespaceReconcile E =
     call (ensureWantedNamespaces E)
       (\<lambda>err. throw (Wrap ''failed to ensure wanted Namespaces'' err))
       (\<lambda>result. unlessZero result
          (call (ensureDeletionOfUnwantedNamespaces E)
             (\<lambda>err. throw (Wrap ''failed to ensure deletion of unwanted Namespaces'' err))
             (\<lambda>_. ret resultNil)))"

section \<open>What it writes\<close>

text \<open>
  The calls a reconciliation of the namespaces may make: it creates and updates wanted
  namespaces, with the Addon as their controller and its labels on them, and it deletes
  namespaces that carry the labels of the operator for this Addon and are not wanted.
\<close>

fun namespaceCall :: "lib \<Rightarrow> Addon \<Rightarrow> apiCall \<Rightarrow> bool" where
  "namespaceCall L a (CallCreate (KNamespace n)) =
     (Name (ns_meta n) \<in> set (map ans_Name (Namespaces (Spec a))) \<and> ownedMeta L a (ns_meta n))"
| "namespaceCall L a (CallUpdate (KNamespace n)) =
     (Name (ns_meta n) \<in> set (map ans_Name (Namespaces (Spec a))) \<and> ownedMeta L a (ns_meta n))"
| "namespaceCall L a (CallDelete NamespaceKind key) =
     (key_Name key \<notin> wantedNamespaceNames a \<and>
      (\<exists>n :: NamespaceObj. Name (ns_meta n) = key_Name key \<and>
         selectorMatches (CommonLabelsAsLabelSelector a) (ns_meta n)))"
| "namespaceCall L a _ = False"

lemma wantedNamespaceNames_cong:
  "sameAddon a b \<Longrightarrow> wantedNamespaceNames a = wantedNamespaceNames b"
  by (simp add: wantedNamespaceNames_def GetMonitoringNamespaceName_def sameAddon_def)

lemma reconcileNamespace_calls:
  assumes "env_laws E" "\<And>c. namespaceCall (theLib E) a c \<Longrightarrow> P c"
    "Name (ns_meta n) \<in> set (map ans_Name (Namespaces (Spec a)))"
    "ownedMeta (theLib E) a (ns_meta n)"
  shows "keeps (runsFor a P) (reconcileNamespace E n)"
  unfolding reconcileNamespace_def
  by (rule keeps_call_yields [OF yields_doGet [OF env_lawsD(7) [OF assms(1)]]])
     (use assms(3,4) env_lawsD(2,4) [OF assms(1)] in
      \<open>auto simp: Let_def intro!: keeps_rules assms(2) ownedMeta_merge [of _ _ "ns_meta n"]\<close>)

lemma ensureNamespace_calls:
  assumes "env_laws E" "\<And>c. namespaceCall (theLib E) a c \<Longrightarrow> P c" "n \<in> set (Namespaces (Spec a))"
  shows "keeps (runsFor a P) (ensureNamespace E (ans_Name n)
    [WithNamespaceLabels (ans_Labels n), WithNamespaceAnnotations (ans_Annotations n)])"
  unfolding ensureNamespace_def
proof (rule runsFor_getAddon, simp only: Let_def, rule keeps_case_sum, goal_cases)
  case (2 b om)
  note owned = ownedMeta_new [OF env_lawsD(2,4) [OF assms(1)] 2(2)]
  show ?case
    by (rule reconcileNamespace_calls [OF assms(1,2)])
       (use owned 2(1) assms(3) in
        \<open>auto simp: ownedMeta_cong WithNamespaceLabels_def WithNamespaceAnnotations_def\<close>)
qed (intro keeps_rules)

lemma ensureEach_calls:
  assumes "env_laws E" "\<And>c. namespaceCall (theLib E) a c \<Longrightarrow> P c" "set ns \<subseteq> set (Namespaces (Spec a))"
  shows "keeps (runsFor a P) (ensureEach E ns unready)"
  using assms(3)
  by (induction ns arbitrary: unready)
     (auto intro!: keeps_ret keeps_bindp ensureNamespace_calls [OF assms(1,2)])

lemma deleteUnwanted_calls:
  assumes "\<And>c. namespaceCall (theLib E) a c \<Longrightarrow> P c"
    "\<forall>n \<in> set ns. CommonLabelsAsLabelSelector a \<subseteq>\<^sub>m Labels (ns_meta n)"
  shows "keeps (runsFor a P) (deleteUnwanted E (wantedNamespaceNames a) ns)"
  using assms(2)
  by (induction ns)
     (auto simp: ensureNamespaceDeletion_def selectorMatches_def intro!: keeps_rules assms(1))

lemma owned_yields:
  assumes "env_laws E"
  shows "yields (runsFor a P) (getOwnedNamespacesViaCommonLabels E)
      (\<lambda>ns. \<forall>n \<in> set ns. CommonLabelsAsLabelSelector a \<subseteq>\<^sub>m Labels (ns_meta n))"
  unfolding getOwnedNamespacesViaCommonLabels_def
  by (rule yields_bindp [OF yields_runsFor_getAddon],
      rule yields_call [OF yields_doList [OF env_lawsD(8) [OF assms]]])
     (auto intro!: yields_throw yields_ret simp: selector_cong)

lemma ensureWanted_calls:
  assumes "env_laws E" "\<And>c. namespaceCall (theLib E) a c \<Longrightarrow> P c"
  shows "keeps (runsFor a P) (ensureWantedNamespaces E)"
  unfolding ensureWantedNamespaces_def
  by (intro runsOn_getAddon keeps_rules ensureEach_calls [OF assms] sameIdentity_pending) simp_all

lemma namespace_calls:
  assumes "env_laws E" "\<And>c. namespaceCall (theLib E) a c \<Longrightarrow> P c"
  shows "keeps (runsFor a P) (namespaceReconcile E)"
proof -
  have "keeps (runsFor a P) (ensureDeletionOfUnwantedNamespaces E)"
    unfolding ensureDeletionOfUnwantedNamespaces_def
    by (rule keeps_bindp_yields [OF owned_yields [OF assms(1)]])
       (auto intro!: runsFor_getAddon deleteUnwanted_calls assms(2) simp: wantedNamespaceNames_cong)
  then show ?thesis
    unfolding namespaceReconcile_def by (intro keeps_call keeps_rules ensureWanted_calls [OF assms])
qed

section \<open>What it has written when it succeeds\<close>

lemma recorded_ensureNamespace [keeps_rules]: "keeps (recorded x) (ensureNamespace E n opts)"
  unfolding ensureNamespace_def reconcileNamespace_def Let_def by (intro keeps_rules)

lemma recorded_ensureEach [keeps_rules]: "keeps (recorded x) (ensureEach E ns unready)"
  by (induction ns arbitrary: unready) (auto intro!: keeps_rules)

lemma recorded_ensureNamespaceDeletion [keeps_rules]: "keeps (recorded x) (ensureNamespaceDeletion E n)"
  unfolding ensureNamespaceDeletion_def by (intro keeps_rules)

lemma recorded_deleteUnwanted [keeps_rules]: "keeps (recorded x) (deleteUnwanted E wanted ns)"
  by (induction ns) (auto intro!: keeps_rules)

lemma recorded_getOwned [keeps_rules]: "keeps (recorded x) (getOwnedNamespacesViaCommonLabels E)"
  unfolding getOwnedNamespacesViaCommonLabels_def by (intro keeps_rules)

definition wroteNamespace :: "string \<Rightarrow> 'w st \<Rightarrow> bool" where
  "wroteNamespace name s \<longleftrightarrow> (\<exists>obj. Name (ns_meta obj) = name \<and>
     (recorded (CallCreate (KNamespace obj), None) s \<or> recorded (CallUpdate (KNamespace obj), None) s))"

definition deletedNamespace :: "lib \<Rightarrow> string \<Rightarrow> 'w st \<Rightarrow> bool" where
  "deletedNamespace L name s \<longleftrightarrow> (\<exists>e. (case e of None \<Rightarrow> True | Some err \<Rightarrow> IsNotFound L err) \<and>
     recorded (CallDelete NamespaceKind \<lparr>key_Namespace = '''', key_Name = name\<rparr>, e) s)"

lemma keeps_wrote: "(\<And>x. keeps (recorded x) m) \<Longrightarrow> keeps (wroteNamespace n) m"
  unfolding keeps_def wroteNamespace_def by blast

lemma keeps_deleted: "(\<And>x. keeps (recorded x) m) \<Longrightarrow> keeps (deletedNamespace L n) m"
  unfolding keeps_def deletedNamespace_def by blast

lemma ensureNamespace_ok:
  assumes "env_laws E" "ensureNamespace E name
    [WithNamespaceLabels ls, WithNamespaceAnnotations as] s = (Ok v, s')"
  shows "wroteNamespace name s'"
proof -
  from assms(2) obtain om
    where new: "SetControllerReference (theLib E) (addonMeta (st_addon s))
        (AddCommonAnnotations (theLib E) (st_addon s) (AddCommonLabels (theLib E) (st_addon s)
          ((objectMeta '''' name)\<lparr>Labels := ls, Annotations := as\<rparr>))) = Inr om"
    and run: "reconcileNamespace E \<lparr>ns_meta = om, ns_Phase = ''''\<rparr> s = (Ok v, s')"
    by (auto simp: ensureNamespace_def Let_def bindp_ok WithNamespaceLabels_def
        WithNamespaceAnnotations_def split: sum.splits)
  have om: "Name om = name" using ownedMeta_new(2) [OF env_lawsD(2,4) [OF assms(1)] new] by simp
  let ?n = "\<lparr>ns_meta = om, ns_Phase = ''''\<rparr>"
  from run consider s1 where "doCreate (k_Namespace (client E)) KNamespace ?n s1 = (Ok v, s')"
    | current s1 obj where "doGet (k_Namespace (client E)) \<lparr>key_Namespace = '''', key_Name = name\<rparr> s = (Ok current, s1)"
      "Name (ns_meta obj) = Name (ns_meta current)"
      "doUpdate (k_Namespace (client E)) KNamespace obj s1 = (Ok v, s')"
    unfolding reconcileNamespace_def Let_def call_ok by (fastforce simp: om split: if_splits)
  then show ?thesis
  proof cases
    case 1
    with om show ?thesis unfolding wroteNamespace_def using write_recorded(2) by force
  next
    case 2
    with doGet_ok [OF env_lawsD(7) [OF assms(1)] 2(1)] write_recorded(3) [OF 2(3)] show ?thesis
      unfolding wroteNamespace_def by auto
  qed
qed

lemma ensureEach_ok:
  assumes "env_laws E" "ensureEach E ns unready s = (Ok u, s')" "n \<in> set ns"
  shows "wroteNamespace (ans_Name n) s'"
  using assms(2,3)
proof (induction ns arbitrary: unready s)
  case (Cons n' ns)
  then obtain x s1 unready' where first: "ensureNamespace E (ans_Name n')
      [WithNamespaceLabels (ans_Labels n'), WithNamespaceAnnotations (ans_Annotations n')] s = (Ok x, s1)"
    and rest: "ensureEach E ns unready' s1 = (Ok u, s')"
    by (auto simp: bindp_ok)
  have "wroteNamespace (ans_Name n') s'"
    by (rule keepsD [OF keeps_wrote [OF recorded_ensureEach] _ rest])
       (rule ensureNamespace_ok [OF assms(1) first])
  with Cons.IH [OF rest] Cons.prems(2) show ?case by auto
qed simp

lemma ensureNamespaceDeletion_ok:
  assumes "ensureNamespaceDeletion E n s = (Ok v, s')"
  shows "deletedNamespace (theLib E) n s'"
proof -
  let ?c = "CallDelete NamespaceKind \<lparr>key_Namespace = '''', key_Name = n\<rparr>"
  from assms consider "recorded (?c, None) s'" | e where "IsNotFound (theLib E) e" "recorded (?c, Some e) s'"
    by (auto simp: ensureNamespaceDeletion_def doDelete_def apiWrite_def call_ok recorded_def
        split: prod.splits if_splits)
  then show ?thesis
    unfolding deletedNamespace_def by cases (metis option.simps(4), metis option.simps(5))
qed

lemma deleteUnwanted_ok:
  assumes "deleteUnwanted E wanted ns s = (Ok u, s')" "n \<in> set ns" "Name (ns_meta n) \<notin> wanted"
  shows "deletedNamespace (theLib E) (Name (ns_meta n)) s'"
  using assms
proof (induction ns arbitrary: s)
  case (Cons n' ns)
  show ?case
  proof (cases "Name (ns_meta n') \<in> wanted")
    case True
    with Cons show ?thesis by auto
  next
    case False
    with Cons.prems(1) obtain x s1 where first: "ensureNamespaceDeletion E (Name (ns_meta n')) s = (Ok x, s1)"
      and rest: "deleteUnwanted E wanted ns s1 = (Ok u, s')"
      by (auto simp: bindp_ok)
    have "deletedNamespace (theLib E) (Name (ns_meta n')) s'"
      by (rule keepsD [OF keeps_deleted [OF recorded_deleteUnwanted] _ rest])
         (rule ensureNamespaceDeletion_ok [OF first])
    with Cons.IH [OF rest] Cons.prems(2,3) show ?thesis by auto
  qed
qed simp

section \<open>Properties\<close>


text \<open>
  C12: When the namespace reconciler asks for no requeue, every namespace of the specification has
  been created or updated successfully, and every namespace that was listed with the labels of the
  Addon and is not wanted any more has been deleted or was already gone.
\<close>

theorem namespace_reconcile_complete:
  assumes laws: "env_laws E" and run: "namespaceReconcile E s = (Ok resultNil, s')"
  shows "(\<forall>n \<in> set (Namespaces (Spec (st_addon s))). wroteNamespace (ans_Name n) s') \<and>
    (\<exists>w w' owned. kList (k_Namespace (client E)) ''''
        (CommonLabelsAsLabelSelector (st_addon s)) w = (Inr owned, w') \<and>
      (\<forall>n \<in> set owned. Name (ns_meta n) \<notin> wantedNamespaceNames (st_addon s) \<longrightarrow>
         deletedNamespace (theLib E) (Name (ns_meta n)) s'))"
proof -
  let ?a = "st_addon s"
  from run obtain s1 where wanted: "ensureWantedNamespaces E s = (Ok resultNil, s1)"
    and rest: "ensureDeletionOfUnwantedNamespaces E s1 = (Ok (), s')"
    by (auto simp: namespaceReconcile_def call_ok unlessZero_def IsZero_def split: if_splits)
  have "runsFor ?a (\<lambda>_. True) s1"
    by (rule keepsD [OF ensureWanted_calls [OF laws] _ wanted]) (auto simp: runsOn_def list_all_iff)
  then have same: "sameAddon (st_addon s1) ?a" by (simp add: runsOn_def sameAddon_def)
  from wanted obtain u where each: "ensureEach E (Namespaces (Spec ?a)) [] s = (Ok u, s1)"
    by (auto simp: ensureWantedNamespaces_def bindp_ok split: if_splits)
  from rest obtain owned s2 where list: "getOwnedNamespacesViaCommonLabels E s1 = (Ok owned, s2)"
    and del: "deleteUnwanted E (wantedNamespaceNames (st_addon s2)) owned s2 = (Ok (), s')"
    by (auto simp: ensureDeletionOfUnwantedNamespaces_def bindp_ok)
  from list obtain w' where w': "kList (k_Namespace (client E)) '''' (CommonLabelsAsLabelSelector ?a)
      (st_world s1) = (Inr owned, w')" and s2: "st_addon s2 = st_addon s1"
    by (auto simp: getOwnedNamespacesViaCommonLabels_def call_ok bindp_ok doList_def apiRead_def
        selector_cong [OF same] split: prod.splits)
  have "wroteNamespace (ans_Name n) s'" if "n \<in> set (Namespaces (Spec ?a))" for n
    using ensureEach_ok [OF laws each that] rest
    by (rule keepsD [OF keeps_wrote, rotated])
       (auto simp: ensureDeletionOfUnwantedNamespaces_def intro!: keeps_rules)
  moreover have "deletedNamespace (theLib E) (Name (ns_meta n)) s'"
    if "n \<in> set owned" "Name (ns_meta n) \<notin> wantedNamespaceNames ?a" for n
    using deleteUnwanted_ok [OF del that(1)] that(2) s2 same by (simp add: wantedNamespaceNames_cong)
  ultimately show ?thesis using w' by blast
qed

section \<open>Witnesses\<close>

definition oldNamespace :: NamespaceObj where
  "oldNamespace = \<lparr>ns_meta = (objectMeta '''' ''old'')\<lparr>Labels := CommonLabelsAsLabelSelector refAddon\<rparr>,
     ns_Phase = NamespaceActive\<rparr>"

definition activeNamespace :: NamespaceObj where
  "activeNamespace = \<lparr>ns_meta = objectMeta '''' ''ns'', ns_Phase = NamespaceActive\<rparr>"

definition namespaceStock :: stock where
  "namespaceStock = emptyStock\<lparr>so_Namespace := [oldNamespace, activeNamespace]\<rparr>"

lemmas namespace_eval = namespaceReconcile_def ensureWantedNamespaces_def ensureNamespace_def
  reconcileNamespace_def ensureDeletionOfUnwantedNamespaces_def getOwnedNamespacesViaCommonLabels_def
  ensureNamespaceDeletion_def wantedNamespaceNames_def GetMonitoringNamespaceName_def
  WithNamespaceLabels_def WithNamespaceAnnotations_def AddCommonLabels_def AddCommonAnnotations_def
  unlessZero_def setController_def controllerRef_def

lemma namespace_run:
  "fst (namespaceReconcile (refEnv namespaceStock) (refState refAddon)) = Ok resultNil"
  "map fst (st_calls (snd (namespaceReconcile (refEnv namespaceStock) (refState refAddon)))) =
     [CallUpdate (KNamespace (activeNamespace\<lparr>ns_meta := (objectMeta '''' ''ns'')
        \<lparr>Labels := CommonLabelsAsLabelSelector refAddon,
         OwnerReferences := [\<lparr>or_UID = ''u1'', or_Name = ''ref'', or_Controller = True\<rparr>]\<rparr>\<rparr>)),
      CallDelete NamespaceKind \<lparr>key_Namespace = '''', key_Name = ''old''\<rparr>]"
  by (simp_all add: namespace_eval prog_defs ref_eval ref_objects namespaceStock_def oldNamespace_def
      activeNamespace_def selectorMatches_def CommonLabelsAsLabelSelector_def Let_def)


theorem namespace_reconcile_complete_witness:
  "wroteNamespace ''ns'' (snd (namespaceReconcile (refEnv namespaceStock) (refState refAddon)))"
proof -
  have "namespaceReconcile (refEnv namespaceStock) (refState refAddon) =
      (Ok resultNil, snd (namespaceReconcile (refEnv namespaceStock) (refState refAddon)))"
    using namespace_run(1) by (metis prod.collapse)
  from namespace_reconcile_complete [OF refEnv_laws this] show ?thesis
    by (simp add: refAddon_def refSpec_def)
qed

end
