(* ===== verification/Secret_Propagation.thy ===== *)
theory Secret_Propagation
  imports Addon_Status Ref_Cluster
begin

text \<open>
  Sub-reconciler 3, the propagation of secrets (\<open>secret_reconciler.go\<close>): source secrets in the
  namespace of the operator are copied into every namespace of the Addon, secrets that carry the
  labels of the Addon and are not among the copies are deleted.
\<close>

section \<open>Model\<close>

abbreviation SECRET_RECONCILER_NAME :: string where
  "SECRET_RECONCILER_NAME \<equiv> ''secretPropogationReconciler''"

definition getReferencedSecret ::
  "'w Env \<Rightarrow> ObjectKey \<Rightarrow> ('w st, Secret option \<times> subReconcilerResult) prog" where
  "getReferencedSecret E secretKey =
     call (doGet (k_Secret (client E)) secretKey)
       (\<lambda>err.
          if IsNotFound (theLib E) err then
            call (doGet (k_Secret (uncachedClient E)) secretKey)
              (\<lambda>err.
                 if IsNotFound (theLib E) err then
                   bindp (mutate E (reportPendingStatus (theLib E)
                     AddonReasonMissingSecretForPropagation (errorText err))) (\<lambda>_.
                   ret (None, resultRequeueAfter defaultRetryAfterTime))
                 else throw (Wrap ''getting source Secret for propagation via uncached client'' err))
              (\<lambda>referencedSecret.
                 bindp getAddon (\<lambda>addon.
                 case SetOwnerReference (theLib E) (addonMeta addon) (sec_meta referencedSecret) of
                   Inl err \<Rightarrow> throw (Wrap
                     ''adding OwnerReference for AddonOperator to referenced source Secret'' err)
                 | Inr m \<Rightarrow>
                     call (doPatch (k_Secret (client E)) KSecret
                         (referencedSecret\<lparr>sec_meta :=
                            m\<lparr>Labels := (Labels m)(CommonCacheLabel \<mapsto> CommonCacheValue)\<rparr>\<rparr>)
                         referencedSecret)
                       (\<lambda>err. throw (Wrap ''patching source Secret for cache and ownership'' err))
                       (\<lambda>_. ret (Some referencedSecret, resultNil))))
          else throw (Wrap ''getting source Secret for propagation'' err))
       (\<lambda>referencedSecret. ret (Some referencedSecret, resultNil))"

fun buildDestinationSecrets ::
  "'w Env \<Rightarrow> AddonSecretPropagationReference list \<Rightarrow> Secret list \<Rightarrow>
     ('w st, Secret list \<times> subReconcilerResult) prog" where
  "buildDestinationSecrets E [] acc = ret (acc, resultNil)"
| "buildDestinationSecrets E (secretRef # refs) acc =
     bindp (getReferencedSecret E
       \<lparr>key_Namespace = AddonOperatorNamespace E, key_Name = SourceSecret secretRef\<rparr>) (\<lambda>(src, result).
     if \<not> IsZero result then ret ([], result)
     else bindp (deref src) (\<lambda>srcSecret.
       bindp getAddon (\<lambda>addon.
       case SetControllerReference (theLib E) (addonMeta addon)
              (AddCommonAnnotations (theLib E) addon (AddCommonLabels (theLib E) addon
                (objectMeta '''' (DestinationSecret secretRef)))) of
         Inl err \<Rightarrow> throw (Wrap ''setting owner reference'' err)
       | Inr m \<Rightarrow> buildDestinationSecrets E refs
           (acc @ [\<lparr>sec_meta = m, sec_Data = sec_Data srcSecret, sec_Type = sec_Type srcSecret\<rparr>]))))"

definition getDestinationSecretsWithoutNamespace ::
  "'w Env \<Rightarrow> ('w st, Secret list \<times> subReconcilerResult) prog" where
  "getDestinationSecretsWithoutNamespace E = bindp getAddon (\<lambda>addon.
     case SecretPropagation (Spec addon) of
       None \<Rightarrow> ret ([], resultNil)
     | Some p \<Rightarrow> buildDestinationSecrets E (Secrets p) [])"

definition reconcileSecret :: "'w Env \<Rightarrow> Secret \<Rightarrow> ('w st, unit) prog" where
  "reconcileSecret E desiredSecret =
     call (doGet (k_Secret (client E)) (ObjectKeyFromObject (sec_meta desiredSecret)))
       (\<lambda>err.
          if IsNotFound (theLib E) err then
            call (doCreate (k_Secret (client E)) KSecret desiredSecret)
              (\<lambda>err. if \<not> IsAlreadyExists (theLib E) err then throw (Wrap ''creating secret'' err)
                     else ret ())
              (\<lambda>_. ret ())
          else throw (Wrap ''getting secret'' err))
       (\<lambda>actual.
          let m = (sec_meta actual)
                \<lparr>Labels := Labels (sec_meta actual) ++ Labels (sec_meta desiredSecret),
                 OwnerReferences := OwnerReferences (sec_meta desiredSecret)\<rparr>
          in call (doUpdate (k_Secret (client E)) KSecret
                 (actual\<lparr>sec_meta := m, sec_Data := sec_Data desiredSecret\<rparr>))
               (\<lambda>err. throw (Wrap ''updating secret'' err)) (\<lambda>_. ret ()))"

text \<open>The inner loop over the namespaces, the outer loop over the secrets.\<close>

fun copySecret ::
  "'w Env \<Rightarrow> Secret \<Rightarrow> AddonNamespace list \<Rightarrow> ObjectKey set \<Rightarrow> ('w st, ObjectKey set) prog" where
  "copySecret E secret [] knownSecrets = ret knownSecrets"
| "copySecret E secret (n # ns) knownSecrets =
     (let destSecret = secret\<lparr>sec_meta := (sec_meta secret)\<lparr>Namespace := ans_Name n\<rparr>\<rparr>;
          key = ObjectKeyFromObject (sec_meta destSecret)
      in call (reconcileSecret E destSecret)
           (\<lambda>err. throw (Wrap (''reconciling secret '' @ keyString key) err))
           (\<lambda>_. copySecret E secret ns (insert key knownSecrets)))"

fun copySecrets ::
  "'w Env \<Rightarrow> Secret list \<Rightarrow> AddonNamespace list \<Rightarrow> ObjectKey set \<Rightarrow> ('w st, ObjectKey set) prog" where
  "copySecrets E [] ns knownSecrets = ret knownSecrets"
| "copySecrets E (secret # secrets) ns knownSecrets =
     bindp (copySecret E secret ns knownSecrets) (\<lambda>knownSecrets. copySecrets E secrets ns knownSecrets)"

definition reconcileSecretsInAddonNamespaces ::
  "'w Env \<Rightarrow> Secret list \<Rightarrow> ('w st, ObjectKey set) prog" where
  "reconcileSecretsInAddonNamespaces E secrets = bindp getAddon (\<lambda>addon.
     copySecrets E secrets (Namespaces (Spec addon)) {})"

fun deleteUnknown :: "'w Env \<Rightarrow> ObjectKey set \<Rightarrow> Secret list \<Rightarrow> ('w st, unit) prog" where
  "deleteUnknown E knownSecrets [] = ret ()"
| "deleteUnknown E knownSecrets (secret # secrets) =
     (if ObjectKeyFromObject (sec_meta secret) \<in> knownSecrets then deleteUnknown E knownSecrets secrets
      else call (doDelete (k_Secret (client E)) SecretKind (ObjectKeyFromObject (sec_meta secret)))
             (\<lambda>err. throw (Wrap ''deleting unknown propagated secret'' err))
             (\<lambda>_. deleteUnknown E knownSecrets secrets))"

definition cleanupUnknownSecrets :: "'w Env \<Rightarrow> ObjectKey set \<Rightarrow> ('w st, unit) prog" where
  "cleanupUnknownSecrets E knownSecrets = bindp getAddon (\<lambda>addon.
     call (doList (k_Secret (client E)) '''' (CommonLabelsAsLabelSelector addon))
       (\<lambda>err. throw (Wrap ''listing secrets for delete check'' err))
       (\<lambda>secretList. deleteUnknown E knownSecrets secretList))"

definition secretReconcile :: "'w Env \<Rightarrow> ('w st, subReconcilerResult) prog" where
  "secretReconcile E = bindp getAddon (\<lambda>addon.
     if (case SecretPropagation (Spec addon) of None \<Rightarrow> True | Some p \<Rightarrow> Secrets p = [])
     then call (cleanupUnknownSecrets E {})
            (\<lambda>err. throw (joinErr err ErrCleanupUnknownSecrets)) (\<lambda>_. ret resultNil)
     else
       call (getDestinationSecretsWithoutNamespace E)
         (\<lambda>err. throw (joinErr err ErrGetDestinationSecretsWithoutNamespace))
         (\<lambda>(secrets, result). unlessZero result
            (call (reconcileSecretsInAddonNamespaces E secrets)
               (\<lambda>err. throw (joinErr err ErrReconcileSecretsInAddonNamespaces))
               (\<lambda>knownSecrets. call (cleanupUnknownSecrets E knownSecrets)
                  (\<lambda>err. throw (joinErr err ErrCleanupUnknownSecrets))
                  (\<lambda>_. ret resultNil)))))"

section \<open>What it writes\<close>

definition secretRefs :: "Addon \<Rightarrow> AddonSecretPropagationReference list" where
  "secretRefs a = (case SecretPropagation (Spec a) of None \<Rightarrow> [] | Some p \<Rightarrow> Secrets p)"

definition destinationKeys :: "Addon \<Rightarrow> ObjectKey set" where
  "destinationKeys a = {\<lparr>key_Namespace = ans_Name n, key_Name = DestinationSecret r\<rparr> | n r.
     n \<in> set (Namespaces (Spec a)) \<and> r \<in> set (secretRefs a)}"

text \<open>
  Copies are written under the destination keys and owned by the Addon, the only other secret
  that is touched is a source secret in the namespace of the operator, and only secrets with the
  labels of the Addon that are not copies are deleted.
\<close>

fun secretCall :: "'w Env \<Rightarrow> Addon \<Rightarrow> apiCall \<Rightarrow> bool" where
  "secretCall E a (CallCreate (KSecret x)) =
     (ObjectKeyFromObject (sec_meta x) \<in> destinationKeys a \<and> ownedMeta (theLib E) a (sec_meta x))"
| "secretCall E a (CallUpdate (KSecret x)) =
     (ObjectKeyFromObject (sec_meta x) \<in> destinationKeys a \<and> ownedMeta (theLib E) a (sec_meta x))"
| "secretCall E a (CallPatch (KSecret x)) =
     (Namespace (sec_meta x) = AddonOperatorNamespace E \<and>
      Name (sec_meta x) \<in> set (map SourceSecret (secretRefs a)))"
| "secretCall E a (CallDelete SecretKind key) =
     (key \<notin> destinationKeys a \<and>
      (\<exists>x :: Secret. ObjectKeyFromObject (sec_meta x) = key \<and>
         selectorMatches (CommonLabelsAsLabelSelector a) (sec_meta x)))"
| "secretCall E a _ = False"

lemma setOwner_meta:
  assumes "owner_laws L" "SetOwnerReference L owner obj = Inr obj'"
  shows "Name obj' = Name obj" "Namespace obj' = Namespace obj"
proof -
  have eq: "obj' = obj\<lparr>OwnerReferences := OwnerReferences obj'\<rparr>"
    using assms unfolding owner_laws_def by blast
  show "Name obj' = Name obj" by (subst eq) simp
  show "Namespace obj' = Namespace obj" by (subst eq) simp
qed

lemma getReferencedSecret_calls:
  assumes "env_laws E" "\<And>c. secretCall E a c \<Longrightarrow> P c" "name \<in> set (map SourceSecret (secretRefs a))"
  shows "keeps (runsFor a P) (getReferencedSecret E
    \<lparr>key_Namespace = AddonOperatorNamespace E, key_Name = name\<rparr>)"
proof -
  have patch: "P (CallPatch (KSecret x))"
    if "Name (sec_meta x) = name" "Namespace (sec_meta x) = AddonOperatorNamespace E" for x
    using that assms(3) by (intro assms(2)) simp
  show ?thesis
    unfolding getReferencedSecret_def
    by (intro keeps_call keeps_if keeps_rules sameIdentity_reports
        keeps_call_yields [OF yields_doGet [OF env_lawsD(16) [OF assms(1)]]] runsOn_getAddon patch)
       (auto simp: setOwner_meta [OF env_lawsD(4) [OF assms(1)]])
qed

lemma reconcileSecret_calls:
  assumes "env_laws E" "\<And>c. secretCall E a c \<Longrightarrow> P c"
    and "ObjectKeyFromObject (sec_meta x) \<in> destinationKeys a" "ownedMeta (theLib E) a (sec_meta x)"
  shows "keeps (runsFor a P) (reconcileSecret E x)"
  unfolding reconcileSecret_def
  by (rule keeps_call_yields [OF yields_doGet [OF env_lawsD(9) [OF assms(1)]]])
     (use assms(3,4) env_lawsD(4) [OF assms(1)] in
      \<open>auto simp: Let_def ObjectKeyFromObject_def
        intro!: keeps_rules assms(2) ownedMeta_merge [of _ _ "sec_meta x"]\<close>)

lemma ownedMeta_namespace: "owner_laws L \<Longrightarrow> ownedMeta L a (om\<lparr>Namespace := n\<rparr>) = ownedMeta L a om"
  using controller_cong [of L "om\<lparr>Namespace := n\<rparr>" om] by (simp add: ownedMeta_def)

lemma copySecret_calls:
  assumes "env_laws E" "\<And>c. secretCall E a c \<Longrightarrow> P c"
    and "set ns \<subseteq> set (Namespaces (Spec a))" "Name (sec_meta x) \<in> set (map DestinationSecret (secretRefs a))"
    and "ownedMeta (theLib E) a (sec_meta x)"
  shows "yields (runsFor a P) (copySecret E x ns ks)
    (\<lambda>v. v = ks \<union> (\<lambda>n. \<lparr>key_Namespace = ans_Name n, key_Name = Name (sec_meta x)\<rparr>) ` set ns)"
  using assms(3)
proof (induction ns arbitrary: ks)
  case (Cons n ns)
  let ?x = "x\<lparr>sec_meta := (sec_meta x)\<lparr>Namespace := ans_Name n\<rparr>\<rparr>"
  have "keeps (runsFor a P) (reconcileSecret E ?x)"
    by (rule reconcileSecret_calls [OF assms(1,2)])
       (use Cons.prems assms(4,5) env_lawsD(4) [OF assms(1)] in
        \<open>auto simp: destinationKeys_def ObjectKeyFromObject_def ownedMeta_namespace\<close>)
  then have "yields (runsFor a P) (reconcileSecret E ?x) (\<lambda>_. True)" by (rule keeps_yields) simp
  then show ?case
    unfolding copySecret.simps Let_def
    by (rule yields_call)
       (use Cons in \<open>auto intro!: yields_throw yields_mono [OF Cons.IH] simp: ObjectKeyFromObject_def\<close>)
qed (auto intro: yields_ret)

lemma copySecrets_calls:
  assumes "env_laws E" "\<And>c. secretCall E a c \<Longrightarrow> P c"
    and "\<forall>x \<in> set xs. Name (sec_meta x) \<in> set (map DestinationSecret (secretRefs a)) \<and>
      ownedMeta (theLib E) a (sec_meta x)"
  shows "yields (runsFor a P) (copySecrets E xs (Namespaces (Spec a)) ks)
    (\<lambda>v. v = ks \<union> {\<lparr>key_Namespace = ans_Name n, key_Name = Name (sec_meta x)\<rparr> | n x.
       n \<in> set (Namespaces (Spec a)) \<and> x \<in> set xs})"
  using assms(3)
proof (induction xs arbitrary: ks)
  case (Cons x xs)
  show ?case
    unfolding copySecrets.simps
    by (rule yields_bindp [OF copySecret_calls [OF assms(1,2)]])
       (use Cons in \<open>auto intro!: yields_mono [OF Cons.IH]\<close>)
qed (auto intro: yields_ret)

text \<open>The copies that are built: one per reference, owned by the Addon.\<close>

definition copiesOf :: "'w Env \<Rightarrow> Addon \<Rightarrow> AddonSecretPropagationReference list \<Rightarrow> Secret list \<Rightarrow> bool" where
  "copiesOf E a refs xs \<longleftrightarrow> map (\<lambda>x. Name (sec_meta x)) xs = map DestinationSecret refs \<and>
     (\<forall>x \<in> set xs. ownedMeta (theLib E) a (sec_meta x))"

lemma buildDestinationSecrets_calls:
  assumes "env_laws E" "\<And>c. secretCall E a c \<Longrightarrow> P c"
    and "set refs \<subseteq> set (secretRefs a)" "copiesOf E a built acc"
  shows "yields (runsFor a P) (buildDestinationSecrets E refs acc)
    (\<lambda>(xs, res). IsZero res \<longrightarrow> copiesOf E a (built @ refs) xs)"
  using assms(3,4)
proof (induction refs arbitrary: acc built)
  case (Cons ref refs)
  have "keeps (runsFor a P) (getReferencedSecret E
      \<lparr>key_Namespace = AddonOperatorNamespace E, key_Name = SourceSecret ref\<rparr>)"
    using Cons.prems by (intro getReferencedSecret_calls [OF assms(1,2)]) auto
  then have src: "yields (runsFor a P) (getReferencedSecret E
      \<lparr>key_Namespace = AddonOperatorNamespace E, key_Name = SourceSecret ref\<rparr>) (\<lambda>_. True)"
    by (rule keeps_yields) simp
  have step: "yields (runsFor a P) (buildDestinationSecrets E refs
      (acc @ [\<lparr>sec_meta = m, sec_Data = sec_Data x, sec_Type = sec_Type x\<rparr>]))
      (\<lambda>(xs, res). IsZero res \<longrightarrow> copiesOf E a (built @ ref # refs) xs)"
    if "SetControllerReference (theLib E) (addonMeta b) (AddCommonAnnotations (theLib E) b
        (AddCommonLabels (theLib E) b (objectMeta '''' (DestinationSecret ref)))) = Inr m" "sameAddon b a"
    for x m b
  proof -
    note new = ownedMeta_new [OF env_lawsD(2,4) [OF assms(1)] that(1)]
    then have "copiesOf E a (built @ [ref]) (acc @ [\<lparr>sec_meta = m, sec_Data = sec_Data x, sec_Type = sec_Type x\<rparr>])"
      using Cons.prems(2) that(2) by (auto simp: copiesOf_def ownedMeta_cong)
    from Cons.IH [OF _ this] Cons.prems(1) show ?thesis by simp
  qed
  show ?case
    unfolding buildDestinationSecrets.simps
    by (intro yields_bindp [OF src] yields_case_prod yields_if yields_throw step yields_case_sum
        yields_bindp [OF yields_deref [of _ "\<lambda>_. True"]] yields_bindp [OF yields_runsFor_getAddon])
       (auto intro: yields_ret)
qed (auto intro!: yields_ret)

lemma deleteUnknown_calls:
  assumes "\<And>c. secretCall E a c \<Longrightarrow> P c" "destinationKeys a \<subseteq> ks"
    and "\<forall>x \<in> set xs. CommonLabelsAsLabelSelector a \<subseteq>\<^sub>m Labels (sec_meta x)"
  shows "keeps (runsFor a P) (deleteUnknown E ks xs)"
  using assms(3)
proof (induction xs)
  case (Cons x xs)
  then show ?case
    using assms(2)
    by (auto intro!: keeps_rules assms(1) exI [of _ x] simp: selectorMatches_def)
qed (auto intro!: keeps_rules)

lemma cleanup_calls:
  assumes "env_laws E" "\<And>c. secretCall E a c \<Longrightarrow> P c" "destinationKeys a \<subseteq> ks"
  shows "keeps (runsFor a P) (cleanupUnknownSecrets E ks)"
  unfolding cleanupUnknownSecrets_def
proof (rule runsFor_getAddon, rule keeps_call_yields [OF yields_doList [OF env_lawsD(10) [OF assms(1)]]])
  show "keeps (runsFor a P) (deleteUnknown E ks v)" if "sameAddon b a"
    "\<forall>x\<in>set v. CommonLabelsAsLabelSelector b \<subseteq>\<^sub>m Labels (sec_meta x) \<and> ('''' = '''' \<or> Namespace (sec_meta x) = '''')"
    for b v
    using that selector_cong [OF that(1)] by (intro deleteUnknown_calls assms) auto
qed (intro keeps_rules)

lemma destinations_yield:
  assumes "env_laws E" "\<And>c. secretCall E a c \<Longrightarrow> P c"
  shows "yields (runsFor a P) (getDestinationSecretsWithoutNamespace E)
    (\<lambda>(xs, res). IsZero res \<longrightarrow> copiesOf E a (secretRefs a) xs)"
  unfolding getDestinationSecretsWithoutNamespace_def
  by (rule yields_bindp [OF yields_runsFor_getAddon])
     (use buildDestinationSecrets_calls [OF assms, where refs = "secretRefs a" and acc = "[]" and built = "[]"]
      in \<open>auto simp: secretRefs_def sameAddon_def copiesOf_def intro!: yields_ret split: option.splits\<close>)

lemma copies_yield:
  assumes "env_laws E" "\<And>c. secretCall E a c \<Longrightarrow> P c" "copiesOf E a (secretRefs a) xs"
  shows "yields (runsFor a P) (reconcileSecretsInAddonNamespaces E xs) (\<lambda>ks. ks = destinationKeys a)"
  unfolding reconcileSecretsInAddonNamespaces_def
proof (rule yields_bindp [OF yields_runsFor_getAddon])
  fix b assume b: "sameAddon b a"
  have names: "(\<lambda>x. Name (sec_meta x)) ` set xs = set (map DestinationSecret (secretRefs a))"
    using assms(3) unfolding copiesOf_def by (metis list.set_map)
  have "{\<lparr>key_Namespace = ans_Name n, key_Name = Name (sec_meta x)\<rparr> | n x.
      n \<in> set (Namespaces (Spec a)) \<and> x \<in> set xs} =
    (\<Union>n \<in> set (Namespaces (Spec a)). (\<lambda>y. \<lparr>key_Namespace = ans_Name n, key_Name = y\<rparr>) `
       ((\<lambda>x. Name (sec_meta x)) ` set xs))" by auto
  also have "\<dots> = destinationKeys a" unfolding names by (auto simp: destinationKeys_def)
  finally have keys: "{\<lparr>key_Namespace = ans_Name n, key_Name = Name (sec_meta x)\<rparr> | n x.
      n \<in> set (Namespaces (Spec a)) \<and> x \<in> set xs} = destinationKeys a" .
  have "\<forall>x \<in> set xs. Name (sec_meta x) \<in> set (map DestinationSecret (secretRefs a)) \<and>
      ownedMeta (theLib E) a (sec_meta x)"
    using assms(3) names by (auto simp: copiesOf_def)
  from copySecrets_calls [OF assms(1,2) this, where ks = "{}"] b
  show "yields (runsFor a P) (copySecrets E xs (Namespaces (Spec b)) {}) (\<lambda>ks. ks = destinationKeys a)"
    unfolding keys by (simp add: sameAddon_def)
qed

lemma secret_calls:
  assumes "env_laws E" "\<And>c. secretCall E a c \<Longrightarrow> P c"
  shows "keeps (runsFor a P) (secretReconcile E)"
  unfolding secretReconcile_def
proof (rule runsFor_getAddon, rule keeps_if, goal_cases)
  case (1 b)
  then have "destinationKeys a = {}"
    by (auto simp: destinationKeys_def secretRefs_def sameAddon_def split: option.splits)
  then show ?case by (intro keeps_call cleanup_calls [OF assms] keeps_rules) simp_all
next
  case (2 b)
  show ?case
    by (rule keeps_call_yields [OF destinations_yield [OF assms]])
       (auto simp: unlessZero_def intro!: keeps_ret keeps_throw
          keeps_call_yields [OF copies_yield [OF assms]] keeps_call [OF cleanup_calls [OF assms]])
qed

section \<open>What it has written when it succeeds\<close>

text \<open>A source secret, as one of the two clients returned it.\<close>

definition readSource :: "'w Env \<Rightarrow> AddonSecretPropagationReference \<Rightarrow> Secret \<Rightarrow> bool" where
  "readSource E ref src \<longleftrightarrow> (\<exists>c \<in> {k_Secret (client E), k_Secret (uncachedClient E)}. \<exists>w w'.
     kGet c \<lparr>key_Namespace = AddonOperatorNamespace E, key_Name = SourceSecret ref\<rparr> w = (Inr src, w'))"

text \<open>
  The copy was written: it was updated, or it was created and the server accepted it or said that
  it exists already.
\<close>

definition wroteCopy :: "lib \<Rightarrow> ObjectKey \<Rightarrow> (string \<rightharpoonup> string) \<Rightarrow> 'w st \<Rightarrow> bool" where
  "wroteCopy L key data s \<longleftrightarrow> (\<exists>x. ObjectKeyFromObject (sec_meta x) = key \<and> sec_Data x = data \<and>
     (recorded (CallUpdate (KSecret x), None) s \<or>
      (\<exists>e. recorded (CallCreate (KSecret x), e) s \<and>
         (case e of None \<Rightarrow> True | Some err \<Rightarrow> IsAlreadyExists L err))))"

definition copyOf :: "'w Env \<Rightarrow> AddonSecretPropagationReference \<Rightarrow> Secret \<Rightarrow> bool" where
  "copyOf E ref x \<longleftrightarrow> Name (sec_meta x) = DestinationSecret ref \<and>
     (\<exists>src. readSource E ref src \<and> sec_Data x = sec_Data src)"

lemma keeps_wroteCopy: "(\<And>x. keeps (recorded x) m) \<Longrightarrow> keeps (wroteCopy L key data) m"
  unfolding keeps_def wroteCopy_def by blast

lemma recorded_reconcileSecret [keeps_rules]: "keeps (recorded x) (reconcileSecret E sec)"
  unfolding reconcileSecret_def Let_def by (intro keeps_rules)

lemma recorded_copySecret [keeps_rules]: "keeps (recorded x) (copySecret E sec ns ks)"
  by (induction ns arbitrary: ks) (auto simp: Let_def intro!: keeps_rules)

lemma recorded_copySecrets [keeps_rules]: "keeps (recorded x) (copySecrets E xs ns ks)"
  by (induction xs arbitrary: ks) (auto intro!: keeps_rules)

lemma recorded_deleteUnknown [keeps_rules]: "keeps (recorded x) (deleteUnknown E ks xs)"
  by (induction xs) (auto intro!: keeps_rules)

lemma recorded_cleanup [keeps_rules]: "keeps (recorded x) (cleanupUnknownSecrets E ks)"
  unfolding cleanupUnknownSecrets_def by (intro keeps_rules)

lemma doGet_world: "doGet c key s = (Ok x, s') \<Longrightarrow> \<exists>w w'. kGet c key w = (Inr x, w')"
  by (force simp: doGet_def apiRead_def answer_def split: prod.splits sum.splits)

lemma getReferencedSecret_ok:
  assumes "getReferencedSecret E \<lparr>key_Namespace = AddonOperatorNamespace E, key_Name = SourceSecret ref\<rparr> s =
    (Ok (Some src, res), s')"
  shows "readSource E ref src"
  using assms unfolding getReferencedSecret_def readSource_def
  by (auto simp: call_ok bindp_ok split: if_splits dest!: doGet_world)

lemma buildDestinationSecrets_ok:
  assumes "env_laws E" "buildDestinationSecrets E refs acc s = (Ok (xs, res), s')" "IsZero res"
  shows "\<exists>ys. xs = acc @ ys \<and> list_all2 (copyOf E) refs ys"
  using assms(2)
proof (induction refs arbitrary: acc s)
  case (Cons ref refs)
  from Cons.prems obtain src r1 s1 where src: "getReferencedSecret E
      \<lparr>key_Namespace = AddonOperatorNamespace E, key_Name = SourceSecret ref\<rparr> s = (Ok (src, r1), s1)"
    by (auto simp: bindp_ok)
  with Cons.prems assms(3) obtain x m where src: "getReferencedSecret E
      \<lparr>key_Namespace = AddonOperatorNamespace E, key_Name = SourceSecret ref\<rparr> s = (Ok (Some x, r1), s1)"
    and m: "SetControllerReference (theLib E) (addonMeta (st_addon s1)) (AddCommonAnnotations (theLib E)
        (st_addon s1) (AddCommonLabels (theLib E) (st_addon s1) (objectMeta '''' (DestinationSecret ref)))) = Inr m"
    and rest: "buildDestinationSecrets E refs
        (acc @ [\<lparr>sec_meta = m, sec_Data = sec_Data x, sec_Type = sec_Type x\<rparr>]) s1 = (Ok (xs, res), s')"
    by (auto simp: bindp_ok split: if_splits)
  have "copyOf E ref \<lparr>sec_meta = m, sec_Data = sec_Data x, sec_Type = sec_Type x\<rparr>"
    using getReferencedSecret_ok [OF src] ownedMeta_new(2) [OF env_lawsD(2,4) [OF assms(1)] m]
    by (auto simp: copyOf_def)
  with Cons.IH [OF rest] show ?case by auto
qed simp

lemma create_or_exists:
  assumes "call (doCreate (k_Secret (client E)) KSecret x)
    (\<lambda>err. if \<not> IsAlreadyExists (theLib E) err then throw (Wrap m err) else ret ()) (\<lambda>_. ret ()) s = (Ok v, s')"
  shows "wroteCopy (theLib E) (ObjectKeyFromObject (sec_meta x)) (sec_Data x) s'"
proof -
  from assms consider "recorded (CallCreate (KSecret x), None) s'"
    | e where "IsAlreadyExists (theLib E) e" "recorded (CallCreate (KSecret x), Some e) s'"
    by (auto simp: call_ok doCreate_def apiWrite_def recorded_def split: prod.splits if_splits)
  then have "\<exists>e. recorded (CallCreate (KSecret x), e) s' \<and>
      (case e of None \<Rightarrow> True | Some err \<Rightarrow> IsAlreadyExists (theLib E) err)"
    by cases (metis option.simps(4), metis option.simps(5))
  then show ?thesis unfolding wroteCopy_def by blast
qed

lemma reconcileSecret_ok:
  assumes "env_laws E" "reconcileSecret E x s = (Ok v, s')"
  shows "wroteCopy (theLib E) (ObjectKeyFromObject (sec_meta x)) (sec_Data x) s'"
proof -
  let ?key = "ObjectKeyFromObject (sec_meta x)"
  from assms(2) consider s1 where "call (doCreate (k_Secret (client E)) KSecret x)
      (\<lambda>err. if \<not> IsAlreadyExists (theLib E) err then throw (Wrap ''creating secret'' err) else ret ())
      (\<lambda>_. ret ()) s1 = (Ok v, s')"
    | actual s1 y v' where "doGet (k_Secret (client E)) ?key s = (Ok actual, s1)"
      "Name (sec_meta y) = Name (sec_meta actual)" "Namespace (sec_meta y) = Namespace (sec_meta actual)"
      "sec_Data y = sec_Data x" "doUpdate (k_Secret (client E)) KSecret y s1 = (Ok v', s')"
    unfolding reconcileSecret_def Let_def call_ok [of "doGet _ _"]
    by (fastforce simp: call_ok split: if_splits)
  then show ?thesis
  proof cases
    case 1
    then show ?thesis by (rule create_or_exists)
  next
    case (2 actual s1 y v')
    then have "ObjectKeyFromObject (sec_meta y) = ?key"
      using doGet_ok [OF env_lawsD(9) [OF assms(1)] 2(1)] by (simp add: ObjectKeyFromObject_def)
    with 2(4) write_recorded(3) [OF 2(5)] show ?thesis unfolding wroteCopy_def by blast
  qed
qed

section \<open>Properties\<close>


lemma copySecret_ok:
  assumes "env_laws E" "copySecret E x ns ks s = (Ok v, s')" "n \<in> set ns"
  shows "wroteCopy (theLib E) \<lparr>key_Namespace = ans_Name n, key_Name = Name (sec_meta x)\<rparr> (sec_Data x) s'"
  using assms(2,3)
proof (induction ns arbitrary: ks s)
  case (Cons n' ns)
  let ?x = "x\<lparr>sec_meta := (sec_meta x)\<lparr>Namespace := ans_Name n'\<rparr>\<rparr>"
  from Cons.prems(1) obtain u s1 ks' where first: "reconcileSecret E ?x s = (Ok u, s1)"
    and rest: "copySecret E x ns ks' s1 = (Ok v, s')"
    by (auto simp: Let_def call_ok)
  have "wroteCopy (theLib E) (ObjectKeyFromObject (sec_meta ?x)) (sec_Data ?x) s'"
    by (rule keepsD [OF keeps_wroteCopy [OF recorded_copySecret] _ rest])
       (rule reconcileSecret_ok [OF assms(1) first])
  with Cons.IH [OF rest] Cons.prems(2) show ?case by (auto simp: ObjectKeyFromObject_def)
qed simp

lemma copySecrets_ok:
  assumes "env_laws E" "copySecrets E xs ns ks s = (Ok v, s')" "x \<in> set xs" "n \<in> set ns"
  shows "wroteCopy (theLib E) \<lparr>key_Namespace = ans_Name n, key_Name = Name (sec_meta x)\<rparr> (sec_Data x) s'"
  using assms(2,3)
proof (induction xs arbitrary: ks s)
  case (Cons x' xs)
  from Cons.prems(1) obtain ks' s1 where first: "copySecret E x' ns ks s = (Ok ks', s1)"
    and rest: "copySecrets E xs ns ks' s1 = (Ok v, s')"
    by (auto simp: bindp_ok)
  have "wroteCopy (theLib E) \<lparr>key_Namespace = ans_Name n, key_Name = Name (sec_meta x')\<rparr> (sec_Data x') s'"
    by (rule keepsD [OF keeps_wroteCopy [OF recorded_copySecrets] _ rest])
       (rule copySecret_ok [OF assms(1) first assms(4)])
  with Cons.IH [OF rest] Cons.prems(2) show ?case by auto
qed simp


section \<open>Witnesses\<close>

definition secretAddon :: Addon where
  "secretAddon = refAddon\<lparr>Spec := refSpec\<lparr>SecretPropagation := Some \<lparr>Secrets =
     [\<lparr>SourceSecret = ''src'', DestinationSecret = ''dst''\<rparr>]\<rparr>\<rparr>\<rparr>"

definition sourceSecret :: Secret where
  "sourceSecret = \<lparr>sec_meta = objectMeta ''addon-operator'' ''src'', sec_Data = [''k'' \<mapsto> ''v''], sec_Type = ''Opaque''\<rparr>"

definition staleSecret :: Secret where
  "staleSecret = \<lparr>sec_meta = (objectMeta ''ns'' ''old'')\<lparr>Labels := CommonLabelsAsLabelSelector refAddon\<rparr>,
     sec_Data = Map.empty, sec_Type = ''Opaque''\<rparr>"

definition secretStock :: stock where
  "secretStock = emptyStock\<lparr>so_Secret := [sourceSecret, staleSecret]\<rparr>"

lemmas secret_eval = secretReconcile_def getDestinationSecretsWithoutNamespace_def getReferencedSecret_def
  reconcileSecretsInAddonNamespaces_def cleanupUnknownSecrets_def reconcileSecret_def
  AddCommonLabels_def AddCommonAnnotations_def unlessZero_def setController_def controllerRef_def
  ObjectKeyFromObject_def

lemma secret_run:
  "fst (secretReconcile (refEnv secretStock) (refState secretAddon)) = Ok resultNil"
  "map fst (st_calls (snd (secretReconcile (refEnv secretStock) (refState secretAddon)))) =
     [CallCreate (KSecret \<lparr>sec_meta = (objectMeta ''ns'' ''dst'')
        \<lparr>Labels := CommonLabelsAsLabelSelector refAddon,
         OwnerReferences := [\<lparr>or_UID = ''u1'', or_Name = ''ref'', or_Controller = True\<rparr>]\<rparr>,
        sec_Data = [''k'' \<mapsto> ''v''], sec_Type = ''Opaque''\<rparr>),
      CallDelete SecretKind \<lparr>key_Namespace = ''ns'', key_Name = ''old''\<rparr>]"
  by (simp_all add: secret_eval prog_defs ref_eval ref_objects secretStock_def secretAddon_def
      sourceSecret_def staleSecret_def selectorMatches_def CommonLabelsAsLabelSelector_def Let_def
      map_le_def)



end
