(* ===== verification/Instance_Reconciler.thy ===== *)
theory Instance_Reconciler
  imports Addon_Status Ref_Cluster
begin

text \<open>
  Sub-reconciler 4, the AddonInstance of an Addon (\<open>addon_instance_reconciler.go\<close>): it exists in the
  install namespace, with the default heartbeat period, and the deletion mark another reconciler
  has put on it stays.
\<close>

section \<open>Model\<close>

abbreviation ADDON_INSTANCE_RECONCILER_NAME :: string where
  "ADDON_INSTANCE_RECONCILER_NAME \<equiv> ''addonInstanceReconciler''"

definition reconcileAddonInstance :: "'w Env \<Rightarrow> AddonInstance \<Rightarrow> ('w st, unit) prog" where
  "reconcileAddonInstance E desired =
     call (doGet (k_AddonInstance (client E)) (ObjectKeyFromObject (ai_meta desired)))
       (\<lambda>err. if IsNotFound (theLib E) err
              then bindp (doCreate (k_AddonInstance (client E)) KAddonInstance desired) (\<lambda>_. ret ())
              else throw (Wrap ''getting AddonInstance'' err))
       (\<lambda>current.
          let spec = (ai_Spec desired)\<lparr>MarkedForDeletion := MarkedForDeletion (ai_Spec current)\<rparr>
          in if \<not> SemanticDeepEqual (theLib E) (IAddonInstanceSpec (ai_Spec current)) (IAddonInstanceSpec spec)
             then bindp (doUpdate (k_AddonInstance (client E)) KAddonInstance
                 (current\<lparr>ai_Spec := spec,
                    ai_meta := (ai_meta current)\<lparr>OwnerReferences := OwnerReferences (ai_meta desired)\<rparr>\<rparr>))
                 (\<lambda>_. ret ())
             else ret ())"

definition zeroInstanceStatus :: AddonInstanceStatus where
  "zeroInstanceStatus = \<lparr>ai_ObservedGeneration = 0, ai_Conditions = [], LastHeartbeatTime = None\<rparr>"

definition ensureAddonInstance :: "'w Env \<Rightarrow> ('w st, unit) prog" where
  "ensureAddonInstance E =
     bindp (parseAddonInstallConfig E) (\<lambda>config.
     case config of
       None \<Rightarrow> throw (ErrorString ''failed to create addonInstance due to misconfigured install.spec.type'')
     | Some commonConfig \<Rightarrow> bindp getAddon (\<lambda>addon.
         case SetControllerReference (theLib E) (addonMeta addon)
                (objectMeta (olm_Namespace commonConfig) DefaultAddonInstanceName) of
           Inl err \<Rightarrow> throw (Wrap ''setting controller reference'' err)
         | Inr m \<Rightarrow> reconcileAddonInstance E
             \<lparr>ai_meta = m, ai_Spec = \<lparr>MarkedForDeletion = False,
                HeartbeatUpdatePeriod = DefaultAddonInstanceHeartbeatUpdatePeriod\<rparr>,
              ai_Status = zeroInstanceStatus\<rparr>))"

definition instanceReconcile :: "'w Env \<Rightarrow> ('w st, subReconcilerResult) prog" where
  "instanceReconcile E =
     call (ensureAddonInstance E) (\<lambda>err. throw (joinErr err ErrEnsureCreateAddonInstance)) (\<lambda>_. ret resultNil)"

section \<open>What it writes\<close>

text \<open>
  The AddonInstance of the Addon, in its install namespace and with the Addon as controller. A
  created instance carries no deletion mark; an updated one carries the mark that was read.
\<close>

definition instanceObject :: "lib \<Rightarrow> Addon \<Rightarrow> AddonInstance \<Rightarrow> bool" where
  "instanceObject L a i \<longleftrightarrow> ownedBy L a (ai_meta i) \<and> Name (ai_meta i) = DefaultAddonInstanceName \<and>
     HeartbeatUpdatePeriod (ai_Spec i) = DefaultAddonInstanceHeartbeatUpdatePeriod \<and>
     (\<exists>conf. installConfig (Spec a) = Some conf \<and> Namespace (ai_meta i) = olm_Namespace conf)"

fun instanceCall :: "'w Env \<Rightarrow> Addon \<Rightarrow> apiCall \<Rightarrow> bool" where
  "instanceCall E a (CallCreate (KAddonInstance i)) =
     (instanceObject (theLib E) a i \<and> \<not> MarkedForDeletion (ai_Spec i))"
| "instanceCall E a (CallUpdate (KAddonInstance i)) = (instanceObject (theLib E) a i \<and>
     (\<exists>w current w'. kGet (k_AddonInstance (client E)) (ObjectKeyFromObject (ai_meta i)) w = (Inr current, w') \<and>
        MarkedForDeletion (ai_Spec i) = MarkedForDeletion (ai_Spec current)))"
| "instanceCall E a _ = False"

lemma reconcileAddonInstance_calls:
  assumes "env_laws E" "\<And>c. instanceCall E a c \<Longrightarrow> P c"
    and "instanceObject (theLib E) a d" "\<not> MarkedForDeletion (ai_Spec d)"
  shows "keeps (runsFor a P) (reconcileAddonInstance E d)"
  unfolding reconcileAddonInstance_def Let_def
proof (rule keeps_call_yields)
  let ?get = "kGet (k_AddonInstance (client E)) (ObjectKeyFromObject (ai_meta d))"
  show "yields (runsFor a P) (doGet (k_AddonInstance (client E)) (ObjectKeyFromObject (ai_meta d)))
      (\<lambda>cur. \<exists>w w'. ?get w = (Inr cur, w'))"
    unfolding doGet_def by (rule yields_apiRead) (auto intro: keeps_rules)
  fix cur assume "\<exists>w w'. ?get w = (Inr cur, w')"
  then obtain w w' where get: "?get w = (Inr cur, w')" by blast
  then have key: "ObjectKeyFromObject (ai_meta cur) = ObjectKeyFromObject (ai_meta d)"
    by (rule gets_by_keyD [OF env_lawsD(15) [OF assms(1)]])
  let ?new = "cur\<lparr>ai_Spec := (ai_Spec d)\<lparr>MarkedForDeletion := MarkedForDeletion (ai_Spec cur)\<rparr>,
     ai_meta := (ai_meta cur)\<lparr>OwnerReferences := OwnerReferences (ai_meta d)\<rparr>\<rparr>"
  have "GetControllerOf (theLib E) (ai_meta ?new) = GetControllerOf (theLib E) (ai_meta d)"
    by (rule controller_cong [OF env_lawsD(4) [OF assms(1)]]) simp
  with assms(3) key have "instanceObject (theLib E) a ?new"
    by (auto simp: instanceObject_def ownedBy_def ObjectKeyFromObject_def)
  moreover have "ObjectKeyFromObject (ai_meta ?new) = ObjectKeyFromObject (ai_meta d)"
    using key by (simp add: ObjectKeyFromObject_def)
  ultimately have "P (CallUpdate (KAddonInstance ?new))"
    using get by (intro assms(2)) auto
  then show "keeps (runsFor a P) (if \<not> SemanticDeepEqual (theLib E) (IAddonInstanceSpec (ai_Spec cur))
      (IAddonInstanceSpec ((ai_Spec d)\<lparr>MarkedForDeletion := MarkedForDeletion (ai_Spec cur)\<rparr>))
      then bindp (doUpdate (k_AddonInstance (client E)) KAddonInstance ?new) (\<lambda>_. ret ()) else ret ())"
    by (intro keeps_rules)
next
  have "P (CallCreate (KAddonInstance d))" using assms(3,4) by (intro assms(2)) simp
  then show "keeps (runsFor a P) (if IsNotFound (theLib E) err
      then bindp (doCreate (k_AddonInstance (client E)) KAddonInstance d) (\<lambda>_. ret ())
      else throw (Wrap ''getting AddonInstance'' err))" for err
    by (intro keeps_rules)
qed

lemma instance_calls:
  assumes "env_laws E" "\<And>c. instanceCall E a c \<Longrightarrow> P c"
  shows "keeps (runsFor a P) (instanceReconcile E)"
proof -
  have "keeps (runsFor a P) (ensureAddonInstance E)"
    unfolding ensureAddonInstance_def
  proof (rule runsOn_parse, rule keeps_case_option, goal_cases)
    case (2 conf)
    have new: "instanceObject (theLib E) a
        \<lparr>ai_meta = m, ai_Spec = \<lparr>MarkedForDeletion = False,
           HeartbeatUpdatePeriod = DefaultAddonInstanceHeartbeatUpdatePeriod\<rparr>, ai_Status = zeroInstanceStatus\<rparr>"
      if b: "sameAddon b a" and set: "SetControllerReference (theLib E) (addonMeta b)
        (objectMeta (olm_Namespace conf) DefaultAddonInstanceName) = Inr m" for b m
    proof -
      obtain ref where "GetControllerOf (theLib E) m = Some ref" "or_UID ref = UID (addonMeta b)"
        by (rule controller_set [OF env_lawsD(4) [OF assms(1)] set])
      with b controller_set_meta [OF env_lawsD(4) [OF assms(1)] set] 2 show ?thesis
        by (simp add: instanceObject_def ownedBy_def sameAddon_def)
    qed
    show ?case
      by (intro runsFor_getAddon keeps_case_sum keeps_throw reconcileAddonInstance_calls [OF assms] new) auto
  qed (intro keeps_rules)
  then show ?thesis unfolding instanceReconcile_def by (intro keeps_rules)
qed

section \<open>Properties\<close>

text \<open>
  The AddonInstance reconciler writes nothing but the AddonInstance of the Addon, in its install
  namespace, owned by the Addon and with the default heartbeat period; an update carries the
  deletion mark the API server returned, so the delete signal is never taken back.
\<close>

theorem instance_reconcile_safe:
  assumes "env_laws E" "st_calls s = []" "instanceReconcile E s = (r, s')"
  shows "list_all (\<lambda>(c, _). instanceCall E (st_addon s) c) (st_calls s')"
  using keepsD [OF instance_calls [OF assms(1)] _ assms(3), of "st_addon s"] assms(2)
  by (simp add: runsOn_def)

section \<open>Witnesses\<close>

definition markedInstance :: AddonInstance where
  "markedInstance = \<lparr>ai_meta = objectMeta ''ns'' DefaultAddonInstanceName,
     ai_Spec = \<lparr>MarkedForDeletion = True, HeartbeatUpdatePeriod = 0\<rparr>, ai_Status = zeroInstanceStatus\<rparr>"

definition instanceStock :: stock where
  "instanceStock = emptyStock\<lparr>so_AddonInstance := [markedInstance]\<rparr>"

definition restoredInstance :: AddonInstance where
  "restoredInstance = markedInstance\<lparr>ai_Spec := \<lparr>MarkedForDeletion = True, HeartbeatUpdatePeriod = 10000000000\<rparr>,
     ai_meta := (objectMeta ''ns'' DefaultAddonInstanceName)
       \<lparr>OwnerReferences := [\<lparr>or_UID = ''u1'', or_Name = ''ref'', or_Controller = True\<rparr>]\<rparr>\<rparr>"

lemma instance_run:
  "st_calls (snd (instanceReconcile (refEnv instanceStock) (refState refAddon))) =
     [(CallUpdate (KAddonInstance restoredInstance), None)]"
  by (simp add: instanceReconcile_def ensureAddonInstance_def reconcileAddonInstance_def
      parseAddonInstallConfig_def prog_defs ref_eval ref_objects instanceStock_def markedInstance_def
      restoredInstance_def zeroInstanceStatus_def DefaultAddonInstanceHeartbeatUpdatePeriod_def
      setController_def controllerRef_def ObjectKeyFromObject_def Let_def)

theorem instance_reconcile_safe_witness:
  "instanceCall (refEnv instanceStock) refAddon (CallUpdate (KAddonInstance restoredInstance))"
  using instance_reconcile_safe [OF refEnv_laws _ prod.collapse [symmetric], of "refState refAddon" instanceStock]
  by (simp add: instance_run)

end
