(* ===== verification/Adoption.thy ===== *)
theory Adoption
  imports Addon_Status Ref_Cluster
begin

text \<open>
  The scheme the OLM phases and the monitoring phases share, each in its own Go function: get the
  object; create it when it is not found; otherwise adopt it, that is overwrite its specification
  and owner and add the labels, unless nothing of this would change. \<open>reconcileObject\<close> is that scheme; the locale \<open>adoptable\<close>
  states what a kind of object has to provide, and its lemmas are proved once. Each Go function is
  modelled on its own in the theory of its phase and shown to be an instance.
\<close>

section \<open>The scheme\<close>

record 'o objectKind =
  ok_meta :: "'o \<Rightarrow> ObjectMeta"
  ok_wrap :: "'o \<Rightarrow> kobj"
  ok_valid :: "'o \<Rightarrow> bool"                     \<comment> \<open>the dereferences of the comparison succeed\<close>
  ok_same :: "lib \<Rightarrow> 'o \<Rightarrow> 'o \<Rightarrow> bool"         \<comment> \<open>desired, current: the specification is unchanged\<close>
  ok_adopt :: "lib \<Rightarrow> 'o \<Rightarrow> 'o \<Rightarrow> 'o"          \<comment> \<open>desired, current: the object to update to\<close>

definition upToDate :: "'o objectKind \<Rightarrow> lib \<Rightarrow> 'o \<Rightarrow> 'o \<Rightarrow> bool" where
  "upToDate K L desired current \<longleftrightarrow> ok_same K L desired current \<and>
     HasSameController L (ok_meta K current) (ok_meta K desired) \<and>
     LabelsEquals L (Labels (ok_meta K current))
       (LabelsMerge L (Labels (ok_meta K current)) (Labels (ok_meta K desired)))"

definition reconcileObject ::
  "'o objectKind \<Rightarrow> 'w Env \<Rightarrow> ('w, 'o) kclient \<Rightarrow> (error \<Rightarrow> error) \<Rightarrow> 'o \<Rightarrow> ('w st, 'o) prog" where
  "reconcileObject K E c wrapGet desired =
     call (doGet c (ObjectKeyFromObject (ok_meta K desired)))
       (\<lambda>err. if IsNotFound (theLib E) err then doCreate c (ok_wrap K) desired else throw (wrapGet err))
       (\<lambda>current.
          if \<not> ok_valid K current then panic
          else if upToDate K (theLib E) desired current then ret current
          else doUpdate c (ok_wrap K) (ok_adopt K (theLib E) desired current))"

text \<open>The server took over what it was sent.\<close>

definition accepted :: "'o objectKind \<Rightarrow> lib \<Rightarrow> 'o \<Rightarrow> 'o \<Rightarrow> bool" where
  "accepted K L x y \<longleftrightarrow> OwnerReferences (ok_meta K y) = OwnerReferences (ok_meta K x) \<and>
     Labels (ok_meta K y) = Labels (ok_meta K x) \<and> (\<forall>d. ok_same K L d x \<longrightarrow> ok_same K L d y)"

lemma accepted_upToDate:
  assumes "lib_laws L" "accepted K L x y" "upToDate K L d x"
  shows "upToDate K L d y"
  using assms controller_cong [of L "ok_meta K y" "ok_meta K x"]
  by (auto simp: upToDate_def accepted_def HasSameController_def)

section \<open>The contract of a kind\<close>

locale adoptable =
  fixes K :: "'o objectKind"
  assumes adopt_meta: "label_laws L \<Longrightarrow> ok_meta K (ok_adopt K L d c) = (ok_meta K c)
      \<lparr>OwnerReferences := OwnerReferences (ok_meta K d), Labels := Labels (ok_meta K c) ++ Labels (ok_meta K d)\<rparr>"
    and adopt_same: "equality_laws L \<Longrightarrow> ok_valid K d \<Longrightarrow> ok_valid K c \<Longrightarrow> ok_same K L d (ok_adopt K L d c)"
    and adopt_valid: "ok_valid K d \<Longrightarrow> ok_valid K c \<Longrightarrow> ok_valid K (ok_adopt K L d c)"
    and created_same: "equality_laws L \<Longrightarrow> ok_valid K d \<Longrightarrow> ok_same K L d d"
begin

text \<open>An adopted object is up to date: the next reconciliation leaves it alone.\<close>

lemma adopt_upToDate:
  assumes "lib_laws L" "ok_valid K c" "GetControllerOf L (ok_meta K d) = Some ref" "ok_valid K d"
  shows "upToDate K L d (ok_adopt K L d c)"
proof -
  have laws: "label_laws L" "equality_laws L" "owner_laws L" using assms(1) by auto
  have "GetControllerOf L (ok_meta K (ok_adopt K L d c)) = GetControllerOf L (ok_meta K d)"
    by (rule controller_cong [OF laws(3)]) (simp add: adopt_meta [OF laws(1)])
  with assms(3) have "HasSameController L (ok_meta K (ok_adopt K L d c)) (ok_meta K d)"
    by (auto simp: HasSameController_iff)
  moreover have "ok_same K L d (ok_adopt K L d c)" by (rule adopt_same [OF laws(2) assms(4,2)])
  ultimately show ?thesis
    using laws(1) by (simp add: upToDate_def adopt_meta del: map_add_assoc)
qed

text \<open>Once the object is up to date no write is made; the object is returned as it was read.\<close>

lemma upToDate_no_write:
  assumes "doGet c (ObjectKeyFromObject (ok_meta K d)) s = (Ok cur, s1)" "ok_valid K cur"
    and "upToDate K (theLib E) d cur"
  shows "reconcileObject K E c wrapGet d s = (Ok cur, s1)"
  using assms by (simp add: reconcileObject_def)

text \<open>
  What one reconciliation writes, if anything: the object under the key of the desired one, with
  the Addon as its controller and with the labels of the Addon.
\<close>

lemma reconcile_calls:
  assumes laws: "label_laws (theLib E)" "owner_laws (theLib E)" and api: "gets_by_key (ok_meta K) c"
    and owned: "ownedMeta (theLib E) a (ok_meta K d)"
    and create: "P (CallCreate (ok_wrap K d))"
    and update: "\<And>x. ObjectKeyFromObject (ok_meta K x) = ObjectKeyFromObject (ok_meta K d) \<Longrightarrow>
      ownedMeta (theLib E) a (ok_meta K x) \<Longrightarrow> P (CallUpdate (ok_wrap K x))"
  shows "keeps (runsFor a P) (reconcileObject K E c wrapGet d)"
  unfolding reconcileObject_def
proof (rule keeps_call_yields [OF yields_doGet [OF api]], goal_cases)
  case 1
  show ?case using create by (intro keeps_rules)
next
  case (2 cur)
  have "P (CallUpdate (ok_wrap K (ok_adopt K (theLib E) d cur)))"
  proof (rule update)
    show "ObjectKeyFromObject (ok_meta K (ok_adopt K (theLib E) d cur)) = ObjectKeyFromObject (ok_meta K d)"
      using 2 by (simp add: adopt_meta [OF laws(1)] ObjectKeyFromObject_def)
    show "ownedMeta (theLib E) a (ok_meta K (ok_adopt K (theLib E) d cur))"
      by (rule ownedMeta_merge [OF laws(2) owned]) (simp_all add: adopt_meta [OF laws(1)])
  qed
  then show ?case by (intro keeps_rules)
qed

text \<open>
  A successful reconciliation returns an object the server sent: the object that was read, when
  it was up to date, or the answer to the one write that was made.
\<close>

lemma reconcile_ok:
  assumes "reconcileObject K E c wrapGet d s = (Ok v, s')"
  obtains (created) s1 where "st_calls s1 = st_calls s" "doCreate c (ok_wrap K) d s1 = (Ok v, s')"
  | (adopted) cur s1 where "doGet c (ObjectKeyFromObject (ok_meta K d)) s = (Ok cur, s1)"
      "st_calls s1 = st_calls s" "ok_valid K cur"
      "doUpdate c (ok_wrap K) (ok_adopt K (theLib E) d cur) s1 = (Ok v, s')"
  | (kept) "doGet c (ObjectKeyFromObject (ok_meta K d)) s = (Ok v, s')" "st_calls s' = st_calls s"
      "upToDate K (theLib E) d v"
proof -
  have "doGet c (ObjectKeyFromObject (ok_meta K d)) s = (r, s1) \<Longrightarrow> st_calls s1 = st_calls s" for r s1
    by (auto simp: doGet_def apiRead_def split: prod.splits)
  with assms that show ?thesis
    unfolding reconcileObject_def call_ok by (auto split: if_splits)
qed

text \<open>
  A reconciliation settles: when the object it returned is what the server hands out the next
  time, the next reconciliation writes nothing. The server may fill in fields on its own, as long
  as it keeps the owner, the labels and the specification it was sent.
\<close>

lemma settles:
  assumes laws: "lib_laws (theLib E)" and d: "ok_valid K d" "GetControllerOf (theLib E) (ok_meta K d) = Some ref"
    and server: "\<And>x w y w'. kCreate c x w = (Inr y, w') \<or> kUpdate c x w = (Inr y, w') \<Longrightarrow> accepted K (theLib E) x y"
    and run: "reconcileObject K E c wg d s = (Ok v, s')"
    and again: "doGet c (ObjectKeyFromObject (ok_meta K d)) t = (Ok v, t')" "ok_valid K v"
  shows "reconcileObject K E c wg d t = (Ok v, t')"
proof -
  have "upToDate K (theLib E) d v"
    using run
  proof (cases rule: reconcile_ok)
    case (created s1)
    then obtain w w' where "kCreate c d w = (Inr v, w')"
      by (force simp: doCreate_def apiWrite_def answer_def split: prod.splits sum.splits)
    then have acc: "accepted K (theLib E) d v" using server by blast
    have "ok_same K (theLib E) d d" using laws d(1) by (intro created_same) auto
    then have "upToDate K (theLib E) d d"
      using lib_lawsD(2) [OF laws] d by (auto simp: upToDate_def HasSameController_iff)
    with laws acc show ?thesis by (rule accepted_upToDate)
  next
    case (adopted cur s1)
    then obtain w w' where "kUpdate c (ok_adopt K (theLib E) d cur) w = (Inr v, w')"
      by (force simp: doUpdate_def apiWrite_def answer_def split: prod.splits sum.splits)
    then have "accepted K (theLib E) (ok_adopt K (theLib E) d cur) v" using server by blast
    from laws this adopt_upToDate [OF laws adopted(3) d(2,1)] show ?thesis by (rule accepted_upToDate)
  next
    case kept
    then show ?thesis by blast
  qed
  from upToDate_no_write [OF again this] show ?thesis .
qed

end

lemma recorded_reconcileObject [keeps_rules]: "keeps (recorded x) (reconcileObject K E c wg d)"
  unfolding reconcileObject_def by (intro keeps_rules)

lemma recorded_parse [keeps_rules]: "keeps (recorded x) (parseAddonInstallConfig E)"
  unfolding parseAddonInstallConfig_def configError_def
  by (intro keeps_rules, auto split: AddonInstallType.splits option.splits intro!: keeps_rules)

end
