(* ===== verification/Olm_Phases.thy ===== *)
theory Olm_Phases
  imports Adoption Csv_Refs
begin

text \<open>
  Phases 1 to 5 of the OLM reconciler: the OperatorGroup, the NetworkPolicy and the CatalogSources
  of an Addon and its Subscription (\<open>phase_ensure_operator_group.go\<close>,
  \<open>phase_ensure_catalogsource_networkpolicy.go\<close>, \<open>phase_ensure_catalogsource.go\<close>,
  \<open>phase_ensure_subscription.go\<close>).
\<close>

section \<open>Phase 1: OperatorGroup\<close>

definition reconcileOperatorGroup :: "'w Env \<Rightarrow> OperatorGroup \<Rightarrow> ('w st, unit) prog" where
  "reconcileOperatorGroup E operatorGroup =
     call (doGet (k_OperatorGroup (client E)) (ObjectKeyFromObject (og_meta operatorGroup)))
       (\<lambda>err. if IsNotFound (theLib E) err
              then bindp (doCreate (k_OperatorGroup (client E)) KOperatorGroup operatorGroup) (\<lambda>_. ret ())
              else throw (Wrap ''getting OperatorGroup'' err))
       (\<lambda>current.
          let currentLabels = Labels (og_meta current);
              newLabels = LabelsMerge (theLib E) currentLabels (Labels (og_meta operatorGroup));
              ownedByAddon = HasSameController (theLib E) (og_meta current) (og_meta operatorGroup);
              specChanged = (\<not> SemanticDeepEqual (theLib E)
                (IOperatorGroupSpec (og_TargetNamespaces current))
                (IOperatorGroupSpec (og_TargetNamespaces operatorGroup)))
          in if specChanged \<or> \<not> ownedByAddon \<or> \<not> LabelsEquals (theLib E) currentLabels newLabels
             then bindp (doUpdate (k_OperatorGroup (client E)) KOperatorGroup
                 (current\<lparr>og_TargetNamespaces := og_TargetNamespaces operatorGroup,
                    og_meta := (og_meta current)\<lparr>OwnerReferences := OwnerReferences (og_meta operatorGroup),
                      Labels := newLabels\<rparr>\<rparr>)) (\<lambda>_. ret ())
             else ret ())"

definition ensureOperatorGroup :: "'w Env \<Rightarrow> ('w st, subReconcilerResult) prog" where
  "ensureOperatorGroup E =
     bindp (parseAddonInstallConfig E) (\<lambda>config.
     case config of
       None \<Rightarrow> ret resultStop
     | Some commonConfig \<Rightarrow> bindp getAddon (\<lambda>addon.
         let targets = (if install_Type (Install (Spec addon)) = OLMOwnNamespace
                        then [olm_Namespace commonConfig] else []);
             m = AddCommonAnnotations (theLib E) addon (AddCommonLabels (theLib E) addon
                   (objectMeta (olm_Namespace commonConfig) DefaultOperatorGroupName))
         in case SetControllerReference (theLib E) (addonMeta addon) m of
              Inl err \<Rightarrow> throw (Wrap ''setting controller reference'' err)
            | Inr m \<Rightarrow> bindp (reconcileOperatorGroup E \<lparr>og_meta = m, og_TargetNamespaces = targets\<rparr>) (\<lambda>_.
                ret resultNil)))"

section \<open>Phase 2: NetworkPolicy\<close>

abbreviation errInstallConfigParseFailure :: error where
  "errInstallConfigParseFailure \<equiv> ErrorString ''failed to parse addon install config''"

definition desiredCatalogSourcesNetworkPolicy :: "'w Env \<Rightarrow> ('w st, NetworkPolicy) prog" where
  "desiredCatalogSourcesNetworkPolicy E =
     bindp (parseAddonInstallConfig E) (\<lambda>config.
     case config of
       None \<Rightarrow> throw errInstallConfigParseFailure
     | Some instConfig \<Rightarrow> bindp getAddon (\<lambda>addon.
         let catalogSourceNames = getPrimaryCatalogSourceName addon #
               map acs_Name (AdditionalCatalogSources instConfig);
             m = AddCommonAnnotations (theLib E) addon (AddCommonLabels (theLib E) addon
                   (objectMeta (olm_Namespace instConfig) (getCatalogSourceNetworkPolicyName addon)))
         in case SetControllerReference (theLib E) (addonMeta addon) m of
              Inl err \<Rightarrow> throw (Wrap ''setting controller reference'' err)
            | Inr m \<Rightarrow> ret \<lparr>np_meta = m, np_Spec =
                \<lparr>np_MatchExpressions = [(''olm.catalogSource'', ''In'', catalogSourceNames)],
                 np_IngressPorts = [[(''TCP'', 50051)]],
                 np_PolicyTypes = [''Ingress'']\<rparr>\<rparr>))"

definition actualCatalogSourcesNetworkPolicy :: "'w Env \<Rightarrow> ('w st, NetworkPolicy) prog" where
  "actualCatalogSourcesNetworkPolicy E =
     bindp (parseAddonInstallConfig E) (\<lambda>config.
     case config of
       None \<Rightarrow> throw errInstallConfigParseFailure
     | Some instConfig \<Rightarrow> bindp getAddon (\<lambda>addon.
         call (doGet (k_NetworkPolicy (client E))
             \<lparr>key_Namespace = olm_Namespace instConfig, key_Name = getCatalogSourceNetworkPolicyName addon\<rparr>)
           (\<lambda>err. throw (Wrap ''getting NetworkPolicy'' err)) ret))"

definition ensureCatalogSourcesNetworkPolicy :: "'w Env \<Rightarrow> ('w st, subReconcilerResult) prog" where
  "ensureCatalogSourcesNetworkPolicy E =
     call (desiredCatalogSourcesNetworkPolicy E)
       (\<lambda>err. if errorsIs err errInstallConfigParseFailure then ret resultStop
              else throw (Wrap ''building desired NetworkPolicy'' err))
       (\<lambda>desired.
     call (actualCatalogSourcesNetworkPolicy E)
       (\<lambda>err. if errorsIs err errInstallConfigParseFailure then ret resultStop
              else if IsNotFound (theLib E) err
              then bindp (doCreate (k_NetworkPolicy (client E)) KNetworkPolicy desired) (\<lambda>_. ret resultNil)
              else throw (Wrap ''retrieving actual NetworkPolicy'' err))
       (\<lambda>actual.
          let currentLabels = Labels (np_meta actual);
              newLabels = LabelsMerge (theLib E) currentLabels (Labels (np_meta desired));
              ownedByAddon = HasSameController (theLib E) (np_meta actual) (np_meta desired);
              specChanged = (\<not> SemanticDeepEqual (theLib E)
                (INetworkPolicySpec (np_Spec actual)) (INetworkPolicySpec (np_Spec desired)));
              labelsChanged = (\<not> LabelsEquals (theLib E) currentLabels newLabels)
          in if ownedByAddon \<and> \<not> specChanged \<and> \<not> labelsChanged then ret resultNil
             else bindp (doUpdate (k_NetworkPolicy (client E)) KNetworkPolicy
                 (actual\<lparr>np_Spec := np_Spec desired,
                    np_meta := (np_meta actual)\<lparr>OwnerReferences := OwnerReferences (np_meta desired),
                      Labels := newLabels\<rparr>\<rparr>)) (\<lambda>_. ret resultNil)))"

section \<open>Phases 3 and 4: CatalogSources\<close>

abbreviation catalogSourcePublisher :: string where
  "catalogSourcePublisher \<equiv> ''OSD Red Hat Addons''"

definition reconcileCatalogSource :: "'w Env \<Rightarrow> CatalogSource \<Rightarrow> ('w st, CatalogSource) prog" where
  "reconcileCatalogSource E catalogSource =
     call (doGet (k_CatalogSource (client E))
         \<lparr>key_Namespace = Namespace (cs_meta catalogSource), key_Name = Name (cs_meta catalogSource)\<rparr>)
       (\<lambda>err. if IsNotFound (theLib E) err
              then doCreate (k_CatalogSource (client E)) KCatalogSource catalogSource
              else throw err)
       (\<lambda>current.
          let ownedByAddon = HasSameController (theLib E) (cs_meta current) (cs_meta catalogSource);
              specChanged = (\<not> SemanticDeepEqual (theLib E)
                (ICatalogSourceSpec (cs_Spec catalogSource)) (ICatalogSourceSpec (cs_Spec current)));
              currentLabels = Labels (cs_meta current);
              newLabels = LabelsMerge (theLib E) currentLabels (Labels (cs_meta catalogSource))
          in if specChanged \<or> \<not> ownedByAddon \<or> \<not> LabelsEquals (theLib E) newLabels currentLabels
             then doUpdate (k_CatalogSource (client E)) KCatalogSource
                 (current\<lparr>cs_Spec := cs_Spec catalogSource,
                    cs_meta := (cs_meta current)\<lparr>OwnerReferences := OwnerReferences (cs_meta catalogSource),
                      Labels := newLabels\<rparr>\<rparr>)
             else ret current)"

definition newCatalogSource :: "'w Env \<Rightarrow> Addon \<Rightarrow> string \<Rightarrow> string \<Rightarrow> string \<Rightarrow> string \<Rightarrow> error + CatalogSource" where
  "newCatalogSource E addon name namespace img pullSecret =
     (case SetControllerReference (theLib E) (addonMeta addon)
             (AddCommonAnnotations (theLib E) addon (AddCommonLabels (theLib E) addon
               (objectMeta namespace name))) of
        Inl err \<Rightarrow> Inl err
      | Inr m \<Rightarrow> Inr \<lparr>cs_meta = m, cs_Spec =
          \<lparr>cs_SourceType = ''grpc'', cs_Publisher = catalogSourcePublisher,
           cs_DisplayName = DisplayName (Spec addon), cs_Image = img,
           cs_SecurityContextConfig = ''restricted'',
           cs_Secrets = (if length pullSecret > 0 then [pullSecret] else [])\<rparr>,
          cs_LastObservedState = None\<rparr>)"

definition ensureCatalogSource ::
  "'w Env \<Rightarrow> ('w st, subReconcilerResult \<times> CatalogSource option) prog" where
  "ensureCatalogSource E =
     bindp (parseAddonInstallConfig E) (\<lambda>config.
     case config of
       None \<Rightarrow> ret (resultStop, None)
     | Some commonConfig \<Rightarrow> bindp getAddon (\<lambda>addon.
         case newCatalogSource E addon (CatalogSourceName addon) (olm_Namespace commonConfig)
                (CatalogSourceImage commonConfig) (PullSecretName commonConfig) of
           Inl err \<Rightarrow> throw err
         | Inr catalogSource \<Rightarrow>
             bindp (reconcileCatalogSource E catalogSource) (\<lambda>observed.
             case cs_LastObservedState observed of
               None \<Rightarrow>
                 bindp (mutate E (reportCatalogSourceUnreadinessStatus (theLib E)
                   ''.Status.GRPCConnectionState is nil'')) (\<lambda>_. ret (resultRetry, None))
             | Some state \<Rightarrow>
                 if state \<noteq> ''READY''
                 then bindp (mutate E (reportCatalogSourceUnreadinessStatus (theLib E)
                   (''.Status.GRPCConnectionState.LastObservedState == '' @ state))) (\<lambda>_.
                   ret (resultRetry, None))
                 else ret (resultNil, Some observed))))"

fun ensureEachSource ::
  "'w Env \<Rightarrow> string \<Rightarrow> string \<Rightarrow> AdditionalCatalogSource list \<Rightarrow> ('w st, subReconcilerResult) prog" where
  "ensureEachSource E targetNamespace pullSecret [] = ret resultNil"
| "ensureEachSource E targetNamespace pullSecret (src # srcs) = bindp getAddon (\<lambda>addon.
     case newCatalogSource E addon (acs_Name src) targetNamespace (acs_Image src) pullSecret of
       Inl err \<Rightarrow> throw err
     | Inr currentCatalogSrc \<Rightarrow>
         bindp (reconcileCatalogSource E currentCatalogSrc) (\<lambda>observed.
         case cs_LastObservedState observed of
           None \<Rightarrow>
             bindp (mutate E (reportAdditionalCatalogSourceUnreadinessStatus (theLib E)
               ''.Status.GRPCConnectionState is nil'')) (\<lambda>_. ret resultRetry)
         | Some state \<Rightarrow>
             if state \<noteq> ''READY''
             then bindp (mutate E (reportAdditionalCatalogSourceUnreadinessStatus (theLib E)
               (''.Status.GRPCConnectionState.LastObservedState == '' @ state))) (\<lambda>_. ret resultRetry)
             else ensureEachSource E targetNamespace pullSecret srcs))"

definition ensureAdditionalCatalogSources :: "'w Env \<Rightarrow> ('w st, subReconcilerResult) prog" where
  "ensureAdditionalCatalogSources E = bindp getAddon (\<lambda>addon.
     bindp (HasAdditionalCatalogSources addon) (\<lambda>hasAny.
     if \<not> hasAny then ret resultNil
     else bindp (parseAddonInstallConfigForAdditionalCatalogSources E) (\<lambda>parsed.
       case parsed of
         None \<Rightarrow> ret resultStop
       | Some (srcs, targetNamespace, pullSecret) \<Rightarrow> ensureEachSource E targetNamespace pullSecret srcs)))"

section \<open>Phase 5: Subscription\<close>

definition getSubscriptionEnvObjects :: "EnvObject list \<Rightarrow> (string \<times> string) list" where
  "getSubscriptionEnvObjects envObjects = map (\<lambda>e. (env_Name e, env_Value e)) envObjects"

definition createSubscriptionConfigObject :: "AddonInstallOLMCommon \<Rightarrow> (string \<times> string) list option" where
  "createSubscriptionConfigObject opts =
     (case Config opts of
        Some c \<Rightarrow> Some (getSubscriptionEnvObjects (EnvironmentVariables c))
      | None \<Rightarrow> None)"

definition reconcileSubscription :: "'w Env \<Rightarrow> Subscription \<Rightarrow> ('w st, Subscription) prog" where
  "reconcileSubscription E subscription =
     call (GetSubscription E (Name (sub_meta subscription)) (Namespace (sub_meta subscription)))
       (\<lambda>err. if IsNotFound (theLib E) err
              then doCreate (k_Subscription (client E)) KSubscription subscription
              else throw err)
       (\<lambda>current.
          bindp (deref (sub_Spec current)) (\<lambda>currentSpec.
          bindp (deref (sub_Spec subscription)) (\<lambda>desiredSpec.
          let spec = Some (desiredSpec\<lparr>sub_InstallPlanApproval := sub_InstallPlanApproval currentSpec\<rparr>);
              specChanged = (\<not> SemanticDeepEqual (theLib E)
                (ISubscriptionSpec spec) (ISubscriptionSpec (sub_Spec current)));
              ownedByAddon = HasSameController (theLib E) (sub_meta current) (sub_meta subscription);
              currentLabels = Labels (sub_meta current);
              newLabels = LabelsMerge (theLib E) currentLabels (Labels (sub_meta subscription))
          in if specChanged \<or> \<not> ownedByAddon \<or> \<not> LabelsEquals (theLib E) currentLabels newLabels
             then doUpdate (k_Subscription (client E)) KSubscription
                 (current\<lparr>sub_Spec := spec,
                    sub_meta := (sub_meta current)\<lparr>OwnerReferences := OwnerReferences (sub_meta subscription),
                      Labels := newLabels\<rparr>\<rparr>)
             else ret current)))"

definition reportCSVNotLinked :: "lib \<Rightarrow> time \<Rightarrow> Addon \<Rightarrow> Addon" where
  "reportCSVNotLinked L now a =
     setPhase PhaseError (observeGeneration (setCondition L now
       (condition Available ConditionFalse AddonReasonUnreadyCSV
          ''CSV not linked in Subscription. Dependency issue?'' (Generation (addonMeta a))) a))"

definition zeroKey :: ObjectKey where
  "zeroKey = \<lparr>key_Namespace = '''', key_Name = ''''\<rparr>"

definition ensureSubscription ::
  "'w Env \<Rightarrow> CatalogSource option \<Rightarrow> ('w st, subReconcilerResult \<times> ObjectKey) prog" where
  "ensureSubscription E catalogSource = bindp getAddon (\<lambda>addon.
     case GetInstallOLMCommon addon of
       Inl err \<Rightarrow> throw err
     | Inr opts \<Rightarrow> bindp (deref catalogSource) (\<lambda>cs.
         let spec = \<lparr>sub_CatalogSource = Name (cs_meta cs), sub_CatalogSourceNamespace = Namespace (cs_meta cs),
               sub_Channel = Channel opts, sub_Package = PackageName opts,
               sub_Config = createSubscriptionConfigObject opts, sub_InstallPlanApproval = ''''\<rparr>;
             m = AddCommonAnnotations (theLib E) addon (AddCommonLabels (theLib E) addon
                   (objectMeta (olm_Namespace opts) (SubscriptionName addon)))
         in case SetControllerReference (theLib E) (addonMeta addon) m of
              Inl err \<Rightarrow> throw (Wrap ''setting controller reference'' err)
            | Inr m \<Rightarrow>
                call (reconcileSubscription E \<lparr>sub_meta = m, sub_Spec = Some spec, sub_InstalledCSV = '''',
                    sub_CurrentCSV = '''', sub_InstallPlanRef = None\<rparr>)
                  (\<lambda>err. throw (Wrap ''reconciling Subscription'' err))
                  (\<lambda>observed.
                     if sub_InstalledCSV observed = '''' \<or> sub_CurrentCSV observed = ''''
                     then bindp (mutate E (reportCSVNotLinked (theLib E))) (\<lambda>_. ret (resultRetry, zeroKey))
                     else ret (resultNil, \<lparr>key_Namespace = olm_Namespace opts,
                       key_Name = sub_CurrentCSV observed\<rparr>))))"

section \<open>The phases follow the scheme\<close>

definition catalogSourceKind :: "CatalogSource objectKind" where
  "catalogSourceKind = \<lparr>ok_meta = cs_meta, ok_wrap = KCatalogSource, ok_valid = (\<lambda>_. True),
     ok_same = (\<lambda>L d c. SemanticDeepEqual L (ICatalogSourceSpec (cs_Spec d)) (ICatalogSourceSpec (cs_Spec c))),
     ok_adopt = (\<lambda>L d c. c\<lparr>cs_Spec := cs_Spec d, cs_meta := (cs_meta c)
       \<lparr>OwnerReferences := OwnerReferences (cs_meta d),
        Labels := LabelsMerge L (Labels (cs_meta c)) (Labels (cs_meta d))\<rparr>\<rparr>)\<rparr>"

definition operatorGroupKind :: "OperatorGroup objectKind" where
  "operatorGroupKind = \<lparr>ok_meta = og_meta, ok_wrap = KOperatorGroup, ok_valid = (\<lambda>_. True),
     ok_same = (\<lambda>L d c. SemanticDeepEqual L (IOperatorGroupSpec (og_TargetNamespaces c))
       (IOperatorGroupSpec (og_TargetNamespaces d))),
     ok_adopt = (\<lambda>L d c. c\<lparr>og_TargetNamespaces := og_TargetNamespaces d, og_meta := (og_meta c)
       \<lparr>OwnerReferences := OwnerReferences (og_meta d),
        Labels := LabelsMerge L (Labels (og_meta c)) (Labels (og_meta d))\<rparr>\<rparr>)\<rparr>"

text \<open>The specification a Subscription is updated to keeps the approval mode of the existing one.\<close>

definition keepApproval :: "Subscription \<Rightarrow> Subscription \<Rightarrow> SubscriptionSpec option" where
  "keepApproval d c = map_option (\<lambda>sp. sp\<lparr>sub_InstallPlanApproval :=
     (case sub_Spec c of None \<Rightarrow> '''' | Some cur \<Rightarrow> sub_InstallPlanApproval cur)\<rparr>) (sub_Spec d)"

definition subscriptionKind :: "Subscription objectKind" where
  "subscriptionKind = \<lparr>ok_meta = sub_meta, ok_wrap = KSubscription, ok_valid = (\<lambda>c. sub_Spec c \<noteq> None),
     ok_same = (\<lambda>L d c. SemanticDeepEqual L (ISubscriptionSpec (keepApproval d c)) (ISubscriptionSpec (sub_Spec c))),
     ok_adopt = (\<lambda>L d c. c\<lparr>sub_Spec := keepApproval d c, sub_meta := (sub_meta c)\<lparr>OwnerReferences := OwnerReferences (sub_meta d),
        Labels := LabelsMerge L (Labels (sub_meta c)) (Labels (sub_meta d))\<rparr>\<rparr>)\<rparr>"

interpretation cs: adoptable catalogSourceKind
  by unfold_locales (simp_all add: catalogSourceKind_def)

interpretation og: adoptable operatorGroupKind
  by unfold_locales (simp_all add: operatorGroupKind_def)

lemma reconcileCatalogSource_scheme:
  assumes "label_laws (theLib E)"
  shows "reconcileCatalogSource E d =
    reconcileObject catalogSourceKind E (k_CatalogSource (client E)) (\<lambda>e. e) d"
  unfolding reconcileCatalogSource_def reconcileObject_def
  using assms
  by (auto simp: catalogSourceKind_def upToDate_def ObjectKeyFromObject_def Let_def fun_eq_iff
      intro!: arg_cong2 [of _ _ _ _ "\<lambda>h k. call (doGet (k_CatalogSource (client E)) _) h k _"])

interpretation sub: adoptable subscriptionKind
  by unfold_locales (auto simp: subscriptionKind_def keepApproval_def)

lemma reconcileOperatorGroup_scheme:
  "reconcileOperatorGroup E d = bindp (reconcileObject operatorGroupKind E (k_OperatorGroup (client E))
     (Wrap ''getting OperatorGroup'') d) (\<lambda>_. ret ())"
proof
  fix s
  show "reconcileOperatorGroup E d s = bindp (reconcileObject operatorGroupKind E
      (k_OperatorGroup (client E)) (Wrap ''getting OperatorGroup'') d) (\<lambda>_. ret ()) s"
    by (auto simp: reconcileOperatorGroup_def reconcileObject_def operatorGroupKind_def upToDate_def
        Let_def bindp_def call_def split: prod.splits outcome.splits)
qed

lemma reconcileSubscription_scheme:
  assumes "sub_Spec d \<noteq> None"
  shows "reconcileSubscription E d =
    reconcileObject subscriptionKind E (k_Subscription (client E)) (\<lambda>e. e) d"
proof
  fix s
  from assms obtain ds where ds: "sub_Spec d = Some ds" by blast
  show "reconcileSubscription E d s = reconcileObject subscriptionKind E (k_Subscription (client E)) (\<lambda>e. e) d s"
    unfolding reconcileSubscription_def reconcileObject_def GetSubscription_def
    by (auto simp: subscriptionKind_def upToDate_def keepApproval_def ObjectKeyFromObject_def ds deref_def
        Let_def bindp_def call_def split: prod.splits outcome.splits option.splits)
qed

section \<open>What the phases write\<close>

text \<open>
  Objects in the install namespace of the Addon, under the names the Addon determines, with the
  Addon as their controller and with its labels.
\<close>

definition olmObject :: "lib \<Rightarrow> Addon \<Rightarrow> string set \<Rightarrow> ObjectMeta \<Rightarrow> bool" where
  "olmObject L a names om \<longleftrightarrow> ownedMeta L a om \<and> Name om \<in> names \<and>
     (\<exists>conf. GetInstallOLMCommon a = Inr conf \<and> Namespace om = olm_Namespace conf)"

definition sourceNames :: "Addon \<Rightarrow> string set" where
  "sourceNames a = (case GetInstallOLMCommon a of
     Inl _ \<Rightarrow> {} | Inr conf \<Rightarrow> insert (CatalogSourceName a) (acs_Name ` set (AdditionalCatalogSources conf)))"

fun olmWrite :: "lib \<Rightarrow> Addon \<Rightarrow> kobj \<Rightarrow> bool" where
  "olmWrite L a (KOperatorGroup x) = olmObject L a {DefaultOperatorGroupName} (og_meta x)"
| "olmWrite L a (KNetworkPolicy x) = olmObject L a {getCatalogSourceNetworkPolicyName a} (np_meta x)"
| "olmWrite L a (KCatalogSource x) = olmObject L a (sourceNames a) (cs_meta x)"
| "olmWrite L a (KSubscription x) = olmObject L a {SubscriptionName a} (sub_meta x)"
| "olmWrite L a _ = False"

fun olmCall :: "lib \<Rightarrow> Addon \<Rightarrow> apiCall \<Rightarrow> bool" where
  "olmCall L a (CallCreate x) = olmWrite L a x"
| "olmCall L a (CallUpdate x) = olmWrite L a x"
| "olmCall L a _ = False"

lemma GetInstallOLMCommon_cong: "sameAddon b a \<Longrightarrow> GetInstallOLMCommon b = GetInstallOLMCommon a"
  unfolding GetInstallOLMCommon_def sameAddon_def by (elim conjE) (simp only:)

lemma olmObject_key:
  "ObjectKeyFromObject om' = ObjectKeyFromObject om \<Longrightarrow> olmObject L a names om \<Longrightarrow>
     ownedMeta L a om' \<Longrightarrow> olmObject L a names om'"
  by (simp add: olmObject_def ObjectKeyFromObject_def)

text \<open>The metadata of a new object, in each phase.\<close>

lemma olmObject_new:
  assumes "env_laws E" "sameAddon b a" "GetInstallOLMCommon a = Inr conf" "name \<in> names"
    and "SetControllerReference (theLib E) (addonMeta b) (AddCommonAnnotations (theLib E) b
      (AddCommonLabels (theLib E) b (objectMeta (olm_Namespace conf) name))) = Inr om"
  shows "olmObject (theLib E) a names om"
  using ownedMeta_new [OF env_lawsD(2,4) [OF assms(1)] assms(5)] assms(2-4)
  by (simp add: olmObject_def ownedMeta_cong)

lemma reconcileOperatorGroup_calls:
  assumes "env_laws E" "\<And>c. olmCall (theLib E) a c \<Longrightarrow> P c"
    and "olmObject (theLib E) a {DefaultOperatorGroupName} (og_meta d)"
  shows "keeps (runsFor a P) (reconcileOperatorGroup E d)"
proof -
  have "keeps (runsFor a P) (reconcileObject operatorGroupKind E (k_OperatorGroup (client E))
      (Wrap ''getting OperatorGroup'') d)"
    using assms(3) env_lawsD [OF assms(1)]
    by (intro og.reconcile_calls)
       (auto simp: operatorGroupKind_def olmObject_def ObjectKeyFromObject_def intro!: assms(2))
  then show ?thesis unfolding reconcileOperatorGroup_scheme by (intro keeps_rules)
qed

lemma reconcileCatalogSource_calls:
  assumes "env_laws E" "\<And>c. olmCall (theLib E) a c \<Longrightarrow> P c"
    and "olmObject (theLib E) a (sourceNames a) (cs_meta d)"
  shows "keeps (runsFor a P) (reconcileCatalogSource E d)"
  unfolding reconcileCatalogSource_scheme [OF env_lawsD(2) [OF assms(1)]]
  using assms(3) env_lawsD [OF assms(1)]
  by (intro cs.reconcile_calls)
     (auto simp: catalogSourceKind_def olmObject_def ObjectKeyFromObject_def intro!: assms(2))

lemma reconcileSubscription_calls:
  assumes "env_laws E" "\<And>c. olmCall (theLib E) a c \<Longrightarrow> P c" "sub_Spec d \<noteq> None"
    and "olmObject (theLib E) a {SubscriptionName a} (sub_meta d)"
  shows "keeps (runsFor a P) (reconcileSubscription E d)"
  unfolding reconcileSubscription_scheme [OF assms(3)]
  using assms(4) env_lawsD [OF assms(1)]
  by (intro sub.reconcile_calls)
     (auto simp: subscriptionKind_def olmObject_def ObjectKeyFromObject_def intro!: assms(2))

lemma config_common: "installConfig (Spec a) = Some conf \<Longrightarrow> GetInstallOLMCommon a = Inr conf"
  by (rule GetInstallOLMCommon_config)

lemma ensureOperatorGroup_calls:
  assumes "env_laws E" "\<And>c. olmCall (theLib E) a c \<Longrightarrow> P c"
  shows "keeps (runsFor a P) (ensureOperatorGroup E)"
  unfolding ensureOperatorGroup_def Let_def
proof (rule runsOn_parse, rule keeps_case_option, goal_cases)
  case (2 conf)
  show ?case
    by (intro runsFor_getAddon keeps_case_sum keeps_throw keeps_bindp keeps_ret
        reconcileOperatorGroup_calls [OF assms])
       (use olmObject_new [OF assms(1) _ config_common [OF 2]] in auto)
qed (intro keeps_rules)

lemma newCatalogSource_object:
  assumes "env_laws E" "sameAddon b a" "GetInstallOLMCommon a = Inr conf" "name \<in> sourceNames a"
    and "newCatalogSource E b name (olm_Namespace conf) img pullSecret = Inr x"
  shows "olmObject (theLib E) a (sourceNames a) (cs_meta x)"
  using assms(5) olmObject_new [OF assms(1-4)]
  by (auto simp: newCatalogSource_def split: sum.splits)

lemma sourceNames_primary:
  "sameAddon b a \<Longrightarrow> GetInstallOLMCommon a = Inr conf \<Longrightarrow> CatalogSourceName b \<in> sourceNames a"
  by (simp add: sourceNames_def CatalogSourceName_def sameAddon_def)

lemma ensureCatalogSource_calls:
  assumes "env_laws E" "\<And>c. olmCall (theLib E) a c \<Longrightarrow> P c"
  shows "keeps (runsFor a P) (ensureCatalogSource E)"
  unfolding ensureCatalogSource_def
proof (rule runsOn_parse, rule keeps_case_option, goal_cases)
  case (2 conf)
  note common = config_common [OF 2]
  show ?case
    by (intro runsFor_getAddon keeps_case_sum keeps_throw keeps_bindp keeps_ret keeps_case_option keeps_if
        runsOn_mutate sameIdentity_pending reconcileCatalogSource_calls [OF assms]
        newCatalogSource_object [OF assms(1) _ common sourceNames_primary [OF _ common]])
qed (intro keeps_rules)

lemma ensureEachSource_calls:
  assumes "env_laws E" "\<And>c. olmCall (theLib E) a c \<Longrightarrow> P c" "GetInstallOLMCommon a = Inr conf"
    and "acs_Name ` set srcs \<subseteq> sourceNames a"
  shows "keeps (runsFor a P) (ensureEachSource E (olm_Namespace conf) pullSecret srcs)"
  using assms(4)
proof (induction srcs)
  case (Cons src srcs)
  then show ?case
    unfolding ensureEachSource.simps
    by (intro runsFor_getAddon keeps_case_sum keeps_throw keeps_bindp keeps_ret keeps_case_option keeps_if
        runsOn_mutate sameIdentity_pending reconcileCatalogSource_calls [OF assms(1,2)]
        newCatalogSource_object [OF assms(1) _ assms(3)]) auto
qed (auto intro: keeps_ret)

lemma collectSources_yields:
  "yields (runsFor a P) (collectSources E msg srcs acc) (\<lambda>r. r = None \<or> r = Some (acc @ srcs))"
proof (induction srcs arbitrary: acc)
  case (Cons src srcs)
  have "yields (runsFor a P) (configError E msg) (\<lambda>r. r = None \<or> r = Some (acc @ src # srcs))"
    unfolding configError_def
    by (rule yields_bindp [OF keeps_yields [of _ _ "\<lambda>_. True"]]) (auto intro!: keeps_rules yields_ret)
  with Cons.IH [of "acc @ [src]"] show ?case by (auto intro: yields_if)
qed (auto intro: yields_ret)

lemma parseAdditional_yields:
  "yields (runsFor a P) (parseAddonInstallConfigForAdditionalCatalogSources E)
     (\<lambda>r. \<forall>srcs ns pull. r = Some (srcs, ns, pull) \<longrightarrow> (\<exists>conf. GetInstallOLMCommon a = Inr conf \<and>
        ns = olm_Namespace conf \<and> srcs = AdditionalCatalogSources conf))"
  unfolding parseAddonInstallConfigForAdditionalCatalogSources_def
proof (rule yields_bindp [OF yields_runsFor_getAddon], goal_cases)
  case (1 b)
  then have common: "GetInstallOLMCommon a = GetInstallOLMCommon b" by (simp add: GetInstallOLMCommon_cong)
  show ?case
    unfolding common
    by (cases "install_Type (Install (Spec b))")
       (auto simp: GetInstallOLMCommon_def intro!: yields_ret yields_bindp_deref
        yields_bindp [OF collectSources_yields])
qed

lemma ensureAdditionalCatalogSources_calls:
  assumes "env_laws E" "\<And>c. olmCall (theLib E) a c \<Longrightarrow> P c"
  shows "keeps (runsFor a P) (ensureAdditionalCatalogSources E)"
  unfolding ensureAdditionalCatalogSources_def
  by (intro runsFor_getAddon keeps_bindp [OF keeps_HasAdditionalCatalogSources] keeps_if keeps_ret
      keeps_bindp_yields [OF parseAdditional_yields] keeps_case_option keeps_case_prod)
     (auto simp: sourceNames_def intro!: ensureEachSource_calls [OF assms] split: sum.splits)

lemma networkPolicy_new:
  assumes "env_laws E"
  shows "yields (runsFor a P) (desiredCatalogSourcesNetworkPolicy E)
    (\<lambda>np. olmObject (theLib E) a {getCatalogSourceNetworkPolicyName a} (np_meta np))"
  unfolding desiredCatalogSourcesNetworkPolicy_def Let_def
proof (rule yields_parse, cases "installConfig (Spec a)", goal_cases)
  case (2 conf)
  then show ?case
    by (auto intro!: yields_bindp [OF yields_runsFor_getAddon] yields_case_sum yields_throw yields_ret
        olmObject_new [OF assms _ config_common [OF 2]] simp: getCatalogSourceNetworkPolicyName_def sameAddon_def)
qed (auto intro: yields_throw)

lemma networkPolicy_actual:
  assumes "env_laws E"
  shows "yields (runsFor a P) (actualCatalogSourcesNetworkPolicy E)
    (\<lambda>np. \<exists>conf. GetInstallOLMCommon a = Inr conf \<and> Namespace (np_meta np) = olm_Namespace conf \<and>
       Name (np_meta np) = getCatalogSourceNetworkPolicyName a)"
  unfolding actualCatalogSourcesNetworkPolicy_def
proof (rule yields_parse, cases "installConfig (Spec a)", goal_cases)
  case (2 conf)
  then show ?case
    by (auto intro!: yields_bindp [OF yields_runsFor_getAddon] yields_throw yields_ret
        yields_call [OF yields_doGet [OF env_lawsD(14) [OF assms]]]
        simp: config_common [OF 2] getCatalogSourceNetworkPolicyName_def sameAddon_def)
qed (auto intro: yields_throw)

lemma ensureNetworkPolicy_calls:
  assumes "env_laws E" "\<And>c. olmCall (theLib E) a c \<Longrightarrow> P c"
  shows "keeps (runsFor a P) (ensureCatalogSourcesNetworkPolicy E)"
  unfolding ensureCatalogSourcesNetworkPolicy_def Let_def
proof (rule keeps_call_yields [OF networkPolicy_new [OF assms(1)]], goal_cases)
  case (2 d)
  then have create: "P (CallCreate (KNetworkPolicy d))" by (intro assms(2)) simp
  show ?case
  proof (rule keeps_call_yields [OF networkPolicy_actual [OF assms(1)]], goal_cases)
    case (2 x)
    let ?m = "(np_meta x)\<lparr>OwnerReferences := OwnerReferences (np_meta d),
      Labels := LabelsMerge (theLib E) (Labels (np_meta x)) (Labels (np_meta d))\<rparr>"
    have "ownedMeta (theLib E) a ?m"
      by (rule ownedMeta_merge [of _ _ "np_meta d" _ "Labels (np_meta x)"])
         (use \<open>olmObject _ _ _ (np_meta d)\<close> env_lawsD [OF assms(1)] in \<open>auto simp: olmObject_def\<close>)
    with 2 have "P (CallUpdate (KNetworkPolicy (x\<lparr>np_Spec := np_Spec d, np_meta := ?m\<rparr>)))"
      by (intro assms(2)) (auto simp: olmObject_def)
    then show ?case by (intro keeps_rules)
  qed (intro keeps_rules create)
qed (intro keeps_rules)

lemma reportCSVNotLinked_identity [simp]: "sameIdentity (reportCSVNotLinked L now)"
  by (simp add: sameIdentity_def reportCSVNotLinked_def status_prims)

lemma ensureSubscription_calls:
  assumes "env_laws E" "\<And>c. olmCall (theLib E) a c \<Longrightarrow> P c"
  shows "keeps (runsFor a P) (ensureSubscription E cs)"
  unfolding ensureSubscription_def Let_def
proof (rule runsFor_getAddon, rule keeps_case_sum, goal_cases)
  case (2 b conf)
  then have "GetInstallOLMCommon a = Inr conf" by (simp add: GetInstallOLMCommon_cong)
  note new = olmObject_new [OF assms(1) 2(1) this]
  have name: "SubscriptionName b \<in> {SubscriptionName a}"
    using 2(1) by (simp add: SubscriptionName_def sameAddon_def)
  show ?case
    by (intro keeps_bindp keeps_deref keeps_case_sum keeps_throw keeps_call keeps_if keeps_ret
        runsOn_mutate reportCSVNotLinked_identity reconcileSubscription_calls [OF assms])
       (use new [OF name] in auto)
qed (intro keeps_rules)

section \<open>Properties\<close>

text \<open>
  C14: Reconciling a Subscription settles. When the server keeps the owner, the labels and the
  specification it is sent (it may choose the approval mode) and hands out the object it
  acknowledged, the next reconciliation writes nothing and returns that object.
\<close>

theorem subscription_settles:
  assumes "lib_laws (theLib E)" "sub_Spec d \<noteq> None" "GetControllerOf (theLib E) (sub_meta d) = Some ref"
    and "\<forall>x w y w'. kCreate (k_Subscription (client E)) x w = (Inr y, w') \<or>
      kUpdate (k_Subscription (client E)) x w = (Inr y, w') \<longrightarrow> accepted subscriptionKind (theLib E) x y"
    and "reconcileSubscription E d s = (Ok v, s')"
    and "doGet (k_Subscription (client E)) (ObjectKeyFromObject (sub_meta d)) t = (Ok v, t')" "sub_Spec v \<noteq> None"
  shows "reconcileSubscription E d t = (Ok v, t')"
proof -
  have K: "ok_meta subscriptionKind = sub_meta" "ok_valid subscriptionKind x = (sub_Spec x \<noteq> None)" for x
    by (simp_all add: subscriptionKind_def)
  show ?thesis
    unfolding reconcileSubscription_scheme [OF assms(2)]
  proof (rule sub.settles [OF assms(1)])
    show "GetControllerOf (theLib E) (ok_meta subscriptionKind d) = Some ref" by (simp add: K assms(3))
    show "reconcileObject subscriptionKind E (k_Subscription (client E)) (\<lambda>e. e) d s = (Ok v, s')"
      using assms(5) by (simp only: reconcileSubscription_scheme [OF assms(2)])
    show "doGet (k_Subscription (client E)) (ObjectKeyFromObject (ok_meta subscriptionKind d)) t = (Ok v, t')"
      by (simp only: K assms(6))
    show "accepted subscriptionKind (theLib E) x y" if "kCreate (k_Subscription (client E)) x w = (Inr y, w') \<or>
      kUpdate (k_Subscription (client E)) x w = (Inr y, w')" for x w y w'
      using assms(4) that by blast
  qed (use assms(2,7) in \<open>simp_all add: K\<close>)
qed

text \<open>
  Reconciling a Subscription never changes the approval mode of the one that exists: every
  update that is sent carries the mode that was read, so an Addon that switched to manual
  approval stays there.
\<close>

theorem subscription_keeps_approval:
  assumes "sub_Spec d = Some ds" "reconcileSubscription E d s = (r, s')"
    and "(CallUpdate (KSubscription x), e) \<in> set (drop (length (st_calls s)) (st_calls s'))"
  shows "\<exists>w w' current cs. kGet (k_Subscription (client E)) (ObjectKeyFromObject (sub_meta d)) w = (Inr current, w') \<and>
    sub_Spec current = Some cs \<and>
    sub_Spec x = Some (ds\<lparr>sub_InstallPlanApproval := sub_InstallPlanApproval cs\<rparr>)"
proof (cases rule: apiRead_cases [of "kGet (k_Subscription (client E)) (ObjectKeyFromObject (sub_meta d))" s])
  case (err er)
  with assms show ?thesis
    by (auto simp: reconcileSubscription_def GetSubscription_def doGet_def ObjectKeyFromObject_def
        doCreate_def apiWrite_def split: if_splits prod.splits)
next
  case (ok current)
  with assms have "\<exists>cs. sub_Spec current = Some cs \<and>
      sub_Spec x = Some (ds\<lparr>sub_InstallPlanApproval := sub_InstallPlanApproval cs\<rparr>)"
    by (auto simp: reconcileSubscription_def GetSubscription_def doGet_def ObjectKeyFromObject_def deref_def
        doUpdate_def apiWrite_def Let_def split: if_splits prod.splits option.splits)
  with ok(1) show ?thesis by blast
qed

section \<open>Witnesses\<close>

text \<open>A Subscription in manual mode, without owner and on an old channel, is adopted.\<close>

definition manualSubscription :: Subscription where
  "manualSubscription = \<lparr>sub_meta = objectMeta ''ns'' ''addon-ref'', sub_Spec = Some
     \<lparr>sub_CatalogSource = ''addon-ref-catalog'', sub_CatalogSourceNamespace = ''ns'', sub_Channel = ''old'',
      sub_Package = ''pkg'', sub_Config = None, sub_InstallPlanApproval = ''Manual''\<rparr>,
     sub_InstalledCSV = ''csv'', sub_CurrentCSV = ''csv'', sub_InstallPlanRef = None\<rparr>"

definition wantedSubscription :: Subscription where
  "wantedSubscription = \<lparr>sub_meta = (objectMeta ''ns'' ''addon-ref'')\<lparr>OwnerReferences :=
       [\<lparr>or_UID = ''u1'', or_Name = ''ref'', or_Controller = True\<rparr>]\<rparr>, sub_Spec = Some
     \<lparr>sub_CatalogSource = ''addon-ref-catalog'', sub_CatalogSourceNamespace = ''ns'', sub_Channel = ''alpha'',
      sub_Package = ''pkg'', sub_Config = None, sub_InstallPlanApproval = ''''\<rparr>,
     sub_InstalledCSV = '''', sub_CurrentCSV = '''', sub_InstallPlanRef = None\<rparr>"

definition adoptedSubscription :: Subscription where
  "adoptedSubscription = manualSubscription\<lparr>sub_meta := sub_meta wantedSubscription,
     sub_Spec := map_option (\<lambda>sp. sp\<lparr>sub_InstallPlanApproval := ''Manual''\<rparr>) (sub_Spec wantedSubscription)\<rparr>"

definition subscriptionEnv :: "Subscription \<Rightarrow> unit Env" where
  "subscriptionEnv x = refEnv (emptyStock\<lparr>so_Subscription := [x]\<rparr>)"

lemmas subscription_eval = subscriptionEnv_def reconcileSubscription_def GetSubscription_def prog_defs
  ref_eval objectMeta_def manualSubscription_def wantedSubscription_def adoptedSubscription_def
  HasSameController_def controllerRef_def ObjectKeyFromObject_def Let_def

lemma adopt_run:
  "reconcileSubscription (subscriptionEnv manualSubscription) wantedSubscription (refState refAddon) =
     (Ok adoptedSubscription, (refState refAddon)\<lparr>st_calls :=
       [(CallUpdate (KSubscription adoptedSubscription), None)]\<rparr>)"
  by (simp add: subscription_eval)

theorem subscription_keeps_approval_witness:
  "\<exists>cs. sub_Spec adoptedSubscription = Some cs \<and> sub_InstallPlanApproval cs = ''Manual''"
proof -
  obtain ds where ds: "sub_Spec wantedSubscription = Some ds"
    by (simp add: wantedSubscription_def)
  from subscription_keeps_approval [OF ds adopt_run, of adoptedSubscription None]
  obtain w w' current cs where "kGet (k_Subscription (client (subscriptionEnv manualSubscription)))
      (ObjectKeyFromObject (sub_meta wantedSubscription)) w = (Inr current, w')"
    "sub_Spec current = Some cs"
    "sub_Spec adoptedSubscription = Some (ds\<lparr>sub_InstallPlanApproval := sub_InstallPlanApproval cs\<rparr>)"
    by auto
  then show ?thesis by (auto simp: subscription_eval)
qed

lemma stock_accepts:
  "kCreate (k_Subscription (client (subscriptionEnv z))) x w = (Inr y, w') \<or>
   kUpdate (k_Subscription (client (subscriptionEnv z))) x w = (Inr y, w') \<Longrightarrow> accepted subscriptionKind L x y"
  by (auto simp: subscriptionEnv_def ref_eval accepted_def)

theorem subscription_settles_witness:
  "reconcileSubscription (subscriptionEnv adoptedSubscription) wantedSubscription (refState refAddon) =
     (Ok adoptedSubscription, refState refAddon)"
proof -
  let ?E = "subscriptionEnv adoptedSubscription"
  have lib: "theLib ?E = refLib" by (simp add: subscriptionEnv_def)
  have get: "doGet (k_Subscription (client ?E)) (ObjectKeyFromObject (sub_meta wantedSubscription))
      (refState refAddon) = (Ok adoptedSubscription, refState refAddon)"
    by (simp add: subscription_eval)
  have first: "reconcileSubscription ?E wantedSubscription (refState refAddon) =
      (Ok adoptedSubscription, refState refAddon)"
    by (simp add: subscription_eval)
  have "sub_Spec wantedSubscription \<noteq> None" "sub_Spec adoptedSubscription \<noteq> None"
    "GetControllerOf refLib (sub_meta wantedSubscription) = Some \<lparr>or_UID = ''u1'', or_Name = ''ref'', or_Controller = True\<rparr>"
    by (simp_all add: adoptedSubscription_def wantedSubscription_def controllerRef_def)
  with subscription_settles [where E = ?E and d = wantedSubscription and s = "refState refAddon"]
    first get refLib_laws stock_accepts lib
  show ?thesis by metis
qed

end
