(* ===== verification/Olm_Reconciler.thy ===== *)
theory Olm_Reconciler
  imports Olm_Phases
begin

text \<open>
  Phase 6 of the OLM reconciler, observing the Operator object and the installed condition
  (\<open>phase_observe_operatorresource.go\<close>, \<open>handle_installed_condition.go\<close>), and the reconciler that
  runs the six phases in order (\<open>olm_reconciler.go\<close>).
\<close>

section \<open>Phase 6\<close>

abbreviation ApprovalManual :: string where "ApprovalManual \<equiv> ''Manual''"
abbreviation InstallPlanPhaseRequiresApproval :: string where
  "InstallPlanPhaseRequiresApproval \<equiv> ''RequiresApproval''"
abbreviation OLM_RECONCILER_NAME :: string where "OLM_RECONCILER_NAME \<equiv> ''olmReconciler''"

definition deleteConfigMapPresent :: "'w Env \<Rightarrow> ('w st, bool) prog" where
  "deleteConfigMapPresent E = bindp getAddon (\<lambda>addon.
     let deleteConfigMapLabel = ''api.openshift.com/addon-'' @ Name (addonMeta addon) @ ''-delete'' in
     bindp (GetCommonInstallOptions addon) (\<lambda>opts.
     call (doGet (k_ConfigMap (uncachedClient E))
         \<lparr>key_Namespace = olm_Namespace opts, key_Name = Name (addonMeta addon)\<rparr>)
       (\<lambda>err. if IsNotFound (theLib E) err then ret False else throw err)
       (\<lambda>cm. ret (Labels (cm_meta cm) deleteConfigMapLabel \<noteq> None))))"

definition handleMissingCSV :: "'w Env \<Rightarrow> ('w st, subReconcilerResult) prog" where
  "handleMissingCSV E =
     bindp (mutate E (reportMissingCSV (theLib E))) (\<lambda>_.
     bindp (deleteConfigMapPresent E) (\<lambda>found.
     if found
     then bindp (mutate E (reportUninstalledCondition (theLib E))) (\<lambda>_. ret resultStop)
     else ret resultRequeue))"

definition isAddonInstanceInstalled :: "'w Env \<Rightarrow> ('w st, bool) prog" where
  "isAddonInstanceInstalled E = bindp getAddon (\<lambda>addon.
     bindp (GetCommonInstallOptions addon) (\<lambda>opts.
     bindp (doGet (k_AddonInstance (client E))
         \<lparr>key_Namespace = olm_Namespace opts, key_Name = DefaultAddonInstanceName\<rparr>) (\<lambda>inst.
     let conds = ai_Conditions (ai_Status inst);
         t = AddonInstanceCondition_String AddonInstanceConditionInstalled
     in if (case FindStatusCondition (theLib E) conds t of
              None \<Rightarrow> True | Some c \<Rightarrow> c_Status c = ConditionFalse)
        then bindp (mutate E (reportPendingAddonInstanceInstallation (theLib E))) (\<lambda>_. ret False)
        else ret (IsStatusConditionTrue (theLib E) conds t))))"

definition handleInstallAck :: "'w Env \<Rightarrow> ('w st, subReconcilerResult) prog" where
  "handleInstallAck E =
     bindp (isAddonInstanceInstalled E) (\<lambda>installed.
     if \<not> installed then ret resultRequeue
     else bindp (mutate E (reportInstalledCondition (theLib E))) (\<lambda>_. ret resultNil))"

definition handleInstalledCondition :: "'w Env \<Rightarrow> RichReference option \<Rightarrow> ('w st, subReconcilerResult) prog" where
  "handleInstalledCondition E addonCSVRef =
     (if addonCSVRef = None then handleMissingCSV E
      else if getCSVPhase addonCSVRef = CSVPhaseSucceeded
      then bindp getAddon (\<lambda>addon.
        if InstallAckRequired (Spec addon) then handleInstallAck E
        else bindp (mutate E (reportInstalledCondition (theLib E))) (\<lambda>_. ret resultNil))
      else ret resultNil)"

definition updateMap :: "ObjectKey \<Rightarrow> ('w st, bool) prog" where
  "updateMap operatorKey = (\<lambda>s.
     let (changed, h) = UpdateMap (st_opHandler s) (addonMeta (st_addon s)) operatorKey
     in (Ok changed, s\<lparr>st_opHandler := h\<rparr>))"

text \<open>The wait for an install plan that needs approval; \<open>True\<close> means stop.\<close>

definition installPlanPending :: "'w Env \<Rightarrow> Subscription \<Rightarrow> ('w st, bool) prog" where
  "installPlanPending E currentSub =
     (if GetInstallPlanApproval (theLib E) currentSub = ApprovalManual
      then bindp (deref (sub_InstallPlanRef currentSub)) (\<lambda>ref.
        bindp (GetInstallPlan E (key_Name ref) (key_Namespace ref)) (\<lambda>currentIp.
        if ip_Phase currentIp = InstallPlanPhaseRequiresApproval
        then bindp (mutate E (reportInstallPlanPending (theLib E))) (\<lambda>_. ret True)
        else ret False))
      else ret False)"

text \<open>The end of the phase, once the CSV reference of the Operator object has been looked up.\<close>

definition observeCSV :: "'w Env \<Rightarrow> ObjectKey \<Rightarrow> RichReference option \<Rightarrow> ('w st, subReconcilerResult) prog" where
  "observeCSV E csvKey addonCSVRef =
     bindp (handleInstalledCondition E addonCSVRef) (\<lambda>res.
     if res \<noteq> resultNil then ret res
     else
       let phase = getCSVPhase addonCSVRef in
       bindp getAddon (\<lambda>addon.
       bindp (if addonUpgradeConcluded (theLib E) addon csvKey phase
              then mutate E (reportAddonUpgradeSucceeded (theLib E)) else ret ()) (\<lambda>_.
       let message = (if phase = CSVPhaseSucceeded then ''''
                      else if phase = CSVPhaseFailed then ''failed'' else ''unknown/pending'')
       in if message \<noteq> ''''
          then bindp (mutate E (reportUnreadyCSV (theLib E) message)) (\<lambda>_. ret resultRetry)
          else ret resultNil)))"

definition observeOperatorResource :: "'w Env \<Rightarrow> ObjectKey \<Rightarrow> ('w st, subReconcilerResult) prog" where
  "observeOperatorResource E csvKey = bindp getAddon (\<lambda>addon.
     case GetInstallOLMCommon addon of
       Inl err \<Rightarrow> throw err
     | Inr opts \<Rightarrow>
         bindp (GetSubscription E (SubscriptionName addon) (olm_Namespace opts)) (\<lambda>currentSub.
         bindp (installPlanPending E currentSub) (\<lambda>pending.
         if pending then ret resultStop
         else
           bindp (generateOperatorResourceName addon) (\<lambda>opName.
           let operatorKey = \<lparr>key_Namespace = '''', key_Name = opName\<rparr> in
           bindp (updateMap operatorKey) (\<lambda>changed.
           if changed then ret resultRetry
           else
             call (doGet (k_Operator (uncachedClient E)) operatorKey)
               (\<lambda>err. if IsNotFound (theLib E) err then ret resultRetry
                      else throw (Wrap ''getting operator resource'' err))
               (\<lambda>operator. observeCSV E csvKey (findConcernedCSVReference csvKey operator)))))))"

section \<open>The reconciler\<close>

definition olmReconcile :: "'w Env \<Rightarrow> ('w st, subReconcilerResult) prog" where
  "olmReconcile E =
     call (ensureOperatorGroup E)
       (\<lambda>err. throw (joinErr err ErrEnsureOperatorGroup)) (\<lambda>requeue. unlessZero requeue (
     call (ensureCatalogSourcesNetworkPolicy E)
       (\<lambda>err. throw (joinErr err ErrEnsureNetworkPolicy)) (\<lambda>requeue. unlessZero requeue (
     call (ensureCatalogSource E)
       (\<lambda>err. throw (joinErr err ErrEnsureCatalogSource)) (\<lambda>(result, catalogSource). unlessZero result (
     call (ensureAdditionalCatalogSources E)
       (\<lambda>err. throw (joinErr err ErrEnsureAdditionalCatalogSource)) (\<lambda>result. unlessZero result (
     call (ensureSubscription E catalogSource)
       (\<lambda>err. throw (joinErr err ErrReconcileSubscription)) (\<lambda>(result, currentCSVKey). unlessZero result (
     call (observeOperatorResource E currentCSVKey)
       (\<lambda>err. throw (joinErr err ErrObserveCSV)) (\<lambda>result. unlessZero result (
     bindp (modify (\<lambda>s. s\<lparr>st_addon := reportLastObservedAvailableCSV (keyString currentCSVKey) (st_addon s)\<rparr>))
       (\<lambda>_. ret resultNil)))))))))))))"

section \<open>What it writes\<close>

lemma runsOn_updateMap [keeps_rules]: "keeps (runsOn m sp P) (updateMap k)"
  by (auto simp: keeps_def updateMap_def runsOn_def Let_def split: prod.splits)

lemma runInv_updateMap [keeps_rules]: "keeps (runInv A J) (updateMap k)"
  by (auto simp: keeps_def updateMap_def runInv_def Let_def split: prod.splits)

lemma observeOperatorResource_calls: "keeps (runsFor a P) (observeOperatorResource E csvKey)"
proof -
  have handle: "keeps (runsFor a P) (handleInstalledCondition E ref)" for ref
    unfolding handleInstalledCondition_def handleMissingCSV_def deleteConfigMapPresent_def
      handleInstallAck_def isAddonInstanceInstalled_def Let_def
    by (intro runsFor_getAddon keeps_rules sameIdentity_reports sameIdentity_pending)
  have "keeps (runsFor a P) (observeCSV E csvKey ref)" for ref
    unfolding observeCSV_def Let_def
    by (intro runsFor_getAddon keeps_rules handle sameIdentity_reports sameIdentity_pending)
  then show ?thesis
    unfolding observeOperatorResource_def installPlanPending_def Let_def
    by (intro runsFor_getAddon keeps_rules sameIdentity_reports sameIdentity_pending)
qed

lemma olm_calls:
  assumes "env_laws E" "\<And>c. olmCall (theLib E) a c \<Longrightarrow> P c"
  shows "keeps (runsFor a P) (olmReconcile E)"
proof -
  have csv: "keeps (runsFor a P)
      (modify (\<lambda>s. s\<lparr>st_addon := reportLastObservedAvailableCSV csv (st_addon s)\<rparr>))" for csv
    by (intro keeps_modify) (auto simp: runsOn_def reportLastObservedAvailableCSV_def)
  show ?thesis
    unfolding olmReconcile_def
    by (intro keeps_call keeps_throw keeps_unlessZero keeps_case_prod keeps_bindp keeps_ret csv
        ensureOperatorGroup_calls [OF assms] ensureNetworkPolicy_calls [OF assms]
        ensureCatalogSource_calls [OF assms] ensureAdditionalCatalogSources_calls [OF assms]
        ensureSubscription_calls [OF assms] observeOperatorResource_calls)
qed

section \<open>Order of the writes\<close>

fun phaseOf :: "apiCall \<Rightarrow> nat" where
  "phaseOf (CallCreate (KOperatorGroup _)) = 1" | "phaseOf (CallUpdate (KOperatorGroup _)) = 1"
| "phaseOf (CallCreate (KNetworkPolicy _)) = 2" | "phaseOf (CallUpdate (KNetworkPolicy _)) = 2"
| "phaseOf (CallCreate (KCatalogSource _)) = 3" | "phaseOf (CallUpdate (KCatalogSource _)) = 3"
| "phaseOf (CallCreate (KSubscription _)) = 5" | "phaseOf (CallUpdate (KSubscription _)) = 5"
| "phaseOf _ = 0"

definition inPhaseOrder :: "nat \<Rightarrow> (apiCall \<times> error option) list \<Rightarrow> bool" where
  "inPhaseOrder n cs \<longleftrightarrow> sorted (map (phaseOf \<circ> fst) cs) \<and> (\<forall>c \<in> set cs. phaseOf (fst c) \<le> n)"

lemma inPhaseOrder_admits: "phaseOf c = n \<Longrightarrow> admits (inPhaseOrder n) c"
  by (auto simp: admits_def inPhaseOrder_def sorted_append)

lemma inPhaseOrder_mono: "inPhaseOrder n cs \<Longrightarrow> n \<le> n' \<Longrightarrow> inPhaseOrder n' cs"
  by (auto simp: inPhaseOrder_def)

definition ordered :: "nat \<Rightarrow> 'w st \<Rightarrow> bool" where
  "ordered n = runInv (\<lambda>_. True) (inPhaseOrder n)"

lemma runInv_parse [keeps_rules]:
  "(\<And>msg t. stable A (reportConfigurationError (theLib E) msg t)) \<Longrightarrow> keeps (runInv A J) (parseAddonInstallConfig E)"
  unfolding parseAddonInstallConfig_def configError_def
  by (intro keeps_rules, auto split: AddonInstallType.splits option.splits intro!: keeps_rules)

lemma runInv_collect [keeps_rules]:
  "(\<And>msg t. stable A (reportConfigurationError (theLib E) msg t)) \<Longrightarrow> keeps (runInv A J) (collectSources E msg srcs acc)"
  by (induction srcs arbitrary: acc) (auto simp: configError_def intro!: keeps_rules)

lemma runInv_parseAdditional [keeps_rules]:
  "(\<And>msg t. stable A (reportConfigurationError (theLib E) msg t)) \<Longrightarrow>
     keeps (runInv A J) (parseAddonInstallConfigForAdditionalCatalogSources E)"
  unfolding parseAddonInstallConfigForAdditionalCatalogSources_def
  by (intro keeps_rules, auto split: AddonInstallType.splits intro!: keeps_rules)

lemma runInv_getters [keeps_rules]:
  "keeps (runInv A J) (GetSubscription E n ns)" "keeps (runInv A J) (GetInstallPlan E n ns)"
  unfolding GetSubscription_def GetInstallPlan_def by (intro keeps_rules)+

text \<open>An invariant of the Addon that the unready reports of phases 1 to 5 respect.\<close>

definition unready_stable :: "lib \<Rightarrow> (Addon \<Rightarrow> bool) \<Rightarrow> bool" where
  "unready_stable L A \<longleftrightarrow> (\<forall>t msg. stable A (reportConfigurationError L msg t)) \<and>
     (\<forall>t reason msg. stable A (reportPendingStatus L reason msg t)) \<and> (\<forall>t. stable A (reportCSVNotLinked L t))"

lemma unready_stableD:
  assumes "unready_stable L A"
  shows "stable A (reportConfigurationError L msg t)" "stable A (reportPendingStatus L reason msg t)"
    "stable A (reportCSVNotLinked L t)" "stable A (reportCatalogSourceUnreadinessStatus L msg t)"
    "stable A (reportAdditionalCatalogSourceUnreadinessStatus L msg t)"
  using assms by (simp_all add: unready_stable_def pending_defs)

lemma unready_stable_any [simp]: "unready_stable L (\<lambda>_. True)"
  by (simp add: unready_stable_def)

lemma phase1_inv:
  assumes "unready_stable (theLib E) A" "\<And>x. admits J (CallCreate (KOperatorGroup x))"
    "\<And>x. admits J (CallUpdate (KOperatorGroup x))"
  shows "keeps (runInv A J) (ensureOperatorGroup E)"
  unfolding ensureOperatorGroup_def reconcileOperatorGroup_def Let_def
  by (intro keeps_rules assms unready_stableD)

lemma phase2_inv:
  assumes "unready_stable (theLib E) A" "\<And>x. admits J (CallCreate (KNetworkPolicy x))"
    "\<And>x. admits J (CallUpdate (KNetworkPolicy x))"
  shows "keeps (runInv A J) (ensureCatalogSourcesNetworkPolicy E)"
  unfolding ensureCatalogSourcesNetworkPolicy_def desiredCatalogSourcesNetworkPolicy_def
    actualCatalogSourcesNetworkPolicy_def Let_def
  by (intro keeps_rules assms unready_stableD)

lemma reconcileCatalogSource_inv:
  assumes "\<And>x. admits J (CallCreate (KCatalogSource x))" "\<And>x. admits J (CallUpdate (KCatalogSource x))"
  shows "keeps (runInv A J) (reconcileCatalogSource E d)"
  unfolding reconcileCatalogSource_def Let_def by (intro keeps_rules assms)

lemma phase3_inv:
  assumes "unready_stable (theLib E) A" "\<And>x. admits J (CallCreate (KCatalogSource x))"
    "\<And>x. admits J (CallUpdate (KCatalogSource x))"
  shows "keeps (runInv A J) (ensureCatalogSource E)"
  unfolding ensureCatalogSource_def
  by (intro keeps_rules assms unready_stableD reconcileCatalogSource_inv)

lemma phase4_inv:
  assumes "unready_stable (theLib E) A" "\<And>x. admits J (CallCreate (KCatalogSource x))"
    "\<And>x. admits J (CallUpdate (KCatalogSource x))"
  shows "keeps (runInv A J) (ensureAdditionalCatalogSources E)"
proof -
  have "keeps (runInv A J) (ensureEachSource E ns pull srcs)" for ns pull srcs
  proof (induction srcs)
    case Nil
    show ?case unfolding ensureEachSource.simps by (rule keeps_ret)
  next
    case (Cons src srcs)
    show ?case
      unfolding ensureEachSource.simps
      by (intro keeps_rules assms unready_stableD reconcileCatalogSource_inv Cons.IH)
  qed
  then show ?thesis
    unfolding ensureAdditionalCatalogSources_def by (intro keeps_rules assms unready_stableD)
qed

lemma phase5_inv:
  assumes "unready_stable (theLib E) A" "\<And>x. admits J (CallCreate (KSubscription x))"
    "\<And>x. admits J (CallUpdate (KSubscription x))"
  shows "keeps (runInv A J) (ensureSubscription E cs)"
  unfolding ensureSubscription_def reconcileSubscription_def Let_def
  by (intro keeps_rules assms unready_stableD)



lemma handleInstalledCondition_inv:
  assumes "\<And>t. stable A (reportMissingCSV (theLib E) t)" "\<And>t. stable A (reportUninstalledCondition (theLib E) t)"
    "\<And>t. stable A (reportPendingAddonInstanceInstallation (theLib E) t)"
    "\<And>t. stable A (reportInstalledCondition (theLib E) t)"
  shows "keeps (runInv A J) (handleInstalledCondition E ref)"
proof -
  have "keeps (runInv A J) (deleteConfigMapPresent E)"
    unfolding deleteConfigMapPresent_def Let_def by (intro keeps_rules)
  moreover have "keeps (runInv A J) (isAddonInstanceInstalled E)"
    unfolding isAddonInstanceInstalled_def Let_def by (intro keeps_rules assms)
  ultimately show ?thesis
    unfolding handleInstalledCondition_def handleMissingCSV_def handleInstallAck_def
    by (intro keeps_rules assms)
qed

lemma phase6_inv:
  assumes "\<And>t reason msg. stable A (reportPendingStatus (theLib E) reason msg t)"
    "\<And>t. stable A (reportUninstalledCondition (theLib E) t)"
    "\<And>t. stable A (reportInstalledCondition (theLib E) t)"
    "\<And>t. stable A (reportAddonUpgradeSucceeded (theLib E) t)"
  shows "keeps (runInv A J) (observeOperatorResource E csvKey)"
proof -
  have pending: "stable A (reportMissingCSV (theLib E) t)" "stable A (reportInstallPlanPending (theLib E) t)"
    "stable A (reportPendingAddonInstanceInstallation (theLib E) t)"
    "stable A (reportUnreadyCSV (theLib E) msg t)" for t msg
    by (simp_all add: pending_defs assms)
  have csv: "keeps (runInv A J) (observeCSV E csvKey ref)" for ref
    unfolding observeCSV_def Let_def
    by (intro keeps_rules handleInstalledCondition_inv assms pending)
  have plan: "keeps (runInv A J) (installPlanPending E sub)" for sub
    unfolding installPlanPending_def by (intro keeps_rules pending)
  show ?thesis
    unfolding observeOperatorResource_def Let_def
    by (intro keeps_bindp keeps_call keeps_if keeps_case_sum keeps_ret keeps_throw runInv_getAddon
        runInv_getters runInv_reads runInv_updateMap keeps_generateOperatorResourceName csv plan)
qed

text \<open>A call of an earlier phase followed by a phase keeps the order.\<close>

definition advances :: "nat \<Rightarrow> nat \<Rightarrow> ('w st, 'a) prog \<Rightarrow> bool" where
  "advances n n' m \<longleftrightarrow> (\<forall>s r s'. ordered n s \<longrightarrow> m s = (r, s') \<longrightarrow> ordered n' s')"

lemma ordered_mono: "ordered n s \<Longrightarrow> n \<le> n' \<Longrightarrow> ordered n' s"
  by (auto simp: ordered_def runInv_def intro: inPhaseOrder_mono)

lemma advances_keeps: "keeps (ordered n) m \<Longrightarrow> n \<le> n' \<Longrightarrow> advances n n' m"
  by (auto simp: advances_def dest: keepsD ordered_mono)

lemma advances_call:
  assumes "keeps (ordered n1) m" "\<And>e. keeps (ordered n') (h e)" "\<And>v. advances n1 n' (k v)"
    and "n \<le> n1" "n1 \<le> n'"
  shows "advances n n' (call m h k)"
  unfolding advances_def
proof (intro allI impI)
  fix s r s' assume "ordered n s" and run: "call m h k s = (r, s')"
  then have s: "ordered n1 s" using assms(4) ordered_mono by blast
  obtain r1 s1 where m: "m s = (r1, s1)" by fastforce
  have s1: "ordered n1 s1" by (rule keepsD [OF assms(1) s m])
  then have s1': "ordered n' s1" using assms(5) ordered_mono by blast
  show "ordered n' s'"
  proof (cases r1)
    case (Ok v)
    with run m have "k v s1 = (r, s')" by simp
    with assms(3) [of v] s1 show ?thesis by (auto simp: advances_def)
  next
    case (Err e)
    with run m have "h e s1 = (r, s')" by simp
    then show ?thesis by (rule keepsD [OF assms(2) s1'])
  next
    case Panic
    with run m s1' show ?thesis by simp
  qed
qed

lemma advances_unlessZero: "advances n n' k \<Longrightarrow> n \<le> n' \<Longrightarrow> advances n n' (unlessZero r k)"
  using ordered_mono by (auto simp: unlessZero_def advances_def)

lemma advances_case_prod: "(\<And>x y. advances n n' (k x y)) \<Longrightarrow> advances n n' (case p of (x, y) \<Rightarrow> k x y)"
  by (simp split: prod.splits)

lemma phases_ordered:
  shows "keeps (ordered 1) (ensureOperatorGroup E)" "keeps (ordered 2) (ensureCatalogSourcesNetworkPolicy E)"
    "keeps (ordered 3) (ensureCatalogSource E)" "keeps (ordered 3) (ensureAdditionalCatalogSources E)"
    "keeps (ordered 5) (ensureSubscription E src)" "keeps (ordered 5) (observeOperatorResource E csvKey)"
  unfolding ordered_def
  by (intro phase1_inv phase2_inv phase3_inv phase4_inv phase5_inv phase6_inv inPhaseOrder_admits
      unready_stable_any stable_any phaseOf.simps)+

lemma olm_advances: "advances 0 5 (olmReconcile E)"
proof -
  have csv: "advances 5 5 (bindp (modify (\<lambda>s. s\<lparr>st_addon := reportLastObservedAvailableCSV csv (st_addon s)\<rparr>))
      (\<lambda>_. ret resultNil))" for csv
    by (rule advances_keeps) (auto simp: ordered_def intro!: keeps_rules runInv_modify_addon)
  show ?thesis
    unfolding olmReconcile_def
    by (intro advances_call [OF phases_ordered(1)] advances_call [OF phases_ordered(2)]
        advances_call [OF phases_ordered(3)] advances_call [OF phases_ordered(4)]
        advances_call [OF phases_ordered(5)] advances_call [OF phases_ordered(6)]
        keeps_throw advances_unlessZero advances_case_prod csv) simp_all
qed

section \<open>What success means\<close>

text \<open>The CSV the Addon is waiting for, as an answer of the API server shows it.\<close>

definition csvSucceeded :: "'w Env \<Rightarrow> Addon \<Rightarrow> ObjectKey \<Rightarrow> bool" where
  "csvSucceeded E a csvKey \<longleftrightarrow> (\<exists>opts operator ref w w'.
     GetInstallOLMCommon a = Inr opts \<and>
     kGet (k_Operator (uncachedClient E))
       \<lparr>key_Namespace = '''', key_Name = PackageName opts @ ''.'' @ olm_Namespace opts\<rparr> w = (Inr operator, w') \<and>
     findConcernedCSVReference csvKey operator = Some ref \<and> getCSVPhase (Some ref) = CSVPhaseSucceeded)"

definition isInstalled :: "lib \<Rightarrow> Addon \<Rightarrow> bool" where
  "isInstalled L a \<longleftrightarrow> (\<exists>c. findCondition L Installed a = Some c \<and> c_Status c = ConditionTrue)"

lemma reportInstalled_isInstalled [simp]:
  "condition_laws L \<Longrightarrow> isInstalled L (reportInstalledCondition L t a)"
  by (simp add: isInstalled_def reportInstalledCondition_def)

lemma handleInstalledCondition_ok:
  assumes "condition_laws (theLib E)" "handleInstalledCondition E ref s = (Ok resultNil, s')"
  shows "ref \<noteq> None" and "getCSVPhase ref = CSVPhaseSucceeded \<Longrightarrow> isInstalled (theLib E) (st_addon s')"
  using assms
  by (auto simp: handleInstalledCondition_def handleMissingCSV_def handleInstallAck_def bindp_ok
      split: if_splits)

lemma observeCSV_ok:
  assumes "condition_laws (theLib E)" "observeCSV E csvKey ref s = (Ok resultNil, s')"
  obtains s1 where "handleInstalledCondition E ref s = (Ok resultNil, s1)" "ref \<noteq> None"
    "getCSVPhase ref = CSVPhaseSucceeded" "isInstalled (theLib E) (st_addon s')"
    "addonUpgradeStarted (theLib E) (st_addon s') \<Longrightarrow>
       LastObservedAvailableCSV (Status (st_addon s1)) = keyString csvKey"
proof -
  let ?L = "theLib E"
  obtain res s1 where h': "handleInstalledCondition E ref s = (Ok res, s1)"
    using assms(2) by (auto simp: observeCSV_def bindp_ok)
  then have h: "handleInstalledCondition E ref s = (Ok resultNil, s1)"
    using assms(2) by (auto simp: observeCSV_def split: if_splits)
  have rest: "getCSVPhase ref = CSVPhaseSucceeded"
      "s' = (if addonUpgradeConcluded ?L (st_addon s1) csvKey CSVPhaseSucceeded
        then s1\<lparr>st_addon := reportAddonUpgradeSucceeded ?L (clock E (st_ticks s1)) (st_addon s1),
          st_ticks := Suc (st_ticks s1)\<rparr> else s1)"
    using assms(2) h by (auto simp: observeCSV_def bindp_def Let_def split: if_splits)
  note inst = handleInstalledCondition_ok [OF assms(1) h]
  have "isInstalled ?L (st_addon s')"
    using inst(2) rest assms(1)
    by (auto simp: isInstalled_def reportAddonUpgradeSucceeded_def)
  moreover have "LastObservedAvailableCSV (Status (st_addon s1)) = keyString csvKey"
    if "addonUpgradeStarted ?L (st_addon s')"
    using that rest(2) assms(1)
    by (auto simp: addonUpgradeConcluded_def addonUpgradeStarted_def reportAddonUpgradeSucceeded_def
        split: if_splits option.splits)
  ultimately show ?thesis using that h inst(1) rest(1) by blast
qed

lemma lastObserved_stable:
  fixes csv :: string
  defines "A \<equiv> \<lambda>a. LastObservedAvailableCSV (Status a) = csv"
  shows "unready_stable L A" "stable A (reportPendingStatus L reason msg t)"
    "stable A (reportUninstalledCondition L t)" "stable A (reportInstalledCondition L t)"
    "stable A (reportAddonUpgradeSucceeded L t)"
  by (auto simp: A_def unready_stable_def stable_def report_defs reportCSVNotLinked_def status_prims Let_def)

lemma doGet_answer: "doGet c key s = (Ok x, s') \<Longrightarrow> \<exists>w'. kGet c key (st_world s) = (Inr x, w')"
  by (auto simp: doGet_def apiRead_def split: prod.splits)

lemma observeOperatorResource_ok:
  assumes "condition_laws (theLib E)" "observeOperatorResource E csvKey s = (Ok resultNil, s')"
  shows "csvSucceeded E (st_addon s) csvKey" "isInstalled (theLib E) (st_addon s')"
    "addonUpgradeStarted (theLib E) (st_addon s') \<Longrightarrow>
       LastObservedAvailableCSV (Status (st_addon s)) = keyString csvKey"
proof -
  obtain opts opName currentSub operator sa sb sc sd se where
    opts: "GetInstallOLMCommon (st_addon s) = Inr opts"
    and sub: "GetSubscription E (SubscriptionName (st_addon s)) (olm_Namespace opts) s = (Ok currentSub, sa)"
    and plan: "installPlanPending E currentSub sa = (Ok False, sb)"
    and name: "generateOperatorResourceName (st_addon s) sb = (Ok opName, sc)"
    and upd: "updateMap \<lparr>key_Namespace = '''', key_Name = opName\<rparr> sc = (Ok False, sd)"
    and get: "doGet (k_Operator (uncachedClient E)) \<lparr>key_Namespace = '''', key_Name = opName\<rparr> sd = (Ok operator, se)"
    and csv: "observeCSV E csvKey (findConcernedCSVReference csvKey operator) se = (Ok resultNil, s')"
    using assms(2) unfolding observeOperatorResource_def
    by (auto simp: bindp_ok call_ok Let_def split: if_splits)
  from csv obtain s1 where s1: "handleInstalledCondition E (findConcernedCSVReference csvKey operator) se = (Ok resultNil, s1)"
    "findConcernedCSVReference csvKey operator \<noteq> None"
    "getCSVPhase (findConcernedCSVReference csvKey operator) = CSVPhaseSucceeded"
    "isInstalled (theLib E) (st_addon s')"
    "addonUpgradeStarted (theLib E) (st_addon s') \<Longrightarrow> LastObservedAvailableCSV (Status (st_addon s1)) = keyString csvKey"
    by (rule observeCSV_ok [OF assms(1)]) blast
  have "opName = PackageName opts @ ''.'' @ olm_Namespace opts"
    using name opts
    by (auto simp: generateOperatorResourceName_def GetCommonInstallOptions_def GetInstallOLMCommon_def
        bindp_ok split: AddonInstallType.splits option.splits)
  with doGet_answer [OF get] opts s1(2,3) show "csvSucceeded E (st_addon s) csvKey"
    unfolding csvSucceeded_def by (auto intro!: exI [of _ operator])
  show "isInstalled (theLib E) (st_addon s')" by (rule s1(4))
  define A where "A = (\<lambda>a :: Addon. LastObservedAvailableCSV (Status a) = LastObservedAvailableCSV (Status (st_addon s)))"
  note st = lastObserved_stable [where csv = "LastObservedAvailableCSV (Status (st_addon s))", folded A_def]
  have "runInv A (\<lambda>_. True) s" by (simp add: runInv_def A_def)
  then have "runInv A (\<lambda>_. True) sa" by (rule keepsD [OF runInv_getters(1) _ sub])
  moreover have "keeps (runInv A (\<lambda>_. True)) (installPlanPending E currentSub)"
    unfolding installPlanPending_def by (intro keeps_rules) (simp add: pending_defs st)
  ultimately have "runInv A (\<lambda>_. True) sb" using plan keepsD by metis
  then have "runInv A (\<lambda>_. True) sc" by (rule keepsD [OF keeps_generateOperatorResourceName _ name])
  then have "runInv A (\<lambda>_. True) sd" by (rule keepsD [OF runInv_updateMap _ upd])
  then have "runInv A (\<lambda>_. True) se" by (rule keepsD [OF runInv_reads(1) _ get])
  then have "runInv A (\<lambda>_. True) s1"
    by (rule keepsD [OF handleInstalledCondition_inv, rotated -2, OF _ s1(1)]) (simp_all add: pending_defs st)
  with s1(5) show "addonUpgradeStarted (theLib E) (st_addon s') \<Longrightarrow>
      LastObservedAvailableCSV (Status (st_addon s)) = keyString csvKey"
    by (simp add: runInv_def A_def)
qed

section \<open>Properties\<close>

text \<open>
  C10: Whatever the API server answers, the OLM reconciler only creates and updates the
  OperatorGroup, the NetworkPolicy, the CatalogSources and the Subscription of the Addon, in its
  install namespace and with the Addon as controller. It deletes and patches nothing.
\<close>

theorem olm_reconcile_safe:
  assumes "env_laws E" "st_calls s = []" "olmReconcile E s = (r, s')"
  shows "list_all (\<lambda>(c, _). olmCall (theLib E) (st_addon s) c) (st_calls s')"
  using keepsD [OF olm_calls [OF assms(1)] _ assms(3), of "st_addon s"] assms(2)
  by (simp add: runsOn_def)

text \<open>
  C11: The OLM reconciler writes in the order of its phases: no OperatorGroup after a NetworkPolicy,
  no NetworkPolicy after a CatalogSource, no CatalogSource after the Subscription, whichever of
  these writes fail and wherever the reconciliation ends.
\<close>

theorem olm_writes_in_order:
  assumes "st_calls s = []" "olmReconcile E s = (r, s')"
  shows "sorted (map (phaseOf \<circ> fst) (st_calls s'))"
proof -
  have "ordered 0 s" using assms(1) by (simp add: ordered_def runInv_def inPhaseOrder_def)
  with olm_advances [of E] assms(2) have "ordered 5 s'" by (auto simp: advances_def)
  then show ?thesis by (simp add: ordered_def runInv_def inPhaseOrder_def)
qed

lemma ensureSubscription_ok:
  assumes "ensureSubscription E cs s = (Ok (resultNil, csvKey), s')"
  obtains opts where "GetInstallOLMCommon (st_addon s) = Inr opts"
    "key_Namespace csvKey = olm_Namespace opts" "key_Name csvKey \<noteq> ''''"
  using assms unfolding ensureSubscription_def
  by (auto simp: bindp_ok call_ok Let_def split: if_splits)

text \<open>The Addon keeps its identity and the CSV it last observed until phase 6 is through.\<close>

definition observing :: "Addon \<Rightarrow> 'w st \<Rightarrow> bool" where
  "observing a s \<longleftrightarrow> sameAddon (st_addon s) a \<and>
     LastObservedAvailableCSV (Status (st_addon s)) = LastObservedAvailableCSV (Status a)"

lemma phases_observing:
  fixes a :: Addon and E :: "'w Env"
  assumes "env_laws E"
  shows "keeps (observing a) (ensureOperatorGroup E)" "keeps (observing a) (ensureCatalogSourcesNetworkPolicy E)"
    "keeps (observing a) (ensureCatalogSource E)" "keeps (observing a) (ensureAdditionalCatalogSources E)"
    "keeps (observing a) (ensureSubscription E src)"
proof -
  let ?A = "\<lambda>b :: Addon. LastObservedAvailableCSV (Status b) = LastObservedAvailableCSV (Status a)"
  have obs: "observing a = (\<lambda>s :: 'w st. runsOn (addonMeta a) (Spec a) (\<lambda>_. True) s \<and> runInv ?A (\<lambda>_. True) s)"
    by (auto simp: fun_eq_iff observing_def runsOn_def runInv_def sameAddon_def list_all_iff)
  show "keeps (observing a) (ensureOperatorGroup E)" "keeps (observing a) (ensureCatalogSourcesNetworkPolicy E)"
    "keeps (observing a) (ensureCatalogSource E)" "keeps (observing a) (ensureAdditionalCatalogSources E)"
    "keeps (observing a) (ensureSubscription E src)"
    unfolding obs
    by (intro keeps_conj ensureOperatorGroup_calls [OF assms] ensureNetworkPolicy_calls [OF assms]
        ensureCatalogSource_calls [OF assms] ensureAdditionalCatalogSources_calls [OF assms]
        ensureSubscription_calls [OF assms] phase1_inv phase2_inv phase3_inv phase4_inv phase5_inv
        lastObserved_stable(1) admits_any TrueI)+
qed

lemma phase_ok:
  "call m (\<lambda>e. throw (g e)) (\<lambda>res. unlessZero res k) s = (Ok resultNil, s') \<longleftrightarrow>
     (\<exists>s1. m s = (Ok resultNil, s1) \<and> k s1 = (Ok resultNil, s'))"
  by (auto simp: call_ok unlessZero_def IsZero_def)

lemma phase_ok_pair:
  "call m (\<lambda>e. throw (g e)) (\<lambda>(res, x). unlessZero res (k x)) s = (Ok resultNil, s') \<longleftrightarrow>
     (\<exists>x s1. m s = (Ok (resultNil, x), s1) \<and> k x s1 = (Ok resultNil, s'))"
  by (auto simp: call_ok unlessZero_def IsZero_def split: if_splits)


section \<open>Witnesses\<close>

text \<open>An Addon whose catalog is ready and whose CSV has succeeded.\<close>

definition olmStock :: stock where
  "olmStock = emptyStock\<lparr>
     so_CatalogSource := [\<lparr>cs_meta = objectMeta ''ns'' ''addon-ref-catalog'', cs_Spec =
       \<lparr>cs_SourceType = ''grpc'', cs_Publisher = '''', cs_DisplayName = '''', cs_Image = ''img'',
        cs_SecurityContextConfig = '''', cs_Secrets = []\<rparr>, cs_LastObservedState = Some ''READY''\<rparr>],
     so_Subscription := [manualSubscription\<lparr>sub_InstallPlanRef := Some \<lparr>key_Namespace = ''ns'', key_Name = ''plan''\<rparr>\<rparr>],
     so_InstallPlan := [\<lparr>ip_meta = objectMeta ''ns'' ''plan'', ip_Phase = ''Complete''\<rparr>],
     so_Operator := [\<lparr>op_meta = objectMeta '''' ''pkg.ns'', op_Components = Some
       [\<lparr>rr_Kind = ''ClusterServiceVersion'', rr_Namespace = ''ns'', rr_Name = ''csv'',
         rr_Conditions = [(''Succeeded'', ConditionTrue)]\<rparr>]\<rparr>]\<rparr>"

definition olmState :: "unit st" where
  "olmState = (refState refAddon)\<lparr>st_opHandler := snd (UpdateMap NewOperatorResourceHandler (addonMeta refAddon)
     \<lparr>key_Namespace = '''', key_Name = ''pkg.ns''\<rparr>)\<rparr>"

lemmas olm_eval = olmReconcile_def ensureOperatorGroup_def reconcileOperatorGroup_def
  ensureCatalogSourcesNetworkPolicy_def desiredCatalogSourcesNetworkPolicy_def
  actualCatalogSourcesNetworkPolicy_def ensureCatalogSource_def newCatalogSource_def
  reconcileCatalogSource_def ensureAdditionalCatalogSources_def HasAdditionalCatalogSources_def
  ensureSubscription_def reconcileSubscription_def GetSubscription_def observeOperatorResource_def
  installPlanPending_def GetInstallPlan_def generateOperatorResourceName_def GetCommonInstallOptions_def
  updateMap_def observeCSV_def handleInstalledCondition_def parseAddonInstallConfig_def
  GetInstallOLMCommon_def findConcernedCSVReference_def getCSVPhase_def unlessZero_def
  AddCommonLabels_def AddCommonAnnotations_def setController_def controllerRef_def HasSameController_def
  CatalogSourceName_def getPrimaryCatalogSourceName_def getCatalogSourceNetworkPolicyName_def
  SubscriptionName_def createSubscriptionConfigObject_def addonUpgradeConcluded_def addonUpgradeStarted_def
  ObjectKeyFromObject_def

lemma olm_run: "fst (olmReconcile (refEnv olmStock) olmState) = Ok resultNil"
  "map (phaseOf \<circ> fst) (st_calls (snd (olmReconcile (refEnv olmStock) olmState))) = [1, 2, 3, 5]"
  by (simp_all add: olm_eval prog_defs ref_eval ref_objects olmStock_def olmState_def manualSubscription_def
      findCondition_def report_defs status_prims condition_def Let_def
      UpdateMap_def NewOperatorResourceHandler_def operatorKeysOf_def)

lemma olmState_sel [simp]: "st_calls olmState = []" "st_addon olmState = refAddon"
  by (simp_all add: olmState_def)

theorem olm_reconcile_safe_witness:
  "list_all (\<lambda>(c, _). olmCall refLib refAddon c) (st_calls (snd (olmReconcile (refEnv olmStock) olmState))) \<and>
   length (st_calls (snd (olmReconcile (refEnv olmStock) olmState))) = 4"
proof -
  have "length (map (phaseOf \<circ> fst) (st_calls (snd (olmReconcile (refEnv olmStock) olmState)))) = 4"
    unfolding olm_run by simp
  with olm_reconcile_safe [OF refEnv_laws _ prod.collapse [symmetric], of olmState olmStock]
  show ?thesis by simp
qed

theorem olm_writes_in_order_witness:
  "sorted (map (phaseOf \<circ> fst) (st_calls (snd (olmReconcile (refEnv olmStock) olmState))))"
  using olm_writes_in_order [OF _ prod.collapse [symmetric], of olmState "refEnv olmStock"] by simp


end
