(* ===== verification/Monitoring_Federation.thy ===== *)
theory Monitoring_Federation
  imports Namespaces
begin

text \<open>
  Sub-reconciler 6, the federation of an Addon's metrics (\<open>monitoring_federation_reconciler.go\<close>):
  a monitoring namespace, a copy of the bearer token, and a ServiceMonitor; all of it is removed
  when the specification asks for no federation.
\<close>

section \<open>Model\<close>

abbreviation MONITORING_FEDERATION_RECONCILER_NAME :: string where
  "MONITORING_FEDERATION_RECONCILER_NAME \<equiv> ''monitoringFederationReconciler''"

definition matchParam :: "string \<Rightarrow> string" where
  "matchParam name = ''{__name__='' @ quoted name @ ''}''"

definition GetMonitoringFederationServiceMonitorEndpoints ::
  "MonitoringFederationSpec \<Rightarrow> Secret \<Rightarrow> Endpoint list" where
  "GetMonitoringFederationServiceMonitorEndpoints federation bearertokensecret =
     [\<lparr>ep_AuthorizationType = ''Bearer'', ep_CredentialsName = Name (sec_meta bearertokensecret),
       ep_CredentialsKey = ''token'',
       ep_CAFile = ''/etc/prometheus/configmaps/serving-certs-ca-bundle/service-ca.crt'',
       ep_ServerName = ''prometheus.'' @ fed_Namespace federation @ ''.svc'',
       ep_HonorLabels = True, ep_Port = PortName federation, ep_Path = ''/federate'',
       ep_Scheme = ''https'', ep_Interval = ''30s'',
       ep_Params = [''match[]'' \<mapsto> (''ALERTS{alertstate='' @ quoted ''firing'' @ ''}'') #
         map matchParam (MatchNames federation)]\<rparr>]"

text \<open>\<open>addon.Spec.Monitoring.Federation\<close>, dereferenced.\<close>

definition federationOf :: "Addon \<Rightarrow> ('s, MonitoringFederationSpec) prog" where
  "federationOf addon = bindp (deref (Monitoring (Spec addon))) (\<lambda>m. deref (Federation m))"

definition desiredMonitoringNamespace :: "'w Env \<Rightarrow> Addon \<Rightarrow> error + NamespaceObj" where
  "desiredMonitoringNamespace E addon =
     (case SetControllerReference (theLib E) (addonMeta addon) (AddCommonLabels (theLib E) addon
        ((objectMeta '''' (GetMonitoringNamespaceName addon))
           \<lparr>Labels := [''openshift.io/cluster-monitoring'' \<mapsto> ''true'']\<rparr>)) of
        Inl err \<Rightarrow> Inl err
      | Inr m \<Rightarrow> Inr \<lparr>ns_meta = m, ns_Phase = ''''\<rparr>)"

definition actualMonitoringNamespace :: "'w Env \<Rightarrow> Addon \<Rightarrow> ('w st, NamespaceObj) prog" where
  "actualMonitoringNamespace E addon = doGet (k_Namespace (client E))
     \<lparr>key_Namespace = '''', key_Name = GetMonitoringNamespaceName addon\<rparr>"

definition ensureMonitoringNamespace :: "'w Env \<Rightarrow> ('w st, subReconcilerResult) prog" where
  "ensureMonitoringNamespace E = bindp getAddon (\<lambda>addon.
     case desiredMonitoringNamespace E addon of
       Inl err \<Rightarrow> throw err
     | Inr desired \<Rightarrow>
         call (actualMonitoringNamespace E addon)
           (\<lambda>err. if IsNotFound (theLib E) err
                  then bindp (doCreate (k_Namespace (client E)) KNamespace desired) (\<lambda>_. ret resultNil)
                  else throw (Wrap ''getting monitoring namespace'' err))
           (\<lambda>actual.
              let ownedByAddon = HasSameController (theLib E) (ns_meta actual) (ns_meta desired);
                  labelsChanged = (\<not> SemanticDeepEqual (theLib E)
                    (ILabels (Labels (ns_meta actual))) (ILabels (Labels (ns_meta desired))))
              in if ownedByAddon \<and> \<not> labelsChanged then ret resultNil
                 else call (doUpdate (k_Namespace (client E)) KNamespace
                     (actual\<lparr>ns_meta := (ns_meta actual)\<lparr>OwnerReferences := OwnerReferences (ns_meta desired),
                        Labels := Labels (ns_meta desired)\<rparr>\<rparr>))
                   (\<lambda>err. throw (Wrap ''updating monitoring namespace'' err))
                   (\<lambda>updated.
                      if ns_Phase updated = NamespaceActive then ret resultNil
                      else bindp (mutate E (reportUnreadyMonitoringFederation (theLib E)
                          (''namespace '' @ quoted (Name (ns_meta updated)) @ '' is not active''))) (\<lambda>_.
                        ret (resultRequeueAfter defaultRetryAfterTime)))))"

definition bearerTokenName :: "Addon \<Rightarrow> string" where
  "bearerTokenName addon = Name (addonMeta addon) @ ''-bearertoken-secret''"

text \<open>\<open>None\<close> in the second component is the nil secret.\<close>

definition reconcileBearerTokenSecretForAddon ::
  "'w Env \<Rightarrow> ('w st, subReconcilerResult \<times> Secret option) prog" where
  "reconcileBearerTokenSecretForAddon E = bindp getAddon (\<lambda>addon.
     call (doGet (k_Secret (uncachedClient E))
         \<lparr>key_Namespace = AddonOperatorNamespace E, key_Name = ''addon-operator-prom-token''\<rparr>)
       (\<lambda>err. throw (Wrap ''addonOperator namespace does not have the prom token secret'' err))
       (\<lambda>promToken.
          case SetControllerReference (theLib E) (addonMeta addon)
                 (objectMeta (GetMonitoringNamespaceName addon) (bearerTokenName addon)) of
            Inl err \<Rightarrow> throw (Wrap ''setting owner reference'' err)
          | Inr m \<Rightarrow>
              let desired = \<lparr>sec_meta = m, sec_Data = sec_Data promToken, sec_Type = ''''\<rparr> in
              call (doGet (k_Secret (uncachedClient E)) (ObjectKeyFromObject (sec_meta desired)))
                (\<lambda>err. if IsNotFound (theLib E) err
                       then bindp (doCreate (k_Secret (client E)) KSecret desired) (\<lambda>_.
                         ret (resultRequeueAfter defaultRetryAfterTime, None))
                       else throw err)
                (\<lambda>existing.
                   let ownedByAddon = HasSameController (theLib E) (sec_meta desired) (sec_meta existing);
                       specChanged = (\<not> SemanticDeepEqual (theLib E)
                         (ISecretData (sec_Data existing)) (ISecretData (sec_Data desired)));
                       currentLabels = Labels (sec_meta existing);
                       newLabels = LabelsMerge (theLib E) currentLabels (Labels (sec_meta desired))
                   in if specChanged \<or> \<not> ownedByAddon \<or> \<not> LabelsEquals (theLib E) newLabels currentLabels
                      then bindp (doUpdate (k_Secret (client E)) KSecret
                          (existing\<lparr>sec_Data := sec_Data desired,
                             sec_meta := (sec_meta existing)\<lparr>OwnerReferences := OwnerReferences (sec_meta desired),
                               Labels := newLabels\<rparr>\<rparr>)) (\<lambda>_.
                        ret (resultRequeueAfter defaultRetryAfterTime, None))
                      else ret (resultNil, Some existing))))"

definition desiredServiceMonitor :: "'w Env \<Rightarrow> Addon \<Rightarrow> Secret \<Rightarrow> ('w st, ServiceMonitor) prog" where
  "desiredServiceMonitor E addon bearerTokenSecret =
     bindp (federationOf addon) (\<lambda>federation.
     case SetControllerReference (theLib E) (addonMeta addon) (AddCommonLabels (theLib E) addon
            (objectMeta (GetMonitoringNamespaceName addon) (GetMonitoringFederationServiceMonitorName addon))) of
       Inl err \<Rightarrow> throw (Wrap ''setting controller reference on ServiceMonitor'' err)
     | Inr m \<Rightarrow> ret \<lparr>sm_meta = m, sm_Spec =
         \<lparr>sm_Endpoints = GetMonitoringFederationServiceMonitorEndpoints federation bearerTokenSecret,
          sm_NamespaceSelector = [fed_Namespace federation], sm_Selector = MatchLabels federation\<rparr>\<rparr>)"

definition actualServiceMonitor :: "'w Env \<Rightarrow> Addon \<Rightarrow> ('w st, ServiceMonitor) prog" where
  "actualServiceMonitor E addon = doGet (k_ServiceMonitor (client E))
     \<lparr>key_Namespace = GetMonitoringNamespaceName addon,
      key_Name = GetMonitoringFederationServiceMonitorName addon\<rparr>"

definition reconcileServiceMonitor :: "'w Env \<Rightarrow> ('w st, subReconcilerResult) prog" where
  "reconcileServiceMonitor E =
     bindp (reconcileBearerTokenSecretForAddon E) (\<lambda>(res, tokenSecret).
     unlessZero res (bindp getAddon (\<lambda>addon.
     bindp (deref tokenSecret) (\<lambda>token.
     bindp (desiredServiceMonitor E addon token) (\<lambda>desired.
     call (actualServiceMonitor E addon)
       (\<lambda>err. if IsNotFound (theLib E) err
              then bindp (doCreate (k_ServiceMonitor (client E)) KServiceMonitor desired) (\<lambda>_. ret resultNil)
              else throw (Wrap ''getting ServiceMonitor'' err))
       (\<lambda>actual.
          let currentLabels = Labels (sm_meta actual);
              newLabels = LabelsMerge (theLib E) currentLabels (Labels (sm_meta desired));
              ownedByAddon = HasSameController (theLib E) (sm_meta actual) (sm_meta desired);
              specChanged = (\<not> SemanticDeepEqual (theLib E)
                (IServiceMonitorSpec (sm_Spec actual)) (IServiceMonitorSpec (sm_Spec desired)));
              labelsChanged = (\<not> LabelsEquals (theLib E) currentLabels newLabels)
          in if ownedByAddon \<and> \<not> specChanged \<and> \<not> labelsChanged then ret resultNil
             else bindp (doUpdate (k_ServiceMonitor (client E)) KServiceMonitor
                 (actual\<lparr>sm_Spec := sm_Spec desired,
                    sm_meta := (sm_meta actual)\<lparr>Labels := newLabels,
                      OwnerReferences := OwnerReferences (sm_meta desired)\<rparr>\<rparr>)) (\<lambda>_. ret resultNil)))))))"

text \<open>
  The second error path formats the error of the first call, which is nil there:
  \<open>fmt.Errorf("...: %w", nil)\<close> prints a placeholder and wraps nothing.
\<close>

definition ensureMonitoringFederation :: "'w Env \<Rightarrow> ('w st, subReconcilerResult) prog" where
  "ensureMonitoringFederation E = bindp getAddon (\<lambda>addon.
     if \<not> HasMonitoringFederation addon then ret resultNil
     else call (ensureMonitoringNamespace E)
       (\<lambda>err. throw (Wrap ''ensuring monitoring Namespace'' err))
       (\<lambda>result. unlessZero result
          (call (reconcileServiceMonitor E)
             (\<lambda>serr. throw (ErrorString ''ensuring ServiceMonitor: %!w(<nil>)''))
             (\<lambda>sresult. unlessZero sresult (ret resultNil)))))"

definition getOwnedServiceMonitorsViaCommonLabels :: "'w Env \<Rightarrow> ('w st, ServiceMonitor list) prog" where
  "getOwnedServiceMonitorsViaCommonLabels E = bindp getAddon (\<lambda>addon.
     call (doList (k_ServiceMonitor (client E)) '''' (CommonLabelsAsLabelSelector addon))
       (\<lambda>err. throw (ErrorString ''could not list owned ServiceMonitors'')) ret)"

text \<open>\<open>client.IgnoreNotFound(err)\<close>, and the wrapped error when something is left.\<close>

definition ignoringNotFound :: "'w Env \<Rightarrow> string \<Rightarrow> ('w st, unit) prog \<Rightarrow> ('w st, unit) prog" where
  "ignoringNotFound E message m =
     call m (\<lambda>err. case IgnoreNotFound (theLib E) err of
                     None \<Rightarrow> ret () | Some e \<Rightarrow> throw (Wrap message e)) (\<lambda>_. ret ())"

fun deleteUnwantedMonitors :: "'w Env \<Rightarrow> string \<Rightarrow> ServiceMonitor list \<Rightarrow> ('w st, unit) prog" where
  "deleteUnwantedMonitors E wanted [] = ret ()"
| "deleteUnwantedMonitors E wanted (sm # sms) =
     (if Name (sm_meta sm) = wanted then deleteUnwantedMonitors E wanted sms
      else bindp (ignoringNotFound E ''could not remove monitoring federation ServiceMonitor''
          (doDelete (k_ServiceMonitor (client E)) ServiceMonitorKind (ObjectKeyFromObject (sm_meta sm)))) (\<lambda>_.
        bindp getAddon (\<lambda>addon.
        bindp (ignoringNotFound E
            ''could not remove monitoring federation ServiceMonitor Secret in the SM ns for the Addon ''
            (doDelete (k_Secret (client E)) SecretKind
              \<lparr>key_Namespace = GetMonitoringNamespaceName addon, key_Name = bearerTokenName addon\<rparr>)) (\<lambda>_.
        deleteUnwantedMonitors E wanted sms))))"

definition wantedServiceMonitorName :: "Addon \<Rightarrow> string" where
  "wantedServiceMonitorName addon =
     (if HasMonitoringFederation addon then GetMonitoringFederationServiceMonitorName addon else '''')"

definition ensureDeletionOfUnwantedMonitoringFederation :: "'w Env \<Rightarrow> ('w st, unit) prog" where
  "ensureDeletionOfUnwantedMonitoringFederation E =
     bindp (getOwnedServiceMonitorsViaCommonLabels E) (\<lambda>current.
     bindp getAddon (\<lambda>addon.
     bindp (deleteUnwantedMonitors E (wantedServiceMonitorName addon) current) (\<lambda>_.
     if wantedServiceMonitorName addon = ''''
     then call (ensureNamespaceDeletion E (GetMonitoringNamespaceName addon))
            (\<lambda>err. throw (Wrap ''could not remove monitoring federation Namespace'' err)) ret
     else ret ())))"

definition federationReconcile :: "'w Env \<Rightarrow> ('w st, subReconcilerResult) prog" where
  "federationReconcile E =
     call (ensureMonitoringFederation E)
       (\<lambda>err. if errorsIs err ErrNotOwnedByUs then ret resultNil
              else throw (joinErr err ErrEnsureCreateServiceMonitor))
       (\<lambda>res. unlessZero res
          (call (ensureDeletionOfUnwantedMonitoringFederation E)
             (\<lambda>err. throw (joinErr err ErrEnsureDeleteServiceMonitor))
             (\<lambda>_. ret resultNil)))"

section \<open>What it writes\<close>

fun federationWrite :: "lib \<Rightarrow> Addon \<Rightarrow> kobj \<Rightarrow> bool" where
  "federationWrite L a (KNamespace n) = (ownedMeta L a (ns_meta n) \<and>
     ObjectKeyFromObject (ns_meta n) = \<lparr>key_Namespace = '''', key_Name = GetMonitoringNamespaceName a\<rparr>)"
| "federationWrite L a (KSecret x) = (ownedBy L a (sec_meta x) \<and>
     ObjectKeyFromObject (sec_meta x) = \<lparr>key_Namespace = GetMonitoringNamespaceName a, key_Name = bearerTokenName a\<rparr>)"
| "federationWrite L a (KServiceMonitor x) = (ownedMeta L a (sm_meta x) \<and>
     ObjectKeyFromObject (sm_meta x) = \<lparr>key_Namespace = GetMonitoringNamespaceName a,
       key_Name = GetMonitoringFederationServiceMonitorName a\<rparr>)"
| "federationWrite L a _ = False"

fun federationCall :: "lib \<Rightarrow> Addon \<Rightarrow> apiCall \<Rightarrow> bool" where
  "federationCall L a (CallCreate x) = (HasMonitoringFederation a \<and> federationWrite L a x)"
| "federationCall L a (CallUpdate x) = (HasMonitoringFederation a \<and> federationWrite L a x)"
| "federationCall L a (CallDelete ServiceMonitorKind key) = (key_Name key \<noteq> wantedServiceMonitorName a \<and>
     (\<exists>sm :: ServiceMonitor. ObjectKeyFromObject (sm_meta sm) = key \<and> selectorMatches (CommonLabelsAsLabelSelector a) (sm_meta sm)))"
| "federationCall L a (CallDelete SecretKind key) =
     (key = \<lparr>key_Namespace = GetMonitoringNamespaceName a, key_Name = bearerTokenName a\<rparr>)"
| "federationCall L a (CallDelete NamespaceKind key) = (\<not> HasMonitoringFederation a \<and>
     key = \<lparr>key_Namespace = '''', key_Name = GetMonitoringNamespaceName a\<rparr>)"
| "federationCall L a _ = False"

lemma federation_names_cong:
  "sameAddon b a \<Longrightarrow> GetMonitoringNamespaceName b = GetMonitoringNamespaceName a"
  "sameAddon b a \<Longrightarrow> GetMonitoringFederationServiceMonitorName b = GetMonitoringFederationServiceMonitorName a"
  "sameAddon b a \<Longrightarrow> bearerTokenName b = bearerTokenName a"
  "sameAddon b a \<Longrightarrow> HasMonitoringFederation b = HasMonitoringFederation a"
  "sameAddon b a \<Longrightarrow> wantedServiceMonitorName b = wantedServiceMonitorName a"
  by (simp_all add: sameAddon_def GetMonitoringNamespaceName_def GetMonitoringFederationServiceMonitorName_def
      bearerTokenName_def HasMonitoringFederation_def wantedServiceMonitorName_def)

text \<open>An object that exists and takes over the owner and the labels of the new one.\<close>

lemma ownedMeta_taken:
  assumes "owner_laws L" "ownedMeta L a om"
    and "OwnerReferences cm' = OwnerReferences om" "Labels cm' = Labels om"
  shows "ownedMeta L a cm'"
  by (rule ownedMeta_merge [OF assms(1,2,3), of Map.empty]) (simp add: assms(4))

lemma ensureMonitoringNamespace_calls:
  assumes laws: "env_laws E" and fed: "HasMonitoringFederation a" and P: "\<And>c. federationCall (theLib E) a c \<Longrightarrow> P c"
  shows "keeps (runsFor a P) (ensureMonitoringNamespace E)"
  unfolding ensureMonitoringNamespace_def
proof (rule runsFor_getAddon, rule keeps_case_sum, goal_cases)
  case (2 b d)
  let ?key = "\<lparr>key_Namespace = '''', key_Name = GetMonitoringNamespaceName a\<rparr>"
  obtain m where d: "d = \<lparr>ns_meta = m, ns_Phase = ''''\<rparr>" and m: "SetControllerReference (theLib E) (addonMeta b)
      (AddCommonLabels (theLib E) b ((objectMeta '''' (GetMonitoringNamespaceName b))
        \<lparr>Labels := [''openshift.io/cluster-monitoring'' \<mapsto> ''true'']\<rparr>)) = Inr m"
    using 2(2) by (auto simp: desiredMonitoringNamespace_def split: sum.splits)
  note new = ownedMeta_new_labels [OF env_lawsD(2,4) [OF laws] m 2(1)]
  have key: "ObjectKeyFromObject m = ?key"
    using new(2) federation_names_cong(1) [OF 2(1)] by (simp add: ObjectKeyFromObject_def)
  have create: "P (CallCreate (KNamespace d))" using new(1) key fed by (intro P) (simp add: d)
  have update: "P (CallUpdate (KNamespace (cur\<lparr>ns_meta := (ns_meta cur)
      \<lparr>OwnerReferences := OwnerReferences (ns_meta d), Labels := Labels (ns_meta d)\<rparr>\<rparr>)))"
    if "ObjectKeyFromObject (ns_meta cur) = ?key" for cur
    using that fed ownedMeta_taken [OF env_lawsD(4) [OF laws] new(1)]
    by (intro P) (simp add: d ObjectKeyFromObject_def)
  show ?case
    unfolding actualMonitoringNamespace_def Let_def federation_names_cong(1) [OF 2(1)]
    by (rule keeps_call_yields [OF yields_get [OF env_lawsD(7) [OF laws]]])
       (intro keeps_rules create update sameIdentity_pending)+
qed (intro keeps_rules)

lemma bearerToken_calls:
  assumes laws: "env_laws E" and fed: "HasMonitoringFederation a" and P: "\<And>c. federationCall (theLib E) a c \<Longrightarrow> P c"
  shows "keeps (runsFor a P) (reconcileBearerTokenSecretForAddon E)"
  unfolding reconcileBearerTokenSecretForAddon_def
proof (rule runsFor_getAddon, rule keeps_call, goal_cases)
  case (3 b tok)
  let ?key = "\<lparr>key_Namespace = GetMonitoringNamespaceName a, key_Name = bearerTokenName a\<rparr>"
  show ?case
  proof (rule keeps_case_sum, goal_cases)
    case (2 m)
    note names = federation_names_cong(1,3) [OF 3]
    let ?d = "\<lparr>sec_meta = m, sec_Data = sec_Data tok, sec_Type = ''''\<rparr>"
    have key: "ObjectKeyFromObject m = ?key"
      using controller_set_meta(1,2) [OF env_lawsD(4) [OF laws] 2] names by (simp add: ObjectKeyFromObject_def)
    have owned: "ownedBy (theLib E) a m" by (rule ownedBy_new [OF env_lawsD(4) [OF laws] 2 3])
    have create: "P (CallCreate (KSecret ?d))" using key owned fed by (intro P) simp
    have update: "P (CallUpdate (KSecret (cur\<lparr>sec_Data := dat, sec_meta := (sec_meta cur)
        \<lparr>OwnerReferences := OwnerReferences m, Labels := ls\<rparr>\<rparr>)))"
      if "ObjectKeyFromObject (sec_meta cur) = ?key" for cur dat ls
    proof (rule P)
      have "ownedBy (theLib E) a ((sec_meta cur)\<lparr>OwnerReferences := OwnerReferences m, Labels := ls\<rparr>)"
        by (subst ownedBy_cong [OF env_lawsD(4) [OF laws], where om' = m]) (simp_all add: owned)
      then show "federationCall (theLib E) a (CallUpdate (KSecret (cur\<lparr>sec_Data := dat, sec_meta := (sec_meta cur)
        \<lparr>OwnerReferences := OwnerReferences m, Labels := ls\<rparr>\<rparr>)))"
        using that fed by (simp add: ObjectKeyFromObject_def)
    qed
    show ?case
      unfolding Let_def Secret.select_convs key
      by (rule keeps_call_yields [OF yields_get [OF env_lawsD(16) [OF laws]]])
         (intro keeps_rules create update)+
  qed (intro keeps_rules)
qed (intro keeps_rules)+

lemma yields_bearerToken:
  assumes "env_laws E" "HasMonitoringFederation a" "\<And>c. federationCall (theLib E) a c \<Longrightarrow> P c"
  shows "yields (runsFor a P) (reconcileBearerTokenSecretForAddon E) (\<lambda>_. True)"
  by (rule keeps_yields [OF bearerToken_calls [OF assms]]) simp_all

lemma desiredServiceMonitor_new:
  assumes "env_laws E" "sameAddon b a"
  shows "yields (runsFor a P) (desiredServiceMonitor E b tok) (\<lambda>d. ownedMeta (theLib E) a (sm_meta d) \<and>
    ObjectKeyFromObject (sm_meta d) = \<lparr>key_Namespace = GetMonitoringNamespaceName a,
      key_Name = GetMonitoringFederationServiceMonitorName a\<rparr>)"
proof -
  have "yields (runsFor a P) (federationOf b) (\<lambda>_. True)"
    unfolding federationOf_def by (intro keeps_yields keeps_rules TrueI)
  then show ?thesis
    unfolding desiredServiceMonitor_def
  proof (rule yields_bindp, goal_cases)
    case (1 f)
    show ?case
    proof (rule yields_case_sum)
      fix m assume m: "SetControllerReference (theLib E) (addonMeta b) (AddCommonLabels (theLib E) b
        (objectMeta (GetMonitoringNamespaceName b) (GetMonitoringFederationServiceMonitorName b))) = Inr m"
      note new = ownedMeta_new_labels [OF env_lawsD(2,4) [OF assms(1)] m assms(2)]
      show "yields (runsFor a P) (ret \<lparr>sm_meta = m, sm_Spec =
         \<lparr>sm_Endpoints = GetMonitoringFederationServiceMonitorEndpoints f tok,
          sm_NamespaceSelector = [fed_Namespace f], sm_Selector = MatchLabels f\<rparr>\<rparr>)
        (\<lambda>d. ownedMeta (theLib E) a (sm_meta d) \<and> ObjectKeyFromObject (sm_meta d) =
          \<lparr>key_Namespace = GetMonitoringNamespaceName a, key_Name = GetMonitoringFederationServiceMonitorName a\<rparr>)"
        using new federation_names_cong(1,2) [OF assms(2)]
        by (intro yields_ret) (simp add: ObjectKeyFromObject_def)
    qed (rule yields_throw)
  qed
qed

lemma reconcileServiceMonitor_calls:
  assumes laws: "env_laws E" and fed: "HasMonitoringFederation a" and P: "\<And>c. federationCall (theLib E) a c \<Longrightarrow> P c"
  shows "keeps (runsFor a P) (reconcileServiceMonitor E)"
  unfolding reconcileServiceMonitor_def
proof (rule keeps_bindp [OF bearerToken_calls [OF assms]], simp, rule keeps_case_prod, rule keeps_unlessZero,
    rule runsFor_getAddon, rule keeps_bindp [OF keeps_deref], goal_cases)
  case (1 v res tok b secret)
  let ?key = "\<lparr>key_Namespace = GetMonitoringNamespaceName a, key_Name = GetMonitoringFederationServiceMonitorName a\<rparr>"
  show ?case
  proof (rule keeps_bindp_yields [OF desiredServiceMonitor_new [OF laws 1(2)]], goal_cases)
    case (1 d)
    then have d: "ownedMeta (theLib E) a (sm_meta d)" "ObjectKeyFromObject (sm_meta d) = ?key" by auto
    have create: "P (CallCreate (KServiceMonitor d))" using d fed by (intro P) simp
    have update: "P (CallUpdate (KServiceMonitor (cur\<lparr>sm_Spec := sm_Spec d, sm_meta := (sm_meta cur)
        \<lparr>Labels := LabelsMerge (theLib E) (Labels (sm_meta cur)) (Labels (sm_meta d)),
         OwnerReferences := OwnerReferences (sm_meta d)\<rparr>\<rparr>)))"
      if "ObjectKeyFromObject (sm_meta cur) = ?key" for cur
    proof (rule P)
      have "ownedMeta (theLib E) a ((sm_meta cur)\<lparr>Labels := LabelsMerge (theLib E) (Labels (sm_meta cur)) (Labels (sm_meta d)),
         OwnerReferences := OwnerReferences (sm_meta d)\<rparr>)"
        by (rule ownedMeta_merge [OF env_lawsD(4) [OF laws] d(1), of _ "Labels (sm_meta cur)"])
           (use env_lawsD(2) [OF laws] in simp_all)
      then show "federationCall (theLib E) a (CallUpdate (KServiceMonitor (cur\<lparr>sm_Spec := sm_Spec d, sm_meta := (sm_meta cur)
        \<lparr>Labels := LabelsMerge (theLib E) (Labels (sm_meta cur)) (Labels (sm_meta d)),
         OwnerReferences := OwnerReferences (sm_meta d)\<rparr>\<rparr>)))"
        using that fed by (simp add: ObjectKeyFromObject_def)
    qed
    show ?case
      unfolding actualServiceMonitor_def Let_def federation_names_cong(1,2) [OF \<open>sameAddon b a\<close>]
      by (rule keeps_call_yields [OF yields_get [OF env_lawsD(17) [OF laws]]])
         (intro keeps_rules create update)+
  qed
qed

lemma ensureMonitoringFederation_calls:
  assumes "env_laws E" "\<And>c. federationCall (theLib E) a c \<Longrightarrow> P c"
  shows "keeps (runsFor a P) (ensureMonitoringFederation E)"
  unfolding ensureMonitoringFederation_def
  by (intro runsFor_getAddon keeps_if keeps_call keeps_throw keeps_ret keeps_unlessZero
      ensureMonitoringNamespace_calls [OF assms(1) _ assms(2)] reconcileServiceMonitor_calls [OF assms(1) _ assms(2)])
     (simp_all add: federation_names_cong)

lemma keeps_ignoringNotFound: "keeps I m \<Longrightarrow> keeps I (ignoringNotFound E msg m)"
  unfolding ignoringNotFound_def by (intro keeps_rules)

lemma deleteUnwantedMonitors_calls:
  assumes P: "\<And>c. federationCall (theLib E) a c \<Longrightarrow> P c"
    and "\<And>sm. sm \<in> set sms \<Longrightarrow> selectorMatches (CommonLabelsAsLabelSelector a) (sm_meta sm)"
  shows "keeps (runsFor a P) (deleteUnwantedMonitors E (wantedServiceMonitorName a) sms)"
  using assms(2)
proof (induction sms)
  case (Cons sm sms)
  have "P (CallDelete ServiceMonitorKind (ObjectKeyFromObject (sm_meta sm)))"
    if "Name (sm_meta sm) \<noteq> wantedServiceMonitorName a"
    using that Cons.prems [of sm] by (intro P) auto
  moreover have "P (CallDelete SecretKind \<lparr>key_Namespace = GetMonitoringNamespaceName b, key_Name = bearerTokenName b\<rparr>)"
    if "sameAddon b a" for b
    using federation_names_cong(1,3) [OF that] by (intro P) simp
  ultimately show ?case
    using Cons unfolding deleteUnwantedMonitors.simps
    by (intro keeps_if keeps_bindp keeps_ignoringNotFound runsOn_doDelete runsFor_getAddon) auto
qed (auto intro: keeps_ret)

lemma federation_deletion_calls:
  assumes laws: "env_laws E" and P: "\<And>c. federationCall (theLib E) a c \<Longrightarrow> P c"
  shows "keeps (runsFor a P) (ensureDeletionOfUnwantedMonitoringFederation E)"
proof -
  have list: "yields (runsFor a P) (getOwnedServiceMonitorsViaCommonLabels E)
      (\<lambda>sms. \<forall>sm \<in> set sms. selectorMatches (CommonLabelsAsLabelSelector a) (sm_meta sm))"
    unfolding getOwnedServiceMonitorsViaCommonLabels_def
    by (rule yields_bindp [OF yields_runsFor_getAddon],
        rule yields_call [OF yields_doList [OF env_lawsD(18) [OF laws]] yields_throw])
       (auto simp: selectorMatches_def selector_cong intro!: yields_ret)
  have del: "keeps (runsFor a P) (ensureNamespaceDeletion E (GetMonitoringNamespaceName b))"
    if "sameAddon b a" "wantedServiceMonitorName b = ''''" for b
  proof -
    have "\<not> HasMonitoringFederation a"
      using that federation_names_cong(4,5) [OF that(1)]
      by (auto simp: wantedServiceMonitorName_def GetMonitoringFederationServiceMonitorName_def split: if_splits)
    then have "P (CallDelete NamespaceKind \<lparr>key_Namespace = '''', key_Name = GetMonitoringNamespaceName b\<rparr>)"
      using federation_names_cong(1) [OF that(1)] by (intro P) simp
    then show ?thesis unfolding ensureNamespaceDeletion_def by (intro keeps_rules)
  qed
  show ?thesis
    unfolding ensureDeletionOfUnwantedMonitoringFederation_def
    by (rule keeps_bindp_yields [OF list])
       (auto simp: federation_names_cong intro!: runsFor_getAddon keeps_bindp keeps_if keeps_call keeps_throw
        keeps_ret deleteUnwantedMonitors_calls P del)
qed

lemma federation_calls:
  assumes "env_laws E" "\<And>c. federationCall (theLib E) a c \<Longrightarrow> P c"
  shows "keeps (runsFor a P) (federationReconcile E)"
  unfolding federationReconcile_def
  by (intro keeps_call keeps_if keeps_throw keeps_ret keeps_unlessZero
      ensureMonitoringFederation_calls [OF assms] federation_deletion_calls [OF assms])

section \<open>Properties\<close>

text \<open>
  The federation reconciler creates and updates only the monitoring namespace, the bearer token
  and the ServiceMonitor of the Addon, and only when federation is configured; it deletes only
  labelled ServiceMonitors under another name, the bearer token, and the monitoring namespace when
  federation is not configured.
\<close>

theorem federation_reconcile_safe:
  assumes "env_laws E" "st_calls s = []" "federationReconcile E s = (r, s')"
  shows "list_all (\<lambda>(c, _). federationCall (theLib E) (st_addon s) c) (st_calls s')"
  using keepsD [OF federation_calls [OF assms(1)] _ assms(3), of "st_addon s"] assms(2)
  by (simp add: runsOn_def)

lemma getOwnedServiceMonitors_addon:
  "getOwnedServiceMonitorsViaCommonLabels E s = (r, s') \<Longrightarrow> st_addon s' = st_addon s"
  by (auto simp: getOwnedServiceMonitorsViaCommonLabels_def doList_def apiRead_def call_def
      split: prod.splits outcome.splits)


text \<open>
  When the ServiceMonitor cannot be reconciled, the cause is lost: whatever error the calls
  returned, the reconciler fails with one and the same text, which wraps nothing but the reason.
\<close>

theorem federation_error_lost:
  assumes "HasMonitoringFederation (st_addon s)" "ensureMonitoringNamespace E s = (Ok resultNil, s1)"
    and "reconcileServiceMonitor E s1 = (Err cause, s')"
  shows "federationReconcile E s =
    (Err (Wrap ''ensuring ServiceMonitor: %!w(<nil>)'' ErrEnsureCreateServiceMonitor), s')"
proof -
  have "ensureMonitoringFederation E s = (Err (ErrorString ''ensuring ServiceMonitor: %!w(<nil>)''), s')"
    using assms by (simp add: ensureMonitoringFederation_def unlessZero_def)
  then show ?thesis by (simp add: federationReconcile_def)
qed

section \<open>Witnesses\<close>

definition federatedAddon :: Addon where
  "federatedAddon = refAddon\<lparr>Spec := refSpec\<lparr>Monitoring := Some \<lparr>Federation = Some \<lparr>fed_Namespace = ''ns'',
     PortName = ''https'', MatchNames = [''up''], MatchLabels = Map.empty\<rparr>, MonitoringStack = None\<rparr>\<rparr>\<rparr>"

lemmas federation_eval = federationReconcile_def ensureMonitoringFederation_def ensureMonitoringNamespace_def
  desiredMonitoringNamespace_def actualMonitoringNamespace_def reconcileServiceMonitor_def
  reconcileBearerTokenSecretForAddon_def ensureDeletionOfUnwantedMonitoringFederation_def
  getOwnedServiceMonitorsViaCommonLabels_def wantedServiceMonitorName_def HasMonitoringFederation_def
  ensureNamespaceDeletion_def unlessZero_def AddCommonLabels_def setController_def controllerRef_def
  GetMonitoringNamespaceName_def CommonLabelsAsLabelSelector_def prog_defs ref_eval ref_objects Let_def
  federatedAddon_def

lemma federation_run:
  "federationReconcile (refEnv emptyStock) (refState refAddon) =
     (Ok resultNil, (refState refAddon)\<lparr>st_calls :=
        [(CallDelete NamespaceKind \<lparr>key_Namespace = '''', key_Name = ''redhat-monitoring-ref''\<rparr>, Some notFoundError)]\<rparr>)"
  by (simp add: federation_eval)

theorem federation_reconcile_safe_witness:
  "federationCall refLib refAddon
     (CallDelete NamespaceKind \<lparr>key_Namespace = '''', key_Name = ''redhat-monitoring-ref''\<rparr>)"
  using federation_reconcile_safe [OF refEnv_laws _ federation_run] by simp


theorem federation_error_lost_witness:
  "fst (federationReconcile (refEnv emptyStock) (refState federatedAddon)) =
     Err (Wrap ''ensuring ServiceMonitor: %!w(<nil>)'' ErrEnsureCreateServiceMonitor)"
proof -
  let ?E = "refEnv emptyStock" and ?s = "refState federatedAddon"
  have fed: "HasMonitoringFederation (st_addon ?s)" by (simp add: federation_eval)
  obtain s1 where ns: "ensureMonitoringNamespace ?E ?s = (Ok resultNil, s1)"
    by (simp add: federation_eval)
  obtain e s2 where sm: "reconcileServiceMonitor ?E s1 = (Err e, s2)"
    by (simp add: reconcileServiceMonitor_def reconcileBearerTokenSecretForAddon_def prog_defs ref_eval)
  from federation_error_lost [OF fed ns sm] show ?thesis by simp
qed

end
