(* ===== verification/Monitoring_Stack.thy ===== *)
theory Monitoring_Stack
  imports Adoption
begin

text \<open>
  The optional sub-reconciler for the MonitoringStack of an Addon
  (\<open>monitoring_stack_reconciler.go\<close>).
\<close>

section \<open>Model\<close>

abbreviation MONITORING_STACK_RECONCILER_NAME :: string where
  "MONITORING_STACK_RECONCILER_NAME \<equiv> ''monitoringStackReconciler''"

abbreviation errMonitoringStackSpecNotFound :: error where
  "errMonitoringStackSpecNotFound \<equiv> ErrorString ''monitoring stack spec not found''"

definition getMonitoringStackName :: "string \<Rightarrow> string" where
  "getMonitoringStackName addonName = addonName @ ''-monitoring-stack''"

definition getWriteRelabelConfigFromAllowlist :: "string list \<Rightarrow> RelabelConfig list" where
  "getWriteRelabelConfigFromAllowlist allowlist =
     (if length allowlist = 0 then []
      else [\<lparr>rc_Action = ''keep'', rc_SourceLabels = [''[__name__]''],
             rc_Regex = ''('' @ joinWith ''|'' allowlist @ '')''\<rparr>])"

definition getDesiredMonitoringStack :: "'w Env \<Rightarrow> ('w st, MonitoringStackObj) prog" where
  "getDesiredMonitoringStack E =
     bindp (parseAddonInstallConfig E) (\<lambda>config.
     case config of
       None \<Rightarrow> throw (ErrorString ''error parsing Addon config'')
     | Some commonConfig \<Rightarrow> bindp getAddon (\<lambda>addon.
         bindp (deref (Monitoring (Spec addon))) (\<lambda>monitoring.
         bindp (deref (MonitoringStack monitoring)) (\<lambda>stack.
         let (url, oauth, relabel) = (case RHOBSRemoteWriteConfig stack of
               None \<Rightarrow> ('''', None, [])
             | Some c \<Rightarrow> (rw_URL c, rw_OAuth2 c, getWriteRelabelConfigFromAllowlist (Allowlist c)))
         in case SetControllerReference (theLib E) (addonMeta addon) (AddCommonLabels (theLib E) addon
                (objectMeta (olm_Namespace commonConfig) (getMonitoringStackName (Name (addonMeta addon))))) of
              Inl err \<Rightarrow> throw err
            | Inr m \<Rightarrow> ret \<lparr>ms_meta = m, ms_Spec =
                \<lparr>ms_Retention = ''30d'', ms_ResourceSelector = [MSOLabel \<mapsto> Name (addonMeta addon)],
                 ms_RemoteWrite = [\<lparr>rws_URL = url, rws_OAuth2 = oauth, rws_WriteRelabelConfigs = relabel\<rparr>]\<rparr>,
                ms_Conditions = []\<rparr>))))"

definition reconcileMonitoringStack :: "'w Env \<Rightarrow> MonitoringStackObj \<Rightarrow> ('w st, MonitoringStackObj) prog" where
  "reconcileMonitoringStack E desired =
     call (doGet (k_MonitoringStack (client E))
         \<lparr>key_Namespace = Namespace (ms_meta desired), key_Name = Name (ms_meta desired)\<rparr>)
       (\<lambda>err. if IsNotFound (theLib E) err
              then doCreate (k_MonitoringStack (client E)) KMonitoringStack desired
              else throw err)
       (\<lambda>current.
          let ownedByAddon = HasSameController (theLib E) (ms_meta current) (ms_meta desired);
              specChanged = (\<not> SemanticDeepEqual (theLib E)
                (IMonitoringStackObjSpec (ms_Spec desired)) (IMonitoringStackObjSpec (ms_Spec current)));
              currentLabels = Labels (ms_meta current);
              newLabels = LabelsMerge (theLib E) currentLabels (Labels (ms_meta desired))
          in if specChanged \<or> \<not> ownedByAddon \<or> \<not> LabelsEquals (theLib E) newLabels currentLabels
             then doUpdate (k_MonitoringStack (client E)) KMonitoringStack
                 (current\<lparr>ms_Spec := ms_Spec desired,
                    ms_meta := (ms_meta current)\<lparr>OwnerReferences := OwnerReferences (ms_meta desired),
                      Labels := newLabels\<rparr>\<rparr>)
             else ret current)"

definition ensureMonitoringStack :: "'w Env \<Rightarrow> ('w st, MonitoringStackObj) prog" where
  "ensureMonitoringStack E = bindp getAddon (\<lambda>addon.
     if \<not> HasMonitoringStack addon then throw errMonitoringStackSpecNotFound
     else bindp (getDesiredMonitoringStack E) (\<lambda>desired. reconcileMonitoringStack E desired))"

text \<open>
  The loop over the conditions: it ends early once both have been found, so it is the first
  condition of the type found last and the last one before that of the other type.
\<close>

type_synonym stackCondition = "string \<times> ConditionStatus \<times> string"

fun scanConditions ::
  "lib \<Rightarrow> stackCondition list \<Rightarrow> stackCondition option \<Rightarrow> stackCondition option \<Rightarrow>
     stackCondition option \<times> stackCondition option" where
  "scanConditions L [] avail reconc = (avail, reconc)"
| "scanConditions L (c # cs) avail reconc =
     (if avail \<noteq> None \<and> reconc \<noteq> None then (avail, reconc)
      else if fst c = OboAvailableCondition L then scanConditions L cs (Some c) reconc
      else if fst c = OboReconciledCondition L then scanConditions L cs avail (Some c)
      else scanConditions L cs avail reconc)"

definition propagateMonitoringStackStatusToAddon :: "'w Env \<Rightarrow> MonitoringStackObj \<Rightarrow> ('w st, bool) prog" where
  "propagateMonitoringStackStatusToAddon E stack =
     (case scanConditions (theLib E) (ms_Conditions stack) None None of
        (Some (_, status, message), _) \<Rightarrow>
          if status = ConditionTrue then ret True
          else bindp (mutate E (reportUnreadyMonitoringStack (theLib E)
                 (''MonitoringStack Unavailable: '' @ message))) (\<lambda>_. ret False)
      | (None, Some (_, status, message)) \<Rightarrow>
          bindp (if status = ConditionTrue
                 then mutate E (reportUnreadyMonitoringStack (theLib E)
                   ''MonitoringStack successfully reconciled: Pending MonitoringStack to be Available'')
                 else mutate E (reportUnreadyMonitoringStack (theLib E)
                   (''MonitoringStack failed to reconcile: '' @ message))) (\<lambda>_. ret False)
      | (None, None) \<Rightarrow>
          bindp (mutate E (reportUnreadyMonitoringStack (theLib E)
                 ''MonitoringStack pending to get reconciled'')) (\<lambda>_. ret False))"

definition stackReconcile :: "'w Env \<Rightarrow> ('w st, subReconcilerResult) prog" where
  "stackReconcile E =
     call (ensureMonitoringStack E)
       (\<lambda>err. if errorsIs err errMonitoringStackSpecNotFound then ret resultNil
              else throw (joinErr err ErrEnsureCreateMonitoringStack))
       (\<lambda>latest. bindp (propagateMonitoringStackStatusToAddon E latest) (\<lambda>available.
          if \<not> available then ret resultRequeue else ret resultNil))"

section \<open>An instance of the scheme\<close>

definition monitoringStackKind :: "MonitoringStackObj objectKind" where
  "monitoringStackKind = \<lparr>ok_meta = ms_meta, ok_wrap = KMonitoringStack, ok_valid = (\<lambda>_. True),
     ok_same = (\<lambda>L d c. SemanticDeepEqual L (IMonitoringStackObjSpec (ms_Spec d)) (IMonitoringStackObjSpec (ms_Spec c))),
     ok_adopt = (\<lambda>L d c. c\<lparr>ms_Spec := ms_Spec d, ms_meta := (ms_meta c)
       \<lparr>OwnerReferences := OwnerReferences (ms_meta d),
        Labels := LabelsMerge L (Labels (ms_meta c)) (Labels (ms_meta d))\<rparr>\<rparr>)\<rparr>"

interpretation ms: adoptable monitoringStackKind
  by unfold_locales (simp_all add: monitoringStackKind_def)

lemma reconcileMonitoringStack_scheme:
  assumes "label_laws (theLib E)"
  shows "reconcileMonitoringStack E d =
    reconcileObject monitoringStackKind E (k_MonitoringStack (client E)) (\<lambda>e. e) d"
  unfolding reconcileMonitoringStack_def reconcileObject_def
  using assms
  by (auto simp: monitoringStackKind_def upToDate_def ObjectKeyFromObject_def Let_def fun_eq_iff
      intro!: arg_cong2 [of _ _ _ _ "\<lambda>h k. call (doGet (k_MonitoringStack (client E)) _) h k _"])

section \<open>What it writes\<close>

definition stackObject :: "lib \<Rightarrow> Addon \<Rightarrow> MonitoringStackObj \<Rightarrow> bool" where
  "stackObject L a x \<longleftrightarrow> HasMonitoringStack a \<and> ownedMeta L a (ms_meta x) \<and>
     (\<exists>conf. installConfig (Spec a) = Some conf \<and> ObjectKeyFromObject (ms_meta x) =
        \<lparr>key_Namespace = olm_Namespace conf, key_Name = getMonitoringStackName (Name (addonMeta a))\<rparr>)"

fun stackCall :: "lib \<Rightarrow> Addon \<Rightarrow> apiCall \<Rightarrow> bool" where
  "stackCall L a (CallCreate (KMonitoringStack x)) = stackObject L a x"
| "stackCall L a (CallUpdate (KMonitoringStack x)) = stackObject L a x"
| "stackCall L a _ = False"

lemma desiredStack_new:
  assumes "env_laws E" "HasMonitoringStack a"
  shows "yields (runsFor a P) (getDesiredMonitoringStack E) (stackObject (theLib E) a)"
  unfolding getDesiredMonitoringStack_def
proof (rule yields_parse, cases "installConfig (Spec a)", goal_cases)
  case (2 conf)
  have new: "stackObject (theLib E) a \<lparr>ms_meta = m, ms_Spec = sp, ms_Conditions = []\<rparr>"
    if b: "sameAddon b a" and set: "SetControllerReference (theLib E) (addonMeta b) (AddCommonLabels (theLib E) b
      (objectMeta (olm_Namespace conf) (getMonitoringStackName (Name (addonMeta b))))) = Inr m" for b m sp
    using ownedMeta_new_labels [OF env_lawsD(2,4) [OF assms(1)] set b] b assms(2) 2
    by (simp add: stackObject_def ObjectKeyFromObject_def sameAddon_def)
  show ?case
    unfolding 2 Let_def
    by (auto intro!: yields_bindp [OF yields_runsFor_getAddon] yields_bindp_deref yields_case_sum yields_throw
        yields_ret yields_case_prod new split: prod.splits)
qed (auto intro: yields_throw)

lemma reconcileMonitoringStack_calls:
  assumes "env_laws E" "\<And>c. stackCall (theLib E) a c \<Longrightarrow> P c" "stackObject (theLib E) a d"
  shows "keeps (runsFor a P) (reconcileMonitoringStack E d)"
  unfolding reconcileMonitoringStack_scheme [OF env_lawsD(2) [OF assms(1)]]
  using assms(3) env_lawsD [OF assms(1)]
  by (intro ms.reconcile_calls) (auto simp: monitoringStackKind_def stackObject_def intro!: assms(2))

lemma stack_calls:
  assumes "env_laws E" "\<And>c. stackCall (theLib E) a c \<Longrightarrow> P c"
  shows "keeps (runsFor a P) (stackReconcile E)"
proof -
  have "keeps (runsFor a P) (ensureMonitoringStack E)"
    unfolding ensureMonitoringStack_def
    by (intro runsFor_getAddon keeps_if keeps_throw keeps_bindp_yields [OF desiredStack_new [OF assms(1)]]
        reconcileMonitoringStack_calls [OF assms])
       (auto simp: HasMonitoringStack_def sameAddon_def)
  moreover have "keeps (runsFor a P) (propagateMonitoringStackStatusToAddon E x)" for x
    unfolding propagateMonitoringStackStatusToAddon_def
    by (auto intro!: keeps_rules sameIdentity_pending split: prod.splits option.splits)
  ultimately show ?thesis unfolding stackReconcile_def by (intro keeps_rules)
qed

section \<open>Properties\<close>

text \<open>
  The reconciler of the MonitoringStack creates and updates nothing but the MonitoringStack of
  the Addon, in its install namespace and owned by it, and only when one is configured.
\<close>

theorem stack_reconcile_safe:
  assumes "env_laws E" "st_calls s = []" "stackReconcile E s = (r, s')"
  shows "list_all (\<lambda>(c, _). stackCall (theLib E) (st_addon s) c) (st_calls s')"
  using keepsD [OF stack_calls [OF assms(1)] _ assms(3), of "st_addon s"] assms(2)
  by (simp add: runsOn_def)

lemma scan_avail:
  "scanConditions L cs avail reconc = (Some c, r') \<Longrightarrow>
     avail = Some c \<or> (c \<in> set cs \<and> fst c = OboAvailableCondition L)"
  by (induction L cs avail reconc rule: scanConditions.induct) (auto split: if_splits)

lemma propagate_run:
  obtains (available) message where "propagateMonitoringStackStatusToAddon E x s = (Ok True, s)"
      "(OboAvailableCondition (theLib E), ConditionTrue, message) \<in> set (ms_Conditions x)"
  | (pending) message where "propagateMonitoringStackStatusToAddon E x s = (Ok False,
      s\<lparr>st_addon := reportUnreadyMonitoringStack (theLib E) message (clock E (st_ticks s)) (st_addon s),
        st_ticks := Suc (st_ticks s)\<rparr>)"
proof (cases "scanConditions (theLib E) (ms_Conditions x) None None")
  case (Pair avail reconc)
  show thesis
  proof (cases avail)
    case None
    show thesis
    proof (cases reconc)
      case None
      with Pair \<open>avail = None\<close> show thesis by (intro pending) (simp add: propagateMonitoringStackStatusToAddon_def)
    next
      case (Some c)
      obtain t st m where "c = (t, st, m)" by (cases c)
      with Pair \<open>avail = None\<close> Some show thesis
        by (cases "st = ConditionTrue") (auto intro!: pending simp: propagateMonitoringStackStatusToAddon_def)
    qed
  next
    case (Some c)
    obtain t st m where c: "c = (t, st, m)" by (cases c)
    from Pair Some scan_avail [of "theLib E" "ms_Conditions x" None None c]
    have "c \<in> set (ms_Conditions x)" "t = OboAvailableCondition (theLib E)" by (auto simp: c)
    with Pair Some c show thesis
      by (cases "st = ConditionTrue") (auto intro: available pending simp: propagateMonitoringStackStatusToAddon_def)
  qed
qed


section \<open>Witnesses\<close>

definition stackAddon :: Addon where
  "stackAddon = refAddon\<lparr>Spec := refSpec\<lparr>Monitoring := Some \<lparr>Federation = None,
     MonitoringStack = Some \<lparr>RHOBSRemoteWriteConfig = None\<rparr>\<rparr>\<rparr>\<rparr>"

definition readyStack :: MonitoringStackObj where
  "readyStack = \<lparr>ms_meta = objectMeta ''ns'' ''ref-monitoring-stack'', ms_Spec =
     \<lparr>ms_Retention = ''1d'', ms_ResourceSelector = Map.empty, ms_RemoteWrite = []\<rparr>,
     ms_Conditions = [(''Available'', ConditionTrue, '''')]\<rparr>"

definition stackStock :: stock where
  "stackStock = emptyStock\<lparr>so_MonitoringStack := [readyStack]\<rparr>"

lemmas stack_eval = stackReconcile_def ensureMonitoringStack_def getDesiredMonitoringStack_def
  reconcileMonitoringStack_def propagateMonitoringStackStatusToAddon_def HasMonitoringStack_def
  parseAddonInstallConfig_def getMonitoringStackName_def AddCommonLabels_def setController_def
  controllerRef_def HasSameController_def prog_defs ref_eval ref_objects Let_def stackAddon_def
  readyStack_def stackStock_def

lemma stack_run:
  "fst (stackReconcile (refEnv stackStock) (refState stackAddon)) = Ok resultNil"
  "length (st_calls (snd (stackReconcile (refEnv stackStock) (refState stackAddon)))) = 1"
  "\<exists>v s. ensureMonitoringStack (refEnv stackStock) (refState stackAddon) = (Ok v, s)"
  by (simp_all add: stack_eval)

theorem stack_reconcile_safe_witness:
  "list_all (\<lambda>(c, _). stackCall refLib stackAddon c)
     (st_calls (snd (stackReconcile (refEnv stackStock) (refState stackAddon)))) \<and>
   length (st_calls (snd (stackReconcile (refEnv stackStock) (refState stackAddon)))) = 1"
  using stack_reconcile_safe [OF refEnv_laws _ prod.collapse [symmetric], of "refState stackAddon" stackStock] stack_run(2)
  by simp


end
