(* ===== verification/Package_Operator.thy ===== *)
theory Package_Operator
  imports Addon_Status Ref_Cluster
begin

text \<open>
  The optional sub-reconciler for Addons that are installed through the package operator
  (\<open>package_operator_reconciler.go\<close>): a ClusterObjectTemplate that carries the rendered package. It is
  the one sub-reconciler that does not block the others: its outcome is looked up at the end.
\<close>

section \<open>Model\<close>

abbreviation packageOperatorName :: string where "packageOperatorName \<equiv> ''packageOperatorReconciler''"
abbreviation ClusterIDConfigKey :: string where "ClusterIDConfigKey \<equiv> ''clusterID''"
abbreviation DeadMansSnitchUrlConfigKey :: string where "DeadMansSnitchUrlConfigKey \<equiv> ''deadMansSnitchUrl''"
abbreviation OcmClusterIDConfigKey :: string where "OcmClusterIDConfigKey \<equiv> ''ocmClusterID''"
abbreviation OcmClusterNameConfigKey :: string where "OcmClusterNameConfigKey \<equiv> ''ocmClusterName''"
abbreviation PagerDutyKeyConfigKey :: string where "PagerDutyKeyConfigKey \<equiv> ''pagerDutyKey''"
abbreviation ParametersConfigKey :: string where "ParametersConfigKey \<equiv> ''parameters''"
abbreviation TargetNamespaceConfigKey :: string where "TargetNamespaceConfigKey \<equiv> ''targetNamespace''"
abbreviation SendGridConfigKey :: string where "SendGridConfigKey \<equiv> ''smtp''"

record OcmClusterInfo =
  oci_ID :: string
  oci_Name :: string

record PackageOperatorReconciler =
  po_ClusterID :: string
  po_OcmClusterInfo :: OcmClusterInfo      \<comment> \<open>what the getter returns during the call\<close>

text \<open>A line of the template, with a number of tabs in front.\<close>

definition tmplLine :: "nat \<Rightarrow> string \<Rightarrow> string" where
  "tmplLine tabs text = replicate tabs (CHR 0x09) @ text @ [CHR 0x0A]"

text \<open>The line of an optional key of the configuration.\<close>

definition hasKeyLine :: "string \<Rightarrow> string" where
  "hasKeyLine key = tmplLine 3 (''(hasKey .config '' @ quoted key @ '' | ternary (dict '' @ quoted key @
     '' (index .config '' @ quoted key @ '' | b64decMap)) (dict))'')"

text \<open>\<open>fmt.Sprintf(PkoPkgTemplate, ...)\<close>, with the verbs replaced.\<close>

definition PkoPkgTemplate ::
  "string \<Rightarrow> string \<Rightarrow> string \<Rightarrow> string \<Rightarrow> string \<Rightarrow> string \<Rightarrow> string \<Rightarrow> string" where
  "PkoPkgTemplate groupVersion name img clusterID ocmID ocmName namespace =
     [CHR 0x0A] @
     tmplLine 0 (''apiVersion: '' @ quoted groupVersion) @
     tmplLine 0 ''kind: ClusterPackage'' @
     tmplLine 0 ''metadata:'' @
     tmplLine 0 (''  name: '' @ quoted name) @
     tmplLine 0 ''spec:'' @
     tmplLine 0 (''  image: '' @ quoted img) @
     tmplLine 0 ''  config:'' @
     tmplLine 0 ''    addonsv1: {{toJson ('' @
     tmplLine 2 ''merge'' @
     tmplLine 3 ''(.config | b64decMap)'' @
     hasKeyLine ParametersConfigKey @
     hasKeyLine SendGridConfigKey @
     tmplLine 3 (''(dict '' @ quoted ClusterIDConfigKey @ '' '' @ quoted clusterID @ '' '' @
       quoted OcmClusterIDConfigKey @ '' '' @ quoted ocmID @ '' '' @
       quoted OcmClusterNameConfigKey @ '' '' @ quoted ocmName @ '' '' @
       quoted TargetNamespaceConfigKey @ '' '' @ quoted namespace @ '')'') @
     tmplLine 1 '')}}''"

definition extractDestinationNamespace :: "Addon \<Rightarrow> ('s, string) prog" where
  "extractDestinationNamespace addon =
     (case install_Type (Install (Spec addon)) of
        OLMAllNamespaces \<Rightarrow> bindp (deref (install_OLMAllNamespaces (Install (Spec addon)))) (\<lambda>c.
          if length (olm_Namespace c) < 1 then ret ''openshift-operators'' else ret (olm_Namespace c))
      | OLMOwnNamespace \<Rightarrow> bindp (deref (install_OLMOwnNamespace (Install (Spec addon)))) (\<lambda>c.
          ret (olm_Namespace c))
      | OtherInstallType _ \<Rightarrow> ret '''')"

definition getExistingClusterObjectTemplate :: "'w Env \<Rightarrow> Addon \<Rightarrow> ('w st, ClusterObjectTemplate) prog" where
  "getExistingClusterObjectTemplate E addon = doGet (k_ClusterObjectTemplate (client E))
     \<lparr>key_Namespace = Namespace (addonMeta addon), key_Name = Name (addonMeta addon)\<rparr>"

definition ensureClusterObjectTemplateTornDown :: "'w Env \<Rightarrow> ('w st, unit) prog" where
  "ensureClusterObjectTemplateTornDown E = bindp getAddon (\<lambda>addon.
     call (getExistingClusterObjectTemplate E addon)
       (\<lambda>err. if IsNotFound (theLib E) err then ret ()
              else throw (Wrap ''getting ClusterObjectTemplate object'' err))
       (\<lambda>existing. call (doDelete (k_ClusterObjectTemplate (client E)) ClusterObjectTemplateKind
            (ObjectKeyFromObject (cot_meta existing)))
          (\<lambda>err. throw (Wrap ''deleting ClusterObjectTemplate object'' err)) (\<lambda>_. ret ())))"

definition templateSource :: "string \<Rightarrow> string \<Rightarrow> string \<Rightarrow> string \<Rightarrow> ObjectTemplateSource" where
  "templateSource name namespace key destination = \<lparr>ots_Optional = True, ots_APIVersion = ''v1'',
     ots_Kind = ''Secret'', ots_Name = name, ots_Namespace = namespace, ots_Items = [(key, destination)]\<rparr>"

definition desiredTemplateSpec ::
  "lib \<Rightarrow> PackageOperatorReconciler \<Rightarrow> Addon \<Rightarrow> AddonPackageOperator \<Rightarrow> string \<Rightarrow> ObjectTemplateSpec" where
  "desiredTemplateSpec L R addon po ns =
     (let name = Name (addonMeta addon) in
      \<lparr>cot_Template = PkoPkgTemplate (PkoGroupVersion L) name (po_Image po) (po_ClusterID R)
         (oci_ID (po_OcmClusterInfo R)) (oci_Name (po_OcmClusterInfo R)) ns,
       cot_Sources =
         [templateSource (''addon-'' @ name @ ''-parameters'') ns ''.data'' (''.'' @ ParametersConfigKey),
          templateSource (name @ ''-deadmanssnitch'') ns ''.data.SNITCH_URL'' (''.'' @ DeadMansSnitchUrlConfigKey),
          templateSource (name @ ''-pagerduty'') ns ''.data.PAGERDUTY_KEY'' (''.'' @ PagerDutyKeyConfigKey),
          templateSource (name @ ''-smtp'') ns ''.data'' (''.'' @ SendGridConfigKey)]\<rparr>)"

definition packageAvailable :: "lib \<Rightarrow> ClusterObjectTemplate \<Rightarrow> bool" where
  "packageAvailable L cot =
     (case FindStatusCondition L (cot_Conditions cot) (PackageAvailable L) of
        None \<Rightarrow> False
      | Some c \<Rightarrow> c_Status c = ConditionTrue \<and> c_ObservedGeneration c = Generation (cot_meta cot))"

definition SetAddonUnreadyStatus :: "'w Env \<Rightarrow> ('w st, unit) prog" where
  "SetAddonUnreadyStatus E = mutate E (reportUnreadyClusterObjectTemplate (theLib E))"

definition updateAddonStatus :: "'w Env \<Rightarrow> ClusterObjectTemplate \<Rightarrow> ('w st, unit) prog" where
  "updateAddonStatus E cot =
     (case FindStatusCondition (theLib E) (cot_Conditions cot) (PackageAvailable (theLib E)) of
        None \<Rightarrow> SetAddonUnreadyStatus E
      | Some c \<Rightarrow>
          if c_ObservedGeneration c \<noteq> Generation (cot_meta cot) \<or> c_Status c \<noteq> ConditionTrue
          then SetAddonUnreadyStatus E else ret ())"

text \<open>\<open>reconErr.Join(fmt.Errorf("<text>: %w", err), ErrReconcileClusterObjectTemplate)\<close>.\<close>

definition templateError :: "string \<Rightarrow> error \<Rightarrow> error" where
  "templateError text err = joinErr (Wrap text err) ErrReconcileClusterObjectTemplate"

definition reconcileClusterObjectTemplate ::
  "'w Env \<Rightarrow> PackageOperatorReconciler \<Rightarrow> ('w st, subReconcilerResult) prog" where
  "reconcileClusterObjectTemplate E R = bindp getAddon (\<lambda>addon.
     bindp (extractDestinationNamespace addon) (\<lambda>ns.
     if length ns < 1
     then throw (joinErr (ErrorString (''no destination namespace configured in addon '' @ Name (addonMeta addon)))
            ErrReconcileClusterObjectTemplate)
     else bindp (deref (spec_AddonPackageOperator (Spec addon))) (\<lambda>po.
       case SetControllerReference (theLib E) (addonMeta addon) (objectMeta '''' (Name (addonMeta addon))) of
         Inl err \<Rightarrow> throw (templateError ''setting owner reference'' err)
       | Inr m \<Rightarrow>
           let desired = \<lparr>cot_meta = m, cot_Spec = desiredTemplateSpec (theLib E) R addon po ns, cot_Conditions = []\<rparr> in
           call (getExistingClusterObjectTemplate E addon)
             (\<lambda>err. if IsNotFound (theLib E) err
                    then call (doCreate (k_ClusterObjectTemplate (client E)) KClusterObjectTemplate desired)
                      (\<lambda>err. throw (templateError ''creating ClusterObjectTemplate object'' err)) (\<lambda>_. ret resultNil)
                    else throw (templateError ''getting ClusterObjectTemplate object'' err))
             (\<lambda>existing.
                let ownedByAdo = HasSameController (theLib E) (cot_meta existing) (cot_meta desired);
                    specChanged = (\<not> SemanticDeepEqual (theLib E)
                      (IObjectTemplateSpec (cot_Spec existing)) (IObjectTemplateSpec (cot_Spec desired)))
                in if specChanged \<or> \<not> ownedByAdo
                   then call (doUpdate (k_ClusterObjectTemplate (client E)) KClusterObjectTemplate
                       (existing\<lparr>cot_Spec := cot_Spec desired,
                          cot_meta := (cot_meta existing)\<lparr>OwnerReferences := OwnerReferences (cot_meta desired)\<rparr>\<rparr>))
                     (\<lambda>err. throw (templateError ''updating ClusterObjectTemplate object'' err)) (\<lambda>_. ret resultNil)
                   else bindp (updateAddonStatus E existing) (\<lambda>_. ret resultNil)))))"

definition packageReconcile :: "'w Env \<Rightarrow> PackageOperatorReconciler \<Rightarrow> ('w st, subReconcilerResult) prog" where
  "packageReconcile E R = bindp getAddon (\<lambda>addon.
     if spec_AddonPackageOperator (Spec addon) = None
     then call (ensureClusterObjectTemplateTornDown E)
            (\<lambda>err. throw (joinErr err ErrEnsureDeleteClusterObjectTemplate)) (\<lambda>_. ret resultNil)
     else reconcileClusterObjectTemplate E R)"

definition IsReconciliationSuccessful :: "'w Env \<Rightarrow> ('w st, bool) prog" where
  "IsReconciliationSuccessful E = bindp getAddon (\<lambda>addon.
     if spec_AddonPackageOperator (Spec addon) = None then ret True
     else call (getExistingClusterObjectTemplate E addon)
       (\<lambda>err. throw (Wrap ''getting ClusterObjectTemplate object'' err))
       (\<lambda>existing. ret (packageAvailable (theLib E) existing)))"

section \<open>What it writes\<close>

fun packageCall :: "lib \<Rightarrow> Addon \<Rightarrow> apiCall \<Rightarrow> bool" where
  "packageCall L a (CallCreate (KClusterObjectTemplate x)) = (spec_AddonPackageOperator (Spec a) \<noteq> None \<and>
     ownedBy L a (cot_meta x) \<and> Name (cot_meta x) = Name (addonMeta a))"
| "packageCall L a (CallUpdate (KClusterObjectTemplate x)) = (spec_AddonPackageOperator (Spec a) \<noteq> None \<and>
     ownedBy L a (cot_meta x) \<and> Name (cot_meta x) = Name (addonMeta a))"
| "packageCall L a (CallDelete ClusterObjectTemplateKind key) = (spec_AddonPackageOperator (Spec a) = None \<and>
     key_Name key = Name (addonMeta a))"
| "packageCall L a _ = False"

lemma keeps_extractDestinationNamespace [keeps_rules]: "keeps I (extractDestinationNamespace a)"
  unfolding extractDestinationNamespace_def by (auto split: AddonInstallType.splits intro!: keeps_rules)

lemma tornDown_calls:
  assumes laws: "env_laws E" and P: "\<And>c. packageCall (theLib E) a c \<Longrightarrow> P c"
    and none: "spec_AddonPackageOperator (Spec a) = None"
  shows "keeps (runsFor a P) (ensureClusterObjectTemplateTornDown E)"
  unfolding ensureClusterObjectTemplateTornDown_def getExistingClusterObjectTemplate_def
proof (rule runsFor_getAddon, rule keeps_call_yields [OF yields_get [OF env_lawsD(20) [OF laws]]], goal_cases)
  case (2 b x)
  then have "P (CallDelete ClusterObjectTemplateKind (ObjectKeyFromObject (cot_meta x)))"
    using none by (intro P) (simp add: sameAddon_def)
  then show ?case by (intro keeps_rules)
qed (intro keeps_rules)

lemma template_calls:
  assumes laws: "env_laws E" and P: "\<And>c. packageCall (theLib E) a c \<Longrightarrow> P c"
    and some: "spec_AddonPackageOperator (Spec a) \<noteq> None"
  shows "keeps (runsFor a P) (reconcileClusterObjectTemplate E R)"
  unfolding reconcileClusterObjectTemplate_def Let_def ClusterObjectTemplate.select_convs
proof (rule runsFor_getAddon, intro keeps_bindp keeps_extractDestinationNamespace keeps_if keeps_throw keeps_deref
    keeps_case_sum, goal_cases)
  case (1 b ns po m)
  note set = \<open>SetControllerReference (theLib E) (addonMeta b) (objectMeta '''' (Name (addonMeta b))) = Inr m\<close>
  have owned: "ownedBy (theLib E) a m"
    by (rule ownedBy_new [OF env_lawsD(4) [OF laws] set \<open>sameAddon b a\<close>])
  have name: "Name m = Name (addonMeta a)" "Name (addonMeta b) = Name (addonMeta a)"
    using controller_set_meta(1) [OF env_lawsD(4) [OF laws] set] \<open>sameAddon b a\<close> by (simp_all add: sameAddon_def)
  have create: "P (CallCreate (KClusterObjectTemplate \<lparr>cot_meta = m, cot_Spec = sp, cot_Conditions = []\<rparr>))" for sp
    using owned name some by (intro P) simp
  have update: "P (CallUpdate (KClusterObjectTemplate (x\<lparr>cot_Spec := sp,
      cot_meta := (cot_meta x)\<lparr>OwnerReferences := OwnerReferences m\<rparr>\<rparr>)))"
    if "ObjectKeyFromObject (cot_meta x) = \<lparr>key_Namespace = Namespace (addonMeta b), key_Name = Name (addonMeta b)\<rparr>" for x sp
  proof (rule P)
    have "ownedBy (theLib E) a ((cot_meta x)\<lparr>OwnerReferences := OwnerReferences m\<rparr>)"
      by (subst ownedBy_cong [OF env_lawsD(4) [OF laws], where om' = m]) (simp_all add: owned)
    then show "packageCall (theLib E) a (CallUpdate (KClusterObjectTemplate (x\<lparr>cot_Spec := sp,
        cot_meta := (cot_meta x)\<lparr>OwnerReferences := OwnerReferences m\<rparr>\<rparr>)))"
      using that name some by (simp add: ObjectKeyFromObject_def)
  qed
  have status: "keeps (runsFor a P) (updateAddonStatus E x)" for x
    unfolding updateAddonStatus_def SetAddonUnreadyStatus_def by (intro keeps_rules sameIdentity_pending)
  show ?case
    unfolding getExistingClusterObjectTemplate_def
    by (rule keeps_call_yields [OF yields_get [OF env_lawsD(20) [OF laws]]])
       (intro keeps_rules create update status)+
qed

lemma package_calls:
  assumes "env_laws E" "\<And>c. packageCall (theLib E) a c \<Longrightarrow> P c"
  shows "keeps (runsFor a P) (packageReconcile E R)"
  unfolding packageReconcile_def
  by (intro runsFor_getAddon keeps_if keeps_call keeps_throw keeps_ret tornDown_calls [OF assms] template_calls [OF assms])
     (simp_all add: sameAddon_def)

section \<open>Properties\<close>

text \<open>
  Whatever the API server answers, the package operator reconciler writes nothing but the one
  ClusterObjectTemplate named after the Addon: it creates or updates it, with the Addon as its
  controller, only while the Addon asks for the package operator, and deletes it only when the Addon
  does not.
\<close>

theorem package_reconcile_safe:
  assumes "env_laws E" "st_calls s = []" "packageReconcile E R s = (r, s')"
  shows "list_all (\<lambda>(c, _). packageCall (theLib E) (st_addon s) c) (st_calls s')"
  using keepsD [OF package_calls [OF assms(1)] _ assms(3), of "st_addon s"] assms(2)
  by (simp add: runsOn_def)

lemma updateAddonStatus_run:
  "fst (updateAddonStatus E x s) = Ok ()"
  "packageAvailable (theLib E) x \<Longrightarrow> snd (updateAddonStatus E x s) = s"
  "\<not> packageAvailable (theLib E) x \<Longrightarrow> st_addon (snd (updateAddonStatus E x s)) =
     reportUnreadyClusterObjectTemplate (theLib E) (clock E (st_ticks s)) (st_addon s)"
  by (auto simp: updateAddonStatus_def SetAddonUnreadyStatus_def packageAvailable_def split: option.splits)

lemma template_written:
  assumes laws: "env_laws E" and run: "reconcileClusterObjectTemplate E R s = (Ok res, s')"
    and po: "spec_AddonPackageOperator (Spec (st_addon s)) = Some po"
    and ns: "extractDestinationNamespace (st_addon s) s = (Ok ns, s)"
  defines "wanted \<equiv> \<lambda>x. cot_Spec x = desiredTemplateSpec (theLib E) R (st_addon s) po ns \<and>
    ownedBy (theLib E) (st_addon s) (cot_meta x)"
  shows "res = resultNil \<and>
    ((\<exists>x. wanted x \<and> (recorded (CallCreate (KClusterObjectTemplate x), None) s' \<or>
        recorded (CallUpdate (KClusterObjectTemplate x), None) s')) \<or>
     (\<exists>x s1. getExistingClusterObjectTemplate E (st_addon s) s = (Ok x, s1) \<and> wanted x \<and>
        (\<not> packageAvailable (theLib E) x \<longrightarrow> st_addon s' =
          reportUnreadyClusterObjectTemplate (theLib E) (clock E (st_ticks s1)) (st_addon s1))))"
proof -
  let ?get = "getExistingClusterObjectTemplate E (st_addon s)"
  obtain m where m: "SetControllerReference (theLib E) (addonMeta (st_addon s))
      (objectMeta '''' (Name (addonMeta (st_addon s)))) = Inr m"
    using run by (auto simp: reconcileClusterObjectTemplate_def ns po split: if_splits sum.splits)
  have owned: "ownedBy (theLib E) (st_addon s) m"
    by (rule ownedBy_new [OF env_lawsD(4) [OF laws] m]) (simp add: sameAddon_def)
  note run = run [unfolded reconcileClusterObjectTemplate_def, simplified ns po m Let_def, simplified]
  show ?thesis
  proof (cases "?get s")
    case (Pair r s1)
    consider (err) e where "r = Err e" | (ok) x where "r = Ok x"
      using run Pair by (cases r) (auto simp: ns po m Let_def split: if_splits)
    then show ?thesis
    proof cases
      case err
      let ?x = "\<lparr>cot_meta = m, cot_Spec = desiredTemplateSpec (theLib E) R (st_addon s) po ns, cot_Conditions = []\<rparr>"
      from run Pair err have "recorded (CallCreate (KClusterObjectTemplate ?x), None) s' \<and> res = resultNil"
        by (auto simp: ns po m Let_def call_ok split: if_splits intro: write_recorded)
      moreover have "wanted ?x" by (simp add: wanted_def owned)
      ultimately show ?thesis by blast
    next
      case (ok x)
      let ?u = "x\<lparr>cot_Spec := desiredTemplateSpec (theLib E) R (st_addon s) po ns,
        cot_meta := (cot_meta x)\<lparr>OwnerReferences := OwnerReferences m\<rparr>\<rparr>"
      have u: "wanted ?u"
        using owned ownedBy_cong [OF env_lawsD(4) [OF laws], of "cot_meta ?u" m] by (simp add: wanted_def)
      show ?thesis
      proof (cases "cot_Spec x = desiredTemplateSpec (theLib E) R (st_addon s) po ns \<and>
          HasSameController (theLib E) (cot_meta x) m")
        case True
        then have "wanted x"
          using owned by (auto simp: wanted_def HasSameController_iff ownedBy_def)
        moreover have "res = resultNil" "s' = snd (updateAddonStatus E x s1)"
          using run Pair ok True updateAddonStatus_run(1) [of E x s1]
          by (auto simp: ns po m Let_def bindp_ok env_lawsD(3) [OF laws] split: if_splits)
        ultimately show ?thesis
          using Pair ok updateAddonStatus_run(3) [of E x s1] by blast
      next
        case False
        with run Pair ok have "recorded (CallUpdate (KClusterObjectTemplate ?u), None) s' \<and> res = resultNil"
          by (auto simp: ns po m Let_def call_ok env_lawsD(3) [OF laws] split: if_splits intro: write_recorded)
        with u show ?thesis by blast
      qed
    qed
  qed
qed

lemma extractDestinationNamespace_state: "snd (extractDestinationNamespace a s) = s"
  using keepsD [OF keeps_extractDestinationNamespace [of "\<lambda>x. x = s" a] refl prod.collapse [symmetric]] .

text \<open>
  C22: When the Addon asks for the package operator and its reconciler returns without an error, it
  never blocks the sub-reconcilers after it, and a ClusterObjectTemplate with the Addon as its
  controller and the wanted package and secrets as its specification was written, or was already
  there; in the latter case the Addon is reported as pending unless the template says, for its current
  generation, that the package is available.
\<close>

theorem package_template_wanted:
  assumes "env_laws E" "packageReconcile E R s = (Ok res, s')"
    and "spec_AddonPackageOperator (Spec (st_addon s)) = Some po"
  shows "res = resultNil \<and> (\<exists>ns. fst (extractDestinationNamespace (st_addon s) s) = Ok ns \<and>
    (let wanted = (\<lambda>x. cot_Spec x = desiredTemplateSpec (theLib E) R (st_addon s) po ns \<and>
       ownedBy (theLib E) (st_addon s) (cot_meta x)) in
     (\<exists>x. wanted x \<and> (recorded (CallCreate (KClusterObjectTemplate x), None) s' \<or>
        recorded (CallUpdate (KClusterObjectTemplate x), None) s')) \<or>
     (\<exists>x s1. getExistingClusterObjectTemplate E (st_addon s) s = (Ok x, s1) \<and> wanted x \<and>
        (\<not> packageAvailable (theLib E) x \<longrightarrow> st_addon s' =
          reportUnreadyClusterObjectTemplate (theLib E) (clock E (st_ticks s1)) (st_addon s1)))))"
proof -
  have run: "reconcileClusterObjectTemplate E R s = (Ok res, s')"
    using assms(2,3) by (simp add: packageReconcile_def)
  then obtain ns where ns: "extractDestinationNamespace (st_addon s) s = (Ok ns, s)"
    using extractDestinationNamespace_state [of "st_addon s" s]
    by (cases "extractDestinationNamespace (st_addon s) s")
       (auto simp: reconcileClusterObjectTemplate_def bindp_ok)
  from template_written [OF assms(1) run assms(3) ns] show ?thesis
    by (simp add: ns Let_def)
qed

section \<open>Witnesses\<close>

definition packageAddon :: Addon where
  "packageAddon = refAddon\<lparr>Spec := refSpec\<lparr>spec_AddonPackageOperator := Some \<lparr>po_Image = ''img''\<rparr>\<rparr>\<rparr>"

definition refPackage :: PackageOperatorReconciler where
  "refPackage = \<lparr>po_ClusterID = ''c1'', po_OcmClusterInfo = \<lparr>oci_ID = ''o1'', oci_Name = ''cluster''\<rparr>\<rparr>"

lemmas package_eval = packageReconcile_def reconcileClusterObjectTemplate_def extractDestinationNamespace_def
  getExistingClusterObjectTemplate_def setController_def controllerRef_def prog_defs ref_eval ref_objects Let_def
  packageAddon_def

lemma package_run:
  "fst (packageReconcile (refEnv emptyStock) refPackage (refState packageAddon)) = Ok resultNil"
  "length (st_calls (snd (packageReconcile (refEnv emptyStock) refPackage (refState packageAddon)))) = 1"
  by (simp_all add: package_eval)

theorem package_reconcile_safe_witness:
  "list_all (\<lambda>(c, _). packageCall refLib packageAddon c)
     (st_calls (snd (packageReconcile (refEnv emptyStock) refPackage (refState packageAddon)))) \<and>
   length (st_calls (snd (packageReconcile (refEnv emptyStock) refPackage (refState packageAddon)))) = 1"
  using package_reconcile_safe [OF refEnv_laws _ prod.collapse [symmetric], of "refState packageAddon" emptyStock]
    package_run(2) by simp

theorem package_template_wanted_witness:
  "\<exists>x s'. packageReconcile (refEnv emptyStock) refPackage (refState packageAddon) = (Ok resultNil, s') \<and>
     cot_Spec x = desiredTemplateSpec refLib refPackage packageAddon \<lparr>po_Image = ''img''\<rparr> ''ns'' \<and>
     (recorded (CallCreate (KClusterObjectTemplate x), None) s' \<or>
      recorded (CallUpdate (KClusterObjectTemplate x), None) s')"
proof -
  let ?E = "refEnv emptyStock" and ?s = "refState packageAddon"
  obtain s' where run: "packageReconcile ?E refPackage ?s = (Ok resultNil, s')"
    using package_run(1) by (metis prod.collapse)
  have po: "spec_AddonPackageOperator (Spec (st_addon ?s)) = Some \<lparr>po_Image = ''img''\<rparr>"
    by (simp add: packageAddon_def)
  have ns: "fst (extractDestinationNamespace packageAddon ?s) = Ok ''ns''"
    by (simp add: package_eval)
  have miss: "getExistingClusterObjectTemplate ?E packageAddon ?s \<noteq> (Ok x, s1)" for x s1
    by (simp add: package_eval)
  from package_template_wanted [OF refEnv_laws run po] show ?thesis
    using miss run by (auto simp: ns Let_def)
qed

end
