(* ===== verification/Sub_Reconcilers.thy ===== *)
theory Sub_Reconcilers
  imports Deletion Namespaces Secret_Propagation Instance_Reconciler Olm_Reconciler
    Monitoring_Federation Monitoring_Stack Package_Operator
begin

text \<open>
  The contract the Addon controller relies on for every sub-reconciler, as a locale: whatever the API
  server answers, a run makes only the calls the sub-reconciler declares for the Addon, leaves the
  identity and the specification of the Addon alone, and never makes an unavailable Addon available.
  The locale is interpreted for all eight sub-reconcilers; the controller's theorems use only the
  contract.
\<close>

section \<open>The contract\<close>

text \<open>Two versions of one Addon: same name, same UID, same specification.\<close>

definition sameRef :: "Addon \<Rightarrow> Addon \<Rightarrow> bool" where
  "sameRef b a \<longleftrightarrow> Name (addonMeta b) = Name (addonMeta a) \<and> UID (addonMeta b) = UID (addonMeta a) \<and> Spec b = Spec a"

definition refInv :: "Addon \<Rightarrow> (apiCall \<Rightarrow> bool) \<Rightarrow> 'w st \<Rightarrow> bool" where
  "refInv a P s \<longleftrightarrow> sameRef (st_addon s) a \<and> list_all (\<lambda>(c, _). P c) (st_calls s)"

abbreviation unavailable :: "lib \<Rightarrow> Addon \<Rightarrow> bool" where
  "unavailable L a \<equiv> \<not> IsAvailable L a"

locale sub_reconciler =
  fixes run :: "'w Env \<Rightarrow> ('w st, subReconcilerResult) prog"
    and callOf :: "'w Env \<Rightarrow> Addon \<Rightarrow> apiCall \<Rightarrow> bool"
  assumes calls: "env_laws E \<Longrightarrow> (\<And>c. callOf E a c \<Longrightarrow> P c) \<Longrightarrow> keeps (runsFor a P) (run E)"
    and same_calls: "sameRef b a \<Longrightarrow> callOf E b c = callOf E a c"
    and stays_unavailable: "condition_laws (theLib E) \<Longrightarrow>
      keeps (runInv (unavailable (theLib E)) (\<lambda>_. True)) (run E)"
begin

text \<open>The calls and the Addon, for any version of the Addon.\<close>

lemma run_refInv:
  assumes "env_laws E" "\<And>c. callOf E a c \<Longrightarrow> P c"
  shows "keeps (refInv a P) (run E)"
proof (rule keepsI)
  fix s r s' assume inv: "refInv a P s" and run: "run E s = (r, s')"
  then have ref: "sameRef (st_addon s) a" by (simp add: refInv_def)
  have "keeps (runsFor (st_addon s) P) (run E)"
    by (rule calls [OF assms(1)]) (simp add: same_calls [OF ref] assms(2))
  from keepsD [OF this _ run] inv show "refInv a P s'"
    by (simp add: runsOn_def refInv_def sameRef_def)
qed

lemma run_unavailable:
  assumes "condition_laws (theLib E)" "run E s = (r, s')" "unavailable (theLib E) (st_addon s)"
  shows "unavailable (theLib E) (st_addon s')"
  using keepsD [OF stays_unavailable [OF assms(1)] _ assms(2)] assms(3) by (simp add: runInv_def)

end

section \<open>Reports never make an Addon available\<close>

lemma findCondition_csv [simp]:
  "findCondition L t (a\<lparr>Status := (Status a)\<lparr>LastObservedAvailableCSV := csv\<rparr>\<rparr>) = findCondition L t a"
  by (simp add: findCondition_def)

lemma stable_unavailable:
  assumes "condition_laws L"
  shows "stable (unavailable L) (reportPendingStatus L reason msg t)"
    "stable (unavailable L) (reportConfigurationError L msg t)"
    "stable (unavailable L) (reportAddonReadyToBeDeletedStatus L value t)"
    "stable (unavailable L) (reportAddonDeletionTimedOut L t)"
    "stable (unavailable L) (removeDeleteTimeoutCondition L)"
    "stable (unavailable L) (reportUninstalledCondition L t)"
    "stable (unavailable L) (reportInstalledCondition L t)"
    "stable (unavailable L) (reportAddonUpgradeSucceeded L t)"
    "stable (unavailable L) (reportCSVNotLinked L t)"
    "stable (unavailable L) (reportLastObservedAvailableCSV csv)"
    "stable (unavailable L) (reportInstalledConditionFalse L t)"
    "stable (unavailable L) (reportAddonUpgradeStarted L t)"
    "stable (unavailable L) (reportAddonPauseStatus L reason t)"
    "stable (unavailable L) (removeAddonPauseCondition L)"
    "stable (unavailable L) (reportTerminationStatus L t)"
    "stable (unavailable L) reportObservedVersion"
  using assms
  by (simp_all add: stable_def IsAvailable_iff report_defs removeDeleteTimeoutCondition_def reportCSVNotLinked_def Let_def
      pending_unavailable config_error_unavailable)

lemma stable_pending:
  assumes "condition_laws L"
  shows "stable (unavailable L) (reportUnreadyNamespaces L names t)"
    "stable (unavailable L) (reportUnreadyMonitoringFederation L msg t)"
    "stable (unavailable L) (reportUnreadyMonitoringStack L msg t)"
    "stable (unavailable L) (reportUnreadyClusterObjectTemplate L t)"
  by (simp_all add: pending_defs stable_unavailable [OF assms])

section \<open>The eight sub-reconcilers\<close>

lemma deletion_unavailable:
  assumes "condition_laws (theLib E)"
  shows "keeps (runInv (unavailable (theLib E)) (\<lambda>_. True)) (deletionReconcile E (deletionHandlers E))"
proof -
  let ?I = "runInv (unavailable (theLib E)) (\<lambda>_. True)"
  note stable = stable_unavailable [OF assms]
  have handler: "keeps ?I m" if "\<And>a n. keeps (quiet a n (\<lambda>_. True)) m" for m :: "('a st, 'b) prog"
    by (rule keepsI) (use quiet_addon [OF that] in \<open>fastforce simp: runInv_def\<close>)
  have ready: "keeps ?I (readyToBeDeleted E)" and after: "keeps ?I (afterHandlers E)"
    unfolding readyToBeDeleted_def afterHandlers_def deletionTimedOut_def
    by (intro keeps_rules runInv_modify_addon stable)+
  have handlers: "keeps ?I (runHandlers E hs)" if "list_all goodHandler hs" for hs
    using that
  proof (induction hs)
    case (Cons h hs)
    then have h: "deletion_handler (NotifyAddon h) (AckReceivedFromAddon h) notifyCall"
      by (simp add: goodHandler_def)
    have "keeps ?I (NotifyAddon h)" "keeps ?I (AckReceivedFromAddon h)"
      by (rule handler, rule deletion_handler.notify_quiet [OF h], rule TrueI)
         (rule handler, rule deletion_handler.ack_quiet [OF h])
    with Cons ready show ?case by (simp add: keeps_call keeps_if keeps_throw)
  qed (simp add: after)
  show ?thesis
    unfolding deletionReconcile_def by (intro keeps_rules stable ready handlers good_handlers)
qed

lemma namespace_unavailable:
  assumes "condition_laws (theLib E)"
  shows "keeps (runInv (unavailable (theLib E)) (\<lambda>_. True)) (namespaceReconcile E)"
proof -
  let ?I = "runInv (unavailable (theLib E)) (\<lambda>_. True)"
  have each: "keeps ?I (ensureEach E ns unready)" for ns unready
    by (induction ns arbitrary: unready)
       (auto simp: ensureNamespace_def reconcileNamespace_def Let_def intro!: keeps_rules)
  have delete: "keeps ?I (deleteUnwanted E wanted ns)" for wanted ns
    by (induction ns) (auto simp: ensureNamespaceDeletion_def intro!: keeps_rules)
  show ?thesis
    unfolding namespaceReconcile_def ensureWantedNamespaces_def ensureDeletionOfUnwantedNamespaces_def
      getOwnedNamespacesViaCommonLabels_def
    by (intro keeps_rules each delete stable_pending [OF assms])
qed

lemma instance_unavailable:
  assumes "condition_laws (theLib E)"
  shows "keeps (runInv (unavailable (theLib E)) (\<lambda>_. True)) (instanceReconcile E)"
  unfolding instanceReconcile_def ensureAddonInstance_def reconcileAddonInstance_def Let_def
  by (intro keeps_rules stable_unavailable [OF assms] admits_any)

lemma package_unavailable:
  assumes "condition_laws (theLib E)"
  shows "keeps (runInv (unavailable (theLib E)) (\<lambda>_. True)) (packageReconcile E R)"
  unfolding packageReconcile_def ensureClusterObjectTemplateTornDown_def reconcileClusterObjectTemplate_def
    getExistingClusterObjectTemplate_def updateAddonStatus_def SetAddonUnreadyStatus_def Let_def
  by (intro keeps_rules stable_pending [OF assms] admits_any)

lemma stack_unavailable:
  assumes "condition_laws (theLib E)"
  shows "keeps (runInv (unavailable (theLib E)) (\<lambda>_. True)) (stackReconcile E)"
  unfolding stackReconcile_def ensureMonitoringStack_def getDesiredMonitoringStack_def reconcileMonitoringStack_def
    propagateMonitoringStackStatusToAddon_def Let_def
  by (intro keeps_rules stable_pending [OF assms] stable_unavailable [OF assms] admits_any)

lemma secret_unavailable:
  assumes "condition_laws (theLib E)"
  shows "keeps (runInv (unavailable (theLib E)) (\<lambda>_. True)) (secretReconcile E)"
proof -
  let ?I = "runInv (unavailable (theLib E)) (\<lambda>_. True)"
  have ref: "keeps ?I (getReferencedSecret E key)" for key
    unfolding getReferencedSecret_def by (intro keeps_rules stable_unavailable [OF assms] admits_any)
  have build: "keeps ?I (buildDestinationSecrets E refs acc)" for refs acc
  proof (induction refs arbitrary: acc)
    case (Cons x refs)
    show ?case unfolding buildDestinationSecrets.simps by (intro keeps_rules ref Cons.IH)
  qed (simp add: keeps_ret)
  have one: "keeps ?I (reconcileSecret E x)" for x
    unfolding reconcileSecret_def Let_def by (intro keeps_rules admits_any)
  have copy: "keeps ?I (copySecret E x ns ks)" for x ns ks
  proof (induction ns arbitrary: ks)
    case (Cons n ns)
    show ?case unfolding copySecret.simps Let_def by (intro keeps_rules one Cons.IH)
  qed (simp add: keeps_ret)
  have copies: "keeps ?I (copySecrets E xs ns ks)" for xs ns ks
    by (induction xs arbitrary: ks) (simp_all add: keeps_ret keeps_bindp copy)
  have delete: "keeps ?I (deleteUnknown E ks xs)" for ks xs
    by (induction xs) (auto intro!: keeps_rules)
  show ?thesis
    unfolding secretReconcile_def getDestinationSecretsWithoutNamespace_def reconcileSecretsInAddonNamespaces_def
      cleanupUnknownSecrets_def
    by (intro keeps_rules build copies delete)
qed

lemma federation_unavailable:
  assumes "condition_laws (theLib E)"
  shows "keeps (runInv (unavailable (theLib E)) (\<lambda>_. True)) (federationReconcile E)"
proof -
  let ?I = "runInv (unavailable (theLib E)) (\<lambda>_. True)"
  have ns: "keeps ?I (ensureMonitoringNamespace E)"
    unfolding ensureMonitoringNamespace_def actualMonitoringNamespace_def Let_def
    by (intro keeps_rules stable_pending [OF assms] admits_any)
  have of: "keeps ?I (federationOf a)" for a
    unfolding federationOf_def by (intro keeps_rules)
  have token: "keeps ?I (reconcileBearerTokenSecretForAddon E)"
    unfolding reconcileBearerTokenSecretForAddon_def Let_def by (intro keeps_rules of admits_any)
  have monitor: "keeps ?I (reconcileServiceMonitor E)"
    unfolding reconcileServiceMonitor_def desiredServiceMonitor_def actualServiceMonitor_def Let_def
    by (intro keeps_rules of token admits_any)
  have delete: "keeps ?I (deleteUnwantedMonitors E wanted xs)" for wanted xs
    by (induction xs) (auto simp: ignoringNotFound_def intro!: keeps_rules)
  show ?thesis
    unfolding federationReconcile_def ensureMonitoringFederation_def ensureDeletionOfUnwantedMonitoringFederation_def
      getOwnedServiceMonitorsViaCommonLabels_def ensureNamespaceDeletion_def
    by (intro keeps_rules ns monitor delete admits_any)
qed

lemma olm_unavailable:
  assumes "condition_laws (theLib E)"
  shows "keeps (runInv (unavailable (theLib E)) (\<lambda>_. True)) (olmReconcile E)"
proof -
  note stable = stable_unavailable [OF assms]
  have "unready_stable (theLib E) (unavailable (theLib E))"
    by (simp add: unready_stable_def stable)
  then show ?thesis
    unfolding olmReconcile_def
    by (intro keeps_rules phase1_inv phase2_inv phase3_inv phase4_inv phase5_inv phase6_inv stable admits_any
        runInv_modify_addon)
qed

section \<open>The declared calls depend on the identity and the specification only\<close>

lemma sameRef_cong:
  assumes "sameRef b a"
  shows "ownedMeta L b om = ownedMeta L a om" "ownedBy L b om = ownedBy L a om"
    "CommonLabelsAsLabelSelector b = CommonLabelsAsLabelSelector a"
    "GetMonitoringNamespaceName b = GetMonitoringNamespaceName a"
    "GetMonitoringFederationServiceMonitorName b = GetMonitoringFederationServiceMonitorName a"
    "bearerTokenName b = bearerTokenName a" "HasMonitoringFederation b = HasMonitoringFederation a"
    "wantedServiceMonitorName b = wantedServiceMonitorName a" "wantedNamespaceNames b = wantedNamespaceNames a"
    "HasMonitoringStack b = HasMonitoringStack a" "secretRefs b = secretRefs a" "destinationKeys b = destinationKeys a"
    "CatalogSourceName b = CatalogSourceName a" "SubscriptionName b = SubscriptionName a"
    "getCatalogSourceNetworkPolicyName b = getCatalogSourceNetworkPolicyName a"
    "Name (addonMeta b) = Name (addonMeta a)" "Spec b = Spec a"
  using assms
  by (simp_all add: sameRef_def ownedMeta_def ownedBy_def CommonLabelsAsLabelSelector_def GetMonitoringNamespaceName_def
      GetMonitoringFederationServiceMonitorName_def bearerTokenName_def HasMonitoringFederation_def
      wantedServiceMonitorName_def wantedNamespaceNames_def HasMonitoringStack_def secretRefs_def destinationKeys_def
      CatalogSourceName_def SubscriptionName_def getCatalogSourceNetworkPolicyName_def)

lemma sameRef_install: "sameRef b a \<Longrightarrow> GetInstallOLMCommon b = GetInstallOLMCommon a"
  unfolding GetInstallOLMCommon_def sameRef_def by (elim conjE) (simp only:)

lemma namespaceCall_ref: "sameRef b a \<Longrightarrow> namespaceCall L b c = namespaceCall L a c"
  by (cases "(L, a, c)" rule: namespaceCall.cases) (simp_all add: sameRef_cong)

lemma secretCall_ref: "sameRef b a \<Longrightarrow> secretCall E b c = secretCall E a c"
  by (cases "(E, a, c)" rule: secretCall.cases) (simp_all add: sameRef_cong)

lemma instanceCall_ref: "sameRef b a \<Longrightarrow> instanceCall E b c = instanceCall E a c"
  by (cases "(E, a, c)" rule: instanceCall.cases) (simp_all add: sameRef_cong instanceObject_def)

lemma olmCall_ref: "sameRef b a \<Longrightarrow> olmCall L b c = olmCall L a c"
proof -
  assume ref: "sameRef b a"
  have "olmWrite L b x = olmWrite L a x" for x
    by (cases "(L, a, x)" rule: olmWrite.cases)
       (simp_all add: sameRef_cong [OF ref] sameRef_install [OF ref] olmObject_def sourceNames_def split: sum.splits)
  then show ?thesis by (cases "(L, a, c)" rule: olmCall.cases) simp_all
qed

lemma federationCall_ref: "sameRef b a \<Longrightarrow> federationCall L b c = federationCall L a c"
proof -
  assume ref: "sameRef b a"
  have "federationWrite L b x = federationWrite L a x" for x
    by (cases "(L, a, x)" rule: federationWrite.cases) (simp_all add: sameRef_cong [OF ref])
  then show ?thesis by (cases "(L, a, c)" rule: federationCall.cases) (simp_all add: sameRef_cong [OF ref])
qed

lemma stackCall_ref: "sameRef b a \<Longrightarrow> stackCall L b c = stackCall L a c"
  by (cases "(L, a, c)" rule: stackCall.cases) (simp_all add: sameRef_cong stackObject_def)

lemma packageCall_ref: "sameRef b a \<Longrightarrow> packageCall L b c = packageCall L a c"
  by (cases "(L, a, c)" rule: packageCall.cases) (simp_all add: sameRef_cong)

section \<open>Every sub-reconciler keeps the contract\<close>

interpretation deletion_sub: sub_reconciler "\<lambda>E. deletionReconcile E (deletionHandlers E)" "\<lambda>E a. notifyCall"
  by unfold_locales (auto intro: deletion_runsOn deletion_unavailable)

interpretation namespace_sub: sub_reconciler namespaceReconcile "\<lambda>E. namespaceCall (theLib E)"
  by unfold_locales (fact namespace_calls namespaceCall_ref namespace_unavailable)+

interpretation package_sub: sub_reconciler "\<lambda>E. packageReconcile E R" "\<lambda>E. packageCall (theLib E)" for R
  by unfold_locales (fact package_calls packageCall_ref package_unavailable)+

interpretation secret_sub: sub_reconciler secretReconcile secretCall
  by unfold_locales (fact secret_calls secretCall_ref secret_unavailable)+

interpretation instance_sub: sub_reconciler instanceReconcile instanceCall
  by unfold_locales (fact instance_calls instanceCall_ref instance_unavailable)+

interpretation olm_sub: sub_reconciler olmReconcile "\<lambda>E. olmCall (theLib E)"
  by unfold_locales (fact olm_calls olmCall_ref olm_unavailable)+

interpretation federation_sub: sub_reconciler federationReconcile "\<lambda>E. federationCall (theLib E)"
  by unfold_locales (fact federation_calls federationCall_ref federation_unavailable)+

interpretation stack_sub: sub_reconciler stackReconcile "\<lambda>E. stackCall (theLib E)"
  by unfold_locales (fact stack_calls stackCall_ref stack_unavailable)+

end
