(* ===== verification/Ocm_Reporting.thy ===== *)
theory Ocm_Reporting
  imports Addon_Status Ref_Cluster
begin

text \<open>
  What the Addon controller reports to the OCM API: the state of an upgrade
  (\<open>upgradepolicy_status.go\<close>) and the conditions of the Addon (\<open>status_reporting.go\<close>). The OCM client
  is the interface \<open>ocmClient\<close> of \<open>addon_controller.go\<close>: its answers are parameters of the model; each
  report that is sent is recorded with the other writes in \<open>st_calls\<close>. The client is one value during a
  report (\<open>ocmClientMux\<close>).
\<close>

section \<open>The client and the settings\<close>

record UpgradePolicyGetResponse =
  upg_Value :: UpgradePolicyValue
  upg_Description :: string

record AddOnStatusResponse =
  asr_Kind :: string
  asr_AddonID :: string
  asr_CorrelationID :: string
  asr_AddonVersion :: string
  asr_StatusConditions :: "AddOnStatusCondition list"

text \<open>The methods of the interface that the controller calls.\<close>

record 'w ocmClient =
  GetClusterIDAndName :: "string \<times> string"
  PatchUpgradePolicy :: "UpgradePolicyPatchRequest \<Rightarrow> 'w \<Rightarrow> (error + unit) \<times> 'w"
  GetUpgradePolicy :: "string \<Rightarrow> 'w \<Rightarrow> (error + UpgradePolicyGetResponse) \<times> 'w"
  PostAddOnStatus :: "AddOnStatusPostRequest \<Rightarrow> 'w \<Rightarrow> (error + AddOnStatusResponse) \<times> 'w"

text \<open>The part of \<open>AddonReconciler\<close> the reports read; \<open>None\<close> is the nil client.\<close>

record 'w reporter =
  statusReportingEnabled :: bool
  upgradePolicyStatusEnabled :: bool
  theOcmClient :: "'w ocmClient option"

section \<open>Upgrade policies\<close>

text \<open>The observation is deferred: it happens whatever the request does.\<close>

definition recordOCMRequestDuration :: "('w st, 'a) prog \<Rightarrow> ('w st, 'a) prog" where
  "recordOCMRequestDuration req = (\<lambda>s. case req s of (r, s') \<Rightarrow>
     (r, s'\<lparr>st_recorder := map_option RecordOCMAPIRequests (st_recorder s')\<rparr>))"

definition handlePatchUpgradePolicy :: "'w ocmClient \<Rightarrow> UpgradePolicyPatchRequest \<Rightarrow> ('w st, unit) prog" where
  "handlePatchUpgradePolicy c req =
     recordOCMRequestDuration (apiWrite (CallPatchUpgradePolicy req) (PatchUpgradePolicy c req))"

definition handleGetUpgradePolicyState :: "'w ocmClient \<Rightarrow> string \<Rightarrow> ('w st, UpgradePolicyGetResponse) prog" where
  "handleGetUpgradePolicyState c policyID = recordOCMRequestDuration (apiRead (GetUpgradePolicy c policyID))"

definition squoted :: "string \<Rightarrow> string" where
  "squoted s = [CHR 0x27] @ s @ [CHR 0x27]"

definition getPreviousUpgradePolicyStateValue :: "'w ocmClient \<Rightarrow> string \<Rightarrow> ('w st, UpgradePolicyValue) prog" where
  "getPreviousUpgradePolicyStateValue c policyID = call (handleGetUpgradePolicyState c policyID)
     (\<lambda>err. throw (Wrap (''getting UpgradePolicy '' @ quoted policyID @ '' state'') err))
     (\<lambda>res. ret (upg_Value res))"

text \<open>\<open>addon.SetUpgradePolicyStatus(val)\<close>.\<close>

definition storeUpgradePolicyStatus :: "AddonUpgradePolicyValue \<Rightarrow> ('w st, unit) prog" where
  "storeUpgradePolicyStatus val = bindp getAddon (\<lambda>addon.
     bindp (deref (SetUpgradePolicyStatus val addon)) (\<lambda>a. modify (\<lambda>s. s\<lparr>st_addon := a\<rparr>)))"

definition reportUpgradeStarted :: "'w ocmClient \<Rightarrow> ('w st, unit) prog" where
  "reportUpgradeStarted c = bindp getAddon (\<lambda>addon.
     bindp (deref (UpgradePolicy (Spec addon))) (\<lambda>policy.
     let policyID = up_ID policy; version = Version (Spec addon);
         req = \<lparr>upp_ID = policyID, upp_Value = UpgradePolicyValueStarted,
           upp_Description = ''Upgrading addon to version '' @ quoted version @ ''.''\<rparr>
     in call (handlePatchUpgradePolicy c req)
          (\<lambda>err. throw (Wrap (''patching UpgradePolicy '' @ quoted policyID @ '' at version '' @ quoted version @
             '' as '' @ squoted ''Started'') err))
          (\<lambda>_. storeUpgradePolicyStatus AddonUpgradePolicyValueStarted)))"

definition reportUpgradeCompleted :: "'w ocmClient \<Rightarrow> ('w st, unit) prog" where
  "reportUpgradeCompleted c = bindp getAddon (\<lambda>addon.
     bindp (deref (UpgradePolicy (Spec addon))) (\<lambda>policy.
     let policyID = up_ID policy; version = Version (Spec addon);
         req = \<lparr>upp_ID = policyID, upp_Value = UpgradePolicyValueCompleted,
           upp_Description = ''Addon was healthy at least once at version '' @ quoted version @ ''.''\<rparr>
     in call (handlePatchUpgradePolicy c req)
          (\<lambda>err. throw (Wrap (''patching UpgradePolicy '' @ quoted policyID @ '' at version '' @ quoted version @
             '' to '' @ squoted ''Completed'') err))
          (\<lambda>_. storeUpgradePolicyStatus AddonUpgradePolicyValueCompleted)))"

definition requiresReporting :: "Addon \<Rightarrow> bool" where
  "requiresReporting addon \<longleftrightarrow> Version (Spec addon) \<noteq> '''' \<and> UpgradePolicy (Spec addon) \<noteq> None \<and>
     \<not> UpgradeCompleteForCurrentVersion addon"

text \<open>The decision once the previous state is known.\<close>

definition reportUpgrade :: "lib \<Rightarrow> 'w ocmClient \<Rightarrow> UpgradePolicyValue \<Rightarrow> ('w st, unit) prog" where
  "reportUpgrade L c stateVal = bindp getAddon (\<lambda>addon.
     case status_UpgradePolicy (Status addon) of
       None \<Rightarrow> reportUpgradeStarted c
     | Some up \<Rightarrow>
         if ups_Version up = '''' \<and>
            (stateVal = UpgradePolicyValueCompleted \<or> stateVal = UpgradePolicyValuePending)
         then storeUpgradePolicyStatus AddonUpgradePolicyValueCompleted
         else if ups_Version up \<noteq> Version (Spec addon) then reportUpgradeStarted c
         else if IsAvailable L addon
         then bindp (if stateVal = UpgradePolicyValueScheduled
                     then call (reportUpgradeStarted c)
                       (\<lambda>err. throw (Wrap ''reporting upgrade as started'' err)) ret
                     else ret ())
                (\<lambda>_. reportUpgradeCompleted c)
         else ret ())"

definition handleUpgradePolicyStatusReporting :: "lib \<Rightarrow> ('w, 'x) reporter_scheme \<Rightarrow> ('w st, unit) prog" where
  "handleUpgradePolicyStatusReporting L r = bindp getAddon (\<lambda>addon.
     if \<not> requiresReporting addon \<or> \<not> upgradePolicyStatusEnabled r then ret ()
     else case theOcmClient r of
       None \<Rightarrow> ret ()
     | Some c \<Rightarrow> bindp (deref (UpgradePolicy (Spec addon))) (\<lambda>policy.
         call (getPreviousUpgradePolicyStateValue c (up_ID policy))
           (\<lambda>err. throw (Wrap ''getting previous UpgradePolicy state value'' err))
           (reportUpgrade L c)))"

section \<open>Status reports\<close>

definition recordAddonServiceRequestDuration :: "('w st, 'a) prog \<Rightarrow> ('w st, 'a) prog" where
  "recordAddonServiceRequestDuration req = (\<lambda>s. case req s of (r, s') \<Rightarrow>
     (r, s'\<lparr>st_recorder := map_option RecordAddonServiceAPIRequests (st_recorder s')\<rparr>))"

definition statusPayload :: "Addon \<Rightarrow> AddOnStatusPostRequest" where
  "statusPayload addon = \<lparr>asp_AddonID = Name (addonMeta addon), asp_CorrelationID = CorrelationID (Spec addon),
     asp_AddonVersion = Version (Spec addon),
     asp_StatusConditions = mapToAddonStatusConditions (Conditions (Status addon))\<rparr>"

definition postAddonStatus :: "'w ocmClient \<Rightarrow> ('w st, unit) prog" where
  "postAddonStatus c = bindp getAddon (\<lambda>addon.
     bindp (recordAddonServiceRequestDuration
       (apiWrite (CallPostAddOnStatus (statusPayload addon)) (PostAddOnStatus c (statusPayload addon)))) (\<lambda>_. ret ()))"

definition isCurrentStatusDifferentFromPrevious :: "lib \<Rightarrow> Addon \<Rightarrow> bool" where
  "isCurrentStatusDifferentFromPrevious L addon =
     (case OCMReportedStatusHash (Status addon) of
        Some h \<Rightarrow> StatusHash h \<noteq> HashCurrentAddonStatus L addon
      | None \<Rightarrow> True)"

definition statusReportingRequired :: "lib \<Rightarrow> ('w, 'x) reporter_scheme \<Rightarrow> Addon \<Rightarrow> bool" where
  "statusReportingRequired L r addon \<longleftrightarrow> statusReportingEnabled r \<and> isCurrentStatusDifferentFromPrevious L addon"

definition setLastReportedStatus :: "lib \<Rightarrow> Addon \<Rightarrow> Addon" where
  "setLastReportedStatus L addon = addon\<lparr>Status := (Status addon)\<lparr>OCMReportedStatusHash := Some
     \<lparr>StatusHash = HashCurrentAddonStatus L addon, hash_ObservedGeneration = Generation (addonMeta addon)\<rparr>\<rparr>\<rparr>"

definition handleOCMAddOnStatusReporting :: "lib \<Rightarrow> ('w, 'x) reporter_scheme \<Rightarrow> ('w st, unit) prog" where
  "handleOCMAddOnStatusReporting L r = bindp getAddon (\<lambda>addon.
     if \<not> statusReportingRequired L r addon then ret ()
     else case theOcmClient r of
       None \<Rightarrow> ret ()
     | Some c \<Rightarrow> bindp (postAddonStatus c) (\<lambda>_.
         modify (\<lambda>s. s\<lparr>st_addon := setLastReportedStatus L (st_addon s)\<rparr>)))"

section \<open>Upgrade reports\<close>

text \<open>A report that is sent: the request goes on record, and the Addon's status follows if it was accepted.\<close>

definition sentPolicy :: "UpgradePolicyValue \<Rightarrow> AddonUpgradePolicyValue \<Rightarrow> 'w st \<Rightarrow> unit outcome \<Rightarrow> 'w st \<Rightarrow> bool" where
  "sentPolicy v val s r s' \<longleftrightarrow> (\<exists>req e. upp_Value req = v \<and>
     st_calls s' = st_calls s @ [(CallPatchUpgradePolicy req, e)] \<and>
     (if e = None then r = Ok () \<and> SetUpgradePolicyStatus val (st_addon s) = Some (st_addon s')
      else (\<exists>err. r = Err err) \<and> st_addon s' = st_addon s))"

lemma patch_then_store:
  assumes "UpgradePolicy (Spec (st_addon s)) = Some p"
    and "call (handlePatchUpgradePolicy c req) (\<lambda>err. throw (g err)) (\<lambda>_. storeUpgradePolicyStatus val) s = (r, s')"
  shows "sentPolicy (upp_Value req) val s r s'"
proof (cases "PatchUpgradePolicy c req (st_world s)")
  case (Pair a w)
  have call: "handlePatchUpgradePolicy c req s = (answer a, s\<lparr>st_world := w,
      st_calls := st_calls s @ [(CallPatchUpgradePolicy req, errorOf a)],
      st_recorder := map_option RecordOCMAPIRequests (st_recorder s)\<rparr>)"
    by (simp add: handlePatchUpgradePolicy_def recordOCMRequestDuration_def apiWrite_def Pair)
  show ?thesis
    using assms unfolding sentPolicy_def
    by (cases a) (auto simp: call storeUpgradePolicyStatus_def SetUpgradePolicyStatus_def intro!: exI [of _ req])
qed

lemma started_run:
  assumes "UpgradePolicy (Spec (st_addon s)) = Some p" "reportUpgradeStarted c s = (r, s')"
  shows "sentPolicy UpgradePolicyValueStarted AddonUpgradePolicyValueStarted s r s'"
  using patch_then_store [OF assms(1)] assms by (fastforce simp: reportUpgradeStarted_def Let_def)

lemma completed_run:
  assumes "UpgradePolicy (Spec (st_addon s)) = Some p" "reportUpgradeCompleted c s = (r, s')"
  shows "sentPolicy UpgradePolicyValueCompleted AddonUpgradePolicyValueCompleted s r s'"
  using patch_then_store [OF assms(1)] assms by (fastforce simp: reportUpgradeCompleted_def Let_def)

lemma stored_policy:
  assumes "SetUpgradePolicyStatus val a = Some b"
  shows "addonMeta b = addonMeta a" "Spec b = Spec a" "Conditions (Status b) = Conditions (Status a)"
    "\<exists>up. status_UpgradePolicy (Status b) = Some up \<and> ups_Version up = Version (Spec a) \<and> ups_Value up = val"
    "UpgradeCompleteForCurrentVersion b \<longleftrightarrow> val = AddonUpgradePolicyValueCompleted"
  using assms by (auto simp: SetUpgradePolicyStatus_def UpgradeCompleteForCurrentVersion_def split: option.splits)

lemma previous_run:
  "\<exists>w rec. getPreviousUpgradePolicyStateValue c i s =
     (case fst (GetUpgradePolicy c i (st_world s)) of
        Inl e \<Rightarrow> Err (Wrap (''getting UpgradePolicy '' @ quoted i @ '' state'') e) | Inr res \<Rightarrow> Ok (upg_Value res),
      s\<lparr>st_world := w, st_recorder := rec\<rparr>)"
  by (cases "GetUpgradePolicy c i (st_world s)"; cases "fst (GetUpgradePolicy c i (st_world s))")
     (auto simp: getPreviousUpgradePolicyStateValue_def handleGetUpgradePolicyState_def
       recordOCMRequestDuration_def apiRead_def call_def)

text \<open>The values of the upgrade policy that were sent.\<close>

definition policyReports :: "(apiCall \<times> error option) list \<Rightarrow> UpgradePolicyValue list" where
  "policyReports cs = List.map_filter (\<lambda>(c, _). case c of CallPatchUpgradePolicy req \<Rightarrow> Some (upp_Value req) | _ \<Rightarrow> None) cs"

lemma policyReports_simps [simp]:
  "policyReports [] = []" "policyReports ((CallPatchUpgradePolicy req, e) # cs) = upp_Value req # policyReports cs"
  by (simp_all add: policyReports_def map_filter_simps)

text \<open>What one decision sends, and when.\<close>

definition soundReports :: "lib \<Rightarrow> Addon \<Rightarrow> UpgradePolicyValue list \<Rightarrow> unit outcome \<Rightarrow> Addon \<Rightarrow> bool" where
  "soundReports L a vs r a' \<longleftrightarrow>
     vs \<in> {[], [UpgradePolicyValueStarted], [UpgradePolicyValueCompleted],
            [UpgradePolicyValueStarted, UpgradePolicyValueCompleted]} \<and>
     (UpgradePolicyValueCompleted \<in> set vs \<longrightarrow> IsAvailable L a \<and>
        (\<exists>up. status_UpgradePolicy (Status a) = Some up \<and> ups_Version up = Version (Spec a)) \<and>
        (r = Ok () \<longrightarrow> UpgradeCompleteForCurrentVersion a')) \<and>
     Conditions (Status a') = Conditions (Status a)"

lemma reportUpgrade_run:
  assumes p: "UpgradePolicy (Spec (st_addon s)) = Some p" and run: "reportUpgrade L c v s = (r, s')"
  shows "\<exists>cs. st_calls s' = st_calls s @ cs \<and> soundReports L (st_addon s) (policyReports cs) r (st_addon s') \<and>
    (v = UpgradePolicyValueScheduled \<longrightarrow> policyReports cs \<noteq> [UpgradePolicyValueCompleted])"
proof -
  let ?a = "st_addon s"
  have started: "\<exists>cs. st_calls s' = st_calls s @ cs \<and> soundReports L ?a (policyReports cs) r (st_addon s') \<and>
      policyReports cs \<noteq> [UpgradePolicyValueCompleted]" if "reportUpgradeStarted c s = (r, s')"
    using started_run [OF p that]
    by (auto simp: sentPolicy_def soundReports_def dest: stored_policy split: if_splits)
  show ?thesis
  proof (cases "status_UpgradePolicy (Status ?a)")
    case None
    with run started show ?thesis by (auto simp: reportUpgrade_def)
  next
    case (Some up)
    consider (fill) "ups_Version up = ''''" "v = UpgradePolicyValueCompleted \<or> v = UpgradePolicyValuePending"
      | (stale) "reportUpgradeStarted c s = (r, s')"
      | (idle) "s' = s" "r = Ok ()"
      | (complete) "IsAvailable L ?a" "ups_Version up = Version (Spec ?a)" "v \<noteq> UpgradePolicyValueScheduled"
          "reportUpgradeCompleted c s = (r, s')"
      | (both) "IsAvailable L ?a" "ups_Version up = Version (Spec ?a)" "v = UpgradePolicyValueScheduled"
          "bindp (call (reportUpgradeStarted c) (\<lambda>err. throw (Wrap ''reporting upgrade as started'' err)) ret)
             (\<lambda>_. reportUpgradeCompleted c) s = (r, s')"
      using run Some by (auto simp: reportUpgrade_def split: if_splits)
    then show ?thesis
    proof cases
      case fill
      then show ?thesis
        using run Some p
        by (auto simp: reportUpgrade_def storeUpgradePolicyStatus_def SetUpgradePolicyStatus_def soundReports_def)
    next
      case stale
      then show ?thesis using started by blast
    next
      case idle
      then show ?thesis by (simp add: soundReports_def)
    next
      case complete
      then show ?thesis
        using completed_run [OF p complete(4)] Some
        by (auto simp: sentPolicy_def soundReports_def dest: stored_policy split: if_splits)
    next
      case both
      obtain r1 s1 where first: "reportUpgradeStarted c s = (r1, s1)" by fastforce
      note sent = started_run [OF p first, unfolded sentPolicy_def]
      show ?thesis
      proof (cases r1)
        case (Ok u)
        with sent obtain req where req: "upp_Value req = UpgradePolicyValueStarted"
          "st_calls s1 = st_calls s @ [(CallPatchUpgradePolicy req, None)]"
          and a1: "SetUpgradePolicyStatus AddonUpgradePolicyValueStarted ?a = Some (st_addon s1)"
          by (auto split: if_splits)
        have "reportUpgradeCompleted c s1 = (r, s')" using both(4) first Ok by simp
        moreover have "UpgradePolicy (Spec (st_addon s1)) = Some p" using stored_policy(2) [OF a1] p by simp
        ultimately show ?thesis
          using completed_run [of s1 p c r s'] req stored_policy(3) [OF a1] both(1-3) Some
            stored_policy(3,5) [of AddonUpgradePolicyValueCompleted "st_addon s1" "st_addon s'"]
          by (auto simp: sentPolicy_def soundReports_def split: if_splits)
      qed (use sent both first in \<open>auto simp: soundReports_def call_def bindp_def split: if_splits\<close>)
    qed
  qed
qed


text \<open>A client whose requests all succeed.\<close>

definition answering :: "'w ocmClient \<Rightarrow> bool" where
  "answering c \<longleftrightarrow> (\<forall>req w. \<exists>v w'. PatchUpgradePolicy c req w = (Inr v, w')) \<and>
     (\<forall>i w. \<exists>v w'. GetUpgradePolicy c i w = (Inr v, w')) \<and>
     (\<forall>req w. \<exists>v w'. PostAddOnStatus c req w = (Inr v, w'))"

lemma answering_patch:
  assumes "answering c" "UpgradePolicy (Spec (st_addon s)) = Some p"
  obtains s' where
    "call (handlePatchUpgradePolicy c req) (\<lambda>err. throw (g err)) (\<lambda>_. storeUpgradePolicyStatus val) s = (Ok (), s')"
    "SetUpgradePolicyStatus val (st_addon s) = Some (st_addon s')"
proof -
  let ?m = "call (handlePatchUpgradePolicy c req) (\<lambda>err. throw (g err)) (\<lambda>_. storeUpgradePolicyStatus val)"
  obtain r s' where run: "?m s = (r, s')" by fastforce
  obtain v w where "PatchUpgradePolicy c req (st_world s) = (Inr v, w)"
    using assms(1) unfolding answering_def by blast
  then have "r = Ok ()"
    using run assms(2) by (auto simp: handlePatchUpgradePolicy_def recordOCMRequestDuration_def apiWrite_def
        storeUpgradePolicyStatus_def SetUpgradePolicyStatus_def)
  with run patch_then_store [OF assms(2) run] that show thesis by (auto simp: sentPolicy_def split: if_splits)
qed

lemma answering_reports:
  assumes "answering c" "UpgradePolicy (Spec (st_addon s)) = Some p"
  shows "\<exists>s'. reportUpgradeStarted c s = (Ok (), s') \<and>
      SetUpgradePolicyStatus AddonUpgradePolicyValueStarted (st_addon s) = Some (st_addon s')"
    and "\<exists>s'. reportUpgradeCompleted c s = (Ok (), s') \<and>
      SetUpgradePolicyStatus AddonUpgradePolicyValueCompleted (st_addon s) = Some (st_addon s')"
proof -
  obtain req g where "reportUpgradeStarted c s = call (handlePatchUpgradePolicy c req) (\<lambda>err. throw (g err))
      (\<lambda>_. storeUpgradePolicyStatus AddonUpgradePolicyValueStarted) s"
    by (simp add: reportUpgradeStarted_def Let_def assms(2))
  with answering_patch [OF assms, of req g AddonUpgradePolicyValueStarted]
  show "\<exists>s'. reportUpgradeStarted c s = (Ok (), s') \<and>
      SetUpgradePolicyStatus AddonUpgradePolicyValueStarted (st_addon s) = Some (st_addon s')" by metis
  obtain req g where "reportUpgradeCompleted c s = call (handlePatchUpgradePolicy c req) (\<lambda>err. throw (g err))
      (\<lambda>_. storeUpgradePolicyStatus AddonUpgradePolicyValueCompleted) s"
    by (simp add: reportUpgradeCompleted_def Let_def assms(2))
  with answering_patch [OF assms, of req g AddonUpgradePolicyValueCompleted]
  show "\<exists>s'. reportUpgradeCompleted c s = (Ok (), s') \<and>
      SetUpgradePolicyStatus AddonUpgradePolicyValueCompleted (st_addon s) = Some (st_addon s')" by metis
qed

text \<open>The last report was for the current version.\<close>

definition reportedCurrent :: "Addon \<Rightarrow> bool" where
  "reportedCurrent a \<longleftrightarrow> (\<exists>up. status_UpgradePolicy (Status a) = Some up \<and> ups_Version up = Version (Spec a))"

definition advanced :: "Addon \<Rightarrow> Addon \<Rightarrow> bool" where
  "advanced a b \<longleftrightarrow> Spec b = Spec a \<and> Conditions (Status b) = Conditions (Status a) \<and> reportedCurrent b \<and>
     (reportedCurrent a \<longrightarrow> UpgradeCompleteForCurrentVersion b)"

lemma advanced_stored:
  "SetUpgradePolicyStatus AddonUpgradePolicyValueCompleted a = Some b \<Longrightarrow> advanced a b"
  "SetUpgradePolicyStatus AddonUpgradePolicyValueStarted a = Some b \<Longrightarrow> \<not> reportedCurrent a \<Longrightarrow> advanced a b"
  by (auto simp: advanced_def reportedCurrent_def stored_policy dest: stored_policy)

lemma reportUpgrade_answering:
  assumes c: "answering c" and p: "UpgradePolicy (Spec (st_addon s)) = Some p"
    and version: "Version (Spec (st_addon s)) \<noteq> ''''" and avail: "IsAvailable L (st_addon s)"
  shows "\<exists>s'. reportUpgrade L c v s = (Ok (), s') \<and> advanced (st_addon s) (st_addon s')"
proof (cases "reportedCurrent (st_addon s)")
  case True
  then obtain up where up: "status_UpgradePolicy (Status (st_addon s)) = Some up" "ups_Version up = Version (Spec (st_addon s))"
    by (auto simp: reportedCurrent_def)
  obtain s1 where s1: "(if v = UpgradePolicyValueScheduled
      then call (reportUpgradeStarted c) (\<lambda>err. throw (Wrap ''reporting upgrade as started'' err)) ret
      else ret ()) s = (Ok (), s1)" "Spec (st_addon s1) = Spec (st_addon s)"
      "Conditions (Status (st_addon s1)) = Conditions (Status (st_addon s))"
    using answering_reports(1) [OF c p] stored_policy(2,3) by (cases "v = UpgradePolicyValueScheduled") fastforce+
  obtain s2 where s2: "reportUpgradeCompleted c s1 = (Ok (), s2)"
      "SetUpgradePolicyStatus AddonUpgradePolicyValueCompleted (st_addon s1) = Some (st_addon s2)"
    using answering_reports(2) [OF c, of s1 p] p s1(2) by auto
  have "reportUpgrade L c v s = (Ok (), s2)"
    using up version avail s1(1) s2(1) by (simp add: reportUpgrade_def)
  moreover have "advanced (st_addon s) (st_addon s2)"
    using advanced_stored(1) [OF s2(2)] stored_policy(5) [OF s2(2)] s1 by (simp add: advanced_def)
  ultimately show ?thesis by blast
next
  case False
  obtain s1 where s1: "storeUpgradePolicyStatus AddonUpgradePolicyValueCompleted s = (Ok (), s1)"
      "SetUpgradePolicyStatus AddonUpgradePolicyValueCompleted (st_addon s) = Some (st_addon s1)"
    by (rule that [of "snd (storeUpgradePolicyStatus AddonUpgradePolicyValueCompleted s)"])
       (simp_all add: storeUpgradePolicyStatus_def SetUpgradePolicyStatus_def p)
  from answering_reports(1) [OF c p] obtain s2 where s2: "reportUpgradeStarted c s = (Ok (), s2)"
      "SetUpgradePolicyStatus AddonUpgradePolicyValueStarted (st_addon s) = Some (st_addon s2)" by blast
  have "reportUpgrade L c v s = (Ok (), s1) \<or> reportUpgrade L c v s = (Ok (), s2)"
    using False s1(1) s2(1) by (auto simp: reportUpgrade_def reportedCurrent_def split: option.splits)
  then show ?thesis
    using advanced_stored(1) [OF s1(2)] advanced_stored(2) [OF s2(2) False] by blast
qed

lemma upgrade_step:
  assumes "answering c" "theOcmClient r = Some c" "upgradePolicyStatusEnabled r"
    and req: "requiresReporting (st_addon s)" and "IsAvailable L (st_addon s)"
  shows "\<exists>s'. handleUpgradePolicyStatusReporting L r s = (Ok (), s') \<and> advanced (st_addon s) (st_addon s')"
proof -
  obtain p where p: "UpgradePolicy (Spec (st_addon s)) = Some p" "Version (Spec (st_addon s)) \<noteq> ''''"
    using req by (auto simp: requiresReporting_def)
  obtain b w where get: "GetUpgradePolicy c (up_ID p) (st_world s) = (Inr b, w)"
    using assms(1) unfolding answering_def by blast
  obtain w' rec where "getPreviousUpgradePolicyStateValue c (up_ID p) s =
      (Ok (upg_Value b), s\<lparr>st_world := w', st_recorder := rec\<rparr>)"
    using previous_run [of c "up_ID p" s] get by auto
  then have "handleUpgradePolicyStatusReporting L r s = reportUpgrade L c (upg_Value b) (s\<lparr>st_world := w', st_recorder := rec\<rparr>)"
    using assms p by (simp add: handleUpgradePolicyStatusReporting_def)
  then show ?thesis
    using reportUpgrade_answering [OF assms(1), of "s\<lparr>st_world := w', st_recorder := rec\<rparr>" p L "upg_Value b"] p assms(5)
    by simp
qed


section \<open>Status reports\<close>

lemma post_run:
  "postAddonStatus c s = (case PostAddOnStatus c (statusPayload (st_addon s)) (st_world s) of (a, w) \<Rightarrow>
     (case a of Inl e \<Rightarrow> Err e | Inr v \<Rightarrow> Ok (), s\<lparr>st_world := w,
        st_calls := st_calls s @ [(CallPostAddOnStatus (statusPayload (st_addon s)), errorOf a)],
        st_recorder := map_option RecordAddonServiceAPIRequests (st_recorder s)\<rparr>))"
  by (auto simp: postAddonStatus_def recordAddonServiceRequestDuration_def apiWrite_def bindp_def call_def
      split: prod.splits sum.splits)

text \<open>
  C19: The status of an Addon is posted exactly when reporting is switched on, there is a client, and
  the hash of the current status differs from the one reported last; what is posted is the current
  status. A post that was accepted is remembered, so that the same status is not posted twice; after a
  post that failed the Addon is unchanged, so that the next reconciliation posts again.
\<close>

theorem status_reported_once:
  assumes "handleOCMAddOnStatusReporting L r s = (res, s')"
  shows "if statusReportingRequired L r (st_addon s) \<and> theOcmClient r \<noteq> None
    then \<exists>e. st_calls s' = st_calls s @ [(CallPostAddOnStatus (statusPayload (st_addon s)), e)] \<and>
      (if e = None
       then res = Ok () \<and> statusPayload (st_addon s') = statusPayload (st_addon s) \<and>
         \<not> statusReportingRequired L r (st_addon s') \<and> handleOCMAddOnStatusReporting L r s' = (Ok (), s')
       else (\<exists>err. res = Err err) \<and> st_addon s' = st_addon s)
    else s' = s \<and> res = Ok ()"
proof -
  have hash: "HashCurrentAddonStatus L (setLastReportedStatus L a) = HashCurrentAddonStatus L a"
    "statusPayload (setLastReportedStatus L a) = statusPayload a" for a
    by (simp_all add: HashCurrentAddonStatus_def setLastReportedStatus_def statusPayload_def)
  then have "\<not> isCurrentStatusDifferentFromPrevious L (setLastReportedStatus L a)" for a
    by (simp add: isCurrentStatusDifferentFromPrevious_def) (simp add: setLastReportedStatus_def)
  with hash assms show ?thesis
    by (auto simp: handleOCMAddOnStatusReporting_def statusReportingRequired_def bindp_def call_def post_run
        split: option.splits if_splits prod.splits sum.splits) blast
qed

section \<open>Witnesses\<close>

definition refOcm :: "unit ocmClient" where
  "refOcm = \<lparr>GetClusterIDAndName = (''o1'', ''cluster''), PatchUpgradePolicy = (\<lambda>req w. (Inr (), w)),
     GetUpgradePolicy = (\<lambda>i w. (Inr \<lparr>upg_Value = UpgradePolicyValueScheduled, upg_Description = ''''\<rparr>, w)),
     PostAddOnStatus = (\<lambda>req w. (Inr \<lparr>asr_Kind = '''', asr_AddonID = asp_AddonID req, asr_CorrelationID = '''',
        asr_AddonVersion = '''', asr_StatusConditions = []\<rparr>, w))\<rparr>"

definition refReporter :: "unit reporter" where
  "refReporter = \<lparr>statusReportingEnabled = True, upgradePolicyStatusEnabled = True, theOcmClient = Some refOcm\<rparr>"

definition upgradedAddon :: Addon where
  "upgradedAddon = refAddon\<lparr>Spec := refSpec\<lparr>UpgradePolicy := Some \<lparr>up_ID = ''p1''\<rparr>\<rparr>,
     Status := refStatus\<lparr>Conditions := [condition Available ConditionTrue AddonReasonFullyReconciled '''' 0]\<rparr>\<rparr>"

lemma refOcm_answering: "answering refOcm"
  by (simp add: answering_def refOcm_def)

lemma upgradedAddon_facts:
  "requiresReporting upgradedAddon" "IsAvailable refLib upgradedAddon"
  by (simp_all add: upgradedAddon_def requiresReporting_def refSpec_def refStatus_def
      UpgradeCompleteForCurrentVersion_def IsAvailable_def refLib_def)



theorem status_reported_once_witness:
  "\<exists>e. st_calls (snd (handleOCMAddOnStatusReporting refLib refReporter (refState upgradedAddon))) =
     [(CallPostAddOnStatus (statusPayload upgradedAddon), e)]"
proof -
  have "statusReportingRequired refLib refReporter upgradedAddon \<and> theOcmClient refReporter \<noteq> None"
    by (simp add: statusReportingRequired_def refReporter_def isCurrentStatusDifferentFromPrevious_def
        upgradedAddon_def refStatus_def)
  with status_reported_once [OF prod.collapse [symmetric], of refLib refReporter "refState upgradedAddon"]
  show ?thesis by auto
qed

end
