(* ===== verification/Addon_Controller.thy ===== *)
theory Addon_Controller
  imports Sub_Reconcilers Ocm_Reporting
begin

text \<open>
  The Addon controller (\<open>addon_controller.go\<close>, \<open>addon_reconciler_options.go\<close> and the deletion of an Addon
  in \<open>utils.go\<close>): how it is put together from the sub-reconcilers, one reconciliation of an Addon, and the
  operations other controllers call on it (pausing, injecting the OCM client).

  A sub-reconciler is one of the eight types that implement \<open>addonReconciler\<close>; the methods of the
  interface are functions by cases on it. During one reconciliation the settings of the reconciler are
  fixed: \<open>globalPause\<close> is read under its lock, which is held to the end, and the OCM client is taken to be
  the same for both reports. A \<open>*multierror.Error\<close> is the list of its errors.
\<close>

section \<open>The reconciler\<close>

datatype addonReconciler =
    addonDeletionReconciler
  | namespaceReconciler
  | packageOperatorReconciler
  | addonSecretPropagationReconciler
  | addonInstanceReconciler
  | olmReconciler
  | monitoringFederationReconciler
  | monitoringStackReconciler

text \<open>\<open>iota * 100\<close>.\<close>

fun Order :: "addonReconciler \<Rightarrow> int" where
  "Order addonDeletionReconciler = 0 * 100"
| "Order namespaceReconciler = 1 * 100"
| "Order packageOperatorReconciler = 2 * 100"
| "Order addonSecretPropagationReconciler = 3 * 100"
| "Order addonInstanceReconciler = 4 * 100"
| "Order olmReconciler = 5 * 100"
| "Order monitoringFederationReconciler = 6 * 100"
| "Order monitoringStackReconciler = 7 * 100"

fun subReconcilerName :: "addonReconciler \<Rightarrow> string" where
  "subReconcilerName addonDeletionReconciler = DELETION_RECONCILER_NAME"
| "subReconcilerName namespaceReconciler = NAMESPACE_RECONCILER_NAME"
| "subReconcilerName packageOperatorReconciler = packageOperatorName"
| "subReconcilerName addonSecretPropagationReconciler = SECRET_RECONCILER_NAME"
| "subReconcilerName addonInstanceReconciler = ADDON_INSTANCE_RECONCILER_NAME"
| "subReconcilerName olmReconciler = OLM_RECONCILER_NAME"
| "subReconcilerName monitoringFederationReconciler = MONITORING_FEDERATION_RECONCILER_NAME"
| "subReconcilerName monitoringStackReconciler = MONITORING_STACK_RECONCILER_NAME"

text \<open>
  \<open>Recorder\<close> and \<open>operatorResourceHandler\<close> are in the state of a run; \<open>addonRequeueCh\<close> is the sequence of
  Addons sent on the channel.
\<close>

record 'w AddonReconciler = "'w reporter" +
  theEnv :: "'w Env"
  ClusterExternalID :: string
  globalPause :: bool
  subReconcilers :: "addonReconciler list"
  addonRequeueCh :: "Addon list"

abbreviation cacheFinalizer :: string where
  "cacheFinalizer \<equiv> ''addons.managed.openshift.io/cache''"

datatype AddonReconcilerOptions = WithMonitoringStackReconciler | WithPackageOperatorReconciler

fun ApplyToAddonReconciler :: "AddonReconcilerOptions \<Rightarrow> 'w AddonReconciler \<Rightarrow> 'w AddonReconciler" where
  "ApplyToAddonReconciler WithMonitoringStackReconciler config =
     config\<lparr>subReconcilers := subReconcilers config @ [monitoringStackReconciler]\<rparr>"
| "ApplyToAddonReconciler WithPackageOperatorReconciler config =
     config\<lparr>subReconcilers := subReconcilers config @ [packageOperatorReconciler]\<rparr>"

definition NewAddonReconciler ::
  "'w Env \<Rightarrow> string \<Rightarrow> bool \<Rightarrow> bool \<Rightarrow> AddonReconcilerOptions list \<Rightarrow> 'w AddonReconciler" where
  "NewAddonReconciler E clusterExternalID enableStatusReporting enableUpgradePolicyStatus opts =
     foldl (\<lambda>r opt. ApplyToAddonReconciler opt r)
       \<lparr>statusReportingEnabled = enableStatusReporting, upgradePolicyStatusEnabled = enableUpgradePolicyStatus,
        theOcmClient = None, theEnv = E, ClusterExternalID = clusterExternalID, globalPause = False,
        subReconcilers = [addonDeletionReconciler, namespaceReconciler, addonSecretPropagationReconciler,
          addonInstanceReconciler, olmReconciler, monitoringFederationReconciler],
        addonRequeueCh = []\<rparr> opts"

text \<open>
  \<open>sort.Slice\<close> by \<open>Order\<close>. It need not be stable: two entries of the same order are the same
  sub-reconciler. The slice itself is sorted in place, which changes no later result.
\<close>

definition getOrderedSubReconcilers :: "'w AddonReconciler \<Rightarrow> addonReconciler list" where
  "getOrderedSubReconcilers r = sort_key Order (subReconcilers r)"

definition GetOCMClusterInfo :: "'w AddonReconciler \<Rightarrow> OcmClusterInfo" where
  "GetOCMClusterInfo r =
     (case theOcmClient r of
        None \<Rightarrow> \<lparr>oci_ID = '''', oci_Name = ''''\<rparr>
      | Some c \<Rightarrow> (case GetClusterIDAndName c of (clusterId, clusterName) \<Rightarrow>
          \<lparr>oci_ID = clusterId, oci_Name = clusterName\<rparr>))"

section \<open>Sub-reconcilers\<close>

text \<open>The package operator reconciler asks for the cluster's identity when it runs.\<close>

definition packageSettings :: "'w AddonReconciler \<Rightarrow> PackageOperatorReconciler" where
  "packageSettings r = \<lparr>po_ClusterID = ClusterExternalID r, po_OcmClusterInfo = GetOCMClusterInfo r\<rparr>"

fun runSubReconciler :: "'w AddonReconciler \<Rightarrow> addonReconciler \<Rightarrow> ('w st, subReconcilerResult) prog" where
  "runSubReconciler r addonDeletionReconciler = deletionReconcile (theEnv r) (deletionHandlers (theEnv r))"
| "runSubReconciler r namespaceReconciler = namespaceReconcile (theEnv r)"
| "runSubReconciler r packageOperatorReconciler = packageReconcile (theEnv r) (packageSettings r)"
| "runSubReconciler r addonSecretPropagationReconciler = secretReconcile (theEnv r)"
| "runSubReconciler r addonInstanceReconciler = instanceReconcile (theEnv r)"
| "runSubReconciler r olmReconciler = olmReconcile (theEnv r)"
| "runSubReconciler r monitoringFederationReconciler = federationReconcile (theEnv r)"
| "runSubReconciler r monitoringStackReconciler = stackReconcile (theEnv r)"

text \<open>The one type that implements \<open>nonBlockingReconciler\<close>: its two further methods.\<close>

fun nonBlocking :: "'w AddonReconciler \<Rightarrow> addonReconciler \<Rightarrow> (('w st, bool) prog \<times> ('w st, unit) prog) option" where
  "nonBlocking r packageOperatorReconciler =
     Some (IsReconciliationSuccessful (theEnv r), SetAddonUnreadyStatus (theEnv r))"
| "nonBlocking r _ = None"

section \<open>One reconciliation\<close>

definition reportError :: "error \<Rightarrow> string \<Rightarrow> ('w st, unit) prog" where
  "reportError err crName = modify (\<lambda>s. s\<lparr>st_recorder := Report ''addon'' err crName (st_recorder s)\<rparr>)"

definition ensureClusterPackageDeletion :: "'w Env \<Rightarrow> ('w st, ctrlResult) prog" where
  "ensureClusterPackageDeletion E = bindp getAddon (\<lambda>addon.
     call (doDelete (k_ClusterObjectTemplate (client E)) ClusterObjectTemplateKind
         \<lparr>key_Namespace = '''', key_Name = Name (addonMeta addon)\<rparr>)
       (\<lambda>err. if IsNotFound (theLib E) err then ret zeroResult else throw err)
       (\<lambda>_. ret (zeroResult\<lparr>RequeueAfter := defaultRetryAfterTime\<rparr>)))"

definition handleAddonCRDeletion :: "'w Env \<Rightarrow> ('w st, ctrlResult) prog" where
  "handleAddonCRDeletion E = bindp getAddon (\<lambda>addon.
     if \<not> ContainsFinalizer (theLib E) (addonMeta addon) cacheFinalizer then ret zeroResult
     else bindp (mutate E (reportTerminationStatus (theLib E))) (\<lambda>_.
       call (statusUpdateAddon E) (\<lambda>err. throw (Wrap ''updating Addon status'' err)) (\<lambda>_.
       call (ensureClusterPackageDeletion E) (\<lambda>err. throw (Wrap ''ensure ClusterPackage deletion'' err)) (\<lambda>res.
       if res \<noteq> zeroResult then ret res
       else bindp (modify (\<lambda>s. s\<lparr>st_opHandler := Free (st_opHandler s) (addonMeta (st_addon s))\<rparr>)) (\<lambda>_.
         bindp (modify (\<lambda>s. s\<lparr>st_addon := (st_addon s)\<lparr>addonMeta :=
             RemoveFinalizer (theLib E) (addonMeta (st_addon s)) cacheFinalizer\<rparr>\<rparr>)) (\<lambda>_.
         call (updateAddon E) (\<lambda>err. throw (Wrap ''failed to remove finalizer'' err)) (\<lambda>_. ret res)))))))"

text \<open>The loop over the sub-reconcilers; \<open>None\<close> when all of them let the loop go on.\<close>

fun runSubReconcilers :: "'w AddonReconciler \<Rightarrow> addonReconciler list \<Rightarrow> ('w st, ctrlResult option) prog" where
  "runSubReconcilers r [] = ret None"
| "runSubReconcilers r (x # xs) = call (runSubReconciler r x)
     (\<lambda>err. bindp getAddon (\<lambda>addon. bindp (reportError err (Name (addonMeta addon))) (\<lambda>_.
        throw (Wrap (subReconcilerName x @ '' : failed to reconcile '') err))))
     (\<lambda>res. if rs_Stop res then ret (Some zeroResult)
        else if rs_Requeue res then ret (Some (zeroResult\<lparr>Requeue := True\<rparr>))
        else case rs_RequeueAfter res of
          Some t \<Rightarrow> ret (Some (zeroResult\<lparr>RequeueAfter := t\<rparr>))
        | None \<Rightarrow> runSubReconcilers r xs)"

text \<open>The loop over the non-blocking ones; \<open>True\<close> when all of them succeeded.\<close>

fun checkNonBlocking :: "'w AddonReconciler \<Rightarrow> addonReconciler list \<Rightarrow> ('w st, bool) prog" where
  "checkNonBlocking r [] = ret True"
| "checkNonBlocking r (x # xs) =
     (case nonBlocking r x of
        None \<Rightarrow> checkNonBlocking r xs
      | Some (isSuccessful, setUnready) \<Rightarrow> call isSuccessful
          (\<lambda>err. throw (Wrap (''failed to check reconciliation status of '' @ subReconcilerName x) err))
          (\<lambda>success. if \<not> success then bindp setUnready (\<lambda>_. ret False) else checkNonBlocking r xs))"

definition setAddonCRStatus :: "'w AddonReconciler \<Rightarrow> ('w st, ctrlResult) prog" where
  "setAddonCRStatus r = bindp (checkNonBlocking r (getOrderedSubReconcilers r)) (\<lambda>ready.
     if ready then bindp (mutate (theEnv r) (reportReadinessStatus (theLib (theEnv r)))) (\<lambda>_. ret zeroResult)
     else ret zeroResult)"

definition ensureCacheFinalizer :: "'w Env \<Rightarrow> ('w st, unit) prog" where
  "ensureCacheFinalizer E = bindp getAddon (\<lambda>addon.
     if \<not> ContainsFinalizer (theLib E) (addonMeta addon) cacheFinalizer
     then bindp (modify (\<lambda>s. s\<lparr>st_addon := (st_addon s)\<lparr>addonMeta :=
            AddFinalizer (theLib E) (addonMeta (st_addon s)) cacheFinalizer\<rparr>\<rparr>)) (\<lambda>_.
          call (updateAddon E)
            (\<lambda>err. bindp (reportError ErrUpdateAddon (Name (addonMeta addon))) (\<lambda>_.
               throw (Wrap ''failed to add finalizer'' err)))
            ret)
     else ret ())"

definition reconcile :: "'w AddonReconciler \<Rightarrow> ('w st, ctrlResult) prog" where
  "reconcile r = (let E = theEnv r; L = theLib E in
     bindp getAddon (\<lambda>addon.
     if DeletionTimestamp (addonMeta addon) \<noteq> None then handleAddonCRDeletion E
     else if globalPause r
     then bindp (mutate E (reportAddonPauseStatus L AddonOperatorReasonPaused)) (\<lambda>_. ret zeroResult)
     else if Paused (Spec addon)
     then bindp (mutate E (reportAddonPauseStatus L AddonReasonPaused)) (\<lambda>_. ret zeroResult)
     else bindp (mutate E (\<lambda>_. removeAddonPauseCondition L)) (\<lambda>_.
       if addonIsBeingUpgraded addon
       then bindp (mutate E (reportAddonUpgradeStarted L)) (\<lambda>_. ret zeroResult)
       else bindp getAddon (\<lambda>addon.
         bindp (if installedConditionMissing L addon then mutate E (reportInstalledConditionFalse L) else ret ()) (\<lambda>_.
         bindp (ensureCacheFinalizer E) (\<lambda>_.
         bindp (runSubReconcilers r (getOrderedSubReconcilers r)) (\<lambda>res.
         case res of Some res \<Rightarrow> ret res | None \<Rightarrow> setAddonCRStatus r)))))))"

section \<open>Metrics\<close>

abbreviation UnschedulableAddonPod :: string where
  "UnschedulableAddonPod \<equiv> ''UnschedulableAddonPod''"

text \<open>A pod is appended once for every matching condition.\<close>

definition unschedulableConditions :: "Pod \<Rightarrow> Pod list" where
  "unschedulableConditions pod = map (\<lambda>_. pod) (filter (\<lambda>(t, reason, status).
     t = ''PodScheduled'' \<and> reason = ''Unschedulable'' \<and> status = ConditionFalse) (pod_Conditions pod))"

definition podNamespace :: "Addon \<Rightarrow> string" where
  "podNamespace addon =
     (let option_namespace = (\<lambda>c. case c of None \<Rightarrow> '''' | Some c \<Rightarrow> olm_Namespace c) in
      case install_Type (Install (Spec addon)) of
        OLMAllNamespaces \<Rightarrow> option_namespace (install_OLMAllNamespaces (Install (Spec addon)))
      | OLMOwnNamespace \<Rightarrow> option_namespace (install_OLMOwnNamespace (Install (Spec addon)))
      | OtherInstallType _ \<Rightarrow> '''')"

definition listUnschedulableAddonPods :: "'w Env \<Rightarrow> ('w st, Pod list) prog" where
  "listUnschedulableAddonPods E = bindp getAddon (\<lambda>addon.
     if length (trimSpace (podNamespace addon)) = 0
     then throw (ErrorString (''failed to get addon'' @ [CHR 0x27] @ ''s namespace''))
     else call (doList (k_Pod (client E)) (podNamespace addon) Map.empty)
       (\<lambda>err. throw (Wrap ''failed listing addon pods'' err))
       (\<lambda>pods. ret (concat (map unschedulableConditions pods))))"

definition recordAddonMetrics :: "'w Env \<Rightarrow> ('w st, unit) prog" where
  "recordAddonMetrics E = bindp (gets st_recorder) (\<lambda>recorder.
     if recorder = None then ret ()
     else bindp getAddon (\<lambda>addon.
       bindp (case FindStatusCondition (theLib E) (Conditions (Status addon)) Available of
                Some c \<Rightarrow> if c_Status c = ConditionFalse then listUnschedulableAddonPods E else ret []
              | None \<Rightarrow> ret [])
         (\<lambda>unschedPods. modify (\<lambda>s. s\<lparr>st_recorder := map_option
            (RecordAddonMetrics (theLib E) addon (if length unschedPods > 0 then UnschedulableAddonPod else ''''))
            (st_recorder s)\<rparr>))))"

section \<open>The entry point\<close>

text \<open>\<open>v, err := m()\<close> where the function goes on with both.\<close>

definition tryp :: "('s, 'a) prog \<Rightarrow> ('s, error + 'a) prog" where
  "tryp m = call m (\<lambda>e. ret (Inl e)) (\<lambda>v. ret (Inr v))"

definition syncWithExternalAPIs :: "'w AddonReconciler \<Rightarrow> ('w st, error list) prog" where
  "syncWithExternalAPIs r = (let L = theLib (theEnv r) in
     bindp (tryp (handleUpgradePolicyStatusReporting L r)) (\<lambda>upgradePolicy.
     let multiErr = MultierrorAppend L [] (errorOf upgradePolicy) in
     bindp (tryp (handleOCMAddOnStatusReporting L r)) (\<lambda>ocmStatus.
     ret (MultierrorAppend L multiErr (errorOf ocmStatus)))))"

text \<open>
  The steps after the Addon was read. The second component of the value is the returned error: the
  errors of a \<open>multierror\<close>, none for nil.
\<close>

definition reconcileRead :: "'w AddonReconciler \<Rightarrow> ('w st, ctrlResult \<times> error list) prog" where
  "reconcileRead r = (let E = theEnv r; L = theLib E in
     bindp (tryp (reconcile r)) (\<lambda>reconciled.
     bindp (tryp (recordAddonMetrics E)) (\<lambda>_.
     bindp (syncWithExternalAPIs r) (\<lambda>multiErr.
     bindp getAddon (\<lambda>addon.
     bindp (if multiErr = [] then ret ()
            else if list_ex asOCMError multiErr then reportError ErrOCMClientRequest (Name (addonMeta addon))
            else reportError ErrSyncWithExternalAPIs (Name (addonMeta addon))) (\<lambda>_.
     let multiErr = MultierrorAppend L multiErr (errorOf reconciled) in
     bindp (modify (\<lambda>s. s\<lparr>st_addon := reportObservedVersion (st_addon s)\<rparr>)) (\<lambda>_.
     call (statusUpdateAddon E)
       (\<lambda>statusErr. ret (zeroResult, MultierrorAppend L multiErr (Some statusErr)))
       (\<lambda>_. ret (case reconciled of Inl _ \<Rightarrow> zeroResult | Inr res \<Rightarrow> res, multiErr)))))))))"

definition ReconcileAddon :: "'w AddonReconciler \<Rightarrow> ObjectKey \<Rightarrow> ('w st, ctrlResult \<times> error list) prog" where
  "ReconcileAddon r key = (let E = theEnv r in
     call (doGet (k_Addon (client E)) key)
       (\<lambda>err. bindp (reportError ErrGetAddon '''') (\<lambda>_.
          ret (zeroResult, case IgnoreNotFound (theLib E) err of None \<Rightarrow> [] | Some e \<Rightarrow> [e])))
       (\<lambda>addon. bindp (modify (\<lambda>s. s\<lparr>st_addon := addon\<rparr>)) (\<lambda>_. reconcileRead r)))"

section \<open>Operations other controllers call\<close>

text \<open>They change the settings; the second component of the state is the cluster.\<close>

type_synonym 'w settings = "'w AddonReconciler \<times> 'w"

definition requeueAllAddons :: "('w settings, unit) prog" where
  "requeueAllAddons = (\<lambda>(r, w). case kList (k_Addon (client (theEnv r))) '''' Map.empty w of
     (Inl err, w') \<Rightarrow> (Err (Wrap ''listing Addons'' err), r, w')
   | (Inr addons, w') \<Rightarrow> (Ok (), r\<lparr>addonRequeueCh := addonRequeueCh r @ addons\<rparr>, w'))"

definition setGlobalPause :: "bool \<Rightarrow> ('w settings, unit) prog" where
  "setGlobalPause paused = bindp (modify (\<lambda>(r, w). (r\<lparr>globalPause := paused\<rparr>, w))) (\<lambda>_.
     call requeueAllAddons (\<lambda>err. throw (Wrap ''requeue all Addons'' err)) ret)"

definition EnableGlobalPause :: "('w settings, unit) prog" where
  "EnableGlobalPause = setGlobalPause True"

definition DisableGlobalPause :: "('w settings, unit) prog" where
  "DisableGlobalPause = setGlobalPause False"

definition InjectOCMClient :: "'w ocmClient \<Rightarrow> ('w settings, unit) prog" where
  "InjectOCMClient c = bindp (gets (\<lambda>(r, w). theOcmClient r)) (\<lambda>old.
     bindp (if old = None then call requeueAllAddons (\<lambda>err. throw (Wrap ''requeue all Addons'' err)) ret
            else ret ())
       (\<lambda>_. modify (\<lambda>(r, w). (r\<lparr>theOcmClient := Some c\<rparr>, w))))"

section \<open>Order of the sub-reconcilers\<close>

text \<open>
  Whichever optional sub-reconcilers are switched on, and in whichever order, the controller runs
  deletion, namespaces, the package operator, secrets, the AddonInstance, OLM, federation and the
  monitoring stack in this order.
\<close>

lemma sub_reconcilers_ordered:
  assumes "distinct opts"
  shows "getOrderedSubReconcilers (NewAddonReconciler E clusterID status upgrade opts) =
    [addonDeletionReconciler, namespaceReconciler] @
    (if WithPackageOperatorReconciler \<in> set opts then [packageOperatorReconciler] else []) @
    [addonSecretPropagationReconciler, addonInstanceReconciler, olmReconciler, monitoringFederationReconciler] @
    (if WithMonitoringStackReconciler \<in> set opts then [monitoringStackReconciler] else [])"
proof -
  consider "opts = []" | "opts = [WithMonitoringStackReconciler]" | "opts = [WithPackageOperatorReconciler]"
    | "opts = [WithMonitoringStackReconciler, WithPackageOperatorReconciler]"
    | "opts = [WithPackageOperatorReconciler, WithMonitoringStackReconciler]"
  proof (cases opts)
    case (Cons x xs)
    show thesis
    proof (cases xs)
      case Nil
      with Cons that show thesis by (cases x) auto
    next
      case (Cons y ys)
      with \<open>opts = x # xs\<close> assms that show thesis
        by (cases ys; cases x; cases y) (auto, (metis AddonReconcilerOptions.exhaust)+)
    qed
  qed
  then show ?thesis
    by cases (simp_all add: getOrderedSubReconcilers_def NewAddonReconciler_def)
qed

section \<open>What a reconciliation writes\<close>

fun subCall :: "'w Env \<Rightarrow> addonReconciler \<Rightarrow> Addon \<Rightarrow> apiCall \<Rightarrow> bool" where
  "subCall E addonDeletionReconciler a = notifyCall"
| "subCall E namespaceReconciler a = namespaceCall (theLib E) a"
| "subCall E packageOperatorReconciler a = packageCall (theLib E) a"
| "subCall E addonSecretPropagationReconciler a = secretCall E a"
| "subCall E addonInstanceReconciler a = instanceCall E a"
| "subCall E olmReconciler a = olmCall (theLib E) a"
| "subCall E monitoringFederationReconciler a = federationCall (theLib E) a"
| "subCall E monitoringStackReconciler a = stackCall (theLib E) a"

text \<open>The calls of the controller itself: the Addon, its template when it is deleted, and the reports.\<close>

fun ownCall :: "Addon \<Rightarrow> apiCall \<Rightarrow> bool" where
  "ownCall a (CallUpdate (KAddon b)) = sameRef b a"
| "ownCall a (CallStatusUpdate (KAddon b)) = sameRef b a"
| "ownCall a (CallDelete ClusterObjectTemplateKind key) = (key = \<lparr>key_Namespace = '''', key_Name = Name (addonMeta a)\<rparr>)"
| "ownCall a (CallPatchUpgradePolicy req) = (\<exists>p. UpgradePolicy (Spec a) = Some p \<and> upp_ID req = up_ID p)"
| "ownCall a (CallPostAddOnStatus req) = (asp_AddonID req = Name (addonMeta a) \<and>
     asp_AddonVersion req = Version (Spec a) \<and> asp_CorrelationID req = CorrelationID (Spec a))"
| "ownCall a _ = False"

definition controllerCall :: "'w Env \<Rightarrow> addonReconciler list \<Rightarrow> Addon \<Rightarrow> apiCall \<Rightarrow> bool" where
  "controllerCall E subs a c \<longleftrightarrow> ownCall a c \<or> (\<exists>x \<in> set subs. subCall E x a c)"

text \<open>A stored Addon keeps its name, its UID and its specification.\<close>

definition stores_addons :: "'w Env \<Rightarrow> bool" where
  "stores_addons E \<longleftrightarrow> (\<forall>x w y w'. kUpdate (k_Addon (client E)) x w = (Inr y, w') \<or>
     kStatusUpdate (k_Addon (client E)) x w = (Inr y, w') \<longrightarrow> sameRef y x)"

lemma sub_refInv:
  assumes "env_laws (theEnv r)" "\<And>c. subCall (theEnv r) x a c \<Longrightarrow> P c"
  shows "keeps (refInv a P) (runSubReconciler r x)"
  using assms
  by (cases x) (simp_all add: deletion_sub.run_refInv namespace_sub.run_refInv package_sub.run_refInv
      secret_sub.run_refInv instance_sub.run_refInv olm_sub.run_refInv federation_sub.run_refInv stack_sub.run_refInv)

lemma sub_unavailable:
  assumes "condition_laws (theLib (theEnv r))" "runSubReconciler r x s = (res, s')"
    and "unavailable (theLib (theEnv r)) (st_addon s)"
  shows "unavailable (theLib (theEnv r)) (st_addon s')"
  using assms(2,3)
  by (cases x) (auto dest: deletion_sub.run_unavailable [OF assms(1)] namespace_sub.run_unavailable [OF assms(1)]
      package_sub.run_unavailable [OF assms(1)] secret_sub.run_unavailable [OF assms(1)]
      instance_sub.run_unavailable [OF assms(1)] olm_sub.run_unavailable [OF assms(1)]
      federation_sub.run_unavailable [OF assms(1)] stack_sub.run_unavailable [OF assms(1)])

lemma sameRef_refl [simp]: "sameRef a a"
  by (simp add: sameRef_def)

lemma sameRef_trans: "sameRef c b \<Longrightarrow> sameRef b a \<Longrightarrow> sameRef c a"
  by (simp add: sameRef_def)

lemma refInv_apiRead [keeps_rules]: "keeps (refInv a P) (apiRead f)"
  by (auto simp: keeps_def refInv_def apiRead_def split: prod.splits)

lemma refInv_apiWrite [keeps_rules]: "P c \<Longrightarrow> keeps (refInv a P) (apiWrite c f)"
  by (auto simp: keeps_def refInv_def apiWrite_def split: prod.splits)

lemma refInv_typed [keeps_rules]:
  "keeps (refInv a P) (doGet c1 key)" "keeps (refInv a P) (doList c2 ns sel)"
  "P (CallDelete k key') \<Longrightarrow> keeps (refInv a P) (doDelete c3 k key')"
  unfolding typed_calls by (intro keeps_rules | assumption)+

lemma refInv_mutate [keeps_rules]: "(\<And>t. sameIdentity (f t)) \<Longrightarrow> keeps (refInv a P) (mutate E f)"
  by (auto simp: keeps_def refInv_def sameIdentity_def sameRef_def)

lemma refInv_modify:
  "(\<And>b. sameRef (f b) b) \<Longrightarrow> keeps (refInv a P) (modify (\<lambda>s. s\<lparr>st_addon := f (st_addon s)\<rparr>))"
  by (rule keeps_modify) (auto simp: refInv_def intro: sameRef_trans)

lemma refInv_aside [keeps_rules]:
  "keeps (refInv a P) (modify (\<lambda>s. s\<lparr>st_opHandler := h s\<rparr>))"
  "keeps (refInv a P) (modify (\<lambda>s. s\<lparr>st_recorder := g s\<rparr>))"
  by (rule keeps_modify, simp add: refInv_def)+

lemma refInv_reportError [keeps_rules]: "keeps (refInv a P) (reportError err n)"
  unfolding reportError_def by (intro keeps_rules)

lemma refInv_getAddon [keeps_rules]:
  "(\<And>b. sameRef b a \<Longrightarrow> keeps (refInv a P) (k b)) \<Longrightarrow> keeps (refInv a P) (bindp getAddon k)"
  by (auto simp: keeps_def refInv_def getAddon_def)

lemma refInv_tryp [keeps_rules]: "keeps (refInv a P) m \<Longrightarrow> keeps (refInv a P) (tryp m)"
  unfolding tryp_def by (intro keeps_rules)

lemma refInv_timers [keeps_rules]:
  "keeps (refInv a P) m \<Longrightarrow> keeps (refInv a P) (recordOCMRequestDuration m)"
  "keeps (refInv a P) m' \<Longrightarrow> keeps (refInv a P) (recordAddonServiceRequestDuration m')"
  by (auto simp: keeps_def refInv_def recordOCMRequestDuration_def recordAddonServiceRequestDuration_def
      split: prod.splits)

lemma refInv_store:
  assumes "\<And>b w c w'. f b w = (Inr c, w') \<Longrightarrow> sameRef c b" "\<And>b. sameRef b a \<Longrightarrow> P (wr b)"
  shows "keeps (refInv a P) (bindp getAddon (\<lambda>b. storeAddon (wr b) (f b)))"
proof (rule keepsI)
  fix s r s' assume inv: "refInv a P s" and run: "bindp getAddon (\<lambda>b. storeAddon (wr b) (f b)) s = (r, s')"
  obtain x w where f: "f (st_addon s) (st_world s) = (x, w)" by fastforce
  show "refInv a P s'"
    using run inv assms(1) [of "st_addon s" "st_world s"] assms(2) [of "st_addon s"] f
    by (cases x) (auto simp: storeAddon_def apiWrite_def refInv_def intro: sameRef_trans)
qed

lemma refInv_updateAddon:
  assumes "stores_addons E" "\<And>b. sameRef b a \<Longrightarrow> P (CallUpdate (KAddon b))" "\<And>b. sameRef b a \<Longrightarrow> P (CallStatusUpdate (KAddon b))"
  shows "keeps (refInv a P) (updateAddon E)" "keeps (refInv a P) (statusUpdateAddon E)"
  unfolding updateAddon_def statusUpdateAddon_def
  using assms(1) by (auto intro!: refInv_store assms(2,3) simp: stores_addons_def)

lemma refInv_storePolicy [keeps_rules]: "keeps (refInv a P) (storeUpgradePolicyStatus v)"
  by (rule keepsI) (auto simp: storeUpgradePolicyStatus_def refInv_def SetUpgradePolicyStatus_def sameRef_def
      split: option.splits)

lemma refInv_getAddon_plain [keeps_rules]: "keeps (refInv a P) getAddon"
  unfolding getAddon_def by (rule keeps_gets)

lemma refInv_reports:
  fixes r :: "('b, 'd) reporter_scheme"
  assumes "\<And>c. ownCall a c \<Longrightarrow> P c"
  shows "keeps (refInv a P) (handleUpgradePolicyStatusReporting L r)"
    and "keeps (refInv a P) (handleOCMAddOnStatusReporting L r)"
proof -
  have patch: "P (CallPatchUpgradePolicy \<lparr>upp_ID = up_ID p, upp_Value = v, upp_Description = d\<rparr>)"
    if "sameRef b a" "UpgradePolicy (Spec b) = Some p" for b p v d
    using that by (intro assms) (simp add: sameRef_cong(17) [OF that(1)])
  have deref: "keeps (refInv a P) (bindp (deref x) k)" if "\<And>y. x = Some y \<Longrightarrow> keeps (refInv a P) (k y)"
    for x :: "'c option" and k :: "'c \<Rightarrow> ('b st, unit) prog"
    using that by (cases x) (auto simp: keeps_def)
  have started: "keeps (refInv a P) (reportUpgradeStarted c)" for c :: "'b ocmClient"
    unfolding reportUpgradeStarted_def handlePatchUpgradePolicy_def Let_def
    by (intro refInv_getAddon deref keeps_call keeps_throw refInv_timers refInv_apiWrite refInv_storePolicy patch)
  have completed: "keeps (refInv a P) (reportUpgradeCompleted c)" for c :: "'b ocmClient"
    unfolding reportUpgradeCompleted_def handlePatchUpgradePolicy_def Let_def
    by (intro refInv_getAddon deref keeps_call keeps_throw refInv_timers refInv_apiWrite refInv_storePolicy patch)
  show "keeps (refInv a P) (handleUpgradePolicyStatusReporting L r)"
    unfolding handleUpgradePolicyStatusReporting_def getPreviousUpgradePolicyStateValue_def
      handleGetUpgradePolicyState_def reportUpgrade_def
    by (intro keeps_rules started completed)
  have post: "P (CallPostAddOnStatus (statusPayload b))" if "sameRef b a" for b
    using that by (intro assms) (simp add: statusPayload_def sameRef_cong [OF that])
  show "keeps (refInv a P) (handleOCMAddOnStatusReporting L r)"
    unfolding handleOCMAddOnStatusReporting_def postAddonStatus_def
    by (intro refInv_getAddon keeps_if keeps_case_option keeps_bindp keeps_ret refInv_timers refInv_apiWrite post
        refInv_modify) (simp_all add: setLastReportedStatus_def sameRef_def)
qed

lemma subs_refInv:
  assumes "env_laws (theEnv r)" "\<And>x c. x \<in> set xs \<Longrightarrow> subCall (theEnv r) x a c \<Longrightarrow> P c"
  shows "keeps (refInv a P) (runSubReconcilers r xs)"
  using assms(2)
proof (induction xs)
  case (Cons x xs)
  have "keeps (refInv a P) (runSubReconciler r x)"
    by (rule sub_refInv [OF assms(1)]) (rule Cons.prems, auto)
  moreover have "keeps (refInv a P) (runSubReconcilers r xs)"
    by (rule Cons.IH) (rule Cons.prems, auto)
  ultimately show ?case
    unfolding runSubReconcilers.simps by (intro keeps_rules)
qed (simp add: keeps_ret)

lemma refInv_IsReconciliationSuccessful: "keeps (refInv a P) (IsReconciliationSuccessful E)"
  unfolding IsReconciliationSuccessful_def getExistingClusterObjectTemplate_def by (intro keeps_rules)

lemma checkNonBlocking_refInv: "keeps (refInv a P) (checkNonBlocking r xs)"
proof (induction xs)
  case (Cons x xs)
  then show ?case
    by (cases x) (auto simp: SetAddonUnreadyStatus_def intro!: keeps_rules refInv_IsReconciliationSuccessful)
qed (simp add: keeps_ret)

lemma finalizer_sel:
  assumes "finalizer_laws L"
  shows "Name (RemoveFinalizer L m f) = Name m" "UID (RemoveFinalizer L m f) = UID m"
    "Name (AddFinalizer L m f) = Name m" "UID (AddFinalizer L m f) = UID m"
  by (subst remove_finalizer_meta(2) [OF assms], simp)+ (subst add_finalizer_meta(2) [OF assms], simp)+

lemma refInv_finalizers:
  assumes "finalizer_laws L"
  shows "keeps (refInv a P) (modify (\<lambda>s. s\<lparr>st_addon := (st_addon s)\<lparr>addonMeta :=
      RemoveFinalizer L (addonMeta (st_addon s)) f\<rparr>\<rparr>))"
    and "keeps (refInv a P) (modify (\<lambda>s. s\<lparr>st_addon := (st_addon s)\<lparr>addonMeta :=
      AddFinalizer L (addonMeta (st_addon s)) f\<rparr>\<rparr>))"
  by (rule refInv_modify, simp add: sameRef_def finalizer_sel [OF assms])+

lemma reconcile_refInv:
  assumes laws: "env_laws (theEnv r)" "stores_addons (theEnv r)"
    and P: "\<And>c. controllerCall (theEnv r) (subReconcilers r) a c \<Longrightarrow> P c"
  shows "keeps (refInv a P) (reconcileRead r)"
proof -
  let ?E = "theEnv r"
  have own: "\<And>c. ownCall a c \<Longrightarrow> P c" using P by (simp add: controllerCall_def)
  have store: "keeps (refInv a P) (updateAddon ?E)" "keeps (refInv a P) (statusUpdateAddon ?E)"
    by (rule refInv_updateAddon [OF laws(2)]; simp add: own)+
  have subs: "keeps (refInv a P) (runSubReconcilers r (getOrderedSubReconcilers r))"
    by (rule subs_refInv [OF laws(1)])
       (use P in \<open>auto simp: controllerCall_def getOrderedSubReconcilers_def\<close>)
  have "P (CallDelete ClusterObjectTemplateKind \<lparr>key_Namespace = '''', key_Name = Name (addonMeta b)\<rparr>)"
    if "sameRef b a" for b
    using that by (intro own) (simp add: sameRef_def)
  then have package: "keeps (refInv a P) (ensureClusterPackageDeletion ?E)"
    unfolding ensureClusterPackageDeletion_def
    by (intro refInv_getAddon keeps_call keeps_if keeps_ret keeps_throw refInv_typed(3))
  have deletion: "keeps (refInv a P) (handleAddonCRDeletion ?E)"
    unfolding handleAddonCRDeletion_def
    by (intro keeps_bindp refInv_getAddon_plain keeps_if keeps_call keeps_ret keeps_throw refInv_mutate refInv_aside(1)
        store package refInv_finalizers [OF env_lawsD(5) [OF laws(1)]] sameIdentity_reports)
  have finalizer: "keeps (refInv a P) (ensureCacheFinalizer ?E)"
    unfolding ensureCacheFinalizer_def
    by (intro keeps_bindp refInv_getAddon_plain keeps_if keeps_call keeps_ret keeps_throw refInv_reportError store
        refInv_finalizers [OF env_lawsD(5) [OF laws(1)]])
  have status: "keeps (refInv a P) (setAddonCRStatus r)"
    unfolding setAddonCRStatus_def by (intro keeps_rules checkNonBlocking_refInv sameIdentity_reports)
  have loop: "keeps (refInv a P) (reconcile r)"
    unfolding reconcile_def Let_def
    by (intro keeps_rules deletion finalizer subs status sameIdentity_reports)
  have metrics: "keeps (refInv a P) (recordAddonMetrics ?E)"
    unfolding recordAddonMetrics_def listUnschedulableAddonPods_def by (intro keeps_rules)
  have "keeps (refInv a P) (modify (\<lambda>s. s\<lparr>st_addon := reportObservedVersion (st_addon s)\<rparr>))"
    by (rule refInv_modify) (simp add: reportObservedVersion_def sameRef_def)
  then show ?thesis
    unfolding reconcileRead_def syncWithExternalAPIs_def Let_def
    by (intro keeps_bindp refInv_getAddon_plain keeps_if keeps_call keeps_ret refInv_tryp refInv_reportError
        loop metrics store refInv_reports own)
qed

text \<open>A reconciliation that cannot read the Addon makes no call, any other one only declared calls.\<close>

lemma ReconcileAddon_calls:
  assumes "env_laws (theEnv r)" "stores_addons (theEnv r)" "st_calls s = []" "ReconcileAddon r key s = (out, s')"
    and "kGet (k_Addon (client (theEnv r))) key (st_world s) = (found, w)"
  shows "case found of Inl _ \<Rightarrow> st_calls s' = [] | Inr a \<Rightarrow> refInv a (controllerCall (theEnv r) (subReconcilers r) a) s'"
proof (cases found)
  case (Inl e)
  then show ?thesis
    using assms(3-5) by (auto simp: ReconcileAddon_def doGet_def apiRead_def reportError_def Let_def)
next
  case (Inr a)
  let ?P = "controllerCall (theEnv r) (subReconcilers r) a"
  have "reconcileRead r (s\<lparr>st_world := w, st_addon := a\<rparr>) = (out, s')"
    using assms(4,5) Inr by (simp add: ReconcileAddon_def doGet_def apiRead_def Let_def)
  moreover have "refInv a ?P (s\<lparr>st_world := w, st_addon := a\<rparr>)"
    using assms(3) by (simp add: refInv_def)
  ultimately show ?thesis using keepsD [OF reconcile_refInv [OF assms(1,2)]] Inr by auto
qed


section \<open>How the loop ends\<close>

text \<open>The sub-reconcilers of a list ran one after the other and let the loop go on.\<close>

primrec passed :: "'w AddonReconciler \<Rightarrow> addonReconciler list \<Rightarrow> 'w st \<Rightarrow> 'w st \<Rightarrow> bool" where
  "passed r [] s s' \<longleftrightarrow> s' = s"
| "passed r (x # xs) s s' \<longleftrightarrow> (\<exists>s1. runSubReconciler r x s = (Ok resultNil, s1) \<and> passed r xs s1 s')"

lemma passed_unavailable:
  assumes "condition_laws (theLib (theEnv r))" "passed r xs s s'" "unavailable (theLib (theEnv r)) (st_addon s)"
  shows "unavailable (theLib (theEnv r)) (st_addon s')"
  using assms(2,3) by (induction xs arbitrary: s) (auto dest: sub_unavailable [OF assms(1)])

text \<open>What the controller makes of the answer of a sub-reconciler that ends the loop.\<close>

fun endsWith :: "addonReconciler \<Rightarrow> subReconcilerResult outcome \<Rightarrow> ctrlResult option outcome \<Rightarrow> bool" where
  "endsWith x (Err err) out \<longleftrightarrow> out = Err (Wrap (subReconcilerName x @ '' : failed to reconcile '') err)"
| "endsWith x Panic out \<longleftrightarrow> out = Panic"
| "endsWith x (Ok res) out \<longleftrightarrow> res \<noteq> resultNil \<and> (\<exists>c. out = Ok (Some c) \<and>
     (rs_Stop res \<longrightarrow> c = zeroResult) \<and>
     (\<not> rs_Stop res \<and> rs_Requeue res \<longrightarrow> c = zeroResult\<lparr>Requeue := True\<rparr>) \<and>
     (\<not> rs_Stop res \<and> \<not> rs_Requeue res \<longrightarrow> (\<exists>t. rs_RequeueAfter res = Some t \<and> c = zeroResult\<lparr>RequeueAfter := t\<rparr>)))"

lemma result_nil_iff: "res = resultNil \<longleftrightarrow> \<not> rs_Stop res \<and> \<not> rs_Requeue res \<and> rs_RequeueAfter res = None"
  by (cases res) (simp add: resultNil_def)

lemma loop_cases:
  assumes "runSubReconcilers r xs s = (out, s')"
  shows "out = Ok None \<and> passed r xs s s' \<or>
    (\<exists>pre x post s1 s2 res. xs = pre @ x # post \<and> passed r pre s s1 \<and> runSubReconciler r x s1 = (res, s2) \<and>
       endsWith x res out \<and> st_calls s' = st_calls s2 \<and> st_addon s' = st_addon s2)"
  using assms
proof (induction xs arbitrary: s)
  case (Cons x xs)
  obtain res s1 where x: "runSubReconciler r x s = (res, s1)" by fastforce
  show ?case
  proof (cases "res = Ok resultNil")
    case True
    with Cons.prems x have "runSubReconcilers r xs s1 = (out, s')"
      by (simp add: result_nil_iff [of resultNil, simplified])
    from Cons.IH [OF this] show ?thesis
    proof (elim disjE exE conjE)
      fix pre y post sa sb res'
      assume ys: "xs = pre @ y # post" "passed r pre s1 sa" "runSubReconciler r y sa = (res', sb)"
        "endsWith y res' out" "st_calls s' = st_calls sb" "st_addon s' = st_addon sb"
      have "passed r (x # pre) s sa" using x True ys(2) by auto
      with ys show ?thesis by (metis append_Cons)
    qed (use x True in auto)
  next
    case False
    then have "endsWith x res out" "st_calls s' = st_calls s1" "st_addon s' = st_addon s1"
      using Cons.prems x
      by (cases res; auto simp: reportError_def result_nil_iff split: if_splits option.splits)+
    with x show ?thesis by (metis append_Nil passed.simps(1))
  qed
qed simp

section \<open>When an Addon becomes available\<close>

definition subsAndStatus :: "'w AddonReconciler \<Rightarrow> ('w st, ctrlResult) prog" where
  "subsAndStatus r = bindp (runSubReconcilers r (getOrderedSubReconcilers r))
     (\<lambda>res. case res of Some res \<Rightarrow> ret res | None \<Rightarrow> setAddonCRStatus r)"

text \<open>An Addon that is neither deleted, paused nor upgraded and has the finalizer reaches the loop.\<close>

lemma reconcile_reaches_loop:
  assumes "DeletionTimestamp (addonMeta (st_addon s)) = None" "\<not> globalPause r" "\<not> Paused (Spec (st_addon s))"
    and "\<not> addonIsBeingUpgraded (st_addon s)"
    and "ContainsFinalizer (theLib (theEnv r)) (addonMeta (st_addon s)) cacheFinalizer"
    and "condition_laws (theLib (theEnv r))"
  obtains s1 where "reconcile r s = subsAndStatus r s1" "sameAddon (st_addon s1) (st_addon s)" "st_calls s1 = st_calls s"
    "unavailable (theLib (theEnv r)) (st_addon s) \<Longrightarrow> unavailable (theLib (theEnv r)) (st_addon s1)"
proof -
  let ?L = "theLib (theEnv r)"
  let ?a = "removeAddonPauseCondition ?L (st_addon s)"
  let ?sa = "s\<lparr>st_addon := ?a, st_ticks := Suc (st_ticks s)\<rparr>"
  let ?sb = "if installedConditionMissing ?L ?a
    then ?sa\<lparr>st_addon := reportInstalledConditionFalse ?L (clock (theEnv r) (Suc (st_ticks s))) ?a, st_ticks := Suc (Suc (st_ticks s))\<rparr>
    else ?sa"
  have same: "addonMeta (f a) = addonMeta a" "Spec (f a) = Spec a" if "sameIdentity f" for f a
    using that by (simp_all add: sameIdentity_def)
  note id = same [OF sameIdentity_reports(7)] same [OF sameIdentity_reports(13)]
  have meta: "sameAddon (st_addon ?sb) (st_addon s)" by (simp add: sameAddon_def id)
  then have "ensureCacheFinalizer (theEnv r) ?sb = (Ok (), ?sb)"
    using assms(5) by (simp add: ensureCacheFinalizer_def sameAddon_def)
  then have "reconcile r s = subsAndStatus r ?sb"
    using assms(1-4) by (auto simp: reconcile_def subsAndStatus_def Let_def)
  moreover have "unavailable ?L (st_addon ?sb)" if "unavailable ?L (st_addon s)"
    using that stable_unavailable(11,14) [OF assms(6)] by (simp add: stable_def)
  ultimately show thesis using meta that [of ?sb] by (simp split: if_splits)
qed

lemma setAddonCRStatus_cases:
  assumes "setAddonCRStatus r s = (res, s')"
  obtains (ready) s1 where "checkNonBlocking r (getOrderedSubReconcilers r) s = (Ok True, s1)" "res = Ok zeroResult"
      "st_addon s' = reportReadinessStatus (theLib (theEnv r)) (clock (theEnv r) (st_ticks s1)) (st_addon s1)"
  | (other) v where "checkNonBlocking r (getOrderedSubReconcilers r) s = (v, s')" "v \<noteq> Ok True"
proof (cases "checkNonBlocking r (getOrderedSubReconcilers r) s")
  case (Pair v s1)
  with assms that show thesis by (cases v) (auto simp: setAddonCRStatus_def split: if_splits)
qed

lemma checkNonBlocking_unavailable:
  assumes "condition_laws (theLib (theEnv r))"
  shows "keeps (runInv (unavailable (theLib (theEnv r))) (\<lambda>_. True)) (checkNonBlocking r xs)"
proof (induction xs)
  case (Cons x xs)
  have "keeps (runInv (unavailable (theLib (theEnv r))) (\<lambda>_. True)) (IsReconciliationSuccessful (theEnv r))"
    unfolding IsReconciliationSuccessful_def getExistingClusterObjectTemplate_def by (intro keeps_rules)
  with Cons stable_pending(4) [OF assms] show ?case
    by (cases x) (auto simp: SetAddonUnreadyStatus_def intro!: keeps_rules)
qed (simp add: keeps_ret)

lemma checkNonBlocking_package:
  assumes "checkNonBlocking r xs s = (Ok True, s')" "packageOperatorReconciler \<in> set xs"
  shows "\<exists>s1 s2. IsReconciliationSuccessful (theEnv r) s1 = (Ok True, s2)"
  using assms
proof (induction xs arbitrary: s)
  case (Cons x xs)
  show ?case
  proof (cases "x = packageOperatorReconciler")
    case True
    with Cons.prems show ?thesis by (auto simp: call_ok bindp_ok split: if_splits)
  next
    case False
    then have "nonBlocking r x = None" by (cases x) simp_all
    with Cons.prems False Cons.IH show ?thesis by auto
  qed
qed simp

text \<open>
  C1: An Addon that is not available, is not being deleted and has the finalizer becomes available in a
  reconciliation only if neither it nor the operator is paused, no upgrade was detected, every
  sub-reconciler ran and let the loop go on, and the package operator, where it is switched on, reported
  success.
\<close>

theorem available_only_when_content:
  assumes laws: "condition_laws (theLib (theEnv r))"
    and "DeletionTimestamp (addonMeta (st_addon s)) = None"
    and "ContainsFinalizer (theLib (theEnv r)) (addonMeta (st_addon s)) cacheFinalizer"
    and "\<not> IsAvailable (theLib (theEnv r)) (st_addon s)"
    and run: "reconcile r s = (res, s')" and avail: "IsAvailable (theLib (theEnv r)) (st_addon s')"
  shows "\<not> globalPause r \<and> \<not> Paused (Spec (st_addon s)) \<and> \<not> addonIsBeingUpgraded (st_addon s) \<and> res = Ok zeroResult \<and>
    (\<exists>s1 s2 s3. sameAddon (st_addon s1) (st_addon s) \<and> passed r (getOrderedSubReconcilers r) s1 s2 \<and>
       checkNonBlocking r (getOrderedSubReconcilers r) s2 = (Ok True, s3) \<and>
       st_addon s' = reportReadinessStatus (theLib (theEnv r)) (clock (theEnv r) (st_ticks s3)) (st_addon s3)) \<and>
    (packageOperatorReconciler \<in> set (subReconcilers r) \<longrightarrow>
       (\<exists>s3 s4. IsReconciliationSuccessful (theEnv r) s3 = (Ok True, s4)))"
proof -
  let ?L = "theLib (theEnv r)" and ?subs = "getOrderedSubReconcilers r"
  note stable = stable_unavailable [OF laws, unfolded stable_def, rule_format]
  have idle: "\<not> globalPause r" "\<not> Paused (Spec (st_addon s))" "\<not> addonIsBeingUpgraded (st_addon s)"
    using run avail assms(2,4) stable(12,13,14) by (auto simp: reconcile_def Let_def split: if_splits)
  obtain s1 where s1: "reconcile r s = subsAndStatus r s1" "sameAddon (st_addon s1) (st_addon s)"
      "unavailable ?L (st_addon s1)"
    using reconcile_reaches_loop [OF assms(2) idle assms(3) laws] assms(4) by blast
  obtain out s2 where loop: "runSubReconcilers r ?subs s1 = (out, s2)" by fastforce
  from loop_cases [OF loop] show ?thesis
  proof (elim disjE exE conjE)
    assume out: "out = Ok None" and passed: "passed r ?subs s1 s2"
    with run s1(1) loop have status: "setAddonCRStatus r s2 = (res, s')" by (simp add: subsAndStatus_def)
    then show ?thesis
    proof (cases rule: setAddonCRStatus_cases)
      case (ready s3)
      moreover have "packageOperatorReconciler \<in> set (subReconcilers r) \<longrightarrow>
          (\<exists>s3 s4. IsReconciliationSuccessful (theEnv r) s3 = (Ok True, s4))"
        using checkNonBlocking_package [OF ready(1)] by (simp add: getOrderedSubReconcilers_def)
      ultimately show ?thesis using idle passed s1(2) by blast
    next
      case (other v)
      have "unavailable ?L (st_addon s2)" by (rule passed_unavailable [OF laws passed s1(3)])
      with keepsD [OF checkNonBlocking_unavailable [OF laws] _ other(1)] avail show ?thesis
        by (simp add: runInv_def)
    qed
  next
    fix pre x post sa sb x'
    assume sub: "passed r pre s1 sa" "runSubReconciler r x sa = (x', sb)" "endsWith x x' out" "st_addon s2 = st_addon sb"
    have "unavailable ?L (st_addon s2)"
      using sub_unavailable [OF laws sub(2)] passed_unavailable [OF laws sub(1) s1(3)] sub(4) by simp
    moreover have "s' = s2"
      using run s1(1) loop sub(3) by (cases x') (auto simp: subsAndStatus_def)
    ultimately show ?thesis using avail by simp
  qed
qed

section \<open>Deletion\<close>

text \<open>
  The run of a deletion by the answers of the server: the status update, the deletion of the template,
  the update that removes the finalizer.
\<close>

lemma deletion_run:
  assumes fin: "ContainsFinalizer (theLib E) (addonMeta (st_addon s)) cacheFinalizer"
    and run: "handleAddonCRDeletion E s = (res, s')"
  defines "b0 \<equiv> reportTerminationStatus (theLib E) (clock E (st_ticks s)) (st_addon s)"
  obtains (status) e where "res \<noteq> Ok zeroResult" "st_calls s' = st_calls s @ [(CallStatusUpdate (KAddon b0), Some e)]"
  | (template) a w w1 k e where "kStatusUpdate (k_Addon (client E)) b0 w = (Inr a, w1)" "res \<noteq> Ok zeroResult"
      "st_calls s' = st_calls s @ [(CallStatusUpdate (KAddon b0), None), (CallDelete ClusterObjectTemplateKind k, e)]"
  | (finalizer) a w w1 k err b e where "kStatusUpdate (k_Addon (client E)) b0 w = (Inr a, w1)"
      "k = \<lparr>key_Namespace = '''', key_Name = Name (addonMeta a)\<rparr>" "IsNotFound (theLib E) err"
      "b = a\<lparr>addonMeta := RemoveFinalizer (theLib E) (addonMeta a) cacheFinalizer\<rparr>"
      "st_calls s' = st_calls s @ [(CallStatusUpdate (KAddon b0), None),
         (CallDelete ClusterObjectTemplateKind k, Some err), (CallUpdate (KAddon b), e)]"
      "st_opHandler s' = Free (st_opHandler s) (addonMeta a)" "res = Ok zeroResult \<longleftrightarrow> e = None"
proof -
  obtain x1 w1 where x1: "kStatusUpdate (k_Addon (client E)) b0 (st_world s) = (x1, w1)" by fastforce
  note defs = handleAddonCRDeletion_def statusUpdateAddon_def updateAddon_def storeAddon_def apiWrite_def
    ensureClusterPackageDeletion_def doDelete_def bindp_def call_def zeroResult_def defaultRetryAfterTime_def nanosPerSecond_def
  show thesis
  proof (cases x1)
    case (Inl e)
    then show thesis using run fin x1 by (intro status) (auto simp: defs b0_def)
  next
    case (Inr a)
    obtain x2 w2 where x2: "kDelete (k_ClusterObjectTemplate (client E)) \<lparr>key_Namespace = '''', key_Name = Name (addonMeta a)\<rparr> w1 = (x2, w2)"
      by fastforce
    let ?b = "a\<lparr>addonMeta := RemoveFinalizer (theLib E) (addonMeta a) cacheFinalizer\<rparr>"
    obtain x3 w3 where x3: "kUpdate (k_Addon (client E)) ?b w2 = (x3, w3)" by fastforce
    show thesis
    proof (cases "\<exists>err. x2 = Inl err \<and> IsNotFound (theLib E) err")
      case True
      then obtain err where err: "x2 = Inl err" "IsNotFound (theLib E) err" by blast
      from run fin x1 Inr x2 x3 err show thesis
        by (intro finalizer [OF x1 [unfolded Inr] refl err(2) refl, of "errorOf x3"]; cases x3)
           (auto simp: defs b0_def)
    next
      case False
      with run fin x1 Inr x2 show thesis
        by (intro template [OF x1 [unfolded Inr], where e = "errorOf x2"]; cases x2) (auto simp: defs b0_def)
    qed
  qed
qed

text \<open>
  C3: When an Addon is deleted, paused or not, its finalizer is removed only after the API server
  answered that the Addon's ClusterObjectTemplate does not exist; the update that removes it is the last
  write, and the routes of the Addon in the operator event handler are freed before. A deletion that
  reports success without asking for a requeue has removed the finalizer, or found it removed.
\<close>

theorem deletion_waits_for_template:
  assumes laws: "finalizer_laws (theLib (theEnv r))" "stores_addons (theEnv r)"
    and "DeletionTimestamp (addonMeta (st_addon s)) \<noteq> None" "st_calls s = []" and run: "reconcile r s = (res, s')"
  shows "(\<forall>b e. (CallUpdate (KAddon b), e) \<in> set (st_calls s') \<longrightarrow>
      cacheFinalizer \<notin> set (Finalizers (addonMeta b)) \<and>
      (\<exists>m. Name m = Name (addonMeta (st_addon s)) \<and> st_opHandler s' = Free (st_opHandler s) m) \<and>
      (\<exists>err c. IsNotFound (theLib (theEnv r)) err \<and> st_calls s' = [c,
         (CallDelete ClusterObjectTemplateKind \<lparr>key_Namespace = '''', key_Name = Name (addonMeta (st_addon s))\<rparr>, Some err),
         (CallUpdate (KAddon b), e)])) \<and>
    (res = Ok zeroResult \<longrightarrow> cacheFinalizer \<notin> set (Finalizers (addonMeta (st_addon s))) \<or>
      (\<exists>b. (CallUpdate (KAddon b), None) \<in> set (st_calls s')))"
proof -
  have run': "handleAddonCRDeletion (theEnv r) s = (res, s')"
    using run assms(3) by (auto simp: reconcile_def Let_def)
  show ?thesis
  proof (cases "ContainsFinalizer (theLib (theEnv r)) (addonMeta (st_addon s)) cacheFinalizer")
    case False
    with run' have "s' = s" by (auto simp: handleAddonCRDeletion_def)
    with False assms(4) show ?thesis by (simp add: laws(1))
  next
    case True
    show ?thesis
    proof (cases rule: deletion_run [OF True run'])
      case (3 a w w1 k err b e)
      then have "sameRef a (reportTerminationStatus (theLib (theEnv r)) (clock (theEnv r) (st_ticks s)) (st_addon s))"
        using laws(2) unfolding stores_addons_def by blast
      then have name: "Name (addonMeta a) = Name (addonMeta (st_addon s))"
        using sameIdentity_reports(2) [of "theLib (theEnv r)"] by (simp add: sameRef_def sameIdentity_def)
      moreover have "cacheFinalizer \<notin> set (Finalizers (addonMeta b))"
        using 3(4) remove_finalizer_meta(1) [OF laws(1)] by simp
      ultimately show ?thesis using 3 assms(4) by auto
    qed (use assms(4) in auto)
  qed
qed

section \<open>Pause\<close>


section \<open>Errors\<close>

lemma tryp_run: "tryp m s = (case m s of (Ok v, s') \<Rightarrow> (Ok (Inr v), s') | (Err e, s') \<Rightarrow> (Ok (Inl e), s') | (Panic, s') \<Rightarrow> (Panic, s'))"
  by (simp add: tryp_def call_def split: prod.splits outcome.splits)

lemma statusUpdate_run:
  assumes "statusUpdateAddon E s = (v, s')"
  shows "\<exists>e. st_calls s' = st_calls s @ [(CallStatusUpdate (KAddon (st_addon s)), e)] \<and>
    (case e of None \<Rightarrow> v = Ok () | Some err \<Rightarrow> v = Err err)"
  using assms
  by (cases "kStatusUpdate (k_Addon (client E)) (st_addon s) (st_world s)"; cases "fst (kStatusUpdate (k_Addon (client E)) (st_addon s) (st_world s))")
     (auto simp: statusUpdateAddon_def storeAddon_def apiWrite_def)

lemma report_recorder:
  "\<exists>rcd. (if b then ret () else if c then reportError e1 n else reportError e2 n) s = (Ok (), s\<lparr>st_recorder := rcd\<rparr>)"
proof (cases b)
  case True
  then show ?thesis by (auto intro: exI [of _ "st_recorder s"])
qed (auto simp: reportError_def)

text \<open>The steps of a reconciliation after the loop: the state before the last write.\<close>

lemma reconcileRead_run:
  assumes "reconcileRead r s = (Ok (res, errs), s')"
  obtains rec s1 s2 s3 multi e where "reconcile r s = (rec, s1)" "rec \<noteq> Panic"
    "\<exists>m. tryp (recordAddonMetrics (theEnv r)) s1 = (Ok m, s2)" "syncWithExternalAPIs r s2 = (Ok multi, s3)"
    "st_calls s' = st_calls s3 @ [(CallStatusUpdate (KAddon (reportObservedVersion (st_addon s3))), e)]"
    "errs = (let errs1 = MultierrorAppend (theLib (theEnv r)) multi (case rec of Err err \<Rightarrow> Some err | _ \<Rightarrow> None)
       in if e = None then errs1 else MultierrorAppend (theLib (theEnv r)) errs1 e)"
    "res = (case (rec, e) of (Ok v, None) \<Rightarrow> v | _ \<Rightarrow> zeroResult)"
proof -
  obtain rec s1 where rec: "reconcile r s = (rec, s1)" by fastforce
  obtain t where t: "tryp (reconcile r) s = (Ok t, s1)" "rec \<noteq> Panic" "errorOf t = (case rec of Err err \<Rightarrow> Some err | _ \<Rightarrow> None)"
      "(case t of Inl _ \<Rightarrow> zeroResult | Inr v \<Rightarrow> v) = (case rec of Ok v \<Rightarrow> v | _ \<Rightarrow> zeroResult)"
    using assms rec by (cases rec) (auto simp: reconcileRead_def Let_def tryp_run bindp_ok)
  from assms t(1) obtain m s2 multi s3 where s2: "tryp (recordAddonMetrics (theEnv r)) s1 = (Ok m, s2)"
      and s3: "syncWithExternalAPIs r s2 = (Ok multi, s3)"
    by (auto simp: reconcileRead_def Let_def bindp_ok)
  obtain rcd where rcd: "(if multi = [] then ret ()
      else if list_ex asOCMError multi then reportError ErrOCMClientRequest (Name (addonMeta (st_addon s3)))
      else reportError ErrSyncWithExternalAPIs (Name (addonMeta (st_addon s3)))) s3 = (Ok (), s3\<lparr>st_recorder := rcd\<rparr>)"
    using report_recorder by blast
  let ?s = "s3\<lparr>st_recorder := rcd, st_addon := reportObservedVersion (st_addon s3)\<rparr>"
  obtain v s4 where upd: "statusUpdateAddon (theEnv r) ?s = (v, s4)" by fastforce
  then obtain e where e: "st_calls s4 = st_calls s3 @ [(CallStatusUpdate (KAddon (reportObservedVersion (st_addon s3))), e)]"
      "case e of None \<Rightarrow> v = Ok () | Some err \<Rightarrow> v = Err err"
    using statusUpdate_run [OF upd] by auto
  have "s4 = s' \<and> errs = (let errs1 = MultierrorAppend (theLib (theEnv r)) multi (case rec of Err err \<Rightarrow> Some err | _ \<Rightarrow> None)
       in if e = None then errs1 else MultierrorAppend (theLib (theEnv r)) errs1 e) \<and>
      res = (case (rec, e) of (Ok v, None) \<Rightarrow> v | _ \<Rightarrow> zeroResult)"
    using assms t s2 s3 rcd upd e(2)
    by (cases e; cases rec) (auto simp: reconcileRead_def Let_def)
  with that [OF rec t(2) _ s3, of e] s2 e(1) show thesis by blast
qed


section \<open>Upgrades\<close>

text \<open>Neither the metrics nor the reports change the conditions or the specification.\<close>

definition sameConditions :: "Addon \<Rightarrow> 'w st \<Rightarrow> bool" where
  "sameConditions a s \<longleftrightarrow> Conditions (Status (st_addon s)) = Conditions (Status a) \<and> Spec (st_addon s) = Spec a"

lemma sameConditions_prims [keeps_rules]:
  "keeps (sameConditions a) (apiRead f)" "keeps (sameConditions a) (apiWrite c g)"
  "keeps (sameConditions a) (doList k ns sel)" "keeps (sameConditions a) getAddon"
  "keeps (sameConditions a) (storeUpgradePolicyStatus v)"
  "keeps (sameConditions a) (modify (\<lambda>s. s\<lparr>st_recorder := h s\<rparr>))"
  "keeps (sameConditions a) (modify (\<lambda>s. s\<lparr>st_addon := setLastReportedStatus L (st_addon s)\<rparr>))"
  by (auto simp: keeps_def sameConditions_def apiRead_def apiWrite_def doList_def storeUpgradePolicyStatus_def
      SetUpgradePolicyStatus_def setLastReportedStatus_def split: prod.splits option.splits)

lemma sameConditions_timers [keeps_rules]:
  "keeps (sameConditions a) m \<Longrightarrow> keeps (sameConditions a) (recordOCMRequestDuration m)"
  "keeps (sameConditions a) m' \<Longrightarrow> keeps (sameConditions a) (recordAddonServiceRequestDuration m')"
proof -
  have later [simp]: "sameConditions a (s\<lparr>st_recorder := x\<rparr>) = sameConditions a s" for s x
    by (simp add: sameConditions_def)
  show "keeps (sameConditions a) m \<Longrightarrow> keeps (sameConditions a) (recordOCMRequestDuration m)"
    by (fastforce simp: keeps_def recordOCMRequestDuration_def split: prod.splits)
  show "keeps (sameConditions a) m' \<Longrightarrow> keeps (sameConditions a) (recordAddonServiceRequestDuration m')"
    by (fastforce simp: keeps_def recordAddonServiceRequestDuration_def split: prod.splits)
qed

lemma sameConditions_after:
  "keeps (sameConditions a) (tryp (recordAddonMetrics E))" "keeps (sameConditions a) (syncWithExternalAPIs r)"
proof -
  show "keeps (sameConditions a) (tryp (recordAddonMetrics E))"
    unfolding recordAddonMetrics_def listUnschedulableAddonPods_def tryp_def by (intro keeps_rules)
  show "keeps (sameConditions a) (syncWithExternalAPIs r)"
    unfolding syncWithExternalAPIs_def handleUpgradePolicyStatusReporting_def handleOCMAddOnStatusReporting_def
      getPreviousUpgradePolicyStateValue_def handleGetUpgradePolicyState_def reportUpgrade_def postAddonStatus_def
      reportUpgradeStarted_def reportUpgradeCompleted_def handlePatchUpgradePolicy_def Let_def tryp_def
    by (intro keeps_rules)
qed


section \<open>Settings\<close>

text \<open>
  Pausing and unpausing always take effect, and put every Addon the API server lists in the queue
  unless the list fails; a first OCM client is only taken over once every Addon was put in the queue, so
  that no Addon misses it, and a client that replaces another one is taken over at once.
\<close>

theorem settings_reach_every_addon:
  assumes "kList (k_Addon (client (theEnv r))) '''' Map.empty w = (listed, w')"
  shows "setGlobalPause p (r, w) = (case listed of
      Inl err \<Rightarrow> (Err (Wrap ''requeue all Addons'' (Wrap ''listing Addons'' err)), r\<lparr>globalPause := p\<rparr>, w')
    | Inr addons \<Rightarrow> (Ok (), r\<lparr>globalPause := p, addonRequeueCh := addonRequeueCh r @ addons\<rparr>, w')) \<and>
    InjectOCMClient c (r, w) = (if theOcmClient r = None then (case listed of
        Inl err \<Rightarrow> (Err (Wrap ''requeue all Addons'' (Wrap ''listing Addons'' err)), r, w')
      | Inr addons \<Rightarrow> (Ok (), r\<lparr>theOcmClient := Some c, addonRequeueCh := addonRequeueCh r @ addons\<rparr>, w'))
      else (Ok (), r\<lparr>theOcmClient := Some c\<rparr>, w))"
  using assms
  by (auto simp: setGlobalPause_def InjectOCMClient_def requeueAllAddons_def bindp_def call_def modify_def gets_def
      split: sum.splits)

section \<open>Witnesses\<close>

definition refReconciler :: "stock \<Rightarrow> unit AddonReconciler" where
  "refReconciler c = NewAddonReconciler (refEnv c) ''c1'' True True []"

lemma refReconciler_sel [simp]:
  "theEnv (refReconciler c) = refEnv c" "globalPause (refReconciler c) = False" "theOcmClient (refReconciler c) = None"
  "subReconcilers (refReconciler c) = [addonDeletionReconciler, namespaceReconciler, addonSecretPropagationReconciler,
     addonInstanceReconciler, olmReconciler, monitoringFederationReconciler]"
  by (simp_all add: refReconciler_def NewAddonReconciler_def)

lemma refEnv_stores: "stores_addons (refEnv c)"
  by (simp add: stores_addons_def stockCluster_def stockClient_def)

definition keptAddon :: Addon where
  "keptAddon = refAddon\<lparr>addonMeta := (addonMeta refAddon)\<lparr>Finalizers := [cacheFinalizer]\<rparr>\<rparr>"

definition keptStock :: stock where
  "keptStock = emptyStock\<lparr>so_Addon := [keptAddon]\<rparr>"

lemmas controller_eval = reconcile_def runSubReconcilers.simps setAddonCRStatus_def ensureCacheFinalizer_def
  zeroResult_def reportError_def addonIsBeingUpgraded_def installedConditionMissing_def findCondition_def keptAddon_def
  prog_defs ref_eval ref_objects Let_def

definition goneAddon :: Addon where
  "goneAddon = keptAddon\<lparr>addonMeta := (addonMeta keptAddon)\<lparr>DeletionTimestamp := Some 0\<rparr>\<rparr>"

definition goneStock :: stock where
  "goneStock = emptyStock\<lparr>so_Addon := [goneAddon]\<rparr>"

lemma gone_run:
  "fst (reconcile (refReconciler goneStock) (refState goneAddon)) = Ok zeroResult"
  "length (st_calls (snd (reconcile (refReconciler goneStock) (refState goneAddon)))) = 3"
  "cacheFinalizer \<in> set (Finalizers (addonMeta goneAddon))" "DeletionTimestamp (addonMeta goneAddon) \<noteq> None"
  by (simp_all add: handleAddonCRDeletion_def ensureClusterPackageDeletion_def reportTerminationStatus_def status_prims
      condition_def goneAddon_def goneStock_def controller_eval)

theorem deletion_waits_for_template_witness:
  "\<exists>b err c. cacheFinalizer \<notin> set (Finalizers (addonMeta b)) \<and> notFound err \<and>
     st_calls (snd (reconcile (refReconciler goneStock) (refState goneAddon))) = [c,
       (CallDelete ClusterObjectTemplateKind \<lparr>key_Namespace = '''', key_Name = Name (addonMeta goneAddon)\<rparr>, Some err),
       (CallUpdate (KAddon b), None)]"
proof -
  let ?r = "refReconciler goneStock" and ?s = "refState goneAddon"
  have run: "reconcile ?r ?s = (Ok zeroResult, snd (reconcile ?r ?s))"
    by (simp add: prod_eq_iff gone_run(1))
  have "finalizer_laws (theLib (theEnv ?r))" "stores_addons (theEnv ?r)" "st_calls ?s = []"
    "DeletionTimestamp (addonMeta (st_addon ?s)) \<noteq> None"
    by (simp_all add: refLib_finalizer refEnv_stores gone_run(4))
  from deletion_waits_for_template [OF this(1,2,4,3) run] show ?thesis
    using gone_run(3) by (metis refEnv_sel(1) refLib_sel(7) refReconciler_sel(1) refState_sel(1))
qed


definition pausedAddon :: Addon where
  "pausedAddon = refAddon\<lparr>Spec := refSpec\<lparr>Paused := True\<rparr>\<rparr>"


definition contentReconciler :: "unit AddonReconciler" where
  "contentReconciler = (refReconciler emptyStock)\<lparr>subReconcilers := [packageOperatorReconciler, addonDeletionReconciler]\<rparr>"

lemma content_run:
  "IsAvailable refLib (st_addon (snd (reconcile contentReconciler (refState keptAddon))))"
  by (simp add: contentReconciler_def refReconciler_def NewAddonReconciler_def getOrderedSubReconcilers_def
      deletionReconcile_def markedForDeletion_def packageReconcile_def ensureClusterObjectTemplateTornDown_def
      getExistingClusterObjectTemplate_def IsReconciliationSuccessful_def IsAvailable_def
      report_defs status_prims condition_def resultNil_def controller_eval)

theorem available_only_when_content_witness:
  "\<exists>s1 s2. passed contentReconciler [addonDeletionReconciler, packageOperatorReconciler] s1 s2"
proof -
  let ?r = contentReconciler and ?s = "refState keptAddon"
  have env: "theEnv ?r = refEnv emptyStock" by (simp add: contentReconciler_def)
  have "condition_laws (theLib (theEnv ?r))" "DeletionTimestamp (addonMeta (st_addon ?s)) = None"
    "ContainsFinalizer (theLib (theEnv ?r)) (addonMeta (st_addon ?s)) cacheFinalizer"
    "\<not> IsAvailable (theLib (theEnv ?r)) (st_addon ?s)"
    by (simp_all add: env refLib_conditions keptAddon_def refAddon_def objectMeta_def IsAvailable_def refStatus_def)
       (simp_all add: refLib_def)
  from available_only_when_content [OF this prod.collapse [symmetric]]
  have "\<exists>s1 s2. passed ?r (getOrderedSubReconcilers ?r) s1 s2" using content_run by (simp add: env) blast
  then show ?thesis by (simp add: getOrderedSubReconcilers_def contentReconciler_def)
qed

definition newVersionAddon :: Addon where
  "newVersionAddon = refAddon\<lparr>Status := refStatus\<lparr>ObservedVersion := ''0.9.0''\<rparr>\<rparr>"

lemmas read_eval = reconcileRead_def syncWithExternalAPIs_def tryp_def handleUpgradePolicyStatusReporting_def
  handleOCMAddOnStatusReporting_def requiresReporting_def recordAddonMetrics_def
  reportObservedVersion_def report_defs status_prims condition_def controller_eval

lemma newVersion_run: "fst (reconcileRead (refReconciler emptyStock) (refState newVersionAddon)) = Ok (zeroResult, [])"
  by (simp add: newVersionAddon_def read_eval)

lemma newVersion_step:
  "reconcileRead (refReconciler emptyStock) (refState newVersionAddon) =
     (Ok (zeroResult, []), snd (reconcileRead (refReconciler emptyStock) (refState newVersionAddon)))"
  by (simp add: prod_eq_iff newVersion_run)



theorem settings_reach_every_addon_witness:
  "addonRequeueCh (fst (snd (setGlobalPause True (refReconciler goneStock, ())))) = [goneAddon]"
proof -
  have "kList (k_Addon (client (theEnv (refReconciler goneStock)))) '''' Map.empty () = (Inr [goneAddon], ())"
    by (simp add: goneStock_def stockCluster_def stockClient_def selectorMatches_def)
  from settings_reach_every_addon [OF this, of True] show ?thesis
    by (simp add: refReconciler_def NewAddonReconciler_def)
qed

end
