(* ===== verification/Feature_Toggles.thy ===== *)
theory Feature_Toggles
  imports Addon_Controller
begin

text \<open>
  The feature toggles (\<open>internal/featuretoggle\<close>): a comma-separated list in the AddonOperator object that
  switches optional sub-reconcilers on when the operator starts (\<open>main.go\<close>), and the operations that edit
  this list. The API client is a parameter; every write is recorded. What a toggle registers in the scheme
  of the API types before the manager exists, and what it sets up in a test cluster, is left out.

  The main results: enabling and disabling a toggle changes this toggle only and is seen by the test that
  decides what is switched on, and the toggles present at the start determine the sub-reconcilers and their order.
\<close>

section \<open>Handlers\<close>

datatype FeatureToggleHandler = MonitoringStackFeatureToggle | AddonsPlugAndPlayFeatureToggle

abbreviation AddonsPlugAndPlayFeatureToggleIdentifier :: string where
  "AddonsPlugAndPlayFeatureToggleIdentifier \<equiv> ''ADDONS_PLUG_AND_PLAY''"

fun toggleName :: "FeatureToggleHandler \<Rightarrow> string" where
  "toggleName MonitoringStackFeatureToggle = ''Monitoring Stack Reconciliation Feature Toggle''"
| "toggleName AddonsPlugAndPlayFeatureToggle = ''Addons Plug And Play Feature Toggle''"

fun GetFeatureToggleIdentifier :: "FeatureToggleHandler \<Rightarrow> string" where
  "GetFeatureToggleIdentifier MonitoringStackFeatureToggle = ''EXPERIMENTAL_FEATURES''"
| "GetFeatureToggleIdentifier AddonsPlugAndPlayFeatureToggle = AddonsPlugAndPlayFeatureToggleIdentifier"

definition GetAvailableFeatureToggles :: "FeatureToggleHandler list" where
  "GetAvailableFeatureToggles = [MonitoringStackFeatureToggle, AddonsPlugAndPlayFeatureToggle]"

fun PostManagerSetupHandle :: "FeatureToggleHandler \<Rightarrow> AddonReconcilerOptions list \<Rightarrow> AddonReconcilerOptions list" where
  "PostManagerSetupHandle MonitoringStackFeatureToggle opts = opts @ [WithMonitoringStackReconciler]"
| "PostManagerSetupHandle AddonsPlugAndPlayFeatureToggle opts = opts @ [WithPackageOperatorReconciler]"

fun stringPresentInSlice :: "string \<Rightarrow> string list \<Rightarrow> bool" where
  "stringPresentInSlice target [] = False"
| "stringPresentInSlice target (v # vs) = (if v = target then True else stringPresentInSlice target vs)"

definition IsEnabled :: "FeatureToggleHandler \<Rightarrow> AddonOperator \<Rightarrow> bool" where
  "IsEnabled h ado = stringPresentInSlice (GetFeatureToggleIdentifier h) (splitOn CHR '','' (FeatureFlags (ao_Spec ado)))"

text \<open>\<open>os.LookupEnv("FEATURE_TOGGLES")\<close> is the argument.\<close>

definition IsEnabledOnTestEnv :: "FeatureToggleHandler \<Rightarrow> string option \<Rightarrow> bool" where
  "IsEnabledOnTestEnv h env = (case env of
     None \<Rightarrow> False
   | Some toggles \<Rightarrow> stringPresentInSlice (GetFeatureToggleIdentifier h) (splitOn CHR '','' toggles))"

text \<open>The loop of \<open>setup\<close> in \<open>main.go\<close> that collects the options of the Addon controller.\<close>

definition setupOptions :: "AddonOperator \<Rightarrow> AddonReconcilerOptions list" where
  "setupOptions ado = foldl (\<lambda>opts h. if \<not> IsEnabled h ado then opts else PostManagerSetupHandle h opts) [] GetAvailableFeatureToggles"

section \<open>Editing the list\<close>

definition defaultAddonOperator :: "string \<Rightarrow> AddonOperator" where
  "defaultAddonOperator flags = \<lparr>ao_meta = objectMeta '''' DefaultAddonOperatorName,
     ao_Spec = \<lparr>ao_Paused = False, ExperimentalFeatures = False, FeatureFlags = flags, OCM = None\<rparr>,
     ao_Status = \<lparr>ao_ObservedGeneration = 0, ao_Conditions = [], ao_LastHeartbeatTime = None, ao_Phase = PhaseNone\<rparr>\<rparr>"

definition withFlags :: "string \<Rightarrow> AddonOperator \<Rightarrow> AddonOperator" where
  "withFlags flags ado = ado\<lparr>ao_Spec := (ao_Spec ado)\<lparr>FeatureFlags := flags\<rparr>\<rparr>"

datatype operatorCall = OpCreate AddonOperator | OpUpdate AddonOperator | OpStatusUpdate AddonOperator

record 'w toggleRun =
  tg_world :: 'w
  tg_calls :: "(operatorCall \<times> error option) list"

definition toggleWrite :: "operatorCall \<Rightarrow> ('w \<Rightarrow> (error + AddonOperator) \<times> 'w) \<Rightarrow> ('w toggleRun, unit) prog" where
  "toggleWrite c f = (\<lambda>s. case f (tg_world s) of (r, w) \<Rightarrow>
     (case r of Inl e \<Rightarrow> Err e | Inr _ \<Rightarrow> Ok (), s\<lparr>tg_world := w, tg_calls := tg_calls s @ [(c, errorOf r)]\<rparr>))"

text \<open>The list with the toggle appended, and the list without it.\<close>

definition appendToggle :: "string \<Rightarrow> string \<Rightarrow> string" where
  "appendToggle t flags = (if flags = '''' then t else flags @ '','' @ t)"

fun collectOthers :: "string \<Rightarrow> string list \<Rightarrow> string \<Rightarrow> string" where
  "collectOthers t [] updated = updated"
| "collectOthers t (featTog # rest) updated =
     (if featTog = t then collectOthers t rest updated else collectOthers t rest (updated @ '','' @ featTog))"

definition removeToggle :: "string \<Rightarrow> string \<Rightarrow> string" where
  "removeToggle t flags = (let updated = collectOthers t (splitOn CHR '','' flags) '''' in
     if length updated \<noteq> 0 then tl updated else updated)"

text \<open>Both handlers have the same code, up to the identifier.\<close>

definition editToggle :: "lib \<Rightarrow> ('w, AddonOperator) kclient \<Rightarrow> string \<Rightarrow> (string \<Rightarrow> bool) \<Rightarrow> (string \<Rightarrow> string) \<Rightarrow> ('w toggleRun, unit) prog" where
  "editToggle L c initial unchanged edit = (\<lambda>s. case kGet c \<lparr>key_Namespace = '''', key_Name = DefaultAddonOperatorName\<rparr> (tg_world s) of
     (Inl err, w) \<Rightarrow>
       (if IsNotFound L err
        then toggleWrite (OpCreate (defaultAddonOperator initial)) (kCreate c (defaultAddonOperator initial))
        else throw err) (s\<lparr>tg_world := w\<rparr>)
   | (Inr ado, w) \<Rightarrow>
       (if unchanged (FeatureFlags (ao_Spec ado)) then ret ()
        else let ado' = withFlags (edit (FeatureFlags (ao_Spec ado))) ado in
          call (toggleWrite (OpUpdate ado') (kUpdate c ado'))
            (\<lambda>err. throw (Wrap ''failed to enable the feature toggle in the AddonOperator object'' err)) ret) (s\<lparr>tg_world := w\<rparr>))"

definition enableToggle :: "lib \<Rightarrow> ('w, AddonOperator) kclient \<Rightarrow> string \<Rightarrow> ('w toggleRun, unit) prog" where
  "enableToggle L c t = editToggle L c t (\<lambda>flags. stringPresentInSlice t (splitOn CHR '','' flags)) (appendToggle t)"

definition disableToggle :: "lib \<Rightarrow> ('w, AddonOperator) kclient \<Rightarrow> string \<Rightarrow> ('w toggleRun, unit) prog" where
  "disableToggle L c t = editToggle L c '''' (\<lambda>flags. \<not> stringPresentInSlice t (splitOn CHR '','' flags)) (removeToggle t)"

definition monitoringStackEnable :: "lib \<Rightarrow> ('w, AddonOperator) kclient \<Rightarrow> ('w toggleRun, unit) prog" where
  "monitoringStackEnable L c = enableToggle L c (GetFeatureToggleIdentifier MonitoringStackFeatureToggle)"

definition monitoringStackDisable :: "lib \<Rightarrow> ('w, AddonOperator) kclient \<Rightarrow> ('w toggleRun, unit) prog" where
  "monitoringStackDisable L c = disableToggle L c (GetFeatureToggleIdentifier MonitoringStackFeatureToggle)"

definition plugAndPlayEnable :: "lib \<Rightarrow> ('w, AddonOperator) kclient \<Rightarrow> ('w toggleRun, unit) prog" where
  "plugAndPlayEnable L c = enableToggle L c (GetFeatureToggleIdentifier AddonsPlugAndPlayFeatureToggle)"

definition plugAndPlayDisable :: "lib \<Rightarrow> ('w, AddonOperator) kclient \<Rightarrow> ('w toggleRun, unit) prog" where
  "plugAndPlayDisable L c = disableToggle L c (GetFeatureToggleIdentifier AddonsPlugAndPlayFeatureToggle)"

fun toggleEnable :: "FeatureToggleHandler \<Rightarrow> lib \<Rightarrow> ('w, AddonOperator) kclient \<Rightarrow> ('w toggleRun, unit) prog" where
  "toggleEnable MonitoringStackFeatureToggle = monitoringStackEnable"
| "toggleEnable AddonsPlugAndPlayFeatureToggle = plugAndPlayEnable"

fun toggleDisable :: "FeatureToggleHandler \<Rightarrow> lib \<Rightarrow> ('w, AddonOperator) kclient \<Rightarrow> ('w toggleRun, unit) prog" where
  "toggleDisable MonitoringStackFeatureToggle = monitoringStackDisable"
| "toggleDisable AddonsPlugAndPlayFeatureToggle = plugAndPlayDisable"

section \<open>The list as a set of toggles\<close>

lemma present_iff [simp]: "stringPresentInSlice t xs \<longleftrightarrow> t \<in> set xs"
  by (induction xs) auto


lemma splitOn_free [simp]: "c \<notin> set xs \<Longrightarrow> splitOn c xs = [xs]"
  by (induction xs) auto

lemma splitOn_append: "splitOn c (xs @ c # ys) = splitOn c xs @ splitOn c ys"
proof (induction xs)
  case Nil
  obtain w ws where "splitOn c ys = w # ws" using splitOn_nonempty [of c ys] by (cases "splitOn c ys") auto
  then show ?case by simp
next
  case (Cons x xs)
  obtain w ws where "splitOn c xs = w # ws" using splitOn_nonempty [of c xs] by (cases "splitOn c xs") auto
  with Cons show ?case by simp
qed

lemma splitOn_elements: "x \<in> set (splitOn c xs) \<Longrightarrow> c \<notin> set x"
proof (induction xs arbitrary: x)
  case (Cons y ys)
  obtain w ws where w: "splitOn c ys = w # ws" using splitOn_nonempty [of c ys] by (cases "splitOn c ys") auto
  with Cons.prems show ?case using Cons.IH [of w] Cons.IH [of x] by (auto split: if_splits)
qed simp

lemma splitOn_join:
  "xs \<noteq> [] \<Longrightarrow> \<forall>x \<in> set xs. c \<notin> set x \<Longrightarrow> splitOn c (joinWith [c] xs) = xs"
proof (induction xs)
  case (Cons x xs)
  then show ?case by (cases "xs = []") (simp_all add: joinWith_Cons splitOn_append)
qed simp

lemma collectOthers_eq:
  "collectOthers t xs acc = acc @ concat (map (\<lambda>x. '','' @ x) (filter (\<lambda>x. x \<noteq> t) xs))"
  by (induction xs arbitrary: acc) auto

lemma join_tl: "xs \<noteq> [] \<Longrightarrow> tl (concat (map (\<lambda>x. '','' @ x) xs)) = joinWith '','' xs"
proof (induction xs)
  case (Cons x xs)
  show ?case
  proof (cases xs)
    case (Cons y ys)
    with Cons.IH show ?thesis by (simp add: joinWith_Cons)
  qed simp
qed simp

lemma removeToggle_eq: "removeToggle t flags = joinWith '','' (filter (\<lambda>x. x \<noteq> t) (splitOn CHR '','' flags))"
proof -
  define xs where "xs = filter (\<lambda>x. x \<noteq> t) (splitOn CHR '','' flags)"
  have "collectOthers t (splitOn CHR '','' flags) '''' = concat (map (\<lambda>x. '','' @ x) xs)"
    by (simp add: collectOthers_eq xs_def)
  then show ?thesis
    unfolding removeToggle_def xs_def [symmetric] Let_def using join_tl [of xs] by (cases xs) simp_all
qed

lemma in_appendToggle:
  assumes "CHR '','' \<notin> set t" "u \<noteq> ''''"
  shows "u \<in> set (splitOn CHR '','' (appendToggle t flags)) \<longleftrightarrow> u = t \<or> u \<in> set (splitOn CHR '','' flags)"
  using assms by (auto simp: appendToggle_def splitOn_append)

lemma in_removeToggle:
  assumes "u \<noteq> ''''"
  shows "u \<in> set (splitOn CHR '','' (removeToggle t flags)) \<longleftrightarrow> u \<noteq> t \<and> u \<in> set (splitOn CHR '','' flags)"
proof (cases "filter (\<lambda>x. x \<noteq> t) (splitOn CHR '','' flags) = []")
  case True
  with assms show ?thesis by (auto simp: removeToggle_eq filter_empty_conv)
next
  case False
  then have "splitOn CHR '','' (removeToggle t flags) = filter (\<lambda>x. x \<noteq> t) (splitOn CHR '','' flags)"
    unfolding removeToggle_eq by (intro splitOn_join) (auto dest: splitOn_elements)
  then show ?thesis by auto
qed

section \<open>Enabling and disabling\<close>

lemma identifiers [simp]:
  "CHR '','' \<notin> set (GetFeatureToggleIdentifier h)" "GetFeatureToggleIdentifier h \<noteq> ''''"
  "GetFeatureToggleIdentifier h = GetFeatureToggleIdentifier h' \<longleftrightarrow> h = h'"
  by (cases h; cases h'; simp)+

lemma IsEnabled_edit [simp]:
  "IsEnabled h' (withFlags (appendToggle (GetFeatureToggleIdentifier h) flags) ado) \<longleftrightarrow>
     h' = h \<or> GetFeatureToggleIdentifier h' \<in> set (splitOn CHR '','' flags)"
  "IsEnabled h' (withFlags (removeToggle (GetFeatureToggleIdentifier h) flags) ado) \<longleftrightarrow>
     h' \<noteq> h \<and> GetFeatureToggleIdentifier h' \<in> set (splitOn CHR '','' flags)"
  by (simp_all add: IsEnabled_def withFlags_def in_appendToggle in_removeToggle)

text \<open>
  The object after a run that returned no error: the one that was written, or the one that was read. \<open>edit\<close>
  is what the flags of a found object become; a missing object is created.
\<close>

definition settledAs :: "'w toggleRun \<Rightarrow> 'w toggleRun \<Rightarrow> (error + AddonOperator) \<Rightarrow> AddonOperator \<Rightarrow> bool" where
  "settledAs s s' found after \<longleftrightarrow>
     (case found of
        Inl _ \<Rightarrow> tg_calls s' = tg_calls s @ [(OpCreate after, None)]
      | Inr ado \<Rightarrow> (after = ado \<and> tg_calls s' = tg_calls s \<or> tg_calls s' = tg_calls s @ [(OpUpdate after, None)]) \<and>
          after = withFlags (FeatureFlags (ao_Spec after)) ado)"

lemma withFlags_id [simp]: "withFlags (FeatureFlags (ao_Spec ado)) ado = ado"
  by (simp add: withFlags_def)

lemma editToggle_ok:
  assumes "editToggle L c initial unchanged edit s = (Ok (), s')"
    and "kGet c \<lparr>key_Namespace = '''', key_Name = DefaultAddonOperatorName\<rparr> (tg_world s) = (found, w)"
  shows "settledAs s s' found (case found of Inl _ \<Rightarrow> defaultAddonOperator initial
    | Inr ado \<Rightarrow> if unchanged (FeatureFlags (ao_Spec ado)) then ado else withFlags (edit (FeatureFlags (ao_Spec ado))) ado)"
proof (cases found)
  case (Inl e)
  with assms show ?thesis
    by (auto simp: editToggle_def settledAs_def toggleWrite_def split: if_splits prod.splits sum.splits)
next
  case (Inr ado)
  with assms show ?thesis
    by (auto simp: editToggle_def settledAs_def toggleWrite_def Let_def call_ok withFlags_def split: if_splits prod.splits sum.splits)
qed

lemma toggle_edits:
  "toggleEnable h L c = enableToggle L c (GetFeatureToggleIdentifier h)"
  "toggleDisable h L c = disableToggle L c (GetFeatureToggleIdentifier h)"
  by (cases h; simp add: monitoringStackEnable_def plugAndPlayEnable_def monitoringStackDisable_def plugAndPlayDisable_def)+

text \<open>
  C35: Enabling a feature toggle without an error leaves an AddonOperator object in which it is enabled, and
  disabling it one in which it is not; every other toggle and every other field stays as it was, nothing
  is written when nothing has to change, and a missing object is created with exactly this toggle or none.
\<close>

theorem feature_toggle_roundtrip:
  assumes "kGet c \<lparr>key_Namespace = '''', key_Name = DefaultAddonOperatorName\<rparr> (tg_world s) = (found, w)"
  shows "(toggleEnable h L c s = (Ok (), s') \<longrightarrow> (\<exists>after. settledAs s s' found after \<and>
      (\<forall>h'. IsEnabled h' after \<longleftrightarrow> h' = h \<or> (\<exists>ado. found = Inr ado \<and> IsEnabled h' ado)))) \<and>
    (toggleDisable h L c s = (Ok (), s') \<longrightarrow> (\<exists>after. settledAs s s' found after \<and>
      (\<forall>h'. IsEnabled h' after \<longleftrightarrow> h' \<noteq> h \<and> (\<exists>ado. found = Inr ado \<and> IsEnabled h' ado))))"
proof (intro conjI impI)
  assume "toggleEnable h L c s = (Ok (), s')"
  from editToggle_ok [OF this [unfolded toggle_edits enableToggle_def] assms]
  show "\<exists>after. settledAs s s' found after \<and>
      (\<forall>h'. IsEnabled h' after \<longleftrightarrow> h' = h \<or> (\<exists>ado. found = Inr ado \<and> IsEnabled h' ado))"
    by - (rule exI, rule conjI, assumption, auto simp: IsEnabled_def defaultAddonOperator_def in_appendToggle withFlags_def split: sum.splits)
next
  assume "toggleDisable h L c s = (Ok (), s')"
  from editToggle_ok [OF this [unfolded toggle_edits disableToggle_def] assms]
  show "\<exists>after. settledAs s s' found after \<and>
      (\<forall>h'. IsEnabled h' after \<longleftrightarrow> h' \<noteq> h \<and> (\<exists>ado. found = Inr ado \<and> IsEnabled h' ado))"
    by - (rule exI, rule conjI, assumption, auto simp: IsEnabled_def defaultAddonOperator_def in_removeToggle withFlags_def split: sum.splits)
qed

section \<open>What is switched on\<close>

lemma setupOptions_eq:
  "setupOptions ado = (if IsEnabled MonitoringStackFeatureToggle ado then [WithMonitoringStackReconciler] else []) @
     (if IsEnabled AddonsPlugAndPlayFeatureToggle ado then [WithPackageOperatorReconciler] else [])"
  by (simp add: setupOptions_def GetAvailableFeatureToggles_def)

text \<open>The toggles at the start decide what the Addon controller runs, wherever in the list they stand.\<close>

lemma flags_select:
  "getOrderedSubReconcilers (NewAddonReconciler E clusterID status upgrade (setupOptions ado)) =
    [addonDeletionReconciler, namespaceReconciler] @
    (if IsEnabled AddonsPlugAndPlayFeatureToggle ado then [packageOperatorReconciler] else []) @
    [addonSecretPropagationReconciler, addonInstanceReconciler, olmReconciler, monitoringFederationReconciler] @
    (if IsEnabled MonitoringStackFeatureToggle ado then [monitoringStackReconciler] else [])"
proof -
  have "distinct (setupOptions ado)" by (simp add: setupOptions_eq)
  moreover have "WithPackageOperatorReconciler \<in> set (setupOptions ado) \<longleftrightarrow> IsEnabled AddonsPlugAndPlayFeatureToggle ado"
    "WithMonitoringStackReconciler \<in> set (setupOptions ado) \<longleftrightarrow> IsEnabled MonitoringStackFeatureToggle ado"
    by (simp_all add: setupOptions_eq)
  ultimately show ?thesis by (simp only: sub_reconcilers_ordered)
qed

section \<open>A run\<close>

definition oneToggle :: "(unit, AddonOperator) kclient" where
  "oneToggle = stockClient ao_meta [defaultAddonOperator ''EXPERIMENTAL_FEATURES,OTHER'']"

theorem feature_toggle_roundtrip_witness:
  "\<exists>after. settledAs \<lparr>tg_world = (), tg_calls = []\<rparr>
      (snd (toggleEnable AddonsPlugAndPlayFeatureToggle refLib oneToggle \<lparr>tg_world = (), tg_calls = []\<rparr>))
      (Inr (defaultAddonOperator ''EXPERIMENTAL_FEATURES,OTHER'')) after \<and>
    IsEnabled AddonsPlugAndPlayFeatureToggle after \<and> IsEnabled MonitoringStackFeatureToggle after"
proof -
  have found: "kGet oneToggle \<lparr>key_Namespace = '''', key_Name = DefaultAddonOperatorName\<rparr> (tg_world \<lparr>tg_world = (), tg_calls = []\<rparr>) =
      (Inr (defaultAddonOperator ''EXPERIMENTAL_FEATURES,OTHER''), ())"
    by (simp add: oneToggle_def stockClient_def lookupKey_def hasKey_def defaultAddonOperator_def objectMeta_def)
  have run: "fst (toggleEnable AddonsPlugAndPlayFeatureToggle refLib oneToggle \<lparr>tg_world = (), tg_calls = []\<rparr>) = Ok ()"
    using found by (simp add: plugAndPlayEnable_def enableToggle_def editToggle_def oneToggle_def stockClient_def toggleWrite_def call_def
        defaultAddonOperator_def Let_def)
  have on: "IsEnabled MonitoringStackFeatureToggle (defaultAddonOperator ''EXPERIMENTAL_FEATURES,OTHER'')"
    by (simp add: IsEnabled_def defaultAddonOperator_def)
  show ?thesis
    using feature_toggle_roundtrip [OF found, of AddonsPlugAndPlayFeatureToggle refLib
        "snd (toggleEnable AddonsPlugAndPlayFeatureToggle refLib oneToggle \<lparr>tg_world = (), tg_calls = []\<rparr>)"] run on
    by (auto simp: prod_eq_iff)
qed

end
