(* ===== verification/Ocm_Client.thy ===== *)
theory Ocm_Client
  imports Ocm_Reporting
begin

text \<open>
  The OCM client (\<open>internal/ocm\<close>): how a request is put together, how an answer is read, and how a client
  learns which cluster it speaks for. The network and the encodings are parameters, the record
  \<open>transport\<close>: resolving a path against an endpoint (\<open>url.Parse\<close>, \<open>ResolveReference\<close>, \<open>String\<close>), encoding
  query parameters, JSON in both directions, building a request and sending it. Every request that is sent
  is recorded. A function with a named result that is filled through a pointer returns what was filled in.

  The main results: a client only ever speaks for the cluster the API named for the external ID, and
  an answer of the API is reported as an error exactly when its status says so.
\<close>

section \<open>Transport\<close>

record AddOnStatusPatchRequest =
  aspr_CorrelationID :: string
  aspr_AddonVersion :: string
  aspr_StatusConditions :: "AddOnStatusCondition list"

datatype payload =
    ClusterGetRequest
  | PayloadUpgradePolicyPatch UpgradePolicyPatchRequest
  | UpgradePolicyGetRequest string
  | PayloadAddOnStatusPost AddOnStatusPostRequest
  | PayloadAddOnStatusPatch AddOnStatusPatchRequest
  | AddOnStatusGetRequest

record Cluster =
  cl_Id :: string
  cl_Name :: string
  cl_ExternalId :: string

record httpRequest =
  hr_Method :: string
  hr_URL :: string
  hr_Headers :: "(string \<times> string) list"
  hr_Body :: string

record httpResponse =
  StatusCode :: int
  Body :: "error + string"           \<comment> \<open>what \<open>io.ReadAll\<close> returns\<close>

record 'w transport =
  resolveURL :: "string \<Rightarrow> string \<Rightarrow> error + string"   \<comment> \<open>endpoint, relative path\<close>
  encodeParams :: "(string \<times> string) list \<Rightarrow> string"
  marshal :: "payload \<Rightarrow> error + string"
  newRequestError :: "string \<Rightarrow> string \<Rightarrow> error option"  \<comment> \<open>verb, URL\<close>
  httpDo :: "httpRequest \<Rightarrow> 'w \<Rightarrow> (error + httpResponse) \<times> 'w"
  unmarshalOCMError :: "string \<Rightarrow> error + (string \<times> string)"  \<comment> \<open>code, reason\<close>
  unmarshalClusters :: "string \<Rightarrow> error + Cluster list"
  unmarshalPatchResponse :: "string \<Rightarrow> error + unit"
  unmarshalUpgradePolicy :: "string \<Rightarrow> error + UpgradePolicyGetResponse"
  unmarshalAddOnStatus :: "string \<Rightarrow> error + AddOnStatusResponse"
  buildVersion :: string

record 'w netState =
  net_world :: 'w
  net_sent :: "httpRequest list"

section \<open>The client\<close>

record ClientOptions =
  opt_Endpoint :: string
  opt_ClusterExternalID :: string
  opt_ClusterID :: string
  opt_ClusterName :: string
  opt_AccessToken :: string

definition trimRightSlash :: "string \<Rightarrow> string" where
  "trimRightSlash s = rev (dropWhile (\<lambda>c. c = CHR ''/'') (rev s))"

definition trimLeftSlash :: "string \<Rightarrow> string" where
  "trimLeftSlash s = dropWhile (\<lambda>c. c = CHR ''/'') s"

datatype Option = WithEndpoint string | WithClusterExternalID string | WithAccessToken string

fun applyOption :: "Option \<Rightarrow> ClientOptions \<Rightarrow> ClientOptions" where
  "applyOption (WithEndpoint endpoint) o' = o'\<lparr>opt_Endpoint := trimRightSlash endpoint @ ''/''\<rparr>"
| "applyOption (WithClusterExternalID clusterExternalID) o' = o'\<lparr>opt_ClusterExternalID := clusterExternalID\<rparr>"
| "applyOption (WithAccessToken accessToken) o' = o'\<lparr>opt_AccessToken := accessToken\<rparr>"

definition orThrow :: "string \<Rightarrow> error + 'a \<Rightarrow> ('s, 'a) prog" where
  "orThrow context r = (case r of Inl err \<Rightarrow> throw (Wrap context err) | Inr v \<Rightarrow> ret v)"

definition sendRequest :: "'w transport \<Rightarrow> httpRequest \<Rightarrow> ('w netState, httpResponse) prog" where
  "sendRequest T req = (\<lambda>s. case httpDo T req (net_world s) of (r, w) \<Rightarrow>
     (case r of Inl err \<Rightarrow> Err (Wrap ''executing http request'' err) | Inr res \<Rightarrow> Ok res,
      s\<lparr>net_world := w, net_sent := net_sent s @ [req]\<rparr>))"

definition requestHeaders :: "'w transport \<Rightarrow> ClientOptions \<Rightarrow> (string \<times> string) list" where
  "requestHeaders T c = [(''Authorization'', ''AccessToken '' @ opt_ClusterID c @ '':'' @ opt_AccessToken c),
     (''User-Agent'', ''AddonOperator/'' @ buildVersion T), (''Content-Type'', ''application/json'')]"

text \<open>The answer: an error status is an \<open>OCMError\<close>, everything else is decoded.\<close>

definition readAnswer :: "'w transport \<Rightarrow> string \<Rightarrow> (string \<Rightarrow> error + 'a) \<Rightarrow> httpResponse \<Rightarrow> ('s, 'a) prog" where
  "readAnswer T fullUrl unmarshal httpRes =
     (if StatusCode httpRes \<ge> 400 \<and> StatusCode httpRes \<le> 599
      then bindp (orThrow (''reading error response body '' @ fullUrl) (Body httpRes)) (\<lambda>body.
        bindp (orThrow (''HTTP '' @ sprintInt (StatusCode httpRes) @ '': unmarshal json error response '' @ body) (unmarshalOCMError T body))
          (\<lambda>(code, reason). throw (OCMError (StatusCode httpRes) code reason)))
      else bindp (orThrow (''reading response body '' @ fullUrl) (Body httpRes)) (\<lambda>body.
        orThrow (''unmarshal json response '' @ fullUrl) (unmarshal body)))"

definition clientDo ::
  "'w transport \<Rightarrow> ClientOptions \<Rightarrow> string \<Rightarrow> string \<Rightarrow> (string \<times> string) list \<Rightarrow> payload \<Rightarrow> (string \<Rightarrow> error + 'a) \<Rightarrow>
     ('w netState, 'a) prog" where
  "clientDo T c httpMethod path params payload unmarshal =
     bindp (orThrow ''parsing endpoint URL'' (resolveURL T (opt_Endpoint c) (trimLeftSlash path))) (\<lambda>reqURL.
     bindp (orThrow ''marshaling json'' (marshal T payload)) (\<lambda>j.
     let fullUrl = (if length params > 0 then reqURL @ ''?'' @ encodeParams T params else reqURL) in
     bindp (case newRequestError T httpMethod fullUrl of
              Some err \<Rightarrow> throw (Wrap ''creating http request'' err)
            | None \<Rightarrow> ret \<lparr>hr_Method = httpMethod, hr_URL = fullUrl, hr_Headers = requestHeaders T c, hr_Body = j\<rparr>) (\<lambda>httpReq.
     bindp (sendRequest T httpReq) (readAnswer T fullUrl unmarshal))))"

section \<open>The requests\<close>

definition GetCluster :: "'w transport \<Rightarrow> ClientOptions \<Rightarrow> ('w netState, Cluster list) prog" where
  "GetCluster T c = clientDo T c ''GET'' ''/api/clusters_mgmt/v1/clusters''
     [(''search'', ''external_id = '' @ squoted (opt_ClusterExternalID c))] ClusterGetRequest (unmarshalClusters T)"

definition NewClient :: "'w transport \<Rightarrow> Option list \<Rightarrow> ('w netState, ClientOptions) prog" where
  "NewClient T opts =
     (let c = foldl (\<lambda>o' opt. applyOption opt o') \<lparr>opt_Endpoint = '''', opt_ClusterExternalID = '''', opt_ClusterID = '''',
                opt_ClusterName = '''', opt_AccessToken = ''''\<rparr> opts
      in call (GetCluster T c) (\<lambda>err. throw (Wrap ''getting cluster info'' err)) (\<lambda>items.
           case items of
             [] \<Rightarrow> throw (ErrorString (''cluster '' @ opt_ClusterExternalID c @ '' not found''))
           | item # _ \<Rightarrow> ret (c\<lparr>opt_ClusterID := cl_Id item, opt_ClusterName := cl_Name item\<rparr>)))"

definition clientGetClusterIDAndName :: "ClientOptions \<Rightarrow> string \<times> string" where
  "clientGetClusterIDAndName c = (opt_ClusterID c, opt_ClusterName c)"

definition upgradePolicyPath :: "ClientOptions \<Rightarrow> string \<Rightarrow> string" where
  "upgradePolicyPath c policyID =
     ''api/clusters_mgmt/v1/clusters/'' @ opt_ClusterID c @ ''/addon_upgrade_policies/'' @ policyID @ ''/state''"

definition clientPatchUpgradePolicy :: "'w transport \<Rightarrow> ClientOptions \<Rightarrow> UpgradePolicyPatchRequest \<Rightarrow> ('w netState, unit) prog" where
  "clientPatchUpgradePolicy T c req = clientDo T c ''PATCH'' (upgradePolicyPath c (upp_ID req)) []
     (PayloadUpgradePolicyPatch req) (unmarshalPatchResponse T)"

definition clientGetUpgradePolicy :: "'w transport \<Rightarrow> ClientOptions \<Rightarrow> string \<Rightarrow> ('w netState, UpgradePolicyGetResponse) prog" where
  "clientGetUpgradePolicy T c policyID = clientDo T c ''GET'' (upgradePolicyPath c policyID) []
     (UpgradePolicyGetRequest policyID) (unmarshalUpgradePolicy T)"

definition addOnStatusPath :: "ClientOptions \<Rightarrow> string" where
  "addOnStatusPath c = ''/api/addons_mgmt/v1/clusters/'' @ opt_ClusterID c @ ''/status''"

definition clientGetAddOnStatus :: "'w transport \<Rightarrow> ClientOptions \<Rightarrow> string \<Rightarrow> ('w netState, AddOnStatusResponse) prog" where
  "clientGetAddOnStatus T c addonID = clientDo T c ''GET'' (addOnStatusPath c @ ''/'' @ addonID) []
     AddOnStatusGetRequest (unmarshalAddOnStatus T)"

definition clientPostAddOnStatus :: "'w transport \<Rightarrow> ClientOptions \<Rightarrow> AddOnStatusPostRequest \<Rightarrow> ('w netState, AddOnStatusResponse) prog" where
  "clientPostAddOnStatus T c payload = clientDo T c ''POST'' (addOnStatusPath c) []
     (PayloadAddOnStatusPost payload) (unmarshalAddOnStatus T)"

definition clientPatchAddOnStatus ::
  "'w transport \<Rightarrow> ClientOptions \<Rightarrow> string \<Rightarrow> AddOnStatusPatchRequest \<Rightarrow> ('w netState, AddOnStatusResponse) prog" where
  "clientPatchAddOnStatus T c addonID payload = clientDo T c ''PATCH'' (addOnStatusPath c @ ''/'' @ addonID) []
     (PayloadAddOnStatusPatch payload) (unmarshalAddOnStatus T)"

text \<open>
  The client as the Addon controller sees it, through the interface \<open>ocmClient\<close>: a function that cannot
  panic gives its error or its value.
\<close>

definition viaInterface :: "('s, 'a) prog \<Rightarrow> 's \<Rightarrow> (error + 'a) \<times> 's" where
  "viaInterface m = (\<lambda>s. case m s of (Ok v, s') \<Rightarrow> (Inr v, s') | (Err e, s') \<Rightarrow> (Inl e, s')
     | (Panic, s') \<Rightarrow> (Inl (ErrorString ''panic''), s'))"

definition asOcmClient :: "'w transport \<Rightarrow> ClientOptions \<Rightarrow> 'w netState ocmClient" where
  "asOcmClient T c = \<lparr>GetClusterIDAndName = clientGetClusterIDAndName c,
     PatchUpgradePolicy = (\<lambda>req. viaInterface (clientPatchUpgradePolicy T c req)),
     GetUpgradePolicy = (\<lambda>policyID. viaInterface (clientGetUpgradePolicy T c policyID)),
     PostAddOnStatus = (\<lambda>req. viaInterface (clientPostAddOnStatus T c req))\<rparr>"

section \<open>What is sent\<close>

text \<open>Every function sends at most one request, built from the options and the path, and never panics.\<close>

definition sendsOne :: "'w transport \<Rightarrow> ClientOptions \<Rightarrow> string \<Rightarrow> string \<Rightarrow> (string \<times> string) list \<Rightarrow> httpRequest \<Rightarrow> bool" where
  "sendsOne T c httpMethod path params req \<longleftrightarrow> hr_Method req = httpMethod \<and> hr_Headers req = requestHeaders T c \<and>
     (\<exists>url. resolveURL T (opt_Endpoint c) (trimLeftSlash path) = Inr url \<and>
       hr_URL req = (if params = [] then url else url @ ''?'' @ encodeParams T params))"

lemma orThrow_app [simp]: "orThrow m r s = (case r of Inl err \<Rightarrow> Err (Wrap m err) | Inr v \<Rightarrow> Ok v, s)"
  by (simp add: orThrow_def split: sum.splits)

lemma readAnswer_state: "snd (readAnswer T url un res s) = s"
  by (auto simp: readAnswer_def bindp_def call_def split: sum.splits)

lemma readAnswer_no_panic: "fst (readAnswer T url un res s) \<noteq> Panic"
  by (auto simp: readAnswer_def bindp_def call_def split: sum.splits)

lemma readAnswer_ok:
  "fst (readAnswer T url un res s) = Ok v \<longleftrightarrow> \<not> (400 \<le> StatusCode res \<and> StatusCode res \<le> 599) \<and>
     (\<exists>body. Body res = Inr body \<and> un body = Inr v)"
  by (auto simp: readAnswer_def bindp_def call_def split: sum.splits)

lemma readAnswer_ocm:
  "fst (readAnswer T url un res s) = Err (OCMError n code reason) \<longleftrightarrow> 400 \<le> StatusCode res \<and> StatusCode res \<le> 599 \<and>
     n = StatusCode res \<and> (\<exists>body. Body res = Inr body \<and> unmarshalOCMError T body = Inr (code, reason))"
  by (auto simp: readAnswer_def bindp_def call_def split: sum.splits)

text \<open>The three ways a request ends: it is not sent, there is no answer, or the answer is read.\<close>

lemma clientDo_cases:
  obtains (unsent) err where "clientDo T c verb path params p un s = (Err err, s)" "\<exists>m e. err = Wrap m e"
  | (sent) req where "sendsOne T c verb path params req"
      "clientDo T c verb path params p un s =
         (case httpDo T req (net_world s) of
            (Inl err, w) \<Rightarrow> (Err (Wrap ''executing http request'' err), s\<lparr>net_world := w, net_sent := net_sent s @ [req]\<rparr>)
          | (Inr res, w) \<Rightarrow> readAnswer T (hr_URL req) un res (s\<lparr>net_world := w, net_sent := net_sent s @ [req]\<rparr>))"
proof (cases "resolveURL T (opt_Endpoint c) (trimLeftSlash path)")
  case (Inl err)
  then show thesis by (intro unsent [of "Wrap ''parsing endpoint URL'' err"]) (simp_all add: clientDo_def)
next
  case url: (Inr url)
  show thesis
  proof (cases "marshal T p")
    case (Inl err)
    with url show thesis by (intro unsent [of "Wrap ''marshaling json'' err"]) (simp_all add: clientDo_def)
  next
    case body: (Inr j)
    define full where "full = (if params = [] then url else url @ ''?'' @ encodeParams T params)"
    show thesis
    proof (cases "newRequestError T verb full")
      case (Some err)
      with url body show thesis
        by (intro unsent [of "Wrap ''creating http request'' err"]) (simp_all add: clientDo_def full_def split: if_splits)
    next
      case None
      let ?req = "\<lparr>hr_Method = verb, hr_URL = full, hr_Headers = requestHeaders T c, hr_Body = j\<rparr>"
      have "clientDo T c verb path params p un s = bindp (sendRequest T ?req) (readAnswer T full un) s"
        using url body None by (simp add: clientDo_def full_def Let_def split: if_splits)
      then show thesis
        using url by (intro sent [of ?req])
          (auto simp: sendsOne_def full_def sendRequest_def bindp_def call_def split: prod.splits sum.splits)
    qed
  qed
qed

lemma clientDo_sends:
  assumes "clientDo T c verb path params p un s = (r, s')"
  shows "r \<noteq> Panic \<and> (net_sent s' = net_sent s \<or> (\<exists>req. net_sent s' = net_sent s @ [req] \<and> sendsOne T c verb path params req))"
proof (cases rule: clientDo_cases [of T c verb path params p un s])
  case (unsent err)
  with assms show ?thesis by auto
next
  case (sent req)
  obtain r1 w where run: "httpDo T req (net_world s) = (r1, w)" by fastforce
  let ?s = "s\<lparr>net_world := w, net_sent := net_sent s @ [req]\<rparr>"
  show ?thesis
  proof (cases r1)
    case (Inl err)
    with sent run assms show ?thesis by auto
  next
    case (Inr res)
    with sent(2) run assms have "readAnswer T (hr_URL req) un res ?s = (r, s')" by simp
    then have "s' = ?s" "r \<noteq> Panic"
      using readAnswer_state [of T "hr_URL req" un res ?s] readAnswer_no_panic [of T "hr_URL req" un res ?s] by simp_all
    then show ?thesis using sent(1) by simp
  qed
qed

section \<open>Whom a client speaks for\<close>

datatype ocmRequest =
    ReqPatchUpgradePolicy UpgradePolicyPatchRequest
  | ReqGetUpgradePolicy string
  | ReqGetAddOnStatus string
  | ReqPostAddOnStatus AddOnStatusPostRequest
  | ReqPatchAddOnStatus string AddOnStatusPatchRequest

fun runRequest :: "'w transport \<Rightarrow> ClientOptions \<Rightarrow> ocmRequest \<Rightarrow> 'w netState \<Rightarrow> 'w netState" where
  "runRequest T c (ReqPatchUpgradePolicy req) s = snd (clientPatchUpgradePolicy T c req s)"
| "runRequest T c (ReqGetUpgradePolicy policyID) s = snd (clientGetUpgradePolicy T c policyID s)"
| "runRequest T c (ReqGetAddOnStatus addonID) s = snd (clientGetAddOnStatus T c addonID s)"
| "runRequest T c (ReqPostAddOnStatus req) s = snd (clientPostAddOnStatus T c req s)"
| "runRequest T c (ReqPatchAddOnStatus addonID req) s = snd (clientPatchAddOnStatus T c addonID req s)"

text \<open>A request for one cluster: the credentials and the path name it, the path is below the endpoint.\<close>

definition forCluster :: "'w transport \<Rightarrow> string \<Rightarrow> string \<Rightarrow> string \<Rightarrow> httpRequest \<Rightarrow> bool" where
  "forCluster T endpoint clusterID token req \<longleftrightarrow>
     map_of (hr_Headers req) ''Authorization'' = Some (''AccessToken '' @ clusterID @ '':'' @ token) \<and>
     (\<exists>service rest. service \<in> {''clusters_mgmt'', ''addons_mgmt''} \<and>
       resolveURL T endpoint (''api/'' @ service @ ''/v1/clusters/'' @ clusterID @ ''/'' @ rest) = Inr (hr_URL req))"

lemma clientDo_for_cluster:
  assumes "service \<in> {''clusters_mgmt'', ''addons_mgmt''}"
    and "trimLeftSlash path = ''api/'' @ service @ ''/v1/clusters/'' @ opt_ClusterID c @ ''/'' @ rest"
  shows "net_sent (snd (clientDo T c verb path [] p un s)) = net_sent s \<or>
    (\<exists>req. net_sent (snd (clientDo T c verb path [] p un s)) = net_sent s @ [req] \<and>
      forCluster T (opt_Endpoint c) (opt_ClusterID c) (opt_AccessToken c) req)"
proof -
  have "forCluster T (opt_Endpoint c) (opt_ClusterID c) (opt_AccessToken c) req" if "sendsOne T c verb path [] req" for req
    using that assms unfolding forCluster_def sendsOne_def requestHeaders_def
    by (intro conjI exI [of _ service] exI [of _ rest]) simp_all
  then show ?thesis using clientDo_sends [OF prod.collapse [symmetric], of T c verb path "[]" p un s] by blast
qed

lemma paths_relative:
  "trimLeftSlash (upgradePolicyPath c x) =
     ''api/'' @ ''clusters_mgmt'' @ ''/v1/clusters/'' @ opt_ClusterID c @ ''/'' @ ''addon_upgrade_policies/'' @ x @ ''/state''"
  "trimLeftSlash (addOnStatusPath c) = ''api/'' @ ''addons_mgmt'' @ ''/v1/clusters/'' @ opt_ClusterID c @ ''/'' @ ''status''"
  "trimLeftSlash (addOnStatusPath c @ ''/'' @ x) =
     ''api/'' @ ''addons_mgmt'' @ ''/v1/clusters/'' @ opt_ClusterID c @ ''/'' @ ''status/'' @ x"
  by (simp_all add: upgradePolicyPath_def addOnStatusPath_def trimLeftSlash_def)

lemma runRequest_for_cluster:
  "net_sent (runRequest T c q s) = net_sent s \<or>
     (\<exists>req. net_sent (runRequest T c q s) = net_sent s @ [req] \<and> forCluster T (opt_Endpoint c) (opt_ClusterID c) (opt_AccessToken c) req)"
proof (cases q)
  case ReqPatchUpgradePolicy
  show ?thesis unfolding ReqPatchUpgradePolicy runRequest.simps clientPatchUpgradePolicy_def
    by (rule clientDo_for_cluster [OF _ paths_relative(1)]) simp
next
  case ReqGetUpgradePolicy
  show ?thesis unfolding ReqGetUpgradePolicy runRequest.simps clientGetUpgradePolicy_def
    by (rule clientDo_for_cluster [OF _ paths_relative(1)]) simp
next
  case ReqGetAddOnStatus
  show ?thesis unfolding ReqGetAddOnStatus runRequest.simps clientGetAddOnStatus_def
    by (rule clientDo_for_cluster [OF _ paths_relative(3)]) simp
next
  case ReqPostAddOnStatus
  show ?thesis unfolding ReqPostAddOnStatus runRequest.simps clientPostAddOnStatus_def
    by (rule clientDo_for_cluster [OF _ paths_relative(2)]) simp
next
  case ReqPatchAddOnStatus
  show ?thesis unfolding ReqPatchAddOnStatus runRequest.simps clientPatchAddOnStatus_def
    by (rule clientDo_for_cluster [OF _ paths_relative(3)]) simp
qed

lemma requests_for_cluster:
  "\<exists>reqs. net_sent (fold (runRequest T c) qs s) = net_sent s @ reqs \<and>
     list_all (forCluster T (opt_Endpoint c) (opt_ClusterID c) (opt_AccessToken c)) reqs"
proof (induction qs arbitrary: s)
  case (Cons q qs)
  obtain reqs where reqs: "net_sent (fold (runRequest T c) qs (runRequest T c q s)) = net_sent (runRequest T c q s) @ reqs"
    "list_all (forCluster T (opt_Endpoint c) (opt_ClusterID c) (opt_AccessToken c)) reqs" using Cons.IH by blast
  consider "net_sent (runRequest T c q s) = net_sent s"
    | req where "net_sent (runRequest T c q s) = net_sent s @ [req]" "forCluster T (opt_Endpoint c) (opt_ClusterID c) (opt_AccessToken c) req"
    using runRequest_for_cluster by blast
  then show ?case
  proof cases
    case 1
    with reqs show ?thesis by auto
  next
    case (2 req)
    with reqs show ?thesis by (intro exI [of _ "req # reqs"]) simp
  qed
qed simp

text \<open>The one request a successful creation makes, and its answer.\<close>

lemma GetCluster_ok:
  assumes "GetCluster T c s = (Ok items, s1)"
  obtains search res body where "sendsOne T c ''GET'' ''/api/clusters_mgmt/v1/clusters''
      [(''search'', ''external_id = '' @ squoted (opt_ClusterExternalID c))] search"
    "fst (httpDo T search (net_world s)) = Inr res" "Body res = Inr body" "unmarshalClusters T body = Inr items"
    "net_sent s1 = net_sent s @ [search]"
proof (cases rule: clientDo_cases [of T c "''GET''" "''/api/clusters_mgmt/v1/clusters''"
      "[(''search'', ''external_id = '' @ squoted (opt_ClusterExternalID c))]" ClusterGetRequest "unmarshalClusters T" s])
  case (unsent err)
  with assms show thesis by (simp add: GetCluster_def)
next
  case (sent req)
  obtain r1 w where run: "httpDo T req (net_world s) = (r1, w)" by fastforce
  with sent assms obtain res where r1: "r1 = Inr res" by (cases r1) (auto simp: GetCluster_def)
  let ?s = "s\<lparr>net_world := w, net_sent := net_sent s @ [req]\<rparr>"
  have read: "readAnswer T (hr_URL req) (unmarshalClusters T) res ?s = (Ok items, s1)"
    using sent(2) run r1 assms by (simp add: GetCluster_def)
  then have "s1 = ?s" using readAnswer_state [of T "hr_URL req" "unmarshalClusters T" res ?s] by simp
  moreover obtain body where "Body res = Inr body" "unmarshalClusters T body = Inr items"
    using read readAnswer_ok [of T "hr_URL req" "unmarshalClusters T" res ?s items] by auto
  ultimately show thesis using sent(1) run r1 by (intro that [of req res body]) simp_all
qed

text \<open>
  C31: Creating a client asks the API once for the cluster with the external ID; whatever requests are then
  made with it, each of them carries the token together with the ID of the first cluster the API named, is
  made below the path of this cluster, and goes to the given endpoint with exactly one trailing slash.
\<close>

theorem ocm_client_speaks_for_cluster:
  assumes "NewClient T [WithEndpoint e, WithAccessToken token, WithClusterExternalID externalID] s = (Ok c, s1)"
  shows "\<exists>search res item items body reqs. net_sent s1 = net_sent s @ [search] \<and>
    fst (httpDo T search (net_world s)) = Inr res \<and> Body res = Inr body \<and> unmarshalClusters T body = Inr (item # items) \<and>
    (\<exists>url. resolveURL T (trimRightSlash e @ ''/'') ''api/clusters_mgmt/v1/clusters'' = Inr url \<and>
      hr_URL search = url @ ''?'' @ encodeParams T [(''search'', ''external_id = '' @ squoted externalID)]) \<and>
    clientGetClusterIDAndName c = (cl_Id item, cl_Name item) \<and>
    net_sent (fold (runRequest T c) qs s1) = net_sent s1 @ reqs \<and>
    list_all (forCluster T (trimRightSlash e @ ''/'') (cl_Id item) token) reqs"
proof -
  define c0 where "c0 = \<lparr>opt_Endpoint = trimRightSlash e @ ''/'', opt_ClusterExternalID = externalID, opt_ClusterID = '''',
    opt_ClusterName = '''', opt_AccessToken = token\<rparr>"
  have opts: "foldl (\<lambda>o' opt. applyOption opt o') \<lparr>opt_Endpoint = '''', opt_ClusterExternalID = '''', opt_ClusterID = '''',
      opt_ClusterName = '''', opt_AccessToken = ''''\<rparr> [WithEndpoint e, WithAccessToken token, WithClusterExternalID externalID] = c0"
    by (simp add: c0_def)
  have "NewClient T [WithEndpoint e, WithAccessToken token, WithClusterExternalID externalID] =
      call (GetCluster T c0) (\<lambda>err. throw (Wrap ''getting cluster info'' err)) (\<lambda>items. case items of
        [] \<Rightarrow> throw (ErrorString (''cluster '' @ opt_ClusterExternalID c0 @ '' not found''))
      | item # _ \<Rightarrow> ret (c0\<lparr>opt_ClusterID := cl_Id item, opt_ClusterName := cl_Name item\<rparr>))"
    by (simp only: NewClient_def Let_def opts)
  with assms obtain found s0 where found: "GetCluster T c0 s = (Ok found, s0)"
    "(case found of [] \<Rightarrow> throw (ErrorString (''cluster '' @ opt_ClusterExternalID c0 @ '' not found''))
      | item # _ \<Rightarrow> ret (c0\<lparr>opt_ClusterID := cl_Id item, opt_ClusterName := cl_Name item\<rparr>)) s0 = (Ok c, s1)"
    by (auto simp: call_ok)
  then obtain item items where get: "GetCluster T c0 s = (Ok (item # items), s1)"
    and c: "c = c0\<lparr>opt_ClusterID := cl_Id item, opt_ClusterName := cl_Name item\<rparr>"
    by (cases found) simp_all
  have path: "trimLeftSlash ''/api/clusters_mgmt/v1/clusters'' = ''api/clusters_mgmt/v1/clusters''" by (simp add: trimLeftSlash_def)
  obtain search res body where search: "sendsOne T c0 ''GET'' ''/api/clusters_mgmt/v1/clusters''
      [(''search'', ''external_id = '' @ squoted (opt_ClusterExternalID c0))] search"
    "fst (httpDo T search (net_world s)) = Inr res" "Body res = Inr body" "unmarshalClusters T body = Inr (item # items)"
    "net_sent s1 = net_sent s @ [search]" by (rule GetCluster_ok [OF get])
  obtain reqs where "net_sent (fold (runRequest T c) qs s1) = net_sent s1 @ reqs"
    "list_all (forCluster T (opt_Endpoint c) (opt_ClusterID c) (opt_AccessToken c)) reqs" using requests_for_cluster by blast
  with search show ?thesis
    by (intro exI [of _ search] exI [of _ res] exI [of _ item] exI [of _ items] exI [of _ body] exI [of _ reqs])
      (auto simp: sendsOne_def path c c0_def clientGetClusterIDAndName_def)
qed

text \<open>
  C33: When the API answers a request, the client returns an OCM error with the status of the answer exactly
  when this status is from 400 to 599 and the error can be read, and returns a value exactly when the
  status is any other one and the answer can be decoded to this value; nothing panics.
\<close>

theorem ocm_errors_exact:
  assumes "net_sent (snd (clientDo T c verb path params p un s)) = net_sent s @ [req]"
    and "httpDo T req (net_world s) = (Inr res, w)"
  shows "(\<forall>v. fst (clientDo T c verb path params p un s) = Ok v \<longleftrightarrow>
      \<not> (400 \<le> StatusCode res \<and> StatusCode res \<le> 599) \<and> (\<exists>body. Body res = Inr body \<and> un body = Inr v)) \<and>
    (\<forall>n code reason. fst (clientDo T c verb path params p un s) = Err (OCMError n code reason) \<longleftrightarrow>
      400 \<le> StatusCode res \<and> StatusCode res \<le> 599 \<and> n = StatusCode res \<and>
      (\<exists>body. Body res = Inr body \<and> unmarshalOCMError T body = Inr (code, reason))) \<and>
    fst (clientDo T c verb path params p un s) \<noteq> Panic"
proof (cases rule: clientDo_cases [of T c verb path params p un s])
  case (unsent err)
  with assms show ?thesis by simp
next
  case (sent req')
  have "req' = req"
    using sent(2) assms(1) by (auto simp: readAnswer_state split: prod.splits sum.splits)
  then show ?thesis using sent(2) assms(2) by (simp add: readAnswer_ok readAnswer_ocm readAnswer_no_panic)
qed

section \<open>A reference API\<close>

text \<open>An API that knows one cluster and answers every other request with the status 404.\<close>

definition refTransport :: "unit transport" where
  "refTransport = \<lparr>resolveURL = (\<lambda>e p. Inr (e @ p)), encodeParams = (\<lambda>ps. concat (map (\<lambda>(k, v). k @ ''='' @ v) ps)),
     marshal = (\<lambda>_. Inr ''{}''), newRequestError = (\<lambda>_ _. None),
     httpDo = (\<lambda>req w. (Inr \<lparr>StatusCode = (if hr_URL req = ''https://ocm/api/clusters_mgmt/v1/clusters?search=external_id = '' @ squoted ''ext''
        then 200 else 404), Body = Inr ''body''\<rparr>, w)),
     unmarshalOCMError = (\<lambda>_. Inr (''CLUSTERS-404'', ''not found'')),
     unmarshalClusters = (\<lambda>_. Inr [\<lparr>cl_Id = ''int'', cl_Name = ''name'', cl_ExternalId = ''ext''\<rparr>]),
     unmarshalPatchResponse = (\<lambda>_. Inr ()),
     unmarshalUpgradePolicy = (\<lambda>_. Inl (ErrorString ''unexpected end'')),
     unmarshalAddOnStatus = (\<lambda>_. Inl (ErrorString ''unexpected end'')), buildVersion = ''v1''\<rparr>"

definition refClient :: ClientOptions where
  "refClient = \<lparr>opt_Endpoint = ''https://ocm/'', opt_ClusterExternalID = ''ext'', opt_ClusterID = ''int'',
     opt_ClusterName = ''name'', opt_AccessToken = ''token''\<rparr>"

lemma refClient_created:
  "fst (NewClient refTransport [WithEndpoint ''https://ocm//'', WithAccessToken ''token'', WithClusterExternalID ''ext'']
     \<lparr>net_world = (), net_sent = []\<rparr>) = Ok refClient"
  by code_simp

theorem ocm_client_speaks_for_cluster_witness:
  "\<exists>reqs. net_sent (fold (runRequest refTransport refClient) [ReqGetAddOnStatus ''ref'']
      (snd (NewClient refTransport [WithEndpoint ''https://ocm//'', WithAccessToken ''token'', WithClusterExternalID ''ext'']
        \<lparr>net_world = (), net_sent = []\<rparr>))) =
     net_sent (snd (NewClient refTransport [WithEndpoint ''https://ocm//'', WithAccessToken ''token'', WithClusterExternalID ''ext'']
        \<lparr>net_world = (), net_sent = []\<rparr>)) @ reqs"
  using ocm_client_speaks_for_cluster [of refTransport "''https://ocm//''" "''token''" "''ext''"
      "\<lparr>net_world = (), net_sent = []\<rparr>" refClient
      "snd (NewClient refTransport [WithEndpoint ''https://ocm//'', WithAccessToken ''token'', WithClusterExternalID ''ext'']
        \<lparr>net_world = (), net_sent = []\<rparr>)" "[ReqGetAddOnStatus ''ref'']"] refClient_created
  by (auto simp: prod_eq_iff)

theorem ocm_errors_exact_witness:
  "fst (clientDo refTransport refClient ''GET'' ''/api/x'' [] AddOnStatusGetRequest (unmarshalAddOnStatus refTransport)
      \<lparr>net_world = (), net_sent = []\<rparr>) = Err (OCMError 404 ''CLUSTERS-404'' ''not found'')"
proof -
  let ?req = "\<lparr>hr_Method = ''GET'', hr_URL = ''https://ocm/api/x'', hr_Headers = requestHeaders refTransport refClient, hr_Body = ''{}''\<rparr>"
  let ?res = "\<lparr>StatusCode = 404, Body = Inr ''body''\<rparr>"
  have sent: "net_sent (snd (clientDo refTransport refClient ''GET'' ''/api/x'' [] AddOnStatusGetRequest (unmarshalAddOnStatus refTransport)
      \<lparr>net_world = (), net_sent = []\<rparr>)) = [] @ [?req]" by code_simp
  have answered: "httpDo refTransport ?req () = (Inr ?res, ())" by code_simp
  have error: "unmarshalOCMError refTransport ''body'' = Inr (''CLUSTERS-404'', ''not found'')" by (simp add: refTransport_def)
  show ?thesis
    using ocm_errors_exact [of refTransport refClient "''GET''" "''/api/x''" "[]" AddOnStatusGetRequest "unmarshalAddOnStatus refTransport"
        "\<lparr>net_world = (), net_sent = []\<rparr>" ?req ?res "()"] sent answered error by simp
qed

end
