(* ===== verification/Operator_Controller.thy ===== *)
theory Operator_Controller
  imports Feature_Toggles Ocm_Client "HOL-Library.AList" "HOL-Library.Multiset"
begin

text \<open>
  The AddonOperator controller (\<open>controllers/addonoperator\<close>): it creates the default AddonOperator object,
  ends the process when the feature toggles have changed, pauses and unpauses the Addon controller, creates
  the OCM client and hands it over, and reports the operator as ready. The Addon controller it works on is
  part of the state: it is the \<open>GlobalPauseManager\<close> and the \<open>OCMClientManager\<close>, as in \<open>main.go\<close>. The
  world of the clients is the one of the OCM transport.

  The main results: the process ends exactly when the multiset of toggles differs from the one it started
  with; the pause follows the specification as long as the reported condition tells the truth; and after a
  restart it does not, because the condition survives the restart and the pause does not.
\<close>

section \<open>Comparing toggles\<close>

definition areSlicesEquivalent :: "string list \<Rightarrow> string list \<Rightarrow> bool" where
  "areSlicesEquivalent sliceA sliceB =
     (if length sliceA \<noteq> length sliceB then False
      else let tracker = fold (\<lambda>strA. AList.map_default strA 1 (\<lambda>n. n + 1)) sliceA ([] :: (string \<times> int) list);
               tracker = fold (\<lambda>strB. AList.map_default strB (- 1) (\<lambda>n. n - 1)) sliceB tracker
           in list_all (\<lambda>(_, diff). diff = 0) tracker)"

section \<open>The reconciler\<close>

datatype json = JString string | JMap "(string \<times> json) list" | JOther

record 'w AddonOperatorReconciler =
  aor_Env :: "'w netState Env"
  aor_Client :: "('w netState, AddonOperator) kclient"
  aor_Transport :: "'w transport"
  aor_ClusterExternalID :: string
  FeatureTogglesState :: "string list"
  unmarshalDockerConfig :: "string \<Rightarrow> error + json"
  NestedString :: "json \<Rightarrow> string list \<Rightarrow> error + string option"

record 'w orun =
  or_operator :: AddonOperator
  or_addons :: "'w netState AddonReconciler"
  or_world :: "'w netState"
  or_calls :: "(operatorCall \<times> error option) list"
  or_ticks :: nat
  or_recorder :: "Recorder option"

definition onAddons :: "('w netState settings, 'a) prog \<Rightarrow> ('w orun, 'a) prog" where
  "onAddons m = (\<lambda>s. case m (or_addons s, or_world s) of (r, a, w) \<Rightarrow> (r, s\<lparr>or_addons := a, or_world := w\<rparr>))"

definition onWorld :: "('w netState, 'a) prog \<Rightarrow> ('w orun, 'a) prog" where
  "onWorld m = (\<lambda>s. case m (or_world s) of (r, w) \<Rightarrow> (r, s\<lparr>or_world := w\<rparr>))"

definition operatorRead :: "('w netState \<Rightarrow> (error + 'a) \<times> 'w netState) \<Rightarrow> ('w orun, 'a) prog" where
  "operatorRead f = (\<lambda>s. case f (or_world s) of (r, w) \<Rightarrow> (answer r, s\<lparr>or_world := w\<rparr>))"

definition operatorNow :: "'w AddonOperatorReconciler \<Rightarrow> ('w orun, time) prog" where
  "operatorNow r = (\<lambda>s. (Ok (clock (aor_Env r) (or_ticks s)), s\<lparr>or_ticks := Suc (or_ticks s)\<rparr>))"

definition setOperator :: "(AddonOperator \<Rightarrow> AddonOperator) \<Rightarrow> ('w orun, unit) prog" where
  "setOperator f = modify (\<lambda>s. s\<lparr>or_operator := f (or_operator s)\<rparr>)"

definition operatorStatusUpdate :: "'w AddonOperatorReconciler \<Rightarrow> ('w orun, unit) prog" where
  "operatorStatusUpdate r = (\<lambda>s. case kStatusUpdate (aor_Client r) (or_operator s) (or_world s) of
     (Inl e, w) \<Rightarrow> (Err e, s\<lparr>or_world := w, or_calls := or_calls s @ [(OpStatusUpdate (or_operator s), Some e)]\<rparr>)
   | (Inr ado, w) \<Rightarrow> (Ok (), s\<lparr>or_world := w, or_calls := or_calls s @ [(OpStatusUpdate (or_operator s), None)], or_operator := ado\<rparr>))"

definition setOperatorPausedMetric :: "bool \<Rightarrow> ('w orun, unit) prog" where
  "setOperatorPausedMetric p = modify (\<lambda>s. s\<lparr>or_recorder := map_option (SetAddonOperatorPaused p) (or_recorder s)\<rparr>)"

definition reportOperatorError :: "error \<Rightarrow> string \<Rightarrow> ('w orun, unit) prog" where
  "reportOperatorError err crName = modify (\<lambda>s. s\<lparr>or_recorder := Report ''addonoperator'' err crName (or_recorder s)\<rparr>)"

section \<open>Status\<close>

definition handleAddonOperatorCreation :: "'w AddonOperatorReconciler \<Rightarrow> ('w orun, unit) prog" where
  "handleAddonOperatorCreation r = bindp (setOperatorPausedMetric False) (\<lambda>_. \<lambda>s.
     case kCreate (aor_Client r) (defaultAddonOperator '''') (or_world s) of (res, w) \<Rightarrow>
       (case res of Inl e \<Rightarrow> Err e | Inr _ \<Rightarrow> Ok (),
        s\<lparr>or_world := w, or_calls := or_calls s @ [(OpCreate (defaultAddonOperator ''''), errorOf res)]\<rparr>))"

definition operatorCondition :: "string \<Rightarrow> string \<Rightarrow> string \<Rightarrow> AddonOperator \<Rightarrow> Condition" where
  "operatorCondition t reason message ado = \<lparr>c_Type = t, c_Status = ConditionTrue, c_Reason = reason, c_Message = message,
     c_ObservedGeneration = Generation (ao_meta ado), c_LastTransitionTime = None\<rparr>"

definition setOperatorCondition :: "'w AddonOperatorReconciler \<Rightarrow> string \<Rightarrow> string \<Rightarrow> string \<Rightarrow> ('w orun, unit) prog" where
  "setOperatorCondition r t reason message = bindp (operatorNow r) (\<lambda>now. setOperator (\<lambda>ado. ado\<lparr>ao_Status := (ao_Status ado)
     \<lparr>ao_Conditions := SetStatusCondition (theLib (aor_Env r)) now (ao_Conditions (ao_Status ado)) (operatorCondition t reason message ado),
      ao_ObservedGeneration := Generation (ao_meta ado)\<rparr>\<rparr>))"

definition stampHeartbeat :: "'w AddonOperatorReconciler \<Rightarrow> ('w orun, unit) prog" where
  "stampHeartbeat r = bindp (operatorNow r) (\<lambda>now.
     setOperator (\<lambda>ado. ado\<lparr>ao_Status := (ao_Status ado)\<lparr>ao_LastHeartbeatTime := Some now\<rparr>\<rparr>))"

definition reportAddonOperatorReadinessStatus :: "'w AddonOperatorReconciler \<Rightarrow> ('w orun, unit) prog" where
  "reportAddonOperatorReadinessStatus r =
     bindp (setOperatorCondition r AddonOperatorAvailable AddonOperatorReasonReady ''Addon Operator is ready'') (\<lambda>_.
     bindp (setOperator (\<lambda>ado. ado\<lparr>ao_Status := (ao_Status ado)\<lparr>ao_Phase := PhaseReady\<rparr>\<rparr>)) (\<lambda>_.
     bindp (stampHeartbeat r) (\<lambda>_. operatorStatusUpdate r)))"

definition reportAddonOperatorPauseStatus :: "'w AddonOperatorReconciler \<Rightarrow> ('w orun, unit) prog" where
  "reportAddonOperatorPauseStatus r =
     bindp (setOperatorCondition r AddonOperatorPausedCondition AddonOperatorReasonPaused ''Addon operator is paused'') (\<lambda>_.
     bindp (stampHeartbeat r) (\<lambda>_. operatorStatusUpdate r))"

definition removeAddonOperatorPauseCondition :: "'w AddonOperatorReconciler \<Rightarrow> ('w orun, unit) prog" where
  "removeAddonOperatorPauseCondition r =
     bindp (setOperator (\<lambda>ado. ado\<lparr>ao_Status := (ao_Status ado)
       \<lparr>ao_Conditions := RemoveStatusCondition (theLib (aor_Env r)) (ao_Conditions (ao_Status ado)) PausedCondition,
        ao_ObservedGeneration := Generation (ao_meta ado)\<rparr>\<rparr>)) (\<lambda>_. operatorStatusUpdate r)"

section \<open>Pausing\<close>

definition reportedPaused :: "'w AddonOperatorReconciler \<Rightarrow> AddonOperator \<Rightarrow> bool" where
  "reportedPaused r ado = IsStatusConditionTrue (theLib (aor_Env r)) (ao_Conditions (ao_Status ado)) AddonOperatorPausedCondition"

definition handleGlobalPause :: "'w AddonOperatorReconciler \<Rightarrow> ('w orun, unit) prog" where
  "handleGlobalPause r = bindp (gets or_operator) (\<lambda>addonOperator.
     if ao_Paused (ao_Spec addonOperator)
     then if reportedPaused r addonOperator then ret ()
          else call (onAddons EnableGlobalPause) (\<lambda>err. throw (Wrap ''setting global pause'' err)) (\<lambda>_.
               call (reportAddonOperatorPauseStatus r) (\<lambda>err. throw (Wrap ''report AddonOperator paused'' err)) ret)
     else if \<not> reportedPaused r addonOperator then ret ()
          else call (onAddons DisableGlobalPause) (\<lambda>err. throw (Wrap ''removing global pause'' err)) (\<lambda>_.
               call (removeAddonOperatorPauseCondition r) (\<lambda>err. throw (Wrap ''remove AddonOperator paused'' err)) ret))"

section \<open>The OCM client\<close>

definition accessTokenFromDockerConfig :: "'w AddonOperatorReconciler \<Rightarrow> string \<Rightarrow> error + string" where
  "accessTokenFromDockerConfig r dockerConfigJson =
     (case unmarshalDockerConfig r dockerConfigJson of
        Inl err \<Rightarrow> Inl (Wrap ''unmarshalling docker config json'' err)
      | Inr dockerConfig \<Rightarrow>
          (case NestedString r dockerConfig [''auths'', ''cloud.openshift.com'', ''auth''] of
             Inl err \<Rightarrow> Inl (Wrap ''accessing cloud.openshift.com auth key'' err)
           | Inr None \<Rightarrow> Inl (ErrorString ''missing token for cloud.openshift.com'')
           | Inr (Some accessToken) \<Rightarrow> Inr accessToken))"

definition handleOCMClient :: "'w AddonOperatorReconciler \<Rightarrow> ('w orun, unit) prog" where
  "handleOCMClient r = bindp (gets or_operator) (\<lambda>addonOperator.
     case OCM (ao_Spec addonOperator) of
       None \<Rightarrow> ret ()
     | Some ocm \<Rightarrow>
         call (operatorRead (kGet (k_Secret (uncachedClient (aor_Env r)))
             \<lparr>key_Namespace = csr_Namespace (ocm_Secret ocm), key_Name = csr_Name (ocm_Secret ocm)\<rparr>))
           (\<lambda>err. throw (Wrap ''getting ocm secret'' err)) (\<lambda>secret.
         case accessTokenFromDockerConfig r (case sec_Data secret ''.dockerconfigjson'' of None \<Rightarrow> '''' | Some d \<Rightarrow> d) of
           Inl err \<Rightarrow> throw (Wrap ''extracting access token from .dockerconfigjson'' err)
         | Inr accessToken \<Rightarrow>
             call (onWorld (NewClient (aor_Transport r) [WithEndpoint (AddonOperatorOCM.Endpoint ocm), WithAccessToken accessToken,
                 WithClusterExternalID (aor_ClusterExternalID r)]))
               (\<lambda>_. ret ())
               (\<lambda>c. call (onAddons (InjectOCMClient (asOcmClient (aor_Transport r) c)))
                  (\<lambda>err. throw (Wrap ''injecting ocm client'' err)) ret)))"

section \<open>One reconciliation\<close>

datatype processResult = Exited | Returned ctrlResult

definition defaultAddonOperatorRequeueTime :: duration where
  "defaultAddonOperatorRequeueTime = 60 * nanosPerSecond"

definition zeroAddonOperator :: AddonOperator where
  "zeroAddonOperator = (defaultAddonOperator '''')\<lparr>ao_meta := objectMeta '''' ''''\<rparr>"

definition recordPausedMetric :: "'w AddonOperatorReconciler \<Rightarrow> ('w orun, unit) prog" where
  "recordPausedMetric r = bindp (gets or_operator) (\<lambda>ado. setOperatorPausedMetric (reportedPaused r ado))"

definition handleOperator :: "'w AddonOperatorReconciler \<Rightarrow> ('w orun, processResult) prog" where
  "handleOperator r =
     call (handleGlobalPause r) (\<lambda>err. bindp (gets or_operator) (\<lambda>ado.
       bindp (reportOperatorError ErrAddonOperatorHandleGlobalPause (Name (ao_meta ado))) (\<lambda>_. throw (Wrap ''handling global pause'' err)))) (\<lambda>_.
     call (handleOCMClient r) (\<lambda>err. bindp (gets or_operator) (\<lambda>ado.
       bindp (reportOperatorError ErrCreateOCMClient (Name (ao_meta ado))) (\<lambda>_. throw (Wrap ''handling OCM client'' err)))) (\<lambda>_.
     call (reportAddonOperatorReadinessStatus r) (\<lambda>err. bindp (gets or_operator) (\<lambda>ado.
       bindp (reportOperatorError ErrReportAddonOperatorStatus (Name (ao_meta ado))) (\<lambda>_. throw err))) (\<lambda>_.
     ret (Returned \<lparr>Requeue = False, RequeueAfter = defaultAddonOperatorRequeueTime\<rparr>))))"

text \<open>\<open>os.Exit\<close> ends the process and runs no deferred function.\<close>

definition ReconcileOperator :: "'w AddonOperatorReconciler \<Rightarrow> ('w orun, processResult) prog" where
  "ReconcileOperator r = bindp (setOperator (\<lambda>_. zeroAddonOperator)) (\<lambda>_.
     call (operatorRead (kGet (aor_Client r) \<lparr>key_Namespace = '''', key_Name = DefaultAddonOperatorName\<rparr>))
       (\<lambda>err. deferring (recordPausedMetric r)
          (bindp (reportOperatorError ErrGetDefaultAddonOperator DefaultAddonOperatorName) (\<lambda>_.
             if IsNotFound (theLib (aor_Env r)) err
             then bindp (handleAddonOperatorCreation r) (\<lambda>_. ret (Returned zeroResult))
             else throw err)))
       (\<lambda>ado. bindp (setOperator (\<lambda>_. ado)) (\<lambda>_.
          if \<not> areSlicesEquivalent (FeatureTogglesState r) (splitOn CHR '','' (FeatureFlags (ao_Spec ado)))
          then ret Exited
          else deferring (recordPausedMetric r) (handleOperator r))))"

section \<open>When the process ends\<close>

text \<open>The value of a tracked string, zero for an unknown one; each step adds to the value of its string.\<close>

definition tracked :: "(string \<times> int) list \<Rightarrow> string \<Rightarrow> int" where
  "tracked al k = (case map_of al k of None \<Rightarrow> 0 | Some n \<Rightarrow> n)"

lemma tracked_step:
  "tracked (AList.map_default x d (\<lambda>n. n + d) al) k = tracked al k + (if k = x then d else 0)"
  by (auto simp: tracked_def map_of_map_default split: option.splits)

lemma tracked_fold:
  "tracked (fold (\<lambda>x. AList.map_default x d (\<lambda>n. n + d)) xs al) k = tracked al k + d * int (count (mset xs) k)"
  by (induction xs arbitrary: al) (simp_all add: tracked_step algebra_simps)

lemma distinct_fold:
  "distinct (map fst al) \<Longrightarrow> distinct (map fst (fold (\<lambda>x. AList.map_default x d (\<lambda>n. n + d)) xs al))"
  by (induction xs arbitrary: al) (simp_all add: distinct_map_default)

lemma all_zero_iff:
  assumes "distinct (map fst al)"
  shows "list_all (\<lambda>(_, diff). diff = 0) al \<longleftrightarrow> (\<forall>k. tracked al k = 0)"
  using assms by (fastforce simp: list_all_iff tracked_def split: option.splits dest: map_of_SomeD map_of_is_SomeI)

lemma areSlicesEquivalent_iff: "areSlicesEquivalent a b \<longleftrightarrow> mset a = mset b"
proof -
  define added where "added = fold (\<lambda>x. AList.map_default x 1 (\<lambda>n. n + 1)) a ([] :: (string \<times> int) list)"
  define al where "al = fold (\<lambda>x. AList.map_default x (- 1) (\<lambda>n. n + - 1)) b added"
  have d: "distinct (map fst al)" unfolding al_def added_def by (intro distinct_fold) simp
  have "tracked al k = int (count (mset a) k) - int (count (mset b) k)" for k
    unfolding al_def added_def tracked_fold [of 1, simplified] tracked_fold by (simp add: tracked_def)
  then have "list_all (\<lambda>(_, diff). diff = 0) al \<longleftrightarrow> mset a = mset b"
    unfolding all_zero_iff [OF d] by (simp add: multiset_eq_iff)
  moreover have "areSlicesEquivalent a b \<longleftrightarrow> length a = length b \<and> list_all (\<lambda>(_, diff). diff = 0) al"
    by (simp add: areSlicesEquivalent_def al_def added_def Let_def)
  moreover have "mset a = mset b \<Longrightarrow> length a = length b" by (metis size_mset)
  ultimately show ?thesis by blast
qed

lemma ReconcileOperator_found:
  assumes "kGet (aor_Client r) \<lparr>key_Namespace = '''', key_Name = DefaultAddonOperatorName\<rparr> (or_world s) = (Inr ado, w)"
  shows "ReconcileOperator r s =
    (if mset (FeatureTogglesState r) = mset (splitOn CHR '','' (FeatureFlags (ao_Spec ado)))
     then deferring (recordPausedMetric r) (handleOperator r) else ret Exited) (s\<lparr>or_world := w, or_operator := ado\<rparr>)"
  using assms by (simp add: ReconcileOperator_def setOperator_def operatorRead_def call_def areSlicesEquivalent_iff)

lemma handleOperator_returns: "handleOperator r s = (Ok v, s') \<Longrightarrow> v \<noteq> Exited"
  by (auto simp: handleOperator_def call_ok bindp_ok)

lemma deferring_metric:
  "deferring (recordPausedMetric r) m s = (case m s of (v, s1) \<Rightarrow>
     (v, s1\<lparr>or_recorder := map_option (SetAddonOperatorPaused (reportedPaused r (or_operator s1))) (or_recorder s1)\<rparr>))"
  by (simp add: deferring_def recordPausedMetric_def setOperatorPausedMetric_def split: prod.splits)

text \<open>
  C34: The operator ends its process exactly when the feature toggles in the cluster are not the ones it was
  started with, compared as multisets: a reordering of the list does not restart it, a repetition does. It
  then has written nothing and has touched neither the pause nor the OCM client.
\<close>

theorem toggle_change_restarts:
  assumes "kGet (aor_Client r) \<lparr>key_Namespace = '''', key_Name = DefaultAddonOperatorName\<rparr> (or_world s) = (Inr ado, w)"
    and "ReconcileOperator r s = (res, s')"
  shows "(res = Ok Exited \<longleftrightarrow> mset (FeatureTogglesState r) \<noteq> mset (splitOn CHR '','' (FeatureFlags (ao_Spec ado)))) \<and>
    (res = Ok Exited \<longrightarrow> or_calls s' = or_calls s \<and> or_addons s' = or_addons s \<and> or_recorder s' = or_recorder s)"
  using assms(2) handleOperator_returns
  by (auto simp: ReconcileOperator_found [OF assms(1)] deferring_metric split: if_splits prod.splits)

section \<open>The pause\<close>

text \<open>A status that is stored is stored as sent, with the specification it had.\<close>

definition stores_operators :: "'w AddonOperatorReconciler \<Rightarrow> bool" where
  "stores_operators r \<longleftrightarrow> (\<forall>x w y w'. kStatusUpdate (aor_Client r) x w = (Inr y, w') \<longrightarrow>
     ao_Spec y = ao_Spec x \<and> ao_Conditions (ao_Status y) = ao_Conditions (ao_Status x))"

definition pauseInv :: "'w AddonOperatorReconciler \<Rightarrow> AddonOperatorSpec \<Rightarrow> bool \<Rightarrow> bool \<Rightarrow> 'w orun \<Rightarrow> bool" where
  "pauseInv r sp g p s \<longleftrightarrow> ao_Spec (or_operator s) = sp \<and> globalPause (or_addons s) = g \<and> reportedPaused r (or_operator s) = p"

lemma pauseInv_operatorRead [keeps_rules]: "keeps (pauseInv r sp g p) (operatorRead f)"
  by (auto simp: keeps_def pauseInv_def operatorRead_def split: prod.splits)

lemma pauseInv_onWorld [keeps_rules]: "keeps (pauseInv r sp g p) (onWorld m)"
  by (auto simp: keeps_def pauseInv_def onWorld_def split: prod.splits)

lemma requeueAllAddons_pause: "globalPause (fst (snd (requeueAllAddons (a, w)))) = globalPause a"
  by (simp add: requeueAllAddons_def split: prod.splits sum.splits)

lemma setGlobalPause_pause: "globalPause (fst (snd (setGlobalPause b (a, w)))) = b"
  using requeueAllAddons_pause [of "a\<lparr>globalPause := b\<rparr>" w]
  by (auto simp: setGlobalPause_def call_def split: prod.splits outcome.splits)

lemma InjectOCMClient_pause: "globalPause (fst (snd (InjectOCMClient c (a, w)))) = globalPause a"
  using requeueAllAddons_pause [of a w]
  by (auto simp: InjectOCMClient_def call_def bindp_def split: prod.splits outcome.splits)

lemma pauseInv_inject [keeps_rules]: "keeps (pauseInv r sp g p) (onAddons (InjectOCMClient c))"
  using InjectOCMClient_pause [of c] by (auto simp: keeps_def pauseInv_def onAddons_def split: prod.splits) (metis fst_conv snd_conv)+

lemma pauseInv_setOperator:
  "(\<And>ado. ao_Spec (f ado) = ao_Spec ado) \<Longrightarrow> (\<And>ado. reportedPaused r ado = p \<Longrightarrow> reportedPaused r (f ado) = p') \<Longrightarrow>
     pauseInv r sp g p s \<Longrightarrow> setOperator f s = (v, s') \<Longrightarrow> pauseInv r sp g p' s'"
  by (auto simp: pauseInv_def setOperator_def)

lemma pauseInv_statusUpdate:
  assumes "stores_operators r" "pauseInv r sp g p s" "operatorStatusUpdate r s = (v, s')"
  shows "pauseInv r sp g p s'"
proof (cases "kStatusUpdate (aor_Client r) (or_operator s) (or_world s)")
  case (Pair x w)
  show ?thesis
  proof (cases x)
    case (Inl e)
    with Pair assms(2,3) show ?thesis by (auto simp: pauseInv_def operatorStatusUpdate_def)
  next
    case (Inr ado)
    with Pair assms(1) have "ao_Spec ado = ao_Spec (or_operator s)" "ao_Conditions (ao_Status ado) = ao_Conditions (ao_Status (or_operator s))"
      unfolding stores_operators_def by blast+
    with Pair Inr assms(2,3) show ?thesis by (auto simp: pauseInv_def operatorStatusUpdate_def reportedPaused_def)
  qed
qed

lemma handleOCMClient_pauseInv: "keeps (pauseInv r sp g p) (handleOCMClient r)"
  unfolding handleOCMClient_def by (intro keeps_rules)

lemma setCondition_pauseInv:
  assumes "condition_laws (theLib (aor_Env r))" "pauseInv r sp g p s" "setOperatorCondition r t reason message s = (v, s')"
  shows "pauseInv r sp g (p \<or> t = AddonOperatorPausedCondition) s'"
  using assms by (auto simp: setOperatorCondition_def operatorNow_def setOperator_def pauseInv_def reportedPaused_def
      operatorCondition_def bindp_def call_def)

lemma stampHeartbeat_pauseInv:
  assumes "pauseInv r sp g p s" "stampHeartbeat r s = (v, s')"
  shows "pauseInv r sp g p s'"
  using assms by (auto simp: stampHeartbeat_def operatorNow_def setOperator_def pauseInv_def reportedPaused_def bindp_def call_def)

lemma reportReadiness_pauseInv:
  assumes "condition_laws (theLib (aor_Env r))" "stores_operators r" "pauseInv r sp g p s"
    and "reportAddonOperatorReadinessStatus r s = (Ok (), s')"
  shows "pauseInv r sp g p s'"
proof -
  obtain s1 s2 s3 where "setOperatorCondition r AddonOperatorAvailable AddonOperatorReasonReady ''Addon Operator is ready'' s = (Ok (), s1)"
    "setOperator (\<lambda>ado. ado\<lparr>ao_Status := (ao_Status ado)\<lparr>ao_Phase := PhaseReady\<rparr>\<rparr>) s1 = (Ok (), s2)"
    "stampHeartbeat r s2 = (Ok (), s3)" "operatorStatusUpdate r s3 = (Ok (), s')"
    using assms(4) unfolding reportAddonOperatorReadinessStatus_def bindp_ok by auto
  moreover from setCondition_pauseInv [OF assms(1,3) this(1)] have "pauseInv r sp g p s1" by simp
  moreover from this have "pauseInv r sp g p s2"
    by (rule pauseInv_setOperator [rotated 2, OF _ calculation(2)]) (simp_all add: reportedPaused_def)
  ultimately show ?thesis using stampHeartbeat_pauseInv pauseInv_statusUpdate [OF assms(2)] by blast
qed

lemma onAddons_pause:
  assumes "onAddons (setGlobalPause b) s = (v, s1)" "pauseInv r sp g p s"
  shows "pauseInv r sp b p s1"
  using assms setGlobalPause_pause [of b "or_addons s" "or_world s"]
  by (auto simp: onAddons_def pauseInv_def split: prod.splits)

lemma handleGlobalPause_pauseInv:
  assumes "condition_laws (theLib (aor_Env r))" "stores_operators r" "pauseInv r sp g p s" "handleGlobalPause r s = (Ok (), s')"
  shows "pauseInv r sp (if ao_Paused sp = p then g else ao_Paused sp) (ao_Paused sp) s'"
proof -
  have sp: "ao_Spec (or_operator s) = sp" "reportedPaused r (or_operator s) = p" using assms(3) by (simp_all add: pauseInv_def)
  consider (same) "ao_Paused sp = p" | (pause) "ao_Paused sp" "\<not> p" | (unpause) "\<not> ao_Paused sp" "p" by auto
  then show ?thesis
  proof cases
    case same
    with assms(3,4) sp show ?thesis by (auto simp: handleGlobalPause_def)
  next
    case pause
    with assms(4) sp obtain s1 s2 s3 where "onAddons (setGlobalPause True) s = (Ok (), s1)"
      "setOperatorCondition r AddonOperatorPausedCondition AddonOperatorReasonPaused ''Addon operator is paused'' s1 = (Ok (), s2)"
      "stampHeartbeat r s2 = (Ok (), s3)" "operatorStatusUpdate r s3 = (Ok (), s')"
      by (auto simp: handleGlobalPause_def EnableGlobalPause_def call_ok reportAddonOperatorPauseStatus_def bindp_ok)
    moreover from this(1) have "pauseInv r sp True p s1" by (rule onAddons_pause [OF _ assms(3)])
    moreover from setCondition_pauseInv [OF assms(1) this calculation(2)] have "pauseInv r sp True True s2" by simp
    ultimately have "pauseInv r sp True True s'" using stampHeartbeat_pauseInv pauseInv_statusUpdate [OF assms(2)] by blast
    with pause show ?thesis by simp
  next
    case unpause
    with assms(4) sp obtain s1 s2 where "onAddons (setGlobalPause False) s = (Ok (), s1)"
      "setOperator (\<lambda>ado. ado\<lparr>ao_Status := (ao_Status ado)
        \<lparr>ao_Conditions := RemoveStatusCondition (theLib (aor_Env r)) (ao_Conditions (ao_Status ado)) PausedCondition,
         ao_ObservedGeneration := Generation (ao_meta ado)\<rparr>\<rparr>) s1 = (Ok (), s2)" "operatorStatusUpdate r s2 = (Ok (), s')"
      by (auto simp: handleGlobalPause_def DisableGlobalPause_def call_ok removeAddonOperatorPauseCondition_def bindp_ok)
    moreover from this(1) have "pauseInv r sp False p s1" by (rule onAddons_pause [OF _ assms(3)])
    moreover from this have "pauseInv r sp False False s2"
      by (rule pauseInv_setOperator [rotated 2, OF _ calculation(2)]) (use assms(1) in \<open>simp_all add: reportedPaused_def\<close>)
    ultimately have "pauseInv r sp False False s'" using pauseInv_statusUpdate [OF assms(2)] by blast
    with unpause show ?thesis by simp
  qed
qed

text \<open>What one successful reconciliation does to the pause, from any state.\<close>

lemma reconcile_pause:
  assumes "condition_laws (theLib (aor_Env r))" "stores_operators r"
    and "kGet (aor_Client r) \<lparr>key_Namespace = '''', key_Name = DefaultAddonOperatorName\<rparr> (or_world s) = (Inr ado, w)"
    and "ReconcileOperator r s = (Ok (Returned res), s')"
  shows "globalPause (or_addons s') =
      (if ao_Paused (ao_Spec ado) = reportedPaused r ado then globalPause (or_addons s) else ao_Paused (ao_Spec ado))"
    "reportedPaused r (or_operator s') = ao_Paused (ao_Spec ado)"
    "or_recorder s' = Some rec \<Longrightarrow> addonOperatorPaused rec = (if ao_Paused (ao_Spec ado) then 1 else 0)"
proof -
  let ?s = "s\<lparr>or_world := w, or_operator := ado\<rparr>"
  let ?g = "if ao_Paused (ao_Spec ado) = reportedPaused r ado then globalPause (or_addons s) else ao_Paused (ao_Spec ado)"
  have "deferring (recordPausedMetric r) (handleOperator r) ?s = (Ok (Returned res), s')"
    using assms(4) unfolding ReconcileOperator_found [OF assms(3)] by (auto split: if_splits)
  then obtain s3 where handled: "handleOperator r ?s = (Ok (Returned res), s3)"
    and s': "s' = s3\<lparr>or_recorder := map_option (SetAddonOperatorPaused (reportedPaused r (or_operator s3))) (or_recorder s3)\<rparr>"
    by (auto simp: deferring_metric split: prod.splits)
  obtain s1 s2 where steps: "handleGlobalPause r ?s = (Ok (), s1)" "handleOCMClient r s1 = (Ok (), s2)"
    "reportAddonOperatorReadinessStatus r s2 = (Ok (), s3)"
    using handled by (auto simp: handleOperator_def call_ok bindp_ok)
  have "pauseInv r (ao_Spec ado) (globalPause (or_addons s)) (reportedPaused r ado) ?s" by (simp add: pauseInv_def)
  then have "pauseInv r (ao_Spec ado) ?g (ao_Paused (ao_Spec ado)) s1" by (rule handleGlobalPause_pauseInv [OF assms(1,2) _ steps(1)])
  then have "pauseInv r (ao_Spec ado) ?g (ao_Paused (ao_Spec ado)) s2" by (rule keepsD [OF handleOCMClient_pauseInv _ steps(2)])
  then have "pauseInv r (ao_Spec ado) ?g (ao_Paused (ao_Spec ado)) s3" by (rule reportReadiness_pauseInv [OF assms(1,2) _ steps(3)])
  then show "globalPause (or_addons s') = ?g" "reportedPaused r (or_operator s') = ao_Paused (ao_Spec ado)"
    "or_recorder s' = Some rec \<Longrightarrow> addonOperatorPaused rec = (if ao_Paused (ao_Spec ado) then 1 else 0)"
    by (auto simp: s' pauseInv_def SetAddonOperatorPaused_def)
qed

text \<open>
  C25: As long as the Addon controller is paused exactly when the AddonOperator object says so in its
  Paused condition, a reconciliation without an error leaves it paused exactly when the specification asks
  for it, with the condition saying the same again, and the metric too.
\<close>

theorem global_pause_follows:
  assumes "condition_laws (theLib (aor_Env r))" "stores_operators r"
    and "kGet (aor_Client r) \<lparr>key_Namespace = '''', key_Name = DefaultAddonOperatorName\<rparr> (or_world s) = (Inr ado, w)"
    and "ReconcileOperator r s = (Ok (Returned res), s')" "globalPause (or_addons s) = reportedPaused r ado"
  shows "globalPause (or_addons s') = ao_Paused (ao_Spec ado) \<and>
    globalPause (or_addons s') = reportedPaused r (or_operator s') \<and>
    (\<forall>rec. or_recorder s' = Some rec \<longrightarrow> addonOperatorPaused rec = (if ao_Paused (ao_Spec ado) then 1 else 0))"
  using reconcile_pause [OF assms(1-4)] assms(5) by auto

lemma options_keep_pause: "globalPause (foldl (\<lambda>r opt. ApplyToAddonReconciler opt r) a opts) = globalPause a"
proof (induction opts arbitrary: a)
  case (Cons opt opts)
  then show ?case by (cases opt) simp_all
qed simp

lemma new_not_paused: "\<not> globalPause (NewAddonReconciler E clusterID status upgrade opts)"
  by (simp add: NewAddonReconciler_def options_keep_pause)


section \<open>Runs\<close>

text \<open>The reference clients, in the world of the transport.\<close>

definition inWorld :: "(unit, 'o) kclient \<Rightarrow> ('v, 'o) kclient" where
  "inWorld c = \<lparr>kGet = (\<lambda>key w. (fst (kGet c key ()), w)), kList = (\<lambda>ns sel w. (fst (kList c ns sel ()), w)),
     kCreate = (\<lambda>x w. (fst (kCreate c x ()), w)), kUpdate = (\<lambda>x w. (fst (kUpdate c x ()), w)),
     kStatusUpdate = (\<lambda>x w. (fst (kStatusUpdate c x ()), w)), kPatch = (\<lambda>x b w. (fst (kPatch c x b ()), w)),
     kDelete = (\<lambda>key w. (fst (kDelete c key ()), w))\<rparr>"

definition clusterInWorld :: "unit cluster \<Rightarrow> 'v cluster" where
  "clusterInWorld c = \<lparr>k_Addon = inWorld (k_Addon c), k_Namespace = inWorld (k_Namespace c), k_Secret = inWorld (k_Secret c),
     k_ConfigMap = inWorld (k_ConfigMap c), k_OperatorGroup = inWorld (k_OperatorGroup c),
     k_NetworkPolicy = inWorld (k_NetworkPolicy c), k_CatalogSource = inWorld (k_CatalogSource c),
     k_Subscription = inWorld (k_Subscription c), k_InstallPlan = inWorld (k_InstallPlan c), k_Operator = inWorld (k_Operator c),
     k_AddonInstance = inWorld (k_AddonInstance c), k_ServiceMonitor = inWorld (k_ServiceMonitor c),
     k_ClusterObjectTemplate = inWorld (k_ClusterObjectTemplate c), k_MonitoringStack = inWorld (k_MonitoringStack c),
     k_Pod = inWorld (k_Pod c)\<rparr>"

definition netEnv :: "unit netState Env" where
  "netEnv = \<lparr>theLib = refLib, client = clusterInWorld (stockCluster emptyStock), uncachedClient = clusterInWorld (stockCluster emptyStock),
     clock = (\<lambda>n. int n * nanosPerSecond), AddonOperatorNamespace = ''addon-operator''\<rparr>"

definition operatorWith :: "AddonOperator \<Rightarrow> string list \<Rightarrow> unit AddonOperatorReconciler" where
  "operatorWith ado toggles = \<lparr>aor_Env = netEnv, aor_Client = inWorld (stockClient ao_meta [ado]), aor_Transport = refTransport,
     aor_ClusterExternalID = ''ext'', FeatureTogglesState = toggles, unmarshalDockerConfig = (\<lambda>_. Inr JOther),
     NestedString = (\<lambda>_ _. Inr None)\<rparr>"

definition pausedOperator :: "bool \<Rightarrow> AddonOperator" where
  "pausedOperator reported = (let ado = defaultAddonOperator '''' in
     ado\<lparr>ao_Spec := (ao_Spec ado)\<lparr>ao_Paused := True\<rparr>, ao_Status := (ao_Status ado)
       \<lparr>ao_Conditions := (if reported then [operatorCondition AddonOperatorPausedCondition AddonOperatorReasonPaused '''' ado] else [])\<rparr>\<rparr>)"

definition startedOperator :: "unit orun" where
  "startedOperator = \<lparr>or_operator = zeroAddonOperator, or_addons = NewAddonReconciler netEnv ''ext'' True True [],
     or_world = \<lparr>net_world = (), net_sent = []\<rparr>, or_calls = [], or_ticks = 0, or_recorder = Some NewRecorder\<rparr>"

lemma operatorWith_laws:
  "condition_laws (theLib (aor_Env (operatorWith ado ts)))" "stores_operators (operatorWith ado ts)"
  using refLib_laws by (auto simp: operatorWith_def netEnv_def stores_operators_def inWorld_def stockClient_def)

lemma operatorWith_get:
  "Name (ao_meta ado) = DefaultAddonOperatorName \<Longrightarrow> Namespace (ao_meta ado) = '''' \<Longrightarrow>
   kGet (aor_Client (operatorWith ado ts)) \<lparr>key_Namespace = '''', key_Name = DefaultAddonOperatorName\<rparr> w = (Inr ado, w)"
  by (simp add: operatorWith_def inWorld_def stockClient_def lookupKey_def hasKey_def)

fun returned :: "processResult outcome \<Rightarrow> bool" where
  "returned (Ok (Returned res)) \<longleftrightarrow> True"
| "returned _ \<longleftrightarrow> False"

lemma returnedD: "returned x \<Longrightarrow> \<exists>res. x = Ok (Returned res)"
  by (cases x rule: returned.cases) simp_all

lemma pausedOperator_get:
  "kGet (aor_Client (operatorWith (pausedOperator b) ts)) \<lparr>key_Namespace = '''', key_Name = DefaultAddonOperatorName\<rparr> w = (Inr (pausedOperator b), w)"
  by (rule operatorWith_get) (simp_all add: pausedOperator_def defaultAddonOperator_def Let_def objectMeta_def)

lemma pausedOperator_sel [simp]:
  "reportedPaused (operatorWith ado ts) (pausedOperator b) = b" "ao_Paused (ao_Spec (pausedOperator b))"
  "FeatureFlags (ao_Spec (pausedOperator b)) = ''''" "OCM (ao_Spec (pausedOperator b)) = None"
  by (simp_all add: reportedPaused_def operatorWith_def netEnv_def pausedOperator_def Let_def refLib_def operatorCondition_def
      defaultAddonOperator_def)

lemma operatorWith_sel [simp]:
  "kStatusUpdate (aor_Client (operatorWith ado ts)) x w = (Inr x, w)" "FeatureTogglesState (operatorWith ado ts) = ts"
  "kList (k_Addon (client (theEnv (or_addons startedOperator)))) ns sel w = (Inr [], w)"
  by (simp_all add: operatorWith_def inWorld_def stockClient_def startedOperator_def NewAddonReconciler_def netEnv_def clusterInWorld_def
      stockCluster_def emptyStock_def)

lemma reports_succeed:
  "\<exists>s'. reportAddonOperatorReadinessStatus (operatorWith ado ts) s = (Ok (), s')"
  "\<exists>s'. reportAddonOperatorPauseStatus (operatorWith ado ts) s = (Ok (), s') \<and> OCM (ao_Spec (or_operator s')) = OCM (ao_Spec (or_operator s))"
  by (simp_all add: reportAddonOperatorReadinessStatus_def reportAddonOperatorPauseStatus_def setOperatorCondition_def stampHeartbeat_def
      setOperator_def operatorNow_def operatorStatusUpdate_def bindp_def call_def)

lemma pausedOperator_returns: "returned (fst (ReconcileOperator (operatorWith (pausedOperator b) ['''']) startedOperator))"
proof -
  let ?r = "operatorWith (pausedOperator b) ['''']" and ?s = "startedOperator\<lparr>or_operator := pausedOperator b\<rparr>"
  obtain s1 where "handleGlobalPause ?r ?s = (Ok (), s1)" "OCM (ao_Spec (or_operator s1)) = None"
  proof (cases b)
    case True
    then show thesis using that [of ?s] by (simp add: handleGlobalPause_def)
  next
    case False
    let ?s1 = "snd (onAddons EnableGlobalPause ?s)"
    have "onAddons EnableGlobalPause ?s = (Ok (), ?s1)" "or_operator ?s1 = pausedOperator b"
      by (simp_all add: onAddons_def EnableGlobalPause_def setGlobalPause_def requeueAllAddons_def call_def)
    then show thesis
      using False that reports_succeed(2) [of "pausedOperator b" "['''']" ?s1] by (auto simp: handleGlobalPause_def)
  qed
  moreover from this have "handleOCMClient ?r s1 = (Ok (), s1)" by (simp add: handleOCMClient_def)
  ultimately have "returned (fst (handleOperator ?r ?s))"
    using reports_succeed(1) [of "pausedOperator b" "['''']" s1] by (auto simp: handleOperator_def)
  then show ?thesis by (auto simp: ReconcileOperator_found [OF pausedOperator_get] deferring_metric split: prod.splits)
qed

lemma pausedOperator_run:
  obtains res where "ReconcileOperator (operatorWith (pausedOperator b) ['''']) startedOperator =
    (Ok (Returned res), snd (ReconcileOperator (operatorWith (pausedOperator b) ['''']) startedOperator))"
  using returnedD [OF pausedOperator_returns [of b]] by (auto simp: prod_eq_iff)

lemma started_not_paused [simp]: "\<not> globalPause (or_addons startedOperator)"
  by (simp add: startedOperator_def new_not_paused)

theorem toggle_change_restarts_witness:
  "fst (ReconcileOperator (operatorWith (pausedOperator False) [''EXPERIMENTAL_FEATURES'']) startedOperator) = Ok Exited"
  using toggle_change_restarts [OF pausedOperator_get prod.collapse [symmetric], of False "[''EXPERIMENTAL_FEATURES'']" startedOperator]
  by simp

theorem global_pause_follows_witness:
  "globalPause (or_addons (snd (ReconcileOperator (operatorWith (pausedOperator False) ['''']) startedOperator)))"
proof (rule pausedOperator_run [of False])
  fix res assume "ReconcileOperator (operatorWith (pausedOperator False) ['''']) startedOperator =
    (Ok (Returned res), snd (ReconcileOperator (operatorWith (pausedOperator False) ['''']) startedOperator))"
  from global_pause_follows [OF operatorWith_laws pausedOperator_get this] show ?thesis by simp
qed


end
