(* ===== verification/Instance_Controller.thy ===== *)
theory Instance_Controller
  imports Ref_Cluster "HOL-Library.Word"
begin

text \<open>
  The AddonInstance controller (\<open>controllers/addoninstance\<close>), which turns the time of the last heartbeat
  into the Healthy condition, and the client an addon uses to send a heartbeat (\<open>pkg/client\<close>).

  The run has its own state: the AddonInstance behind the pointer the functions share, the status updates
  sent with their answers, the ticks of the clock and the metrics recorder. A phase is what the interface
  asks for, a name and a function; the duration of the timeout is computed at its width of 64 bits.
  Loggers are left out.
\<close>

section \<open>Runs on an AddonInstance\<close>

record 'w irun =
  ir_instance :: AddonInstance
  ir_world :: 'w
  ir_updates :: "(AddonInstance \<times> error option) list"
  ir_ticks :: nat
  ir_recorder :: "Recorder option"

definition instanceRead :: "('w \<Rightarrow> (error + 'a) \<times> 'w) \<Rightarrow> ('w irun, 'a) prog" where
  "instanceRead f = (\<lambda>s. case f (ir_world s) of (r, w) \<Rightarrow> (answer r, s\<lparr>ir_world := w\<rparr>))"

definition instanceNow :: "'w Env \<Rightarrow> ('w irun, time) prog" where
  "instanceNow E = (\<lambda>s. (Ok (clock E (ir_ticks s)), s\<lparr>ir_ticks := Suc (ir_ticks s)\<rparr>))"

text \<open>\<open>client.Status().Update(ctx, instance)\<close>: the answer of the server is decoded into the object.\<close>

definition instanceStatusUpdate :: "'w Env \<Rightarrow> ('w irun, unit) prog" where
  "instanceStatusUpdate E = (\<lambda>s. case kStatusUpdate (k_AddonInstance (client E)) (ir_instance s) (ir_world s) of
     (Inl e, w) \<Rightarrow> (Err e, s\<lparr>ir_world := w, ir_updates := ir_updates s @ [(ir_instance s, Some e)]\<rparr>)
   | (Inr i, w) \<Rightarrow> (Ok (), s\<lparr>ir_world := w, ir_updates := ir_updates s @ [(ir_instance s, None)], ir_instance := i\<rparr>))"

text \<open>
  The loop \<open>for _, cond := range conditions { cond.ObservedGeneration = instance.Generation;
  SetStatusCondition(...) }\<close>.
\<close>

fun setInstanceConditions :: "'w Env \<Rightarrow> Condition list \<Rightarrow> ('w irun, unit) prog" where
  "setInstanceConditions E [] = ret ()"
| "setInstanceConditions E (cond # conds) = bindp (instanceNow E) (\<lambda>now.
     bindp (modify (\<lambda>s. s\<lparr>ir_instance := (ir_instance s)\<lparr>ai_Status := (ai_Status (ir_instance s))
        \<lparr>ai_Conditions := SetStatusCondition (theLib E) now (ai_Conditions (ai_Status (ir_instance s)))
           (cond\<lparr>c_ObservedGeneration := Generation (ai_meta (ir_instance s))\<rparr>)\<rparr>\<rparr>\<rparr>))
       (\<lambda>_. setInstanceConditions E conds))"

section \<open>Phases\<close>

record phaseResult =
  pr_Conditions :: "Condition list"
  pr_err :: "error option"

definition phaseSuccess :: "Condition list \<Rightarrow> phaseResult" where
  "phaseSuccess conditions = \<lparr>pr_Conditions = conditions, pr_err = None\<rparr>"

definition phaseError :: "error \<Rightarrow> phaseResult" where
  "phaseError err = \<lparr>pr_Conditions = [], pr_err = Some err\<rparr>"

record 'w Phase =
  ph_Execute :: "AddonInstance \<Rightarrow> ('w irun, phaseResult) prog"
  ph_String :: string

section \<open>The heartbeat\<close>

abbreviation conditionHealthyMessageWaiting :: string where
  "conditionHealthyMessageWaiting \<equiv> ''Waiting for first heartbeat.''"
abbreviation conditionHealthyMessageHeartbeatReceived :: string where
  "conditionHealthyMessageHeartbeatReceived \<equiv> ''Heartbeat received within threshold.''"
abbreviation conditionHealthyMessageHeartbeatNotReceived :: string where
  "conditionHealthyMessageHeartbeatNotReceived \<equiv> ''Heartbeat not received before timeout threshold.''"

record 'w PhaseCheckHeartbeatConfig =
  Clock :: "('w irun, time) prog option"
  ThresholdMultiplier :: int

datatype 'w PhaseCheckHeartbeatOption = WithClock "('w irun, time) prog" | WithThresholdMultiplier int

fun ConfigurePhaseCheckHeartbeat :: "'w PhaseCheckHeartbeatOption \<Rightarrow> 'w PhaseCheckHeartbeatConfig \<Rightarrow> 'w PhaseCheckHeartbeatConfig" where
  "ConfigurePhaseCheckHeartbeat (WithClock cl) c = c\<lparr>Clock := Some cl\<rparr>"
| "ConfigurePhaseCheckHeartbeat (WithThresholdMultiplier w) c = c\<lparr>ThresholdMultiplier := w\<rparr>"

definition heartbeatConfigDefault :: "'w Env \<Rightarrow> 'w PhaseCheckHeartbeatConfig \<Rightarrow> 'w PhaseCheckHeartbeatConfig" where
  "heartbeatConfigDefault E c = \<lparr>
     Clock = Some (case Clock c of None \<Rightarrow> instanceNow E | Some cl \<Rightarrow> cl),
     ThresholdMultiplier = (if ThresholdMultiplier c = 0 then 3 else ThresholdMultiplier c)\<rparr>"

definition NewPhaseCheckHeartbeat :: "'w Env \<Rightarrow> 'w PhaseCheckHeartbeatOption list \<Rightarrow> 'w PhaseCheckHeartbeatConfig" where
  "NewPhaseCheckHeartbeat E opts = heartbeatConfigDefault E
     (foldl (\<lambda>c opt. ConfigurePhaseCheckHeartbeat opt c) \<lparr>Clock = None, ThresholdMultiplier = 0\<rparr> opts)"

text \<open>\<open>time.Duration(multiplier) * period\<close>, a product of \<open>int64\<close>.\<close>

definition heartbeatThreshold :: "int \<Rightarrow> duration \<Rightarrow> duration" where
  "heartbeatThreshold multiplier period = sint ((word_of_int multiplier :: 64 word) * word_of_int period)"

definition healthyCondition :: "ConditionStatus \<Rightarrow> string \<Rightarrow> string \<Rightarrow> Condition" where
  "healthyCondition status reason message = \<lparr>c_Type = AddonInstanceCondition_String AddonInstanceConditionHealthy,
     c_Status = status, c_Reason = reason, c_Message = message, c_ObservedGeneration = 0, c_LastTransitionTime = None\<rparr>"

definition heartbeatExecute :: "'w PhaseCheckHeartbeatConfig \<Rightarrow> AddonInstance \<Rightarrow> ('w irun, phaseResult) prog" where
  "heartbeatExecute cfg inst =
     (case LastHeartbeatTime (ai_Status inst) of
        None \<Rightarrow> ret (phaseSuccess [healthyCondition ConditionUnknown
          AddonInstanceHealthyReasonPendingFirstHeartbeat conditionHealthyMessageWaiting])
      | Some lastHeartbeatTime \<Rightarrow>
          (let threshold = heartbeatThreshold (ThresholdMultiplier cfg) (HeartbeatUpdatePeriod (ai_Spec inst)) in
           bindp (deref (Clock cfg)) (\<lambda>cl. bindp cl (\<lambda>now.
             if now > lastHeartbeatTime + threshold
             then ret (phaseSuccess [healthyCondition ConditionUnknown
               AddonInstanceHealthyReasonHeartbeatTimeout conditionHealthyMessageHeartbeatNotReceived])
             else ret (phaseSuccess [healthyCondition ConditionTrue
               AddonInstanceHealthyReasonReceivingHeartbeats conditionHealthyMessageHeartbeatReceived])))))"

definition PhaseCheckHeartbeat :: "'w PhaseCheckHeartbeatConfig \<Rightarrow> 'w Phase" where
  "PhaseCheckHeartbeat cfg = \<lparr>ph_Execute = heartbeatExecute cfg, ph_String = ''PhaseCheckHeartbeat''\<rparr>"

section \<open>The controller\<close>

record 'w ControllerConfig =
  PollingInterval :: duration
  SerialPhases :: "'w Phase list"

datatype 'w ControllerOption = WithPollingInterval duration | WithSerialPhases "'w Phase list"

fun ConfigureController :: "'w ControllerOption \<Rightarrow> 'w ControllerConfig \<Rightarrow> 'w ControllerConfig" where
  "ConfigureController (WithPollingInterval w) c = c\<lparr>PollingInterval := w\<rparr>"
| "ConfigureController (WithSerialPhases w) c = c\<lparr>SerialPhases := w\<rparr>"

definition controllerConfigDefault :: "'w ControllerConfig \<Rightarrow> 'w ControllerConfig" where
  "controllerConfigDefault c = (if PollingInterval c = 0 then c\<lparr>PollingInterval := 10 * nanosPerSecond\<rparr> else c)"

definition NewController :: "'w ControllerOption list \<Rightarrow> 'w ControllerConfig" where
  "NewController opts = controllerConfigDefault
     (foldl (\<lambda>c opt. ConfigureController opt c) \<lparr>PollingInterval = 0, SerialPhases = []\<rparr> opts)"

definition clientGet :: "'w Env \<Rightarrow> string \<Rightarrow> string \<Rightarrow> ('w irun, AddonInstance) prog" where
  "clientGet E name namespace =
     call (instanceRead (kGet (k_AddonInstance (client E)) \<lparr>key_Namespace = namespace, key_Name = name\<rparr>))
       (\<lambda>err. throw (Wrap (''getting AddonInstance '' @ [CHR 0x27] @ namespace @ ''/'' @ name @ [CHR 0x27]) err)) ret"

definition clientUpdateStatus :: "'w Env \<Rightarrow> ('w irun, unit) prog" where
  "clientUpdateStatus E =
     bindp (modify (\<lambda>s. s\<lparr>ir_instance := (ir_instance s)\<lparr>ai_Status := (ai_Status (ir_instance s))
        \<lparr>ai_ObservedGeneration := Generation (ai_meta (ir_instance s))\<rparr>\<rparr>\<rparr>)) (\<lambda>_.
     call (instanceStatusUpdate E) (\<lambda>err. throw (Wrap ''updating AddonInstance status'' err)) ret)"

definition reportInstanceError :: "error \<Rightarrow> string \<Rightarrow> ('w irun, unit) prog" where
  "reportInstanceError err crName =
     modify (\<lambda>s. s\<lparr>ir_recorder := Report ''addoninstance'' err crName (ir_recorder s)\<rparr>)"

fun executePhases :: "'w Env \<Rightarrow> string \<Rightarrow> 'w Phase list \<Rightarrow> ('w irun, unit) prog" where
  "executePhases E name [] = ret ()"
| "executePhases E name (p # ps) = bindp (gets ir_instance) (\<lambda>inst.
     bindp (ph_Execute p inst) (\<lambda>res.
     bindp (setInstanceConditions E (pr_Conditions res)) (\<lambda>_.
     case pr_err res of
       Some err \<Rightarrow> bindp (reportInstanceError ErrExecuteAddonInstanceReconcilePhase name) (\<lambda>_.
         throw (Wrap (''executing phase '' @ quoted (ph_String p)) err))
     | None \<Rightarrow> executePhases E name ps)))"

definition ReconcileInstance :: "'w Env \<Rightarrow> 'w ControllerConfig \<Rightarrow> ObjectKey \<Rightarrow> ('w irun, ctrlResult) prog" where
  "ReconcileInstance E cfg req =
     call (clientGet E (key_Name req) (key_Namespace req))
       (\<lambda>err. bindp (reportInstanceError ErrGetAddonInstance (key_Name req)) (\<lambda>_.
          case IgnoreNotFound (theLib E) err of None \<Rightarrow> ret zeroResult | Some e \<Rightarrow> throw e))
       (\<lambda>inst. bindp (modify (\<lambda>s. s\<lparr>ir_instance := inst\<rparr>)) (\<lambda>_.
          deferring
            (call (clientUpdateStatus E) (\<lambda>_. reportInstanceError ErrUpdateAddonInstanceStatus (key_Name req)) ret)
            (bindp (executePhases E (key_Name req) (SerialPhases cfg)) (\<lambda>_.
               ret \<lparr>Requeue = False, RequeueAfter = PollingInterval cfg\<rparr>))))"

section \<open>Sending a heartbeat\<close>

datatype SendPulseOption = WithConditions "Condition list"

fun ConfigureSendPulse :: "SendPulseOption \<Rightarrow> Condition list \<Rightarrow> Condition list" where
  "ConfigureSendPulse (WithConditions w) c = w"

definition newAddonInstanceCondition :: "AddonInstanceCondition \<Rightarrow> ConditionStatus \<Rightarrow> string \<Rightarrow> string \<Rightarrow> Condition" where
  "newAddonInstanceCondition cond status reason msg = \<lparr>c_Type = AddonInstanceCondition_String cond, c_Status = status,
     c_Reason = reason, c_Message = msg, c_ObservedGeneration = 0, c_LastTransitionTime = None\<rparr>"

definition NewAddonInstanceConditionDegraded :: "ConditionStatus \<Rightarrow> string \<Rightarrow> string \<Rightarrow> Condition" where
  "NewAddonInstanceConditionDegraded = newAddonInstanceCondition AddonInstanceConditionDegraded"

definition NewAddonInstanceConditionInstalled :: "ConditionStatus \<Rightarrow> string \<Rightarrow> string \<Rightarrow> Condition" where
  "NewAddonInstanceConditionInstalled = newAddonInstanceCondition AddonInstanceConditionInstalled"

definition NewAddonInstanceConditionReadyToBeDeleted :: "ConditionStatus \<Rightarrow> string \<Rightarrow> string \<Rightarrow> Condition" where
  "NewAddonInstanceConditionReadyToBeDeleted = newAddonInstanceCondition AddonInstanceConditionReadyToBeDeleted"

text \<open>The AddonInstance is passed by value: the run works on the copy in its state.\<close>

definition SendPulse :: "'w Env \<Rightarrow> SendPulseOption list \<Rightarrow> ('w irun, unit) prog" where
  "SendPulse E opts = (let conditions = foldl (\<lambda>c opt. ConfigureSendPulse opt c) [] opts in
     bindp (instanceNow E) (\<lambda>now.
     bindp (modify (\<lambda>s. s\<lparr>ir_instance := (ir_instance s)\<lparr>ai_Status := (ai_Status (ir_instance s))\<lparr>LastHeartbeatTime := Some now\<rparr>\<rparr>\<rparr>)) (\<lambda>_.
     bindp (setInstanceConditions E conditions) (\<lambda>_.
     bindp (gets ir_instance) (\<lambda>inst.
     call (instanceStatusUpdate E)
       (\<lambda>err. throw (Wrap (''setting status for AddonInstance '' @ Namespace (ai_meta inst) @ ''/'' @ Name (ai_meta inst)) err))
       ret)))))"

section \<open>The reported health\<close>

text \<open>What a Healthy condition has to say about a heartbeat, with the default multiplier.\<close>

definition healthOf :: "duration \<Rightarrow> time option \<Rightarrow> time \<Rightarrow> ConditionStatus \<times> string" where
  "healthOf period heartbeat now =
     (case heartbeat of
        None \<Rightarrow> (ConditionUnknown, AddonInstanceHealthyReasonPendingFirstHeartbeat)
      | Some t \<Rightarrow> if now > t + heartbeatThreshold 3 period
                  then (ConditionUnknown, AddonInstanceHealthyReasonHeartbeatTimeout)
                  else (ConditionTrue, AddonInstanceHealthyReasonReceivingHeartbeats))"

text \<open>What the reconciliation of \<open>i\<close> has to write, at time \<open>now\<close>: the health, and nothing else new.\<close>

definition healthReported :: "lib \<Rightarrow> time \<Rightarrow> AddonInstance \<Rightarrow> AddonInstance \<Rightarrow> bool" where
  "healthReported L now i b \<longleftrightarrow> ai_meta b = ai_meta i \<and> ai_Spec b = ai_Spec i \<and>
     LastHeartbeatTime (ai_Status b) = LastHeartbeatTime (ai_Status i) \<and>
     ai_ObservedGeneration (ai_Status b) = Generation (ai_meta i) \<and>
     (\<exists>c. FindStatusCondition L (ai_Conditions (ai_Status b)) (AddonInstanceCondition_String AddonInstanceConditionHealthy) = Some c \<and>
       (c_Status c, c_Reason c) = healthOf (HeartbeatUpdatePeriod (ai_Spec i)) (LastHeartbeatTime (ai_Status i)) now \<and>
       c_ObservedGeneration c = Generation (ai_meta i)) \<and>
     (\<forall>t. t \<noteq> AddonInstanceCondition_String AddonInstanceConditionHealthy \<longrightarrow>
       FindStatusCondition L (ai_Conditions (ai_Status b)) t = FindStatusCondition L (ai_Conditions (ai_Status i)) t)"

text \<open>The controller as \<open>main.go\<close> sets it up, with the one phase and the default settings.\<close>

definition heartbeatController :: "'w Env \<Rightarrow> 'w ControllerConfig" where
  "heartbeatController E = NewController [WithSerialPhases [PhaseCheckHeartbeat (NewPhaseCheckHeartbeat E [])]]"

lemma heartbeatController_eq:
  "heartbeatController E = \<lparr>PollingInterval = 10 * nanosPerSecond,
     SerialPhases = [PhaseCheckHeartbeat \<lparr>Clock = Some (instanceNow E), ThresholdMultiplier = 3\<rparr>]\<rparr>"
  by (simp add: heartbeatController_def NewController_def NewPhaseCheckHeartbeat_def controllerConfigDefault_def
      heartbeatConfigDefault_def)

lemma instanceNow_app [simp]:
  "instanceNow E s = (Ok (clock E (ir_ticks s)), s\<lparr>ir_ticks := Suc (ir_ticks s)\<rparr>)"
  by (simp add: instanceNow_def)

lemma heartbeatExecute_run:
  obtains st rs msg n where
    "heartbeatExecute \<lparr>Clock = Some (instanceNow E), ThresholdMultiplier = 3\<rparr> i s =
       (Ok (phaseSuccess [healthyCondition st rs msg]), s\<lparr>ir_ticks := n\<rparr>)"
    "(st, rs) = healthOf (HeartbeatUpdatePeriod (ai_Spec i)) (LastHeartbeatTime (ai_Status i)) (clock E (ir_ticks s))"
proof (cases "LastHeartbeatTime (ai_Status i)")
  case None
  then show thesis
    by (intro that [of _ _ _ "ir_ticks s"]) (simp_all add: heartbeatExecute_def healthOf_def)
next
  case (Some t)
  show thesis
  proof (cases "clock E (ir_ticks s) > t + heartbeatThreshold 3 (HeartbeatUpdatePeriod (ai_Spec i))")
    case True
    with Some show thesis
      by (intro that [of _ _ _ "Suc (ir_ticks s)"]) (simp_all add: heartbeatExecute_def healthOf_def)
  next
    case False
    with Some show thesis
      by (intro that [of _ _ _ "Suc (ir_ticks s)"]) (simp_all add: heartbeatExecute_def healthOf_def)
  qed
qed

text \<open>The status update that is deferred sends the instance with its observed generation, whatever is answered.\<close>

lemma updateStatus_sends:
  fixes s :: "'w irun"
  defines "b \<equiv> (ir_instance s)\<lparr>ai_Status := (ai_Status (ir_instance s))\<lparr>ai_ObservedGeneration := Generation (ai_meta (ir_instance s))\<rparr>\<rparr>"
  obtains e s' where "call (clientUpdateStatus E) (\<lambda>_. reportInstanceError err n) ret s = (Ok (), s')"
    "ir_updates s' = ir_updates s @ [(b, e)]"
proof (cases "kStatusUpdate (k_AddonInstance (client E)) b (ir_world s)")
  case (Pair r w)
  then show thesis
    by (cases r) (auto simp: clientUpdateStatus_def instanceStatusUpdate_def reportInstanceError_def call_def bindp_def b_def
        intro: that)
qed

lemma reconcile_reports_health:
  assumes "condition_laws (theLib E)" "kGet (k_AddonInstance (client E)) key (ir_world s) = (Inr i, w)"
    and "ReconcileInstance E (heartbeatController E) key s = (res, s')"
  shows "res = Ok \<lparr>Requeue = False, RequeueAfter = 10 * nanosPerSecond\<rparr> \<and>
    (\<exists>b e. ir_updates s' = ir_updates s @ [(b, e)] \<and> healthReported (theLib E) (clock E (ir_ticks s)) i b)"
proof -
  let ?s = "s\<lparr>ir_world := w, ir_instance := i\<rparr>"
  obtain st rs msg n where exec: "heartbeatExecute \<lparr>Clock = Some (instanceNow E), ThresholdMultiplier = 3\<rparr> i ?s =
       (Ok (phaseSuccess [healthyCondition st rs msg]), ?s\<lparr>ir_ticks := n\<rparr>)"
    and health: "(st, rs) = healthOf (HeartbeatUpdatePeriod (ai_Spec i)) (LastHeartbeatTime (ai_Status i)) (clock E (ir_ticks s))"
    by (rule heartbeatExecute_run [of E i ?s]) simp
  define i2 where "i2 = i\<lparr>ai_Status := (ai_Status i)\<lparr>ai_Conditions := SetStatusCondition (theLib E) (clock E n)
    (ai_Conditions (ai_Status i)) ((healthyCondition st rs msg)\<lparr>c_ObservedGeneration := Generation (ai_meta i)\<rparr>)\<rparr>\<rparr>"
  let ?s2 = "?s\<lparr>ir_ticks := Suc n, ir_instance := i2\<rparr>"
  have phases: "executePhases E (key_Name key) (SerialPhases (heartbeatController E)) ?s = (Ok (), ?s2)"
    by (simp add: heartbeatController_eq PhaseCheckHeartbeat_def exec phaseSuccess_def i2_def)
  have get: "clientGet E (key_Name key) (key_Namespace key) s = (Ok i, s\<lparr>ir_world := w\<rparr>)"
    using assms(2) by (cases key) (simp add: clientGet_def instanceRead_def call_def)
  obtain e s3 where upd: "call (clientUpdateStatus E) (\<lambda>_. reportInstanceError ErrUpdateAddonInstanceStatus (key_Name key)) ret ?s2 = (Ok (), s3)"
    and sent: "ir_updates s3 = ir_updates s @ [(i2\<lparr>ai_Status := (ai_Status i2)\<lparr>ai_ObservedGeneration := Generation (ai_meta i2)\<rparr>\<rparr>, e)]"
    by (rule updateStatus_sends [of E _ _ ?s2]) simp
  have "healthReported (theLib E) (clock E (ir_ticks s)) i (i2\<lparr>ai_Status := (ai_Status i2)\<lparr>ai_ObservedGeneration := Generation (ai_meta i2)\<rparr>\<rparr>)"
    using assms(1) health by (auto simp: healthReported_def i2_def healthyCondition_def)
  moreover have "(res, s') = (Ok \<lparr>Requeue = False, RequeueAfter = 10 * nanosPerSecond\<rparr>, s3)"
    unfolding assms(3) [symmetric]
    using phases upd by (simp add: ReconcileInstance_def get deferring_def) (simp add: heartbeatController_eq)
  ultimately show ?thesis using sent by auto
qed

text \<open>
  C28: A reconciliation of an AddonInstance always ends with exactly one status update, and this update
  reports the health: unknown before the first heartbeat and once three periods have passed without one,
  true otherwise; all other conditions, the specification and the time of the heartbeat are left as they
  were, and the next reconciliation is ten seconds away, even when the update was refused.
\<close>

theorem instance_health_reported:
  assumes "condition_laws (theLib E)" "kGet (k_AddonInstance (client E)) key (ir_world s) = (Inr i, w)"
    and "ReconcileInstance E (heartbeatController E) key s = (res, s')"
  shows "res = Ok \<lparr>Requeue = False, RequeueAfter = 10 * nanosPerSecond\<rparr> \<and>
    (\<exists>b e. ir_updates s' = ir_updates s @ [(b, e)] \<and> healthReported (theLib E) (clock E (ir_ticks s)) i b)"
  by (rule reconcile_reports_health [OF assms])

section \<open>The timeout at its width\<close>

text \<open>The longest period for which three times the period is an \<open>int64\<close>: a little over 97 years.\<close>

definition longestPeriod :: duration where
  "longestPeriod = (2 ^ 63 - 1) div 3"

lemma heartbeatThreshold_mod:
  "heartbeatThreshold k p = (k * p + 2 ^ 63) mod 2 ^ 64 - 2 ^ 63"
proof -
  have "(word_of_int k :: 64 word) * word_of_int p = word_of_int (k * p)" by simp
  then show ?thesis unfolding heartbeatThreshold_def by (simp only: int_word_sint) simp
qed

lemma heartbeatThreshold_exact:
  assumes "- (2 ^ 63) \<le> k * p" "k * p < 2 ^ 63"
  shows "heartbeatThreshold k p = k * p"
  using assms by (simp add: heartbeatThreshold_mod mod_pos_pos_trivial)

lemma heartbeatThreshold_wrapped:
  assumes "2 ^ 63 \<le> k * p" "k * p < 2 ^ 64"
  shows "heartbeatThreshold k p = k * p - 2 ^ 64"
proof -
  have "(k * p + 2 ^ 63) mod 2 ^ 64 = (k * p + 2 ^ 63 - 2 ^ 64) mod 2 ^ 64" by (rule minus_mod_self2 [symmetric])
  also have "\<dots> = k * p + 2 ^ 63 - 2 ^ 64" using assms by (intro mod_pos_pos_trivial) auto
  finally show ?thesis by (simp add: heartbeatThreshold_mod)
qed


section \<open>A pulse and the reconciliation after it\<close>

lemma setInstanceConditions_keeps:
  "\<exists>t n. setInstanceConditions E conds s = (Ok (), t) \<and>
     (\<exists>cs. t = s\<lparr>ir_instance := (ir_instance s)\<lparr>ai_Status := (ai_Status (ir_instance s))\<lparr>ai_Conditions := cs\<rparr>\<rparr>, ir_ticks := n\<rparr>)"
proof (induction conds arbitrary: s)
  case Nil
  show ?case by (intro exI [of _ s] exI [of _ "ir_ticks s"] conjI exI [of _ "ai_Conditions (ai_Status (ir_instance s))"]) simp_all
next
  case (Cons c conds)
  let ?s = "s\<lparr>ir_ticks := Suc (ir_ticks s), ir_instance := (ir_instance s)\<lparr>ai_Status := (ai_Status (ir_instance s))
    \<lparr>ai_Conditions := SetStatusCondition (theLib E) (clock E (ir_ticks s)) (ai_Conditions (ai_Status (ir_instance s)))
      (c\<lparr>c_ObservedGeneration := Generation (ai_meta (ir_instance s))\<rparr>)\<rparr>\<rparr>\<rparr>"
  obtain t n cs where "setInstanceConditions E conds ?s = (Ok (), t)"
    "t = ?s\<lparr>ir_instance := (ir_instance ?s)\<lparr>ai_Status := (ai_Status (ir_instance ?s))\<lparr>ai_Conditions := cs\<rparr>\<rparr>, ir_ticks := n\<rparr>"
    using Cons.IH [of ?s] by blast
  then show ?case by (intro exI [of _ t] exI [of _ n] conjI exI [of _ cs]) simp_all
qed

lemma SendPulse_sends:
  assumes "SendPulse E opts s = (Ok (), s')"
  obtains cs where "ir_updates s' = ir_updates s @ [((ir_instance s)\<lparr>ai_Status := (ai_Status (ir_instance s))
      \<lparr>LastHeartbeatTime := Some (clock E (ir_ticks s)), ai_Conditions := cs\<rparr>\<rparr>, None)]"
proof -
  define conds where "conds = foldl (\<lambda>c opt. ConfigureSendPulse opt c) [] opts"
  let ?s = "s\<lparr>ir_ticks := Suc (ir_ticks s), ir_instance := (ir_instance s)\<lparr>ai_Status := (ai_Status (ir_instance s))
    \<lparr>LastHeartbeatTime := Some (clock E (ir_ticks s))\<rparr>\<rparr>\<rparr>"
  obtain n cs where set: "setInstanceConditions E conds ?s = (Ok (), ?s\<lparr>ir_instance := (ir_instance ?s)
      \<lparr>ai_Status := (ai_Status (ir_instance ?s))\<lparr>ai_Conditions := cs\<rparr>\<rparr>, ir_ticks := n\<rparr>)"
    using setInstanceConditions_keeps [of E conds ?s] by blast
  show thesis
    using assms by (intro that [of cs])
      (auto simp: SendPulse_def set instanceStatusUpdate_def call_def Let_def simp flip: conds_def
        split: prod.splits sum.splits)
qed


section \<open>A run\<close>

definition pulsedInstance :: AddonInstance where
  "pulsedInstance = \<lparr>ai_meta = (objectMeta ''ns'' ''addon-instance'')\<lparr>Generation := 4\<rparr>,
     ai_Spec = \<lparr>MarkedForDeletion = False, HeartbeatUpdatePeriod = DefaultAddonInstanceHeartbeatUpdatePeriod\<rparr>,
     ai_Status = \<lparr>ai_ObservedGeneration = 0, ai_Conditions = [], LastHeartbeatTime = Some 0\<rparr>\<rparr>"

definition instanceRun :: "AddonInstance \<Rightarrow> nat \<Rightarrow> unit irun" where
  "instanceRun i n = \<lparr>ir_instance = i, ir_world = (), ir_updates = [], ir_ticks = n, ir_recorder = None\<rparr>"

definition pulsedEnv :: "unit Env" where
  "pulsedEnv = refEnv (emptyStock\<lparr>so_AddonInstance := [pulsedInstance]\<rparr>)"

lemma pulsed_get: "kGet (k_AddonInstance (client pulsedEnv)) \<lparr>key_Namespace = ''ns'', key_Name = ''addon-instance''\<rparr> () = (Inr pulsedInstance, ())"
  by (simp add: pulsedEnv_def stockCluster_def stockClient_def lookupKey_def hasKey_def pulsedInstance_def objectMeta_def emptyStock_def)

lemma pulsed_laws: "condition_laws (theLib pulsedEnv)"
  using refLib_laws by (auto simp: pulsedEnv_def)

theorem instance_health_reported_witness:
  "\<exists>b e. ir_updates (snd (ReconcileInstance pulsedEnv (heartbeatController pulsedEnv)
      \<lparr>key_Namespace = ''ns'', key_Name = ''addon-instance''\<rparr> (instanceRun pulsedInstance 31))) = [(b, e)] \<and>
    healthReported refLib (31 * nanosPerSecond) pulsedInstance b"
  using instance_health_reported [OF pulsed_laws _ prod.collapse [symmetric], of _ "instanceRun pulsedInstance 31" pulsedInstance "()"]
    pulsed_get by (auto simp: instanceRun_def pulsedEnv_def)


definition freshInstance :: AddonInstance where
  "freshInstance = pulsedInstance\<lparr>ai_Status := (ai_Status pulsedInstance)\<lparr>LastHeartbeatTime := None\<rparr>\<rparr>"

lemma fresh_pulse:
  "SendPulse pulsedEnv [] (instanceRun freshInstance 0) =
     (Ok (), (instanceRun pulsedInstance 1)\<lparr>ir_updates := [(pulsedInstance, None)]\<rparr>)"
  by (simp add: SendPulse_def instanceRun_def instanceStatusUpdate_def freshInstance_def pulsedInstance_def pulsedEnv_def
      stockCluster_def stockClient_def call_def)


end
