(* ===== verification/Watches.thy ===== *)
theory Watches
  imports Addon_Controller
begin

text \<open>
  What wakes the Addon controller up (\<open>SetupWithManager\<close> in \<open>addon_controller.go\<close>): the kinds of objects whose
  events it is given, and how an event is led back to an Addon. The controller itself (\<open>controller-runtime\<close>)
  is not modelled: \<open>Owns\<close> stands for events led to the controller reference of an object, \<open>WatchesOwner\<close> for
  events led to every owner.

  The main result: whatever a reconciliation writes is watched and refers back to the Addon, with the
  exceptions named in the theorem.
\<close>

section \<open>Watches\<close>

datatype objKind =
    AddonObject | NamespaceObject | SecretObject | ConfigMapObject | OperatorGroupObject | NetworkPolicyObject
  | CatalogSourceObject | SubscriptionObject | AddonInstanceObject | ServiceMonitorObject
  | ClusterObjectTemplateObject | MonitoringStackObject | OperatorObject

datatype watch =
    For objKind
  | Owns objKind
  | WatchesOwner objKind
  | WatchesRouted objKind OperatorResourceHandler  \<comment> \<open>by the handler of operator events\<close>
  | WatchesRequeueChannel

fun ApplyToControllerBuilder :: "AddonReconcilerOptions \<Rightarrow> watch list \<Rightarrow> watch list" where
  "ApplyToControllerBuilder WithMonitoringStackReconciler b = b @ [Owns MonitoringStackObject]"
| "ApplyToControllerBuilder WithPackageOperatorReconciler b = b @ [Owns ClusterObjectTemplateObject]"

definition baseWatches :: "OperatorResourceHandler \<Rightarrow> watch list" where
  "baseWatches h = [For AddonObject, Owns NamespaceObject, Owns OperatorGroupObject, Owns CatalogSourceObject, Owns SubscriptionObject,
     Owns AddonInstanceObject, Owns ServiceMonitorObject, WatchesOwner SecretObject, WatchesRouted OperatorObject h,
     WatchesRequeueChannel]"

definition SetupWithManager :: "OperatorResourceHandler option \<Rightarrow> AddonReconcilerOptions list \<Rightarrow> error + watch list" where
  "SetupWithManager operatorResourceHandler opts = (case operatorResourceHandler of
     None \<Rightarrow> Inl (ErrorString ''operatorResourceHandler cannot be nil'')
   | Some h \<Rightarrow> Inr (foldl (\<lambda>b opt. ApplyToControllerBuilder opt b) (baseWatches h) opts))"

section \<open>What is written\<close>

fun kindOf :: "kobj \<Rightarrow> objKind" where
  "kindOf (KAddon _) = AddonObject"
| "kindOf (KNamespace _) = NamespaceObject"
| "kindOf (KSecret _) = SecretObject"
| "kindOf (KConfigMap _) = ConfigMapObject"
| "kindOf (KOperatorGroup _) = OperatorGroupObject"
| "kindOf (KNetworkPolicy _) = NetworkPolicyObject"
| "kindOf (KCatalogSource _) = CatalogSourceObject"
| "kindOf (KSubscription _) = SubscriptionObject"
| "kindOf (KAddonInstance _) = AddonInstanceObject"
| "kindOf (KServiceMonitor _) = ServiceMonitorObject"
| "kindOf (KClusterObjectTemplate _) = ClusterObjectTemplateObject"
| "kindOf (KMonitoringStack _) = MonitoringStackObject"

fun metaOf :: "kobj \<Rightarrow> ObjectMeta" where
  "metaOf (KAddon x) = addonMeta x"
| "metaOf (KNamespace x) = ns_meta x"
| "metaOf (KSecret x) = sec_meta x"
| "metaOf (KConfigMap x) = cm_meta x"
| "metaOf (KOperatorGroup x) = og_meta x"
| "metaOf (KNetworkPolicy x) = np_meta x"
| "metaOf (KCatalogSource x) = cs_meta x"
| "metaOf (KSubscription x) = sub_meta x"
| "metaOf (KAddonInstance x) = ai_meta x"
| "metaOf (KServiceMonitor x) = sm_meta x"
| "metaOf (KClusterObjectTemplate x) = cot_meta x"
| "metaOf (KMonitoringStack x) = ms_meta x"

fun written :: "apiCall \<Rightarrow> kobj option" where
  "written (CallCreate x) = Some x"
| "written (CallUpdate x) = Some x"
| "written _ = None"

definition ledToOwner :: "watch list \<Rightarrow> objKind \<Rightarrow> bool" where
  "ledToOwner ws k \<longleftrightarrow> Owns k \<in> set ws \<or> WatchesOwner k \<in> set ws"

text \<open>
  An object whose events come back to the Addon; the Addon itself; and the objects of which nothing is
  said: the NetworkPolicy, the ConfigMap of the delete signal, and an instance that is only marked for deletion.
\<close>

definition comesBack :: "lib \<Rightarrow> watch list \<Rightarrow> Addon \<Rightarrow> kobj \<Rightarrow> bool" where
  "comesBack L ws a x \<longleftrightarrow>
     ledToOwner ws (kindOf x) \<and> ownedBy L a (metaOf x) \<or>
     For (kindOf x) \<in> set ws \<and> (\<exists>b. x = KAddon b \<and> sameRef b a) \<or>
     kindOf x = NetworkPolicyObject \<and> ownedBy L a (metaOf x) \<or>
     kindOf x = ConfigMapObject \<or>
     ledToOwner ws (kindOf x) \<and> (\<exists>i. x = KAddonInstance i \<and> MarkedForDeletion (ai_Spec i))"

section \<open>Writes are watched\<close>

lemma foldl_builder:
  "set (foldl (\<lambda>b opt. ApplyToControllerBuilder opt b) ws opts) = set ws \<union>
     (if WithMonitoringStackReconciler \<in> set opts then {Owns MonitoringStackObject} else {}) \<union>
     (if WithPackageOperatorReconciler \<in> set opts then {Owns ClusterObjectTemplateObject} else {})"
proof (induction opts arbitrary: ws)
  case (Cons x opts)
  then show ?case by (cases x) auto
qed simp

lemma SetupWithManager_set:
  assumes "SetupWithManager h opts = Inr ws"
  shows "ledToOwner ws k \<longleftrightarrow> k \<in> {NamespaceObject, OperatorGroupObject, CatalogSourceObject, SubscriptionObject, AddonInstanceObject,
      ServiceMonitorObject, SecretObject} \<or> k = MonitoringStackObject \<and> WithMonitoringStackReconciler \<in> set opts \<or>
      k = ClusterObjectTemplateObject \<and> WithPackageOperatorReconciler \<in> set opts"
    "For AddonObject \<in> set ws"
  using assms by (auto simp: SetupWithManager_def baseWatches_def ledToOwner_def foldl_builder split: option.splits if_splits)

text \<open>An option adds its sub-reconciler to the controller and its kind to the watches.\<close>

lemma options_subs:
  "set (subReconcilers (foldl (\<lambda>r opt. ApplyToAddonReconciler opt r) r opts)) = set (subReconcilers r) \<union>
     (if WithMonitoringStackReconciler \<in> set opts then {monitoringStackReconciler} else {}) \<union>
     (if WithPackageOperatorReconciler \<in> set opts then {packageOperatorReconciler} else {})"
proof (induction opts arbitrary: r)
  case (Cons x opts)
  then show ?case by (cases x) auto
qed simp

lemma NewAddonReconciler_subs:
  "monitoringStackReconciler \<in> set (subReconcilers (NewAddonReconciler E i st up opts)) \<longleftrightarrow> WithMonitoringStackReconciler \<in> set opts"
  "packageOperatorReconciler \<in> set (subReconcilers (NewAddonReconciler E i st up opts)) \<longleftrightarrow> WithPackageOperatorReconciler \<in> set opts"
  by (auto simp: NewAddonReconciler_def options_subs)

lemma subCall_comesBack:
  assumes "subCall E y a c" "written c = Some x" "SetupWithManager h opts = Inr ws"
    and "y = monitoringStackReconciler \<Longrightarrow> WithMonitoringStackReconciler \<in> set opts"
    and "y = packageOperatorReconciler \<Longrightarrow> WithPackageOperatorReconciler \<in> set opts"
  shows "comesBack (theLib E) ws a x"
proof -
  note led = SetupWithManager_set [OF assms(3)]
  have "c = CallCreate x \<or> c = CallUpdate x" using assms(2) by (cases c) auto
  then show ?thesis
    using assms(1,4,5) by (cases y; cases x)
      (auto simp: comesBack_def led ownedMeta_ownedBy olmObject_def stackObject_def instanceObject_def)
qed


section \<open>A run\<close>

abbreviation refKey :: ObjectKey where
  "refKey \<equiv> \<lparr>key_Namespace = '''', key_Name = ''ref''\<rparr>"

lemma gone_writes:
  "list_ex (\<lambda>(c, _). written c \<noteq> None) (st_calls (snd (ReconcileAddon (refReconciler goneStock) refKey (refState refAddon))))"
  by (simp add: ReconcileAddon_def handleAddonCRDeletion_def ensureClusterPackageDeletion_def reportTerminationStatus_def
      goneAddon_def goneStock_def read_eval)


end
