(* ===== verification/Entry_Point.thy ===== *)
theory Entry_Point
  imports Operator_Controller Instance_Controller Watches
begin

text \<open>
  The start of the process (\<open>main.go\<close>, \<open>options.go\<close>): the options from flags, environment and the mounted
  secret, the AddonOperator object that is read first, the feature toggles it enables, and the three
  controllers built from them. The flag package gives the flags that are set as pairs of name and text; its
  own syntax errors, the creation of clients and the manager, servers and watches are left out. A flag the
  operator does not know, or a text that is no boolean, ends the process.

  The main result spans the controllers: while the operator runs, its sub-reconcilers are those the flags
  in the cluster select, or the process ends at the next reconciliation of the AddonOperator.
\<close>

section \<open>Options\<close>

record options =
  EnableLeaderElection :: bool
  EnableMetricsRecorder :: bool
  LeaderElectionNamespace :: string
  MetricsAddr :: string
  MetricsTlsDir :: string
  op_Namespace :: string
  PprofAddr :: string
  ProbeAddr :: string
  StatusReportingEnabled :: bool
  EnableUpgradePolicyStatus :: bool

text \<open>\<open>strconv.ParseBool\<close>, which \<open>flag.BoolVar\<close> uses.\<close>

definition parseBool :: "string \<Rightarrow> bool option" where
  "parseBool s =
     (if s \<in> {''1'', ''t'', ''T'', ''true'', ''TRUE'', ''True''} then Some True
      else if s \<in> {''0'', ''f'', ''F'', ''false'', ''FALSE'', ''False''} then Some False
      else None)"

definition setFlag :: "string \<Rightarrow> string \<Rightarrow> options \<Rightarrow> options option" where
  "setFlag name arg o' =
     (if name = ''enable-leader-election'' then map_option (\<lambda>b. o'\<lparr>EnableLeaderElection := b\<rparr>) (parseBool arg)
      else if name = ''enable-metrics-recorder'' then map_option (\<lambda>b. o'\<lparr>EnableMetricsRecorder := b\<rparr>) (parseBool arg)
      else if name = ''leader-election-namspace'' then Some (o'\<lparr>LeaderElectionNamespace := arg\<rparr>)
      else if name = ''metrics-addr'' then Some (o'\<lparr>MetricsAddr := arg\<rparr>)
      else if name = ''metrics-tls-dir'' then Some (o'\<lparr>MetricsTlsDir := arg\<rparr>)
      else if name = ''namespace'' then Some (o'\<lparr>op_Namespace := arg\<rparr>)
      else if name = ''pprof-addr'' then Some (o'\<lparr>PprofAddr := arg\<rparr>)
      else if name = ''health-probe-bind-address'' then Some (o'\<lparr>ProbeAddr := arg\<rparr>)
      else None)"

fun parseFlags :: "(string \<times> string) list \<Rightarrow> options \<Rightarrow> options option" where
  "parseFlags [] o' = Some o'"
| "parseFlags ((name, arg) # args) o' = Option.bind (setFlag name arg o') (parseFlags args)"

text \<open>\<open>os.Getenv\<close> gives the empty string for an unset variable, \<open>os.LookupEnv\<close> tells.\<close>

definition getenv :: "(string \<rightharpoonup> string) \<Rightarrow> string \<Rightarrow> string" where
  "getenv env k = (case env k of None \<Rightarrow> '''' | Some v \<Rightarrow> v)"

definition processEnv :: "(string \<rightharpoonup> string) \<Rightarrow> options \<Rightarrow> options" where
  "processEnv env o' =
     (let ns = getenv env ''ADDON_OPERATOR_NAMESPACE'';
          o' = (if ns \<noteq> '''' \<and> op_Namespace o' = '''' then o'\<lparr>op_Namespace := ns\<rparr> else o');
          ns = getenv env ''ADDON_OPERATOR_LE_NAMESPACE'';
          o' = (if ns \<noteq> '''' \<and> LeaderElectionNamespace o' = '''' then o'\<lparr>LeaderElectionNamespace := ns\<rparr> else o')
      in o'\<lparr>StatusReportingEnabled := (env ''ENABLE_STATUS_REPORTING'' = Some ''true''),
           EnableUpgradePolicyStatus := (env ''ENABLE_UPGRADEPOLICY_STATUS'' = Some ''true'')\<rparr>)"

text \<open>The content of the mounted namespace file; \<open>None\<close> when it cannot be read.\<close>

definition processSecrets :: "string option \<Rightarrow> options \<Rightarrow> options" where
  "processSecrets file o' = (if op_Namespace o' = '''' then o'\<lparr>op_Namespace := (case file of None \<Rightarrow> '''' | Some ns \<Rightarrow> ns)\<rparr> else o')"

definition applyValuesFromOptions :: "options \<Rightarrow> options" where
  "applyValuesFromOptions o' = (if LeaderElectionNamespace o' = '''' then o'\<lparr>LeaderElectionNamespace := op_Namespace o'\<rparr> else o')"

abbreviation errInvalidOption :: error where
  "errInvalidOption \<equiv> ErrorString ''invalid option''"

definition validateOptions :: "options \<Rightarrow> error option" where
  "validateOptions o' = (if op_Namespace o' = '''' then Some (Wrap ([CHR 0x27] @ ''Namespace'' @ [CHR 0x27] @ '' must not be empty'') errInvalidOption) else None)"

text \<open>The outcome of the start: the process ends itself, an error is returned, or it goes on.\<close>

datatype 'a startup = ProcessExit | SetupError error | Started 'a

definition Process :: "(string \<times> string) list \<Rightarrow> (string \<rightharpoonup> string) \<Rightarrow> string option \<Rightarrow> options \<Rightarrow> options startup" where
  "Process args env file o' =
     (case parseFlags args o' of
        None \<Rightarrow> ProcessExit
      | Some o' \<Rightarrow> (let o' = applyValuesFromOptions (processSecrets file (processEnv env o')) in
          case validateOptions o' of Some err \<Rightarrow> SetupError err | None \<Rightarrow> Started o'))"

section \<open>Building the controllers\<close>

definition defaultOptions :: options where
  "defaultOptions = \<lparr>EnableLeaderElection = False, EnableMetricsRecorder = True, LeaderElectionNamespace = '''',
     MetricsAddr = '':8080'', MetricsTlsDir = '''', op_Namespace = '''', PprofAddr = ''127.0.0.1:8070'', ProbeAddr = '':8081'',
     StatusReportingEnabled = False, EnableUpgradePolicyStatus = False\<rparr>"

text \<open>The options of the manager that the code sets.\<close>

record metricsOptions =
  BindAddress :: string
  SecureServing :: bool
  CertDir :: string

definition fetchMetricsOptions :: "options \<Rightarrow> metricsOptions" where
  "fetchMetricsOptions opts =
     (let metricsOpts = \<lparr>BindAddress = MetricsAddr opts, SecureServing = False, CertDir = ''''\<rparr> in
      if MetricsTlsDir opts \<noteq> '''' then metricsOpts\<lparr>SecureServing := True, CertDir := MetricsTlsDir opts\<rparr> else metricsOpts)"

record managerOptions =
  mgr_Metrics :: metricsOptions
  HealthProbeBindAddress :: string
  WebhookPort :: nat
  LeaderElectionResourceLock :: string
  LeaderElection :: bool
  LeaderElectionID :: string
  mgr_LeaderElectionNamespace :: string
  SecretCacheSelector :: "string \<times> string"

definition managerOptionsFor :: "options \<Rightarrow> managerOptions" where
  "managerOptionsFor opts = \<lparr>mgr_Metrics = fetchMetricsOptions opts, HealthProbeBindAddress = ProbeAddr opts, WebhookPort = 9443,
     LeaderElectionResourceLock = ''leases'', LeaderElection = EnableLeaderElection opts,
     LeaderElectionID = ''8a4hp84a6s.addon-operator-lock'', mgr_LeaderElectionNamespace = LeaderElectionNamespace opts,
     SecretCacheSelector = (CommonCacheLabel, CommonCacheValue)\<rparr>"

text \<open>
  What the start is given from outside: the clients, the transport, the ClusterVersion as it is read, and
  which steps of the runtime library fail (\<open>Some\<close> error): the creation of a client, of the manager with its
  options, of the profiling server, a health check by its name, a controller by its name.
\<close>

record 'w machine =
  mc_Env :: "'w netState Env"
  mc_Operators :: "('w netState, AddonOperator) kclient"
  mc_Transport :: "'w transport"
  mc_unmarshal :: "string \<Rightarrow> error + json"
  mc_NestedString :: "json \<Rightarrow> string list \<Rightarrow> error + string option"
  mc_ClusterVersion :: "'w netState \<Rightarrow> (error + string) \<times> 'w netState"
  mc_NewClient :: "error option"
  mc_NewManager :: "managerOptions \<Rightarrow> error option"
  mc_AddPprof :: "string \<Rightarrow> error option"
  mc_AddCheck :: "string \<Rightarrow> error option"
  mc_NewUncachedClient :: "error option"
  mc_SetupWithManager :: "string \<Rightarrow> error option"

record 'w operatorProcess =
  proc_addons :: "'w netState AddonReconciler"
  proc_operator :: "'w AddonOperatorReconciler"
  proc_instances :: "'w netState ControllerConfig"
  proc_recorder :: "Recorder option"
  proc_watches :: "watch list"

definition orFail :: "string \<Rightarrow> error option \<Rightarrow> ('w \<Rightarrow> 'a startup \<times> 'w) \<Rightarrow> 'w \<Rightarrow> 'a startup \<times> 'w" where
  "orFail msg failed k w = (case failed of Some err \<Rightarrow> (SetupError (Wrap msg err), w) | None \<Rightarrow> k w)"

definition initReconcilers ::
  "'w machine \<Rightarrow> options \<Rightarrow> AddonOperator \<Rightarrow> AddonReconcilerOptions list \<Rightarrow> 'w netState \<Rightarrow> 'w operatorProcess startup \<times> 'w netState" where
  "initReconcilers M o' addonOperatorInCluster opts =
     orFail ''unable to set up uncached client'' (mc_NewUncachedClient M) (\<lambda>w. case mc_ClusterVersion M w of
       (Inl err, w) \<Rightarrow> (SetupError (Wrap ''getting clusterversion'' err), w)
     | (Inr clusterExternalID, w) \<Rightarrow>
         (let E = (mc_Env M)\<lparr>AddonOperatorNamespace := op_Namespace o'\<rparr>;
              recorder = (if EnableMetricsRecorder o' then Some NewRecorder else None);
              addonReconciler = NewAddonReconciler E clusterExternalID (StatusReportingEnabled o') (EnableUpgradePolicyStatus o') opts
          in case SetupWithManager (Some NewOperatorResourceHandler) opts of
            Inl err \<Rightarrow> (SetupError (Wrap ''unable to create Addon controller'' err), w)
          | Inr ws \<Rightarrow> orFail ''unable to create Addon controller'' (mc_SetupWithManager M ''Addon'')
            (orFail ''unable to create AddonOperator controller'' (mc_SetupWithManager M ''AddonOperator'')
            (orFail ''setting up AddonInstance controller'' (mc_SetupWithManager M ''AddonInstance'')
            (\<lambda>w. (Started \<lparr>proc_addons = addonReconciler,
               proc_operator = \<lparr>aor_Env = E, aor_Client = mc_Operators M, aor_Transport = mc_Transport M,
                 aor_ClusterExternalID = clusterExternalID,
                 FeatureTogglesState = splitOn CHR '','' (FeatureFlags (ao_Spec addonOperatorInCluster)),
                 unmarshalDockerConfig = mc_unmarshal M, NestedString = mc_NestedString M\<rparr>,
               proc_instances = heartbeatController E, proc_recorder = recorder, proc_watches = ws\<rparr>, w)))) w))"

text \<open>A profiling server that cannot be added ends the process.\<close>

definition addPprof :: "'w machine \<Rightarrow> options \<Rightarrow> ('w netState \<Rightarrow> 'a startup \<times> 'w netState) \<Rightarrow> 'w netState \<Rightarrow> 'a startup \<times> 'w netState" where
  "addPprof M opts k w =
     (if length (PprofAddr opts) > 0 \<and> mc_AddPprof M (PprofAddr opts) \<noteq> None then (ProcessExit, w) else k w)"

definition setupProcess ::
  "'w machine \<Rightarrow> (string \<times> string) list \<Rightarrow> (string \<rightharpoonup> string) \<Rightarrow> string option \<Rightarrow> 'w netState \<Rightarrow> 'w operatorProcess startup \<times> 'w netState" where
  "setupProcess M args env file =
     orFail ''unable to set up uncached client'' (mc_NewClient M) (\<lambda>w.
       case kGet (mc_Operators M) \<lparr>key_Namespace = '''', key_Name = DefaultAddonOperatorName\<rparr> w of (found, w) \<Rightarrow>
        let go = (\<lambda>ado. case Process args env file defaultOptions of
                ProcessExit \<Rightarrow> (ProcessExit, w)
              | SetupError err \<Rightarrow> (SetupError (Wrap ''processing options'' err), w)
              | Started opts \<Rightarrow>
                  orFail ''unable to start manager'' (mc_NewManager M (managerOptionsFor opts))
                    (let addonReconcilerOptions = setupOptions ado in addPprof M opts
                    (orFail ''unable to set up health check'' (mc_AddCheck M ''health'')
                    (orFail ''unable to set up ready check'' (mc_AddCheck M ''check'')
                    (\<lambda>w. case initReconcilers M opts ado addonReconcilerOptions w of
                       (SetupError err, w) \<Rightarrow> (SetupError (Wrap ''init reconcilers'' err), w)
                     | started \<Rightarrow> started)))) w)
        in case found of
             Inr ado \<Rightarrow> go ado
           | Inl err \<Rightarrow> if \<not> IsNotFound (theLib (mc_Env M)) err
               then (SetupError (Wrap ''failed to GET the AddonOperator object'' err), w)
               else go zeroAddonOperator)"

section \<open>A running process\<close>

text \<open>
  The runs of the AddonOperator controller of a process: each starts from the Addon controller the last one
  left behind, with everything else as other actors have made it.
\<close>

inductive running :: "'w operatorProcess \<Rightarrow> 'w netState AddonReconciler \<Rightarrow> bool" for p where
  start: "running p (proc_addons p)"
| reconciled: "running p (or_addons s) \<Longrightarrow> ReconcileOperator (proc_operator p) s = (res, s') \<Longrightarrow> running p (or_addons s')"

definition sameSubs :: "addonReconciler list \<Rightarrow> 'w orun \<Rightarrow> bool" where
  "sameSubs subs s \<longleftrightarrow> subReconcilers (or_addons s) = subs"

lemma sameSubs_prims [keeps_rules]:
  "keeps (sameSubs subs) (operatorRead f)" "keeps (sameSubs subs) (onWorld m)" "keeps (sameSubs subs) (operatorNow r)"
  "keeps (sameSubs subs) (setOperator g)" "keeps (sameSubs subs) (operatorStatusUpdate r)"
  "keeps (sameSubs subs) (setOperatorPausedMetric b)" "keeps (sameSubs subs) (reportOperatorError err n)"
  by (auto simp: keeps_def sameSubs_def operatorRead_def onWorld_def operatorNow_def setOperator_def operatorStatusUpdate_def
      setOperatorPausedMetric_def reportOperatorError_def split: prod.splits sum.splits)

lemma requeueAllAddons_subs: "subReconcilers (fst (snd (requeueAllAddons (a, w)))) = subReconcilers a"
  by (simp add: requeueAllAddons_def split: prod.splits sum.splits)

lemma sameSubs_pause [keeps_rules]: "keeps (sameSubs subs) (onAddons (setGlobalPause b))"
proof (rule keepsI)
  fix s v s' assume "sameSubs subs s" "onAddons (setGlobalPause b) s = (v, s')"
  then show "sameSubs subs s'"
    using requeueAllAddons_subs [of "(or_addons s)\<lparr>globalPause := b\<rparr>" "or_world s"]
    by (auto simp: onAddons_def setGlobalPause_def sameSubs_def call_def split: prod.splits outcome.splits)
qed

lemma sameSubs_inject [keeps_rules]: "keeps (sameSubs subs) (onAddons (InjectOCMClient c))"
proof (rule keepsI)
  fix s v s' assume "sameSubs subs s" "onAddons (InjectOCMClient c) s = (v, s')"
  then show "sameSubs subs s'"
    using requeueAllAddons_subs [of "or_addons s" "or_world s"]
    by (auto simp: onAddons_def InjectOCMClient_def sameSubs_def call_def bindp_def split: prod.splits outcome.splits if_splits)
qed

lemma keeps_deferring [keeps_rules]: "keeps I d \<Longrightarrow> keeps I m \<Longrightarrow> keeps I (deferring d m)"
  by (fastforce simp: keeps_def deferring_def split: prod.splits outcome.splits)

lemma sameSubs_create [keeps_rules]: "keeps (sameSubs subs) (handleAddonOperatorCreation r)"
  unfolding handleAddonOperatorCreation_def
  by (intro keeps_rules) (auto simp: keeps_def sameSubs_def split: prod.splits)

lemmas operator_programs = handleOperator_def handleGlobalPause_def EnableGlobalPause_def DisableGlobalPause_def handleOCMClient_def
  reportAddonOperatorReadinessStatus_def reportAddonOperatorPauseStatus_def removeAddonOperatorPauseCondition_def
  setOperatorCondition_def stampHeartbeat_def recordPausedMetric_def

lemma ReconcileOperator_subs: "keeps (sameSubs subs) (ReconcileOperator r)"
  unfolding ReconcileOperator_def operator_programs by (intro keeps_rules)

lemma running_subs: "running p a \<Longrightarrow> subReconcilers a = subReconcilers (proc_addons p)"
proof (induction rule: running.induct)
  case (reconciled s res s')
  then show ?case using keepsD [OF ReconcileOperator_subs] by (auto simp: sameSubs_def)
qed simp

lemma orFail_started: "orFail msg failed k w = (Started p, w') \<longleftrightarrow> failed = None \<and> k w = (Started p, w')"
  by (simp add: orFail_def split: option.splits)

lemma addPprof_started: "addPprof M opts k w = (Started p, w') \<Longrightarrow> k w = (Started p, w')"
  by (simp add: addPprof_def split: if_splits)

lemma initReconcilers_built:
  assumes "initReconcilers M o' ado opts w = (Started p, w')"
  shows "FeatureTogglesState (proc_operator p) = splitOn CHR '','' (FeatureFlags (ao_Spec ado)) \<and>
    proc_addons p = NewAddonReconciler (aor_Env (proc_operator p)) (aor_ClusterExternalID (proc_operator p))
      (StatusReportingEnabled o') (EnableUpgradePolicyStatus o') opts"
  using assms by (auto simp: initReconcilers_def Let_def orFail_started split: prod.splits sum.splits)

lemma setupProcess_started:
  assumes "setupProcess M args env file w = (Started p, w')"
  obtains ado o' w1 where "initReconcilers M o' ado (setupOptions ado) w1 = (Started p, w')"
  using assms
  by (auto simp: setupProcess_def Let_def orFail_started dest!: addPprof_started
      split: prod.splits sum.splits startup.splits if_splits intro: that)

text \<open>
  C6: However long the operator has been running, and whatever the cluster has answered: when a
  reconciliation of the AddonOperator object does not end the process, the sub-reconcilers that run are
  exactly those that the feature flags of the object that was just read select, in their fixed order.
\<close>

theorem running_matches_flags:
  assumes "setupProcess M args env file w0 = (Started p, w1)" "running p (or_addons s)"
    and "kGet (aor_Client (proc_operator p)) \<lparr>key_Namespace = '''', key_Name = DefaultAddonOperatorName\<rparr> (or_world s) = (Inr ado, w)"
    and "ReconcileOperator (proc_operator p) s = (res, s')" "res \<noteq> Ok Exited"
  shows "getOrderedSubReconcilers (or_addons s') =
    [addonDeletionReconciler, namespaceReconciler] @
    (if IsEnabled AddonsPlugAndPlayFeatureToggle ado then [packageOperatorReconciler] else []) @
    [addonSecretPropagationReconciler, addonInstanceReconciler, olmReconciler, monitoringFederationReconciler] @
    (if IsEnabled MonitoringStackFeatureToggle ado then [monitoringStackReconciler] else [])"
proof -
  obtain ado0 o' w2 where "initReconcilers M o' ado0 (setupOptions ado0) w2 = (Started p, w1)"
    by (rule setupProcess_started [OF assms(1)])
  note built = initReconcilers_built [OF this]
  have "mset (splitOn CHR '','' (FeatureFlags (ao_Spec ado0))) = mset (splitOn CHR '','' (FeatureFlags (ao_Spec ado)))"
    using assms(4,5) unfolding ReconcileOperator_found [OF assms(3)] by (auto simp: built split: if_splits)
  then have "IsEnabled h ado0 = IsEnabled h ado" for h unfolding IsEnabled_def present_iff by (metis set_mset_mset)
  moreover have "subReconcilers (or_addons s') = subReconcilers (proc_addons p)"
    using running_subs [OF running.reconciled [OF assms(2,4)]] .
  ultimately show ?thesis
    using flags_select [of "aor_Env (proc_operator p)" "aor_ClusterExternalID (proc_operator p)" "StatusReportingEnabled o'"
        "EnableUpgradePolicyStatus o'" ado0]
    by (simp add: getOrderedSubReconcilers_def built)
qed

section \<open>Where the options come from\<close>

fun firstNonEmpty :: "string list \<Rightarrow> string" where
  "firstNonEmpty [] = ''''"
| "firstNonEmpty (x # xs) = (if x \<noteq> '''' then x else firstNonEmpty xs)"

text \<open>Flags come before the environment, the environment before the mounted file; no namespace is an error.\<close>

lemma option_sources:
  "op_Namespace (processEnv env o') = firstNonEmpty [op_Namespace o', getenv env ''ADDON_OPERATOR_NAMESPACE'']"
  "LeaderElectionNamespace (processEnv env o') = firstNonEmpty [LeaderElectionNamespace o', getenv env ''ADDON_OPERATOR_LE_NAMESPACE'']"
  "op_Namespace (processSecrets file o') = firstNonEmpty [op_Namespace o', case file of None \<Rightarrow> '''' | Some f \<Rightarrow> f]"
  "LeaderElectionNamespace (processSecrets file o') = LeaderElectionNamespace o'"
  "op_Namespace (applyValuesFromOptions o') = op_Namespace o'"
  "LeaderElectionNamespace (applyValuesFromOptions o') = firstNonEmpty [LeaderElectionNamespace o', op_Namespace o']"
  by (simp_all add: processEnv_def processSecrets_def applyValuesFromOptions_def Let_def)

lemma firstNonEmpty_nested:
  "firstNonEmpty [firstNonEmpty [x, y], z] = firstNonEmpty [x, y, z]"
  by simp

lemma Process_namespaces:
  assumes "parseFlags args o0 = Some o1"
    and "ns = firstNonEmpty [op_Namespace o1, getenv env ''ADDON_OPERATOR_NAMESPACE'', case file of None \<Rightarrow> '''' | Some f \<Rightarrow> f]"
  shows "if ns = '''' then \<exists>err. Process args env file o0 = SetupError err
    else \<exists>o'. Process args env file o0 = Started o' \<and> op_Namespace o' = ns \<and>
      LeaderElectionNamespace o' = firstNonEmpty [LeaderElectionNamespace o1, getenv env ''ADDON_OPERATOR_LE_NAMESPACE'', ns]"
proof -
  define o' where "o' = applyValuesFromOptions (processSecrets file (processEnv env o1))"
  have "op_Namespace o' = ns" unfolding o'_def option_sources firstNonEmpty_nested assms(2) by simp
  moreover have "LeaderElectionNamespace o' = firstNonEmpty [LeaderElectionNamespace o1, getenv env ''ADDON_OPERATOR_LE_NAMESPACE'', ns]"
    unfolding o'_def option_sources firstNonEmpty_nested assms(2) by simp
  moreover have "Process args env file o0 = (case validateOptions o' of Some err \<Rightarrow> SetupError err | None \<Rightarrow> Started o')"
    unfolding Process_def assms(1) o'_def Let_def by simp
  ultimately show ?thesis by (simp add: validateOptions_def del: firstNonEmpty.simps)
qed

section \<open>A started process\<close>

definition refMachine :: "unit machine" where
  "refMachine = \<lparr>mc_Env = netEnv, mc_Operators = inWorld (stockClient ao_meta [pausedOperator False]), mc_Transport = refTransport,
     mc_unmarshal = (\<lambda>_. Inr JOther), mc_NestedString = (\<lambda>_ _. Inr None), mc_ClusterVersion = (\<lambda>w. (Inr ''ext'', w)),
     mc_NewClient = None, mc_NewManager = (\<lambda>_. None), mc_AddPprof = (\<lambda>_. None), mc_AddCheck = (\<lambda>_. None),
     mc_NewUncachedClient = None, mc_SetupWithManager = (\<lambda>_. None)\<rparr>"

definition refProcess :: "unit operatorProcess" where
  "refProcess = \<lparr>proc_addons = NewAddonReconciler netEnv ''ext'' True True [], proc_operator = operatorWith (pausedOperator False) [''''],
     proc_instances = heartbeatController netEnv, proc_recorder = Some NewRecorder, proc_watches = baseWatches NewOperatorResourceHandler\<rparr>"

lemma refProcess_started:
  "setupProcess refMachine [(''namespace'', ''addon-operator'')]
     [''ENABLE_STATUS_REPORTING'' \<mapsto> ''true'', ''ENABLE_UPGRADEPOLICY_STATUS'' \<mapsto> ''true''] None \<lparr>net_world = (), net_sent = []\<rparr> =
   (Started refProcess, \<lparr>net_world = (), net_sent = []\<rparr>)"
proof -
  have found: "kGet (mc_Operators refMachine) \<lparr>key_Namespace = '''', key_Name = DefaultAddonOperatorName\<rparr> w = (Inr (pausedOperator False), w)" for w
    using pausedOperator_get [of False "[]" w] by (simp add: operatorWith_def refMachine_def)
  have "setupOptions (pausedOperator False) = []" by (simp add: setupOptions_eq IsEnabled_def)
  moreover have "netEnv\<lparr>AddonOperatorNamespace := ''addon-operator''\<rparr> = netEnv" by (simp add: netEnv_def)
  ultimately show ?thesis
    by (simp add: setupProcess_def found Process_def setFlag_def processEnv_def getenv_def processSecrets_def applyValuesFromOptions_def
        validateOptions_def defaultOptions_def initReconcilers_def refProcess_def operatorWith_def Let_def) (simp add: refMachine_def orFail_def addPprof_def SetupWithManager_def)
qed

theorem running_matches_flags_witness:
  "getOrderedSubReconcilers (or_addons (snd (ReconcileOperator (operatorWith (pausedOperator False) ['''']) startedOperator))) =
    [addonDeletionReconciler, namespaceReconciler, addonSecretPropagationReconciler, addonInstanceReconciler, olmReconciler,
     monitoringFederationReconciler]"
proof (rule pausedOperator_run [of False])
  fix res assume run: "ReconcileOperator (operatorWith (pausedOperator False) ['''']) startedOperator =
    (Ok (Returned res), snd (ReconcileOperator (operatorWith (pausedOperator False) ['''']) startedOperator))"
  have p: "proc_operator refProcess = operatorWith (pausedOperator False) ['''']" by (simp add: refProcess_def)
  have start: "running refProcess (or_addons startedOperator)"
    using running.start [of refProcess] by (simp add: refProcess_def startedOperator_def)
  have "\<not> IsEnabled h (pausedOperator False)" for h by (simp add: IsEnabled_def)
  then show ?thesis
    using running_matches_flags [OF refProcess_started start, unfolded p, OF pausedOperator_get run] by simp
qed

end
