(* ===== verification/Webhooks.thy ===== *)
theory Webhooks
  imports Package_Operator
begin

text \<open>
  The admission webhook (\<open>internal/webhooks\<close>): which Addons are admitted, and which updates. A rejected
  Addon is an error of a validation function; a nil dereference would be a panic. The decoder belongs to
  controller-runtime: it is a field of the handler, nil until it is injected, and a function from the raw
  object of the request. The main results are that every admitted Addon has the install configuration the
  reconcilers dereference, and that no sequence of admitted updates changes where an Addon is installed.
\<close>

section \<open>Validation\<close>

abbreviation errSpecInstallTypeInvalid :: error where
  "errSpecInstallTypeInvalid \<equiv> ErrorString ''invalid Addon .spec.install.type''"
abbreviation errSpecInstallOwnNamespaceRequired :: error where
  "errSpecInstallOwnNamespaceRequired \<equiv>
     ErrorString ''.spec.install.olmOwnNamespace is required when .spec.install.type = OLMOwnNamespace''"
abbreviation errSpecInstallAllNamespacesRequired :: error where
  "errSpecInstallAllNamespacesRequired \<equiv>
     ErrorString ''.spec.install.olmAllNamespaces is required when .spec.install.type = OLMAllNamespaces''"
abbreviation errSpecInstallConfigMutuallyExclusive :: error where
  "errSpecInstallConfigMutuallyExclusive \<equiv>
     ErrorString ''.spec.install.olmAllNamespaces is mutually exclusive with .spec.install.olmOwnNamespace''"
abbreviation errAdditionalCatalogSourceNameCollision :: error where
  "errAdditionalCatalogSourceNameCollision \<equiv>
     ErrorString ''additional catalog source name collides with the main catalog source name''"
abbreviation errInstallTypeImmutable :: error where
  "errInstallTypeImmutable \<equiv> ErrorString ''.spec.install.type is immutable''"
abbreviation errInstallImmutable :: error where
  "errInstallImmutable \<equiv> ErrorString ''.spec.install is immutable, except for .catalogSourceImage''"

text \<open>The loop over the additional catalog sources, the same in both branches.\<close>

fun checkCatalogSourceNames :: "string \<Rightarrow> AdditionalCatalogSource list \<Rightarrow> ('s, unit) prog" where
  "checkCatalogSourceNames addonName [] = ret ()"
| "checkCatalogSourceNames addonName (src # srcs) =
     (if acs_Name src = addonName then throw errAdditionalCatalogSourceNameCollision
      else checkCatalogSourceNames addonName srcs)"

definition validateInstallSpec :: "AddonInstallSpec \<Rightarrow> string \<Rightarrow> ('s, unit) prog" where
  "validateInstallSpec addonSpecInstall addonName =
     (if install_OLMAllNamespaces addonSpecInstall \<noteq> None \<and> install_OLMOwnNamespace addonSpecInstall \<noteq> None
      then throw errSpecInstallConfigMutuallyExclusive
      else case install_Type addonSpecInstall of
        OLMOwnNamespace \<Rightarrow>
          (case install_OLMOwnNamespace addonSpecInstall of
             None \<Rightarrow> throw errSpecInstallOwnNamespaceRequired
           | Some c \<Rightarrow> checkCatalogSourceNames addonName (AdditionalCatalogSources c))
      | OLMAllNamespaces \<Rightarrow>
          (case install_OLMAllNamespaces addonSpecInstall of
             None \<Rightarrow> throw errSpecInstallAllNamespacesRequired
           | Some c \<Rightarrow> checkCatalogSourceNames addonName (AdditionalCatalogSources c))
      | OtherInstallType _ \<Rightarrow> throw errSpecInstallTypeInvalid)"

definition pullSecretNameOf :: "Addon \<Rightarrow> ('s, string) prog" where
  "pullSecretNameOf addon =
     (case install_Type (Install (Spec addon)) of
        OLMAllNamespaces \<Rightarrow> bindp (deref (install_OLMAllNamespaces (Install (Spec addon)))) (\<lambda>c. ret (PullSecretName c))
      | OLMOwnNamespace \<Rightarrow> bindp (deref (install_OLMOwnNamespace (Install (Spec addon)))) (\<lambda>c. ret (PullSecretName c))
      | OtherInstallType _ \<Rightarrow> ret '''')"

definition validateSecretPropagation :: "Addon \<Rightarrow> ('s, unit) prog" where
  "validateSecretPropagation addon = bindp (pullSecretNameOf addon) (\<lambda>pullSecretName.
     case SecretPropagation (Spec addon) of
       None \<Rightarrow> ret ()
     | Some propagation \<Rightarrow>
         if length pullSecretName = 0 then ret ()
         else if list_ex (\<lambda>secret. DestinationSecret secret = pullSecretName) (Secrets propagation) then ret ()
         else throw (ErrorString (''pullSecretName '' @ quoted pullSecretName @
           '' not found as destination in secretPropagation'')))"

definition validateAddon :: "Addon \<Rightarrow> ('s, unit) prog" where
  "validateAddon addon =
     bindp (validateInstallSpec (Install (Spec addon)) (Name (addonMeta addon))) (\<lambda>_.
     bindp (validateSecretPropagation addon) (\<lambda>_. ret ()))"

text \<open>The fields that are not compared are emptied in copies of both specifications.\<close>

definition emptiedOptions :: "AddonInstallOLMCommon \<Rightarrow> AddonInstallOLMCommon" where
  "emptiedOptions c = c\<lparr>CatalogSourceImage := '''', Config := None, PullSecretName := '''',
     AdditionalCatalogSources := [], Channel := ''''\<rparr>"

definition comparedInstall :: "AddonInstallSpec \<Rightarrow> AddonInstallSpec" where
  "comparedInstall i = i\<lparr>install_OLMAllNamespaces := map_option emptiedOptions (install_OLMAllNamespaces i),
     install_OLMOwnNamespace := map_option emptiedOptions (install_OLMOwnNamespace i)\<rparr>"

definition validateAddonImmutability :: "lib \<Rightarrow> Addon \<Rightarrow> Addon \<Rightarrow> ('s, unit) prog" where
  "validateAddonImmutability L addon oldAddon =
     (if install_Type (Install (Spec addon)) \<noteq> install_Type (Install (Spec oldAddon))
      then throw errInstallTypeImmutable
      else if \<not> SemanticDeepEqual L (IAddonInstallSpec (comparedInstall (Install (Spec oldAddon))))
                (IAddonInstallSpec (comparedInstall (Install (Spec addon))))
      then throw errInstallImmutable
      else ret ())"

section \<open>The handler\<close>

datatype Operation = Create | Update | Delete | OtherOperation string

record 'raw admissionRequest =
  req_Operation :: Operation
  req_Object :: 'raw
  req_OldObject :: 'raw

datatype admissionResponse = Allowed string | Denied string | Errored int error

record 'raw AddonWebhookHandler =
  decoder :: "('raw \<Rightarrow> error + Addon) option"

definition zeroAddon :: Addon where
  "zeroAddon = \<lparr>addonMeta = objectMeta '''' '''',
     Spec = \<lparr>DisplayName = '''', Version = '''', Paused = False, Namespaces = [], CommonLabels = Map.empty,
       CommonAnnotations = Map.empty, CorrelationID = '''',
       Install = \<lparr>install_Type = OtherInstallType '''', install_OLMAllNamespaces = None, install_OLMOwnNamespace = None\<rparr>,
       DeleteAckRequired = False, InstallAckRequired = False, UpgradePolicy = None, Monitoring = None,
       SecretPropagation = None, spec_AddonPackageOperator = None\<rparr>,
     Status = \<lparr>ObservedGeneration = 0, Conditions = [], Phase = PhaseNone, status_UpgradePolicy = None,
       OCMReportedStatusHash = None, ObservedVersion = '''', LastObservedAvailableCSV = ''''\<rparr>\<rparr>"

definition InjectDecoder :: "('raw \<Rightarrow> error + Addon) \<Rightarrow> 'raw AddonWebhookHandler \<Rightarrow> 'raw AddonWebhookHandler" where
  "InjectDecoder d r = r\<lparr>decoder := Some d\<rparr>"

definition decodeAddon :: "'raw AddonWebhookHandler \<Rightarrow> 'raw admissionRequest \<Rightarrow> error + Addon" where
  "decodeAddon r req =
     (if req_Operation req \<noteq> Delete
      then case decoder r of
             None \<Rightarrow> Inl (ErrorString ''decoder is nil'')
           | Some d \<Rightarrow> d (req_Object req)
      else Inr zeroAddon)"

definition validateCreate :: "Addon \<Rightarrow> ('s, admissionResponse) prog" where
  "validateCreate addon = call (validateAddon addon) (\<lambda>err. ret (Denied (errorText err)))
     (\<lambda>_. ret (Allowed ''operation allowed''))"

definition validateUpdate :: "lib \<Rightarrow> Addon \<Rightarrow> Addon \<Rightarrow> ('s, admissionResponse) prog" where
  "validateUpdate L addon oldAddon = call (validateAddon addon) (\<lambda>err. ret (Denied (errorText err)))
     (\<lambda>_. call (validateAddonImmutability L addon oldAddon) (\<lambda>err. ret (Denied (errorText err)))
       (\<lambda>_. ret (Allowed ''operation allowed'')))"

definition Handle :: "lib \<Rightarrow> 'raw AddonWebhookHandler \<Rightarrow> 'raw admissionRequest \<Rightarrow> ('s, admissionResponse) prog" where
  "Handle L r req =
     (case decodeAddon r req of
        Inl err \<Rightarrow> ret (Errored 400 err)
      | Inr obj \<Rightarrow>
          (case req_Operation req of
             Create \<Rightarrow> validateCreate obj
           | Update \<Rightarrow>
               (case decoder r of
                  None \<Rightarrow> ret (Errored 400 (ErrorString ''decoder is nil''))
                | Some d \<Rightarrow>
                    (case d (req_OldObject req) of
                       Inl err \<Rightarrow> ret (Errored 400 err)
                     | Inr oldObj \<Rightarrow> validateUpdate L obj oldObj))
           | _ \<Rightarrow> ret (Allowed ''operation allowed'')))"

section \<open>What is admitted\<close>

text \<open>The install configuration the type asks for, and nothing else.\<close>

definition wellConfigured :: "Addon \<Rightarrow> bool" where
  "wellConfigured a \<longleftrightarrow> (\<exists>c. GetInstallOLMCommon a = Inr c \<and> list_all (\<lambda>src. acs_Name src \<noteq> Name (addonMeta a)) (AdditionalCatalogSources c) \<and>
     (PullSecretName c = '''' \<or> (case SecretPropagation (Spec a) of None \<Rightarrow> True
        | Some p \<Rightarrow> list_ex (\<lambda>secret. DestinationSecret secret = PullSecretName c) (Secrets p)))) \<and>
     (install_OLMAllNamespaces (Install (Spec a)) = None \<or> install_OLMOwnNamespace (Install (Spec a)) = None)"

lemma checkCatalogSourceNames_run:
  "checkCatalogSourceNames n srcs s = (if list_all (\<lambda>src. acs_Name src \<noteq> n) srcs then (Ok (), s)
     else (Err errAdditionalCatalogSourceNameCollision, s))"
  by (induction srcs) auto

lemma validateAddon_run:
  "if wellConfigured a then validateAddon a s = (Ok (), s) else \<exists>err. validateAddon a s = (Err err, s)"
proof (cases "install_Type (Install (Spec a))")
  case OLMAllNamespaces
  then show ?thesis
    by (auto simp: wellConfigured_def validateAddon_def validateInstallSpec_def validateSecretPropagation_def pullSecretNameOf_def
        GetInstallOLMCommon_def checkCatalogSourceNames_run bindp_def call_def split: option.splits)
next
  case OLMOwnNamespace
  then show ?thesis
    by (auto simp: wellConfigured_def validateAddon_def validateInstallSpec_def validateSecretPropagation_def pullSecretNameOf_def
        GetInstallOLMCommon_def checkCatalogSourceNames_run bindp_def call_def split: option.splits)
next
  case (OtherInstallType t)
  then show ?thesis
    by (auto simp: wellConfigured_def validateAddon_def validateInstallSpec_def GetInstallOLMCommon_def bindp_def)
qed

lemma collectSources_total:
  "\<exists>v t'. collectSources E m srcs acc t = (Ok v, t')"
  by (induction srcs arbitrary: acc t) (auto simp: configError_def)

lemma wellConfigured_no_panic:
  assumes "wellConfigured a"
  shows "fst (GetCommonInstallOptions a t) \<noteq> Panic" "fst (HasAdditionalCatalogSources a t) \<noteq> Panic"
    "fst (extractDestinationNamespace a t) \<noteq> Panic"
    "st_addon u = a \<Longrightarrow> fst (parseAddonInstallConfigForAdditionalCatalogSources E u) \<noteq> Panic"
proof -
  obtain c where c: "GetInstallOLMCommon a = Inr c" using assms by (auto simp: wellConfigured_def)
  then show "fst (GetCommonInstallOptions a t) \<noteq> Panic" "fst (HasAdditionalCatalogSources a t) \<noteq> Panic"
    "fst (extractDestinationNamespace a t) \<noteq> Panic"
    by (auto simp: GetInstallOLMCommon_def GetCommonInstallOptions_def HasAdditionalCatalogSources_def
        extractDestinationNamespace_def split: AddonInstallType.splits option.splits)
  have collect: "fst (bindp (collectSources E m srcs acc) (\<lambda>x. ret (f x)) u) \<noteq> Panic" for m srcs acc f
    using collectSources_total [of E m srcs acc u] by auto
  show "fst (parseAddonInstallConfigForAdditionalCatalogSources E u) \<noteq> Panic" if "st_addon u = a"
    using c that collect
    by (auto simp: GetInstallOLMCommon_def parseAddonInstallConfigForAdditionalCatalogSources_def
        split: AddonInstallType.splits option.splits)
qed

lemma validate_sound:
  "fst (validateCreate a s) \<noteq> Panic" "fst (validateUpdate L a old s) \<noteq> Panic"
  "fst (validateCreate a s) = Ok (Allowed m) \<Longrightarrow> wellConfigured a"
  "fst (validateUpdate L a old s) = Ok (Allowed m) \<Longrightarrow> wellConfigured a"
  using validateAddon_run [of a s]
  by (cases "wellConfigured a"; auto simp: validateCreate_def validateUpdate_def validateAddonImmutability_def
      split: if_splits; fail)+

text \<open>
  C26: The webhook answers every request for an Addon it can decode without a panic; an Addon it lets
  through has exactly the install configuration its type asks for, so that none of the functions of the
  reconcilers that dereference this configuration panics on it.
\<close>

theorem admitted_addon_installable:
  assumes "decoder r = Some d" "req_Operation req = Create \<or> req_Operation req = Update" "d (req_Object req) = Inr a"
    and "Handle L r req s = (res, s')"
  shows "res \<noteq> Panic \<and> (\<forall>m. res = Ok (Allowed m) \<longrightarrow> wellConfigured a \<and>
    fst (GetCommonInstallOptions a t) \<noteq> Panic \<and> fst (HasAdditionalCatalogSources a t) \<noteq> Panic \<and>
    fst (extractDestinationNamespace a t) \<noteq> Panic \<and>
    (st_addon u = a \<longrightarrow> fst (parseAddonInstallConfigForAdditionalCatalogSources E u) \<noteq> Panic))"
proof -
  have created: "Handle L r req = validateCreate a" if "req_Operation req = Create"
    using assms(1,3) that by (simp add: Handle_def decodeAddon_def)
  have updated: "Handle L r req = (case d (req_OldObject req) of Inl err \<Rightarrow> ret (Errored 400 err) | Inr old \<Rightarrow> validateUpdate L a old)"
    if "req_Operation req = Update"
    using assms(1,3) that by (simp add: Handle_def decodeAddon_def)
  have "fst (Handle L r req s) \<noteq> Panic \<and> (\<forall>m. fst (Handle L r req s) = Ok (Allowed m) \<longrightarrow> wellConfigured a)"
    using assms(2)
    by (cases "d (req_OldObject req)") (auto simp: created updated validate_sound dest: validate_sound(3,4))
  then have "res \<noteq> Panic \<and> (\<forall>m. res = Ok (Allowed m) \<longrightarrow> wellConfigured a)" using assms(4) by simp
  then show ?thesis by (auto simp: wellConfigured_no_panic)
qed

section \<open>What an update may change\<close>

definition installedPlace :: "AddonInstallOLMCommon option \<Rightarrow> (string \<times> string) option" where
  "installedPlace c = map_option (\<lambda>c. (olm_Namespace c, PackageName c)) c"

definition samePlace :: "Addon \<Rightarrow> Addon \<Rightarrow> bool" where
  "samePlace b a \<longleftrightarrow> install_Type (Install (Spec b)) = install_Type (Install (Spec a)) \<and>
     installedPlace (install_OLMAllNamespaces (Install (Spec b))) = installedPlace (install_OLMAllNamespaces (Install (Spec a))) \<and>
     installedPlace (install_OLMOwnNamespace (Install (Spec b))) = installedPlace (install_OLMOwnNamespace (Install (Spec a)))"

lemma emptied_eq:
  "map_option emptiedOptions x = map_option emptiedOptions y \<longleftrightarrow> installedPlace x = installedPlace y"
proof -
  have "emptiedOptions c = emptiedOptions d \<longleftrightarrow> olm_Namespace c = olm_Namespace d \<and> PackageName c = PackageName d" for c d
    by (cases c; cases d) (simp add: emptiedOptions_def)
  then show ?thesis by (cases x; cases y) (simp_all add: installedPlace_def)
qed

lemma validateUpdate_iff:
  assumes "equality_laws L"
  shows "validateUpdate L b a s = (Ok (Allowed m), s') \<longleftrightarrow>
    wellConfigured b \<and> samePlace b a \<and> m = ''operation allowed'' \<and> s' = s"
proof -
  have compared: "comparedInstall i = comparedInstall j \<longleftrightarrow> install_Type i = install_Type j \<and>
      installedPlace (install_OLMAllNamespaces i) = installedPlace (install_OLMAllNamespaces j) \<and>
      installedPlace (install_OLMOwnNamespace i) = installedPlace (install_OLMOwnNamespace j)" for i j
    by (cases i; cases j) (simp add: comparedInstall_def emptied_eq)
  show ?thesis
    using validateAddon_run [of b s] assms
    by (cases "wellConfigured b") (auto simp: validateUpdate_def validateAddonImmutability_def compared samePlace_def)
qed

fun isAllowed :: "admissionResponse outcome \<Rightarrow> bool" where
  "isAllowed (Ok (Allowed m)) \<longleftrightarrow> True"
| "isAllowed _ \<longleftrightarrow> False"

fun admittedUpdates :: "lib \<Rightarrow> Addon \<Rightarrow> Addon list \<Rightarrow> bool" where
  "admittedUpdates L a [] \<longleftrightarrow> True"
| "admittedUpdates L a (b # bs) \<longleftrightarrow>
     isAllowed (fst (validateUpdate L b a ())) \<and> admittedUpdates L b bs"

text \<open>
  C27: However many updates of an Addon the webhook admits one after the other, the install type, the
  install namespace and the package name stay as they were created, and every version on the way is
  installable; catalog image, channel, pull secret, subscription configuration and additional catalog
  sources may change.
\<close>

theorem admitted_updates_keep_place:
  assumes "equality_laws L" "admittedUpdates L a bs" "b \<in> set bs"
  shows "samePlace b a \<and> wellConfigured b"
  using assms(2,3)
proof (induction bs arbitrary: a)
  case (Cons x bs)
  then obtain m where "validateUpdate L x a () = (Ok (Allowed m), ())"
    by (auto simp: prod_eq_iff elim: isAllowed.elims)
  then have x: "samePlace x a" "wellConfigured x" by (simp_all add: validateUpdate_iff [OF assms(1)])
  show ?case
  proof (cases "b = x")
    case False
    with Cons.prems have "samePlace b x \<and> wellConfigured b" by (intro Cons.IH) auto
    with x show ?thesis by (simp add: samePlace_def)
  qed (use x in simp)
qed simp

section \<open>Catalog source names\<close>

definition addSource :: "AdditionalCatalogSource \<Rightarrow> AddonInstallOLMCommon \<Rightarrow> AddonInstallOLMCommon" where
  "addSource src c = c\<lparr>AdditionalCatalogSources := src # AdditionalCatalogSources c\<rparr>"

definition withSource :: "AdditionalCatalogSource \<Rightarrow> Addon \<Rightarrow> Addon" where
  "withSource src a = a\<lparr>Spec := (Spec a)\<lparr>Install := (Install (Spec a))\<lparr>
     install_OLMAllNamespaces := map_option (addSource src) (install_OLMAllNamespaces (Install (Spec a))),
     install_OLMOwnNamespace := map_option (addSource src) (install_OLMOwnNamespace (Install (Spec a)))\<rparr>\<rparr>\<rparr>"

text \<open>
  The check for a collision compares the additional catalog sources with the name of the Addon, not
  with the name of its catalog source: whatever is admitted is still admitted, on creation and as an
  update, with an additional source of exactly the name of the Addon's own catalog source.
\<close>

lemma webhook_misses_collision:
  assumes "equality_laws L" "wellConfigured a" "acs_Name src = CatalogSourceName a"
  shows "validateCreate (withSource src a) s = (Ok (Allowed ''operation allowed''), s) \<and>
    validateUpdate L (withSource src a) a s = (Ok (Allowed ''operation allowed''), s) \<and>
    (\<exists>c. GetInstallOLMCommon (withSource src a) = Inr c \<and>
      CatalogSourceName (withSource src a) \<in> acs_Name ` set (AdditionalCatalogSources c))"
proof -
  have name: "CatalogSourceName a \<noteq> Name (addonMeta a)"
  proof
    assume eq: "CatalogSourceName a = Name (addonMeta a)"
    have "length (CatalogSourceName a) > length (Name (addonMeta a))"
      by (simp add: CatalogSourceName_def getPrimaryCatalogSourceName_def)
    with eq show False by simp
  qed
  have install: "GetInstallOLMCommon (withSource src a) = map_sum id (addSource src) (GetInstallOLMCommon a)"
    by (auto simp: GetInstallOLMCommon_def withSource_def split: AddonInstallType.splits option.splits)
  have rest: "Name (addonMeta (withSource src a)) = Name (addonMeta a)"
      "SecretPropagation (Spec (withSource src a)) = SecretPropagation (Spec a)"
      "install_OLMAllNamespaces (Install (Spec (withSource src a))) = None \<longleftrightarrow> install_OLMAllNamespaces (Install (Spec a)) = None"
      "install_OLMOwnNamespace (Install (Spec (withSource src a))) = None \<longleftrightarrow> install_OLMOwnNamespace (Install (Spec a)) = None"
    by (simp_all add: withSource_def)
  have "wellConfigured (withSource src a)"
    using assms(2,3) name by (auto simp: wellConfigured_def install rest addSource_def split: option.splits)
  moreover have "samePlace (withSource src a) a"
    by (auto simp: samePlace_def withSource_def installedPlace_def addSource_def option.map_comp comp_def)
  moreover have "CatalogSourceName (withSource src a) = CatalogSourceName a"
    by (simp add: CatalogSourceName_def getPrimaryCatalogSourceName_def withSource_def)
  moreover obtain c where "GetInstallOLMCommon a = Inr c" using assms(2) by (auto simp: wellConfigured_def)
  ultimately show ?thesis
    using validateUpdate_iff [OF assms(1), of "withSource src a" a s] validateAddon_run [of "withSource src a" s] assms(3)
    by (auto simp: validateCreate_def install addSource_def)
qed

section \<open>Admission of the reference Addon\<close>

definition otherSource :: "string \<Rightarrow> AdditionalCatalogSource" where
  "otherSource n = \<lparr>acs_Name = n, acs_Image = ''quay.io/other''\<rparr>"

definition admitRef :: "Operation \<Rightarrow> unit admissionRequest" where
  "admitRef op = \<lparr>req_Operation = op, req_Object = (), req_OldObject = ()\<rparr>"

lemma wellConfigured_ref: "wellConfigured refAddon"
  by (simp add: wellConfigured_def GetInstallOLMCommon_def refSpec_def refInstall_def)

theorem admitted_addon_installable_witness:
  "fst (Handle refLib \<lparr>decoder = Some (\<lambda>_. Inr refAddon)\<rparr> (admitRef Create) ()) = Ok (Allowed ''operation allowed'') \<and>
   fst (GetCommonInstallOptions refAddon ()) \<noteq> Panic"
proof -
  have admitted: "fst (Handle refLib \<lparr>decoder = Some (\<lambda>_. Inr refAddon)\<rparr> (admitRef Create) ()) = Ok (Allowed ''operation allowed'')"
    using validateAddon_run [of refAddon "()"] wellConfigured_ref
    by (simp add: Handle_def decodeAddon_def admitRef_def validateCreate_def)
  show ?thesis
    using admitted admitted_addon_installable [of "\<lparr>decoder = Some (\<lambda>_. Inr refAddon)\<rparr>" "\<lambda>_. Inr refAddon" "admitRef Create" refAddon refLib "()",
        OF _ _ _ prod.collapse [symmetric], of "()" "refState refAddon" "refEnv emptyStock"] by (simp add: admitRef_def)
qed

theorem admitted_updates_keep_place_witness:
  "samePlace (withSource (otherSource ''other'') refAddon) refAddon"
proof -
  have "wellConfigured (withSource (otherSource ''other'') refAddon)" "samePlace (withSource (otherSource ''other'') refAddon) refAddon"
    by (simp_all add: wellConfigured_def samePlace_def withSource_def otherSource_def installedPlace_def addSource_def
        GetInstallOLMCommon_def ref_objects)
  then have "validateUpdate refLib (withSource (otherSource ''other'') refAddon) refAddon () = (Ok (Allowed ''operation allowed''), ())"
    by (simp add: validateUpdate_iff [OF lib_lawsD(3) [OF refLib_laws]])
  then have "admittedUpdates refLib refAddon [withSource (otherSource ''other'') refAddon]" by simp
  then show ?thesis
    using admitted_updates_keep_place [of refLib refAddon "[withSource (otherSource ''other'') refAddon]"
        "withSource (otherSource ''other'') refAddon"] lib_lawsD(3) [OF refLib_laws] by simp
qed

end
