(* ===== verification/Api_Mock.thy ===== *)
theory Api_Mock
  imports Ocm_Client
begin

text \<open>
  The mock of the OCM API that the tests of the operator run against (\<open>cmd/api-mock\<close>): its endpoints with
  the two stores behind them, and the OCM client on top of it. Parameters are the router
  (\<open>gorilla/mux\<close>: which endpoint a request reaches, with the variables of its path), the query of a URL, the
  reading of a body and JSON in both directions. The mutex of a store makes each handler atomic. The
  header of an answer and the log are left out.

  The main result: whatever the client sends, and however the mock is configured in between, the client sees
  a store in which every upgrade policy and every status is the one written last.
\<close>

section \<open>The server\<close>

definition MockClusterId :: string where "MockClusterId = ''1ou''"

definition MockClusterName :: string where "MockClusterName = ''openshift-mock-cluster-name''"

text \<open>The elements of \<open>StatusConditions\<close> are never looked at; each is kept as its JSON text.\<close>

record addonStatus =
  ams_AddonID :: string
  ams_CorrelationID :: string
  ams_AddonVersion :: string
  ams_StatusConditions :: "string list"

record addonStatusKey =
  ask_clusterID :: string
  ask_addonID :: string

record UpgradePolicyStateKey =
  upk_ClusterID :: string
  upk_UpgradePolicyID :: string

text \<open>The data of both stores and the configuration of the process.\<close>

record mockServer =
  addonStatusStore :: "addonStatusKey \<rightharpoonup> addonStatus"
  upgradePolicyStates :: "UpgradePolicyStateKey \<rightharpoonup> string"
  FailOnAddonStatusCreateEndpoint :: bool

definition newMockServer :: mockServer where
  "newMockServer = \<lparr>addonStatusStore = Map.empty, upgradePolicyStates = Map.empty, FailOnAddonStatusCreateEndpoint = False\<rparr>"

text \<open>The routes of \<open>main\<close>, with the variables of the path; the router answers everything else itself.\<close>

datatype mockRoute =
    RouteHealth
  | RouteClusters
  | RouteUpgradePolicyState string string
  | RouteAddonStatus string string
  | RouteAddonStatusCreate string
  | RouteConfigure
  | RouterAnswer int

record mockLib =
  routeOf :: "string \<Rightarrow> string \<Rightarrow> mockRoute"              \<comment> \<open>verb, URL\<close>
  queryGet :: "string \<Rightarrow> string \<Rightarrow> string"                  \<comment> \<open>URL, key\<close>
  readBody :: "httpRequest \<Rightarrow> error + string"
  decodeAddonStatus :: "string \<Rightarrow> error + addonStatus"
  encodeAddonStatus :: "addonStatus \<Rightarrow> error + string"
  encodeOCMError :: "string \<Rightarrow> string \<Rightarrow> error + string"  \<comment> \<open>code, reason\<close>
  decodeConfig :: "httpRequest \<Rightarrow> error + bool"          \<comment> \<open>\<open>json.NewDecoder\<close> on the body\<close>

definition respond :: "int \<Rightarrow> string \<Rightarrow> httpResponse" where
  "respond n text = \<lparr>StatusCode = n, Body = Inr text\<rparr>"

definition println :: "string \<Rightarrow> string" where
  "println text = text @ [CHR 0x0A]"

definition Health :: httpResponse where
  "Health = respond 200 ''''"

subsection \<open>Clusters\<close>

text \<open>The first match of a quote, anything but a line break, and a quote, as long as possible.\<close>

fun upToLastQuote :: "string \<Rightarrow> string option" where
  "upToLastQuote [] = None"
| "upToLastQuote (c # cs) =
     (if c = CHR 0x0A then None
      else case upToLastQuote cs of Some m \<Rightarrow> Some (c # m) | None \<Rightarrow> if c = CHR 0x27 then Some [c] else None)"

fun findQuoted :: "string \<Rightarrow> string option" where
  "findQuoted [] = None"
| "findQuoted (c # cs) =
     (if c = CHR 0x27 then (case upToLastQuote cs of Some m \<Rightarrow> Some (c # m) | None \<Rightarrow> findQuoted cs) else findQuoted cs)"

definition trimQuotes :: "string \<Rightarrow> string" where
  "trimQuotes s = rev (dropWhile (\<lambda>c. c = CHR 0x27) (rev (dropWhile (\<lambda>c. c = CHR 0x27) s)))"

definition dquoted :: "string \<Rightarrow> string" where
  "dquoted s = [CHR 0x22] @ s @ [CHR 0x22]"

definition clustersBody :: "string option \<Rightarrow> string" where
  "clustersBody found = (case found of
     None \<Rightarrow> ''{'' @ dquoted ''items'' @ '': []}''
   | Some clusterExternalId \<Rightarrow>
       ''{'' @ dquoted ''items'' @ '': [{'' @ dquoted ''kind'' @ '': '' @ dquoted ''Cluster'' @ '','' @
       dquoted ''id'' @ '': '' @ dquoted MockClusterId @ '','' @ dquoted ''name'' @ '': '' @ dquoted MockClusterName @ '', '' @
       dquoted ''external_id'' @ '': '' @ dquoted clusterExternalId @ ''}]}'')"

definition clustersServeHTTP :: "mockLib \<Rightarrow> httpRequest \<Rightarrow> httpResponse" where
  "clustersServeHTTP L r =
     (if hr_Method r = ''GET''
      then respond 200 (clustersBody (map_option trimQuotes (findQuoted (queryGet L (hr_URL r) ''search''))))
      else respond 501 '''')"

subsection \<open>The status of an addon\<close>

definition errorBody :: "string \<Rightarrow> string \<Rightarrow> string" where
  "errorBody code reason = ''{'' @ dquoted ''code'' @ '':'' @ dquoted code @ '','' @ dquoted ''reason'' @ '':'' @ dquoted reason @ ''}''"

text \<open>An \<open>OCMError\<close> that cannot be encoded leaves the answer as it is: empty, with the status 200.\<close>

definition statusCreateServeHTTP :: "mockLib \<Rightarrow> string \<Rightarrow> httpRequest \<Rightarrow> mockServer \<Rightarrow> httpResponse \<times> mockServer" where
  "statusCreateServeHTTP L clusterID r m =
     (if hr_Method r = ''POST'' then
        case readBody L r of
          Inl _ \<Rightarrow> (respond 500 (println ''{}''), m)
        | Inr payload \<Rightarrow>
            if FailOnAddonStatusCreateEndpoint m then
              (case encodeOCMError L ''OCM-MGMT'' ''mock failure on addon status create endpoint'' of
                 Inl _ \<Rightarrow> (respond 200 '''', m)
               | Inr resp \<Rightarrow> (respond 400 resp, m))
            else
              (case decodeAddonStatus L payload of
                 Inl _ \<Rightarrow> (respond 500 (println ''{}''), m)
               | Inr status \<Rightarrow>
                   let addonID = ams_AddonID status in
                   if length addonID = 0 then (respond 400 (println (errorBody ''error'' ''addonID missing'')), m)
                   else (respond 201 (println payload),
                     m\<lparr>addonStatusStore := (addonStatusStore m)(\<lparr>ask_clusterID = clusterID, ask_addonID = addonID\<rparr> \<mapsto> status)\<rparr>))
      else (respond 501 '''', m))"

definition statusServeHTTP :: "mockLib \<Rightarrow> string \<Rightarrow> string \<Rightarrow> httpRequest \<Rightarrow> mockServer \<Rightarrow> httpResponse \<times> mockServer" where
  "statusServeHTTP L clusterID addonID r m =
     (if hr_Method r = ''GET'' then
        case addonStatusStore m \<lparr>ask_clusterID = clusterID, ask_addonID = addonID\<rparr> of
          None \<Rightarrow> (respond 404 (println (errorBody ''not found'' ''addon status not found'')), m)
        | Some data \<Rightarrow>
            (case encodeAddonStatus L data of
               Inl _ \<Rightarrow> (respond 500 (println ''{}''), m)
             | Inr respBytes \<Rightarrow> (respond 200 (println respBytes), m))
      else if hr_Method r = ''POST'' then
        case readBody L r of
          Inl _ \<Rightarrow> (respond 500 (println ''{}''), m)
        | Inr payload \<Rightarrow>
            (case decodeAddonStatus L payload of
               Inl _ \<Rightarrow> (respond 500 (println ''{}''), m)
             | Inr status \<Rightarrow>
                 let m' = m\<lparr>addonStatusStore :=
                       (addonStatusStore m)(\<lparr>ask_clusterID = clusterID, ask_addonID = ams_AddonID status\<rparr> \<mapsto> status)\<rparr>
                 in case encodeAddonStatus L status of
                      Inl _ \<Rightarrow> (respond 500 (println ''{}''), m')
                    | Inr respBytes \<Rightarrow> (respond 200 (println respBytes), m'))
      else (respond 501 '''', m))"

subsection \<open>The state of an upgrade policy\<close>

definition upgradePolicyServeHTTP :: "mockLib \<Rightarrow> string \<Rightarrow> string \<Rightarrow> httpRequest \<Rightarrow> mockServer \<Rightarrow> httpResponse \<times> mockServer" where
  "upgradePolicyServeHTTP L clusterID policyID r m =
     (if hr_Method r = ''PATCH'' then
        case readBody L r of
          Inl _ \<Rightarrow> (respond 500 (println ''{}''), m)
        | Inr payload \<Rightarrow> (respond 200 (println ''{}''),
            m\<lparr>upgradePolicyStates := (upgradePolicyStates m)(\<lparr>upk_ClusterID = clusterID, upk_UpgradePolicyID = policyID\<rparr> \<mapsto> payload)\<rparr>)
      else if hr_Method r = ''GET'' then
        case upgradePolicyStates m \<lparr>upk_ClusterID = clusterID, upk_UpgradePolicyID = policyID\<rparr> of
          None \<Rightarrow> (respond 404 (println (errorBody ''not found'' ''upgrade policy not found'')), m)
        | Some data \<Rightarrow> (respond 200 (println data), m)
      else (respond 501 '''', m))"

subsection \<open>Configuration and routing\<close>

definition configure :: "mockLib \<Rightarrow> httpRequest \<Rightarrow> mockServer \<Rightarrow> httpResponse \<times> mockServer" where
  "configure L r m = (case decodeConfig L r of
     Inl _ \<Rightarrow> (respond 400 '''', m)
   | Inr conf \<Rightarrow> (respond 200 '''', if conf then m\<lparr>FailOnAddonStatusCreateEndpoint := conf\<rparr> else m))"

definition serveMock :: "mockLib \<Rightarrow> httpRequest \<Rightarrow> mockServer \<Rightarrow> httpResponse \<times> mockServer" where
  "serveMock L r m = (case routeOf L (hr_Method r) (hr_URL r) of
     RouteHealth \<Rightarrow> (Health, m)
   | RouteClusters \<Rightarrow> (clustersServeHTTP L r, m)
   | RouteUpgradePolicyState clusterID policyID \<Rightarrow> upgradePolicyServeHTTP L clusterID policyID r m
   | RouteAddonStatus clusterID addonID \<Rightarrow> statusServeHTTP L clusterID addonID r m
   | RouteAddonStatusCreate clusterID \<Rightarrow> statusCreateServeHTTP L clusterID r m
   | RouteConfigure \<Rightarrow> configure L r m
   | RouterAnswer n \<Rightarrow> (respond n '''', m))"

text \<open>The mock behind a transport: only the sending of a request is the server's.\<close>

definition mockTransport :: "mockLib \<Rightarrow> mockServer transport \<Rightarrow> mockServer transport" where
  "mockTransport L T = T\<lparr>httpDo := (\<lambda>r m. case serveMock L r m of (res, m') \<Rightarrow> (Inr res, m'))\<rparr>"

section \<open>What the client sees\<close>

text \<open>
  The specification: the state of each policy and the status of each addon of the cluster the client speaks
  for, and whether statuses are refused. An event is a request of the client, or somebody configuring the mock.
\<close>

record ocmSpec =
  sp_policies :: "string \<rightharpoonup> UpgradePolicyGetResponse"
  sp_statuses :: "string \<rightharpoonup> AddOnStatusResponse"
  sp_refusing :: bool

definition emptySpec :: ocmSpec where
  "emptySpec = \<lparr>sp_policies = Map.empty, sp_statuses = Map.empty, sp_refusing = False\<rparr>"

datatype mockEvent = ClientRequest ocmRequest | Configure httpRequest

definition policyState :: "UpgradePolicyPatchRequest \<Rightarrow> UpgradePolicyGetResponse" where
  "policyState req = \<lparr>upg_Value = upp_Value req, upg_Description = upp_Description req\<rparr>"

definition postedStatus :: "AddOnStatusPostRequest \<Rightarrow> AddOnStatusResponse" where
  "postedStatus req = \<lparr>asr_Kind = '''', asr_AddonID = asp_AddonID req, asr_CorrelationID = asp_CorrelationID req,
     asr_AddonVersion = asp_AddonVersion req, asr_StatusConditions = asp_StatusConditions req\<rparr>"

fun specRequest :: "ocmRequest \<Rightarrow> ocmSpec \<Rightarrow> ocmSpec" where
  "specRequest (ReqPatchUpgradePolicy req) a = a\<lparr>sp_policies := (sp_policies a)(upp_ID req \<mapsto> policyState req)\<rparr>"
| "specRequest (ReqPostAddOnStatus req) a =
     (if sp_refusing a \<or> asp_AddonID req = '''' then a
      else a\<lparr>sp_statuses := (sp_statuses a)(asp_AddonID req \<mapsto> postedStatus req)\<rparr>)"
| "specRequest _ a = a"

fun specEvent :: "mockLib \<Rightarrow> mockEvent \<Rightarrow> ocmSpec \<Rightarrow> ocmSpec" where
  "specEvent L (ClientRequest q) a = specRequest q a"
| "specEvent L (Configure r) a = a\<lparr>sp_refusing := (sp_refusing a \<or> decodeConfig L r = Inr True)\<rparr>"

text \<open>What each request returns.\<close>

fun answeredAs :: "'w transport \<Rightarrow> ClientOptions \<Rightarrow> ocmRequest \<Rightarrow> 'w netState \<Rightarrow> ocmSpec \<Rightarrow> bool" where
  "answeredAs T c (ReqPatchUpgradePolicy req) s a \<longleftrightarrow> fst (clientPatchUpgradePolicy T c req s) = Ok ()"
| "answeredAs T c (ReqGetUpgradePolicy policyID) s a \<longleftrightarrow> fst (clientGetUpgradePolicy T c policyID s) =
     (case sp_policies a policyID of Some v \<Rightarrow> Ok v | None \<Rightarrow> Err (OCMError 404 ''not found'' ''upgrade policy not found''))"
| "answeredAs T c (ReqGetAddOnStatus addonID) s a \<longleftrightarrow> fst (clientGetAddOnStatus T c addonID s) =
     (case sp_statuses a addonID of Some v \<Rightarrow> Ok v | None \<Rightarrow> Err (OCMError 404 ''not found'' ''addon status not found''))"
| "answeredAs T c (ReqPostAddOnStatus req) s a \<longleftrightarrow> fst (clientPostAddOnStatus T c req s) =
     (if sp_refusing a then Err (OCMError 400 ''OCM-MGMT'' ''mock failure on addon status create endpoint'')
      else if asp_AddonID req = '''' then Err (OCMError 400 ''error'' ''addonID missing'')
      else Ok (postedStatus req))"
| "answeredAs T c (ReqPatchAddOnStatus addonID req) s a \<longleftrightarrow> (\<exists>err. fst (clientPatchAddOnStatus T c addonID req s) = Err err)"

fun runEvent :: "mockLib \<Rightarrow> mockServer transport \<Rightarrow> ClientOptions \<Rightarrow> mockEvent \<Rightarrow> mockServer netState \<Rightarrow> mockServer netState" where
  "runEvent L T c (ClientRequest q) s = runRequest (mockTransport L T) c q s"
| "runEvent L T c (Configure r) s = s\<lparr>net_world := snd (configure L r (net_world s))\<rparr>"

text \<open>
  What is relied on of the libraries, for one request: the path resolves and the router takes it to its
  endpoint with the variables of the path; the server reads the body that was sent; a value is read back from
  its JSON, by the client and by the server, into the fields of the same name.
\<close>

definition reaches :: "mockLib \<Rightarrow> 'w transport \<Rightarrow> ClientOptions \<Rightarrow> string \<Rightarrow> string \<Rightarrow> payload \<Rightarrow> mockRoute \<Rightarrow> string \<Rightarrow> bool" where
  "reaches L T c verb path p route j \<longleftrightarrow> marshal T p = Inr j \<and> (\<forall>r. readBody L r = Inr (hr_Body r)) \<and>
     (\<exists>url. resolveURL T (opt_Endpoint c) (trimLeftSlash path) = Inr url \<and> newRequestError T verb url = None \<and> routeOf L verb url = route)"

fun relies :: "mockLib \<Rightarrow> 'w transport \<Rightarrow> ClientOptions \<Rightarrow> ocmRequest \<Rightarrow> bool" where
  "relies L T c (ReqPatchUpgradePolicy req) \<longleftrightarrow> (\<exists>j.
     reaches L T c ''PATCH'' (upgradePolicyPath c (upp_ID req)) (PayloadUpgradePolicyPatch req)
       (RouteUpgradePolicyState (opt_ClusterID c) (upp_ID req)) j \<and>
     unmarshalUpgradePolicy T (println j) = Inr (policyState req))"
| "relies L T c (ReqGetUpgradePolicy policyID) \<longleftrightarrow> (\<exists>j.
     reaches L T c ''GET'' (upgradePolicyPath c policyID) (UpgradePolicyGetRequest policyID)
       (RouteUpgradePolicyState (opt_ClusterID c) policyID) j)"
| "relies L T c (ReqGetAddOnStatus addonID) \<longleftrightarrow> (\<exists>j.
     reaches L T c ''GET'' (addOnStatusPath c @ ''/'' @ addonID) AddOnStatusGetRequest (RouteAddonStatus (opt_ClusterID c) addonID) j)"
| "relies L T c (ReqPostAddOnStatus req) \<longleftrightarrow> (\<exists>j status text.
     reaches L T c ''POST'' (addOnStatusPath c) (PayloadAddOnStatusPost req) (RouteAddonStatusCreate (opt_ClusterID c)) j \<and>
     decodeAddonStatus L j = Inr status \<and> ams_AddonID status = asp_AddonID req \<and>
     unmarshalAddOnStatus T (println j) = Inr (postedStatus req) \<and>
     encodeAddonStatus L status = Inr text \<and> unmarshalAddOnStatus T (println text) = Inr (postedStatus req))"
| "relies L T c (ReqPatchAddOnStatus addonID req) \<longleftrightarrow> (\<exists>j.
     reaches L T c ''PATCH'' (addOnStatusPath c @ ''/'' @ addonID) (PayloadAddOnStatusPatch req) (RouteAddonStatus (opt_ClusterID c) addonID) j)"

fun reliesEvent :: "mockLib \<Rightarrow> 'w transport \<Rightarrow> ClientOptions \<Rightarrow> mockEvent \<Rightarrow> bool" where
  "reliesEvent L T c (ClientRequest q) = relies L T c q"
| "reliesEvent L T c (Configure r) = True"

text \<open>The fixed answers of the mock are valid JSON.\<close>

definition fixedAnswers :: "mockLib \<Rightarrow> 'w transport \<Rightarrow> bool" where
  "fixedAnswers L T \<longleftrightarrow> unmarshalPatchResponse T (println ''{}'') = Inr () \<and>
     list_all (\<lambda>(code, reason). unmarshalOCMError T (println (errorBody code reason)) = Inr (code, reason))
       [(''not found'', ''upgrade policy not found''), (''not found'', ''addon status not found''), (''error'', ''addonID missing'')] \<and>
     (\<exists>text. encodeOCMError L ''OCM-MGMT'' ''mock failure on addon status create endpoint'' = Inr text \<and>
        unmarshalOCMError T text = Inr (''OCM-MGMT'', ''mock failure on addon status create endpoint''))"

text \<open>The store as the client of one cluster can read it.\<close>

definition showsAs :: "mockLib \<Rightarrow> 'w transport \<Rightarrow> string \<Rightarrow> mockServer \<Rightarrow> ocmSpec \<Rightarrow> bool" where
  "showsAs L T clusterID m a \<longleftrightarrow> sp_refusing a = FailOnAddonStatusCreateEndpoint m \<and>
     (\<forall>p. rel_option (\<lambda>data v. unmarshalUpgradePolicy T (println data) = Inr v)
        (upgradePolicyStates m \<lparr>upk_ClusterID = clusterID, upk_UpgradePolicyID = p\<rparr>) (sp_policies a p)) \<and>
     (\<forall>p. rel_option (\<lambda>status v. \<exists>j. encodeAddonStatus L status = Inr j \<and> unmarshalAddOnStatus T (println j) = Inr v)
        (addonStatusStore m \<lparr>ask_clusterID = clusterID, ask_addonID = p\<rparr>) (sp_statuses a p))"

section \<open>The client on the mock\<close>

lemma mockTransport_sel [simp]:
  "resolveURL (mockTransport L T) = resolveURL T" "marshal (mockTransport L T) = marshal T"
  "newRequestError (mockTransport L T) = newRequestError T"
  "unmarshalOCMError (mockTransport L T) = unmarshalOCMError T" "unmarshalPatchResponse (mockTransport L T) = unmarshalPatchResponse T"
  "unmarshalUpgradePolicy (mockTransport L T) = unmarshalUpgradePolicy T" "unmarshalAddOnStatus (mockTransport L T) = unmarshalAddOnStatus T"
  "unmarshalClusters (mockTransport L T) = unmarshalClusters T" "encodeParams (mockTransport L T) = encodeParams T"
  "httpDo (mockTransport L T) r m = (Inr (fst (serveMock L r m)), snd (serveMock L r m))"
  by (simp_all add: mockTransport_def split: prod.splits)

lemma readAnswer_fst:
  "fst (readAnswer T url un (respond n body) s) =
     (if 400 \<le> n \<and> n \<le> 599
      then case unmarshalOCMError T body of
             Inl e \<Rightarrow> Err (Wrap (''HTTP '' @ sprintInt n @ '': unmarshal json error response '' @ body) e)
           | Inr (code, reason) \<Rightarrow> Err (OCMError n code reason)
      else case un body of Inl e \<Rightarrow> Err (Wrap (''unmarshal json response '' @ url) e) | Inr v \<Rightarrow> Ok v)"
  by (simp add: readAnswer_def respond_def bindp_def call_def split: sum.splits prod.splits)

text \<open>A request that reaches the mock: what it returns and what the server becomes.\<close>

lemma clientDo_mock:
  assumes "reaches L T c verb path p route j"
  obtains r where "hr_Method r = verb" "hr_Body r = j" "readBody L r = Inr j" "routeOf L verb (hr_URL r) = route"
    "clientDo (mockTransport L T) c verb path [] p un s =
       readAnswer (mockTransport L T) (hr_URL r) un (fst (serveMock L r (net_world s)))
         (s\<lparr>net_world := snd (serveMock L r (net_world s)), net_sent := net_sent s @ [r]\<rparr>)"
proof -
  obtain url where url: "marshal T p = Inr j" "\<forall>r. readBody L r = Inr (hr_Body r)"
    "resolveURL T (opt_Endpoint c) (trimLeftSlash path) = Inr url" "newRequestError T verb url = None" "routeOf L verb url = route"
    using assms by (auto simp: reaches_def)
  let ?r = "\<lparr>hr_Method = verb, hr_URL = url, hr_Headers = requestHeaders (mockTransport L T) c, hr_Body = j\<rparr>"
  show thesis
    by (rule that [of ?r]) (use url in \<open>simp_all add: clientDo_def sendRequest_def bindp_def call_def Let_def\<close>)
qed

definition serves :: "mockLib \<Rightarrow> string \<Rightarrow> string \<Rightarrow> mockRoute \<Rightarrow> mockServer \<Rightarrow> httpResponse \<Rightarrow> mockServer \<Rightarrow> bool" where
  "serves L verb j route m res m' \<longleftrightarrow>
     (\<forall>r. hr_Method r = verb \<longrightarrow> readBody L r = Inr j \<longrightarrow> routeOf L verb (hr_URL r) = route \<longrightarrow> serveMock L r m = (res, m'))"

lemma mock_request:
  assumes "reaches L T c verb path p route j"
    and "serves L verb j route (net_world s) (respond n body) m'"
  shows "net_world (snd (clientDo (mockTransport L T) c verb path [] p un s)) = m'"
    and "n < 400 \<Longrightarrow> un body = Inr v \<Longrightarrow> fst (clientDo (mockTransport L T) c verb path [] p un s) = Ok v"
    and "400 \<le> n \<Longrightarrow> n \<le> 599 \<Longrightarrow> unmarshalOCMError T body = Inr (code, reason) \<Longrightarrow>
      fst (clientDo (mockTransport L T) c verb path [] p un s) = Err (OCMError n code reason)"
    and "400 \<le> n \<Longrightarrow> n \<le> 599 \<Longrightarrow> \<exists>err. fst (clientDo (mockTransport L T) c verb path [] p un s) = Err err"
proof -
  obtain r where r: "hr_Method r = verb" "readBody L r = Inr j" "routeOf L verb (hr_URL r) = route"
    "clientDo (mockTransport L T) c verb path [] p un s =
       readAnswer (mockTransport L T) (hr_URL r) un (fst (serveMock L r (net_world s)))
         (s\<lparr>net_world := snd (serveMock L r (net_world s)), net_sent := net_sent s @ [r]\<rparr>)"
    by (rule clientDo_mock [OF assms(1), of un s])
  have run: "clientDo (mockTransport L T) c verb path [] p un s =
      readAnswer (mockTransport L T) (hr_URL r) un (respond n body) (s\<lparr>net_world := m', net_sent := net_sent s @ [r]\<rparr>)"
    using r assms(2) by (simp add: serves_def)
  show "net_world (snd (clientDo (mockTransport L T) c verb path [] p un s)) = m'"
    unfolding run readAnswer_state by simp
  show "n < 400 \<Longrightarrow> un body = Inr v \<Longrightarrow> fst (clientDo (mockTransport L T) c verb path [] p un s) = Ok v"
    and "400 \<le> n \<Longrightarrow> n \<le> 599 \<Longrightarrow> unmarshalOCMError T body = Inr (code, reason) \<Longrightarrow>
      fst (clientDo (mockTransport L T) c verb path [] p un s) = Err (OCMError n code reason)"
    and "400 \<le> n \<Longrightarrow> n \<le> 599 \<Longrightarrow> \<exists>err. fst (clientDo (mockTransport L T) c verb path [] p un s) = Err err"
    unfolding run readAnswer_fst by (auto split: sum.splits)
qed

lemma fixedAnswersD:
  assumes "fixedAnswers L T"
  shows "unmarshalPatchResponse T (println ''{}'') = Inr ()"
    "unmarshalOCMError T (println (errorBody ''not found'' ''upgrade policy not found'')) = Inr (''not found'', ''upgrade policy not found'')"
    "unmarshalOCMError T (println (errorBody ''not found'' ''addon status not found'')) = Inr (''not found'', ''addon status not found'')"
    "unmarshalOCMError T (println (errorBody ''error'' ''addonID missing'')) = Inr (''error'', ''addonID missing'')"
    "\<exists>text. encodeOCMError L ''OCM-MGMT'' ''mock failure on addon status create endpoint'' = Inr text \<and>
       unmarshalOCMError T text = Inr (''OCM-MGMT'', ''mock failure on addon status create endpoint'')"
  using assms by (simp_all add: fixedAnswers_def)

text \<open>One lemma for each request: what it returns, and that the store still shows what the specification says.\<close>

definition implemented :: "mockLib \<Rightarrow> mockServer transport \<Rightarrow> ClientOptions \<Rightarrow> ocmRequest \<Rightarrow> mockServer netState \<Rightarrow> ocmSpec \<Rightarrow> bool" where
  "implemented L T c q s a \<longleftrightarrow> answeredAs (mockTransport L T) c q s a \<and>
     showsAs L T (opt_ClusterID c) (net_world (runRequest (mockTransport L T) c q s)) (specRequest q a)"

lemma patchUpgradePolicy_implemented:
  assumes "showsAs L T (opt_ClusterID c) (net_world s) a" "fixedAnswers L T" "relies L T c (ReqPatchUpgradePolicy req)"
  shows "implemented L T c (ReqPatchUpgradePolicy req) s a"
proof -
  from assms(3) obtain j where j: "reaches L T c ''PATCH'' (upgradePolicyPath c (upp_ID req)) (PayloadUpgradePolicyPatch req)
       (RouteUpgradePolicyState (opt_ClusterID c) (upp_ID req)) j" "unmarshalUpgradePolicy T (println j) = Inr (policyState req)" by auto
  let ?m = "(net_world s)\<lparr>upgradePolicyStates := (upgradePolicyStates (net_world s))(\<lparr>upk_ClusterID = opt_ClusterID c, upk_UpgradePolicyID = upp_ID req\<rparr> \<mapsto> j)\<rparr>"
  have "serves L ''PATCH'' j (RouteUpgradePolicyState (opt_ClusterID c) (upp_ID req)) (net_world s) (respond 200 (println ''{}'')) ?m"
    by (simp add: serves_def serveMock_def upgradePolicyServeHTTP_def)
  note run = mock_request [OF j(1) this, where un = "unmarshalPatchResponse T"]
  show ?thesis
    using run(1) run(2) [OF _ fixedAnswersD(1) [OF assms(2)]] assms(1) j(2)
    by (simp add: implemented_def clientPatchUpgradePolicy_def showsAs_def)
qed

lemma getUpgradePolicy_implemented:
  assumes "showsAs L T (opt_ClusterID c) (net_world s) a" "fixedAnswers L T" "relies L T c (ReqGetUpgradePolicy policyID)"
  shows "implemented L T c (ReqGetUpgradePolicy policyID) s a"
proof -
  from assms(3) obtain j where j: "reaches L T c ''GET'' (upgradePolicyPath c policyID) (UpgradePolicyGetRequest policyID)
       (RouteUpgradePolicyState (opt_ClusterID c) policyID) j" by auto
  let ?found = "upgradePolicyStates (net_world s) \<lparr>upk_ClusterID = opt_ClusterID c, upk_UpgradePolicyID = policyID\<rparr>"
  have served: "serves L ''GET'' j (RouteUpgradePolicyState (opt_ClusterID c) policyID) (net_world s) (case ?found of
      None \<Rightarrow> respond 404 (println (errorBody ''not found'' ''upgrade policy not found'')) | Some data \<Rightarrow> respond 200 (println data)) (net_world s)"
    by (simp add: serves_def serveMock_def upgradePolicyServeHTTP_def split: option.splits)
  have shown: "rel_option (\<lambda>data v. unmarshalUpgradePolicy T (println data) = Inr v) ?found (sp_policies a policyID)"
    using assms(1) unfolding showsAs_def by blast
  show ?thesis
  proof (cases ?found)
    case None
    note run = mock_request [OF j served [unfolded None option.case], where un = "unmarshalUpgradePolicy T"]
    show ?thesis
      using run(1) run(3) [OF _ _ fixedAnswersD(2) [OF assms(2)]] assms(1) shown None
      by (simp add: implemented_def clientGetUpgradePolicy_def)
  next
    case (Some data)
    note run = mock_request [OF j served [unfolded Some option.case], where un = "unmarshalUpgradePolicy T"]
    show ?thesis
      using run(1) run(2) assms(1) shown Some by (auto simp: implemented_def clientGetUpgradePolicy_def option_rel_Some1)
  qed
qed

lemma getAddOnStatus_implemented:
  assumes "showsAs L T (opt_ClusterID c) (net_world s) a" "fixedAnswers L T" "relies L T c (ReqGetAddOnStatus addonID)"
  shows "implemented L T c (ReqGetAddOnStatus addonID) s a"
proof -
  let ?found = "addonStatusStore (net_world s) \<lparr>ask_clusterID = opt_ClusterID c, ask_addonID = addonID\<rparr>"
  from assms(3) obtain j where j: "reaches L T c ''GET'' (addOnStatusPath c @ ''/'' @ addonID) AddOnStatusGetRequest
       (RouteAddonStatus (opt_ClusterID c) addonID) j" by auto
  have shown: "rel_option (\<lambda>status v. \<exists>j. encodeAddonStatus L status = Inr j \<and> unmarshalAddOnStatus T (println j) = Inr v)
      ?found (sp_statuses a addonID)" using assms(1) unfolding showsAs_def by blast
  show ?thesis
  proof (cases ?found)
    case None
    then have "serves L ''GET'' j (RouteAddonStatus (opt_ClusterID c) addonID) (net_world s)
        (respond 404 (println (errorBody ''not found'' ''addon status not found''))) (net_world s)"
      by (simp add: serves_def serveMock_def statusServeHTTP_def)
    note run = mock_request [OF j this, where un = "unmarshalAddOnStatus T"]
    show ?thesis
      using run(1) run(3) [OF _ _ fixedAnswersD(3) [OF assms(2)]] assms(1) shown None
      by (simp add: implemented_def clientGetAddOnStatus_def)
  next
    case (Some status)
    with shown obtain j' v where v: "sp_statuses a addonID = Some v" "encodeAddonStatus L status = Inr j'"
      "unmarshalAddOnStatus T (println j') = Inr v" by (auto simp: option_rel_Some1)
    with Some have "serves L ''GET'' j (RouteAddonStatus (opt_ClusterID c) addonID) (net_world s) (respond 200 (println j')) (net_world s)"
      by (simp add: serves_def serveMock_def statusServeHTTP_def)
    note run = mock_request [OF j this, where un = "unmarshalAddOnStatus T"]
    show ?thesis using run(1) run(2) [OF _ v(3)] assms(1) v(1) by (simp add: implemented_def clientGetAddOnStatus_def)
  qed
qed

text \<open>The three answers to a posted status.\<close>

lemma postAddOnStatus_implemented:
  assumes "showsAs L T (opt_ClusterID c) (net_world s) a" "fixedAnswers L T" "relies L T c (ReqPostAddOnStatus req)"
  shows "implemented L T c (ReqPostAddOnStatus req) s a"
proof -
  let ?route = "RouteAddonStatusCreate (opt_ClusterID c)"
  let ?key = "\<lparr>ask_clusterID = opt_ClusterID c, ask_addonID = asp_AddonID req\<rparr>"
  from assms(3) obtain j status j' where j: "reaches L T c ''POST'' (addOnStatusPath c) (PayloadAddOnStatusPost req) ?route j"
    and status: "decodeAddonStatus L j = Inr status" "ams_AddonID status = asp_AddonID req"
      "unmarshalAddOnStatus T (println j) = Inr (postedStatus req)" "encodeAddonStatus L status = Inr j'"
      "unmarshalAddOnStatus T (println j') = Inr (postedStatus req)" by auto
  obtain refusal where refusal: "encodeOCMError L ''OCM-MGMT'' ''mock failure on addon status create endpoint'' = Inr refusal"
    "unmarshalOCMError T refusal = Inr (''OCM-MGMT'', ''mock failure on addon status create endpoint'')"
    using fixedAnswersD(5) [OF assms(2)] by blast
  have refusing: "sp_refusing a = FailOnAddonStatusCreateEndpoint (net_world s)" using assms(1) by (simp add: showsAs_def)
  consider "sp_refusing a" | "\<not> sp_refusing a" "asp_AddonID req = ''''" | "\<not> sp_refusing a" "asp_AddonID req \<noteq> ''''" by blast
  then show ?thesis
  proof cases
    case 1
    with refusing refusal have "serves L ''POST'' j ?route (net_world s) (respond 400 refusal) (net_world s)"
      by (simp add: serves_def serveMock_def statusCreateServeHTTP_def)
    note run = mock_request [OF j this, where un = "unmarshalAddOnStatus T"]
    show ?thesis using run(1) run(3) [OF _ _ refusal(2)] assms(1) 1 by (simp add: implemented_def clientPostAddOnStatus_def)
  next
    case 2
    with refusing status have "serves L ''POST'' j ?route (net_world s) (respond 400 (println (errorBody ''error'' ''addonID missing''))) (net_world s)"
      by (simp add: serves_def serveMock_def statusCreateServeHTTP_def)
    note run = mock_request [OF j this, where un = "unmarshalAddOnStatus T"]
    show ?thesis
      using run(1) run(3) [OF _ _ fixedAnswersD(4) [OF assms(2)]] assms(1) 2 by (simp add: implemented_def clientPostAddOnStatus_def)
  next
    case 3
    with refusing status have "serves L ''POST'' j ?route (net_world s) (respond 201 (println j))
        ((net_world s)\<lparr>addonStatusStore := (addonStatusStore (net_world s))(?key \<mapsto> status)\<rparr>)"
      by (simp add: serves_def serveMock_def statusCreateServeHTTP_def)
    note run = mock_request [OF j this, where un = "unmarshalAddOnStatus T"]
    show ?thesis
      using run(1) run(2) [OF _ status(3)] assms(1) 3 status by (simp add: implemented_def clientPostAddOnStatus_def showsAs_def)
  qed
qed

lemma patchAddOnStatus_implemented:
  assumes "showsAs L T (opt_ClusterID c) (net_world s) a" "relies L T c (ReqPatchAddOnStatus addonID req)"
  shows "implemented L T c (ReqPatchAddOnStatus addonID req) s a"
proof -
  from assms(2) obtain j where j: "reaches L T c ''PATCH'' (addOnStatusPath c @ ''/'' @ addonID) (PayloadAddOnStatusPatch req)
      (RouteAddonStatus (opt_ClusterID c) addonID) j" by auto
  have "serves L ''PATCH'' j (RouteAddonStatus (opt_ClusterID c) addonID) (net_world s) (respond 501 '''') (net_world s)"
    by (simp add: serves_def serveMock_def statusServeHTTP_def)
  note run = mock_request [OF j this, where un = "unmarshalAddOnStatus T"]
  show ?thesis using run(1,4) assms(1) by (simp add: implemented_def clientPatchAddOnStatus_def)
qed

lemmas requests_implemented = patchUpgradePolicy_implemented getUpgradePolicy_implemented getAddOnStatus_implemented
  postAddOnStatus_implemented patchAddOnStatus_implemented

lemma request_implemented:
  assumes "showsAs L T (opt_ClusterID c) (net_world s) a" "fixedAnswers L T" "relies L T c q"
  shows "implemented L T c q s a"
  using assms by (cases q) (simp_all only: requests_implemented)

lemma configure_shows:
  assumes "showsAs L T clusterID m a"
  shows "showsAs L T clusterID (snd (configure L r m)) (specEvent L (Configure r) a)"
  using assms by (auto simp: showsAs_def configure_def split: sum.splits)

section \<open>Refinement\<close>

text \<open>A store refines a specification when every event keeps the relation between them.\<close>

locale event_refinement =
  fixes step :: "'e \<Rightarrow> 's \<Rightarrow> 's"
    and spec :: "'e \<Rightarrow> 'a \<Rightarrow> 'a"
    and related :: "'s \<Rightarrow> 'a \<Rightarrow> bool"
    and proper :: "'e \<Rightarrow> bool"
  assumes step_related: "related s a \<Longrightarrow> proper e \<Longrightarrow> related (step e s) (spec e a)"
begin

lemma run_related: "related s a \<Longrightarrow> list_all proper es \<Longrightarrow> related (fold step es s) (fold spec es a)"
  by (induction es arbitrary: s a) (simp_all add: step_related)

end

interpretation mock: event_refinement "runEvent L T c" "specEvent L" "\<lambda>s a. showsAs L T (opt_ClusterID c) (net_world s) a"
  "\<lambda>e. fixedAnswers L T \<and> reliesEvent L T c e" for L T c
proof (unfold_locales, elim conjE)
  fix s :: "mockServer netState" and a e
  assume *: "showsAs L T (opt_ClusterID c) (net_world s) a" "fixedAnswers L T" "reliesEvent L T c e"
  show "showsAs L T (opt_ClusterID c) (net_world (runEvent L T c e s)) (specEvent L e a)"
  proof (cases e)
    case (ClientRequest q)
    with * request_implemented [of L T c s a q] show ?thesis by (simp add: implemented_def)
  next
    case (Configure r)
    with * configure_shows show ?thesis by simp
  qed
qed

lemma newMockServer_shows [simp]: "showsAs L T clusterID newMockServer emptySpec"
  by (simp add: showsAs_def newMockServer_def emptySpec_def)

section \<open>Creating a client\<close>

lemma upToLastQuote_last: "CHR 0x0A \<notin> set x \<Longrightarrow> upToLastQuote (x @ [CHR 0x27]) = Some (x @ [CHR 0x27])"
  by (induction x) auto

lemma findQuoted_skip: "CHR 0x27 \<notin> set x \<Longrightarrow> findQuoted (x @ y) = findQuoted y"
  by (induction x) auto

lemma findQuoted_search: "CHR 0x0A \<notin> set x \<Longrightarrow> findQuoted (''external_id = '' @ squoted x) = Some (squoted x)"
  by (simp add: squoted_def upToLastQuote_last)

text \<open>
  What is relied on when a client is created: the search reaches the endpoint of the clusters, with its
  parameter, and the answer of the mock is read as JSON.
\<close>

definition mockClient :: "string \<Rightarrow> string \<Rightarrow> string \<Rightarrow> ClientOptions" where
  "mockClient e token externalID = \<lparr>opt_Endpoint = trimRightSlash e @ ''/'', opt_ClusterExternalID = externalID,
     opt_ClusterID = MockClusterId, opt_ClusterName = MockClusterName, opt_AccessToken = token\<rparr>"

definition reliesSearch :: "mockLib \<Rightarrow> 'w transport \<Rightarrow> string \<Rightarrow> string \<Rightarrow> bool" where
  "reliesSearch L T endpoint externalID \<longleftrightarrow> CHR 0x0A \<notin> set externalID \<and> (\<exists>j. marshal T ClusterGetRequest = Inr j) \<and>
     (\<exists>url. resolveURL T endpoint ''api/clusters_mgmt/v1/clusters'' = Inr url \<and>
       (let full = url @ ''?'' @ encodeParams T [(''search'', ''external_id = '' @ squoted externalID)] in
        newRequestError T ''GET'' full = None \<and> routeOf L ''GET'' full = RouteClusters \<and>
        queryGet L full ''search'' = ''external_id = '' @ squoted externalID)) \<and>
     unmarshalClusters T (clustersBody (Some (trimQuotes (squoted externalID)))) =
       Inr [\<lparr>cl_Id = MockClusterId, cl_Name = MockClusterName, cl_ExternalId = trimQuotes (squoted externalID)\<rparr>]"

lemma GetCluster_mock:
  assumes "reliesSearch L T (opt_Endpoint c) (opt_ClusterExternalID c)"
  obtains r where "GetCluster (mockTransport L T) c s =
    (Ok [\<lparr>cl_Id = MockClusterId, cl_Name = MockClusterName, cl_ExternalId = trimQuotes (squoted (opt_ClusterExternalID c))\<rparr>],
     s\<lparr>net_sent := net_sent s @ [r]\<rparr>)"
proof -
  let ?params = "[(''search'', ''external_id = '' @ squoted (opt_ClusterExternalID c))]"
  have path: "trimLeftSlash ''/api/clusters_mgmt/v1/clusters'' = ''api/clusters_mgmt/v1/clusters''" by (simp add: trimLeftSlash_def)
  from assms obtain j url where laws: "marshal T ClusterGetRequest = Inr j" "resolveURL T (opt_Endpoint c) ''api/clusters_mgmt/v1/clusters'' = Inr url"
    "newRequestError T ''GET'' (url @ ''?'' @ encodeParams T ?params) = None" "routeOf L ''GET'' (url @ ''?'' @ encodeParams T ?params) = RouteClusters"
    "queryGet L (url @ ''?'' @ encodeParams T ?params) ''search'' = ''external_id = '' @ squoted (opt_ClusterExternalID c)"
    by (auto simp: reliesSearch_def Let_def)
  let ?r = "\<lparr>hr_Method = ''GET'', hr_URL = url @ ''?'' @ encodeParams T ?params, hr_Headers = requestHeaders (mockTransport L T) c, hr_Body = j\<rparr>"
  let ?found = "clustersBody (Some (trimQuotes (squoted (opt_ClusterExternalID c))))"
  have "serveMock L ?r m = (respond 200 ?found, m)" for m
    using laws assms by (simp add: serveMock_def clustersServeHTTP_def findQuoted_search reliesSearch_def del: append.simps append_Cons)
  then show thesis
    using laws assms by (intro that [of ?r])
      (simp add: GetCluster_def clientDo_def path sendRequest_def bindp_def call_def Let_def readAnswer_def respond_def reliesSearch_def)
qed

lemma NewClient_mock:
  assumes "reliesSearch L T (trimRightSlash e @ ''/'') externalID"
  obtains r where "NewClient (mockTransport L T) [WithEndpoint e, WithAccessToken token, WithClusterExternalID externalID] s =
    (Ok (mockClient e token externalID), s\<lparr>net_sent := net_sent s @ [r]\<rparr>)"
proof -
  define c0 where "c0 = \<lparr>opt_Endpoint = trimRightSlash e @ ''/'', opt_ClusterExternalID = externalID, opt_ClusterID = '''',
    opt_ClusterName = '''', opt_AccessToken = token\<rparr>"
  have "reliesSearch L T (opt_Endpoint c0) (opt_ClusterExternalID c0)" using assms by (simp add: c0_def)
  from GetCluster_mock [OF this, of s] obtain r where "GetCluster (mockTransport L T) c0 s =
    (Ok [\<lparr>cl_Id = MockClusterId, cl_Name = MockClusterName, cl_ExternalId = trimQuotes (squoted (opt_ClusterExternalID c0))\<rparr>],
     s\<lparr>net_sent := net_sent s @ [r]\<rparr>)" .
  then show thesis
    unfolding c0_def by (intro that [of r]) (simp add: NewClient_def Let_def call_def mockClient_def)
qed

text \<open>
  C32: A client that is created on a freshly started mock speaks for the mock's cluster. After any sequence of
  its requests and of configurations of the mock, every request is answered as by one store: a policy or a
  status is read as it was written last, or reported as missing with an OCM error of status 404; a status
  is refused with status 400 once the mock was configured to, or when it names no addon.
\<close>

theorem mock_api_refines_store:
  assumes "reliesSearch L T (trimRightSlash e @ ''/'') externalID" "fixedAnswers L T"
    and "list_all (reliesEvent L T (mockClient e token externalID)) es" "relies L T (mockClient e token externalID) q"
  shows "\<exists>s. NewClient (mockTransport L T) [WithEndpoint e, WithAccessToken token, WithClusterExternalID externalID]
      \<lparr>net_world = newMockServer, net_sent = []\<rparr> = (Ok (mockClient e token externalID), s) \<and>
    answeredAs (mockTransport L T) (mockClient e token externalID) q (fold (runEvent L T (mockClient e token externalID)) es s)
      (fold (specEvent L) es emptySpec)"
proof -
  let ?c = "mockClient e token externalID"
  obtain r where new: "NewClient (mockTransport L T) [WithEndpoint e, WithAccessToken token, WithClusterExternalID externalID]
      \<lparr>net_world = newMockServer, net_sent = []\<rparr> = (Ok ?c, \<lparr>net_world = newMockServer, net_sent = [r]\<rparr>)"
    using NewClient_mock [OF assms(1), of token "\<lparr>net_world = newMockServer, net_sent = []\<rparr>"] by auto
  have "list_all (\<lambda>ev. fixedAnswers L T \<and> reliesEvent L T ?c ev) es" using assms(2,3) by (simp add: list_all_iff)
  from mock.run_related [OF _ this, of "\<lparr>net_world = newMockServer, net_sent = [r]\<rparr>" emptySpec]
  have "implemented L T ?c q (fold (runEvent L T ?c) es \<lparr>net_world = newMockServer, net_sent = [r]\<rparr>) (fold (specEvent L) es emptySpec)"
    by (intro request_implemented) (simp_all add: assms(2,4))
  with new show ?thesis by (auto simp: implemented_def)
qed

section \<open>A run\<close>

text \<open>A router on the segments of a path, and an encoding that keeps the fields the run uses.\<close>

definition mockRouter :: "string \<Rightarrow> string \<Rightarrow> mockRoute" where
  "mockRouter verb url = (let segs = splitOn CHR ''/'' (takeWhile (\<lambda>c. c \<noteq> CHR ''?'') url) in
     if segs = [''mock'', ''api'', ''clusters_mgmt'', ''v1'', ''clusters''] then RouteClusters
     else if length segs = 9 \<and> take 5 segs = [''mock'', ''api'', ''clusters_mgmt'', ''v1'', ''clusters''] \<and>
       segs ! 6 = ''addon_upgrade_policies'' \<and> segs ! 8 = ''state'' then RouteUpgradePolicyState (segs ! 5) (segs ! 7)
     else if length segs = 8 \<and> take 5 segs = [''mock'', ''api'', ''addons_mgmt'', ''v1'', ''clusters''] \<and>
       segs ! 6 = ''status'' then RouteAddonStatus (segs ! 5) (segs ! 7)
     else if length segs = 7 \<and> take 5 segs = [''mock'', ''api'', ''addons_mgmt'', ''v1'', ''clusters''] \<and>
       segs ! 6 = ''status'' then RouteAddonStatusCreate (segs ! 5)
     else RouterAnswer 404)"

definition refMockLib :: mockLib where
  "refMockLib = \<lparr>routeOf = mockRouter, queryGet = (\<lambda>url key. ''external_id = '' @ squoted ''ext''), readBody = (\<lambda>r. Inr (hr_Body r)),
     decodeAddonStatus = (\<lambda>j. Inr \<lparr>ams_AddonID = j, ams_CorrelationID = '''', ams_AddonVersion = '''', ams_StatusConditions = []\<rparr>),
     encodeAddonStatus = (\<lambda>status. Inr (ams_AddonID status)), encodeOCMError = (\<lambda>code reason. Inr (errorBody code reason)),
     decodeConfig = (\<lambda>r. Inr (hr_Body r = ''true''))\<rparr>"

fun refMarshal :: "payload \<Rightarrow> error + string" where
  "refMarshal (PayloadUpgradePolicyPatch req) = Inr (if upp_Value req = UpgradePolicyValueCompleted then ''completed'' else ''started'')"
| "refMarshal (PayloadAddOnStatusPost req) = Inr (asp_AddonID req)"
| "refMarshal _ = Inr ''{}''"

definition refMockTransport :: "mockServer transport" where
  "refMockTransport = \<lparr>resolveURL = (\<lambda>e p. Inr (e @ p)), encodeParams = (\<lambda>ps. ''search''), marshal = refMarshal, newRequestError = (\<lambda>_ _. None),
     httpDo = (\<lambda>r m. (Inl (ErrorString ''no server''), m)),
     unmarshalOCMError = (\<lambda>j. if j = errorBody ''OCM-MGMT'' ''mock failure on addon status create endpoint''
       then Inr (''OCM-MGMT'', ''mock failure on addon status create endpoint'')
       else if j = println (errorBody ''not found'' ''addon status not found'') then Inr (''not found'', ''addon status not found'')
       else if j = println (errorBody ''not found'' ''upgrade policy not found'') then Inr (''not found'', ''upgrade policy not found'')
       else Inr (''error'', ''addonID missing'')),
     unmarshalClusters = (\<lambda>_. Inr [\<lparr>cl_Id = MockClusterId, cl_Name = MockClusterName, cl_ExternalId = trimQuotes (squoted ''ext'')\<rparr>]),
     unmarshalPatchResponse = (\<lambda>_. Inr ()),
     unmarshalUpgradePolicy = (\<lambda>j. Inr \<lparr>upg_Value = (if j = println ''completed'' then UpgradePolicyValueCompleted else UpgradePolicyValueStarted),
       upg_Description = ''''\<rparr>),
     unmarshalAddOnStatus = (\<lambda>j. Inr \<lparr>asr_Kind = '''', asr_AddonID = butlast j, asr_CorrelationID = '''', asr_AddonVersion = '''',
       asr_StatusConditions = []\<rparr>), buildVersion = ''v1''\<rparr>"

definition refPatch :: "UpgradePolicyValue \<Rightarrow> ocmRequest" where
  "refPatch v = ReqPatchUpgradePolicy \<lparr>upp_ID = ''policy'', upp_Value = v, upp_Description = ''''\<rparr>"

definition refPost :: ocmRequest where
  "refPost = ReqPostAddOnStatus \<lparr>asp_AddonID = ''ref'', asp_CorrelationID = '''', asp_AddonVersion = '''', asp_StatusConditions = []\<rparr>"

definition refConfigure :: mockEvent where
  "refConfigure = Configure \<lparr>hr_Method = ''PATCH'', hr_URL = ''mock/configure'', hr_Headers = [], hr_Body = ''true''\<rparr>"

abbreviation refMockClient :: ClientOptions where
  "refMockClient \<equiv> mockClient ''mock'' ''token'' ''ext''"

lemma refMock_fixed: "fixedAnswers refMockLib refMockTransport"
  by (simp add: fixedAnswers_def refMockLib_def refMockTransport_def println_def errorBody_def dquoted_def)

lemma refMock_search: "reliesSearch refMockLib refMockTransport (trimRightSlash ''mock'' @ ''/'') ''ext''"
  by (simp add: reliesSearch_def refMockLib_def refMockTransport_def trimRightSlash_def mockRouter_def squoted_def Let_def)

lemma refMock_relies:
  "v \<in> {UpgradePolicyValueStarted, UpgradePolicyValueCompleted} \<Longrightarrow> relies refMockLib refMockTransport refMockClient (refPatch v)"
  "relies refMockLib refMockTransport refMockClient refPost"
  "relies refMockLib refMockTransport refMockClient (ReqGetUpgradePolicy ''policy'')"
  "relies refMockLib refMockTransport refMockClient (ReqGetAddOnStatus ''ref'')"
  by (auto simp: refPatch_def refPost_def reaches_def refMockLib_def refMockTransport_def mockClient_def trimRightSlash_def
      mockRouter_def upgradePolicyPath_def addOnStatusPath_def trimLeftSlash_def MockClusterId_def policyState_def postedStatus_def
      println_def Let_def)

theorem mock_api_refines_store_witness:
  "\<exists>s. fst (clientGetUpgradePolicy (mockTransport refMockLib refMockTransport) refMockClient ''policy''
      (fold (runEvent refMockLib refMockTransport refMockClient)
        [ClientRequest (refPatch UpgradePolicyValueStarted), ClientRequest refPost, refConfigure,
         ClientRequest (refPatch UpgradePolicyValueCompleted), ClientRequest (ReqGetAddOnStatus ''ref'')] s)) =
    Ok \<lparr>upg_Value = UpgradePolicyValueCompleted, upg_Description = ''''\<rparr>"
proof -
  let ?es = "[ClientRequest (refPatch UpgradePolicyValueStarted), ClientRequest refPost, refConfigure,
    ClientRequest (refPatch UpgradePolicyValueCompleted), ClientRequest (ReqGetAddOnStatus ''ref'')]"
  have "list_all (reliesEvent refMockLib refMockTransport refMockClient) ?es"
    using refMock_relies by (simp add: refConfigure_def)
  from mock_api_refines_store [OF refMock_search refMock_fixed this refMock_relies(3)]
  show ?thesis by (auto simp: refPatch_def refPost_def refConfigure_def emptySpec_def policyState_def)
qed

end
