(* ===== verification/Spec2Isabelle.thy ===== *)
theory Spec2Isabelle
  imports Entry_Point Webhooks Api_Mock
begin

text \<open>
  \<^bold>\<open>The addon operator\<close>

  The operator (\<open>openshift/addon-operator\<close>) installs and supervises addons on an OpenShift cluster. Three
  controllers share a process: the Addon controller (\<open>controllers/addon\<close>) turns an Addon object into
  namespaces, secrets, OLM objects, monitoring objects and a package template, and reports what it sees in the
  status of the Addon, to the metrics and to the OCM API; the AddonInstance controller
  (\<open>controllers/addoninstance\<close>) turns heartbeats into a health condition; the AddonOperator controller
  (\<open>controllers/addonoperator\<close>) pauses the first one, gives it an OCM client and ends the process when the
  feature toggles change. A webhook (\<open>internal/webhooks\<close>) decides which Addons are admitted.

  \<^bold>\<open>How the code is modelled\<close>

  \<^item> \<^emph>\<open>Prelude\<close>: a Go function is a state-passing program \<open>('s, 'a) prog\<close> that returns a value, an
    error or panics (a nil dereference); \<open>call\<close> and \<open>bindp\<close> are the two idioms of error handling, \<open>deferring\<close>
    is \<open>defer\<close>; \<open>wp\<close>, \<open>keeps\<close> and \<open>yields\<close> are the judgements the proofs use. Go's errors are a datatype;
    \<open>Wrap\<close> prints a colon between message and cause, also in the few places where the source has a comma.
  \<^item> \<^emph>\<open>Api_Types\<close>: the resources of \<open>api/v1alpha1\<close> and the fields the operator uses of resources of other
    projects. An absent pointer is \<open>None\<close>; a nil slice or map is the empty one.
  \<^item> \<^emph>\<open>K8s_Lib\<close>: the library functions the operator calls (conditions, labels, owner references, finalizers,
    error classes, deep equality, multierror) as a record of functions with the laws that are relied on
    (\<open>lib_laws\<close>), and an executable instance that satisfies them.
  \<^item> \<^emph>\<open>Runtime\<close>: clients of the API server are functions on an abstract world that may answer anything, so
    every theorem holds whatever other actors do; writes are recorded with their answers in \<open>st_calls\<close>; the
    Addon behind the shared pointer is \<open>st_addon\<close>; \<open>time.Now\<close> reads the next entry of a clock sequence.
  \<^item> \<^emph>\<open>Ref_Cluster\<close>: a concrete cluster over a stock of objects, on which the witnesses run.

  \<^bold>\<open>The components\<close>, each with its main results:

  \<^item> \<^emph>\<open>Operator_Handler\<close> (\<open>operator_resource_eventhandler.go\<close>): the maps that route events of an Operator to
    its Addon refine one routing map; a registration settles; a shared Operator loses its route.
  \<^item> \<^emph>\<open>Metrics\<close> (\<open>internal/metrics/recorder.go\<close>): the gauges count the known Addons after any history.
  \<^item> \<^emph>\<open>Common_Utils\<close>, \<^emph>\<open>Addon_Status\<close> (\<open>common_utils.go\<close>, \<open>errors.go\<close>, \<open>controllers/addon/utils.go\<close>):
    labels, ownership, and every report of a condition, with what each of them leaves alone.
  \<^item> \<^emph>\<open>Go_Duration\<close>, \<^emph>\<open>Deletion\<close> (\<open>addon_deletion_*.go\<close>): \<open>time.ParseDuration\<close>; the delete signal, its
    timeout, and that an Addon is ready to be deleted only after an acknowledgement.
  \<^item> \<^emph>\<open>Namespaces\<close>, \<^emph>\<open>Secret_Propagation\<close> (\<open>namespace_reconciler.go\<close>, \<open>secret_reconciler.go\<close>): what is
    written and deleted is only what belongs to the Addon, and a contented run is complete.
  \<^item> \<^emph>\<open>Adoption\<close>: the pattern the object phases share (get, create, adopt, update), as a locale
    interpreted for each kind of object. \<^emph>\<open>Csv_Refs\<close>, \<^emph>\<open>Olm_Phases\<close>, \<^emph>\<open>Olm_Reconciler\<close> (\<open>phase_*.go\<close>,
    \<open>olm_reconciler.go\<close>, \<open>handle_installed_condition.go\<close>): safety, order of writes, stability of the
    Subscription, and what a contented run has seen.
  \<^item> \<^emph>\<open>Instance_Reconciler\<close>, \<^emph>\<open>Monitoring_Federation\<close>, \<^emph>\<open>Monitoring_Stack\<close>, \<^emph>\<open>Package_Operator\<close>: the
    remaining sub-reconcilers, with their writes, their teardown and their verdicts.
  \<^item> \<^emph>\<open>Sub_Reconcilers\<close>: the contract of a sub-reconciler (locale \<open>sub_reconciler\<close>: it keeps the identity of
    the Addon, makes only its declared calls and never makes the Addon available), interpreted for all eight.
  \<^item> \<^emph>\<open>Ocm_Reporting\<close> (\<open>upgradepolicy_status.go\<close>, \<open>status_reporting.go\<close>): upgrades are reported in order, at
    most once each, and eventually; the status is posted exactly when it has changed.
  \<^item> \<^emph>\<open>Addon_Controller\<close> (\<open>addon_controller.go\<close>, \<open>addon_reconciler_options.go\<close>): one whole reconciliation. An
    Addon becomes available only when every sub-reconciler was content; only declared writes happen; the
    finalizer waits for the template; a pause stops everything; no error is lost.
  \<^item> \<^emph>\<open>Watches\<close> (\<open>SetupWithManager\<close>): what wakes the Addon controller up; whatever it writes is watched and
    refers back to the Addon, except for a few objects that are named.
  \<^item> \<^emph>\<open>Ocm_Client\<close> (\<open>internal/ocm\<close>): which requests a client sends and how it reads answers.
    \<open>asOcmClient\<close> is this client as the interface the reports of \<^emph>\<open>Ocm_Reporting\<close> use.
  \<^item> \<^emph>\<open>Api_Mock\<close> (\<open>cmd/api-mock\<close>): the mock of the OCM API the tests use. Client and mock together refine one store
    of policies and statuses (locale \<open>event_refinement\<close>).
  \<^item> \<^emph>\<open>Feature_Toggles\<close> (\<open>internal/featuretoggle\<close>, the selection loop of \<open>main.go\<close>): editing the list of
    toggles, and the sub-reconcilers it selects.
  \<^item> \<^emph>\<open>Operator_Controller\<close> (\<open>controllers/addonoperator\<close>), on the Addon controller, the OCM client and
    the toggles: when the process ends, and when the pause follows the specification.
  \<^item> \<^emph>\<open>Webhooks\<close> (\<open>internal/webhooks\<close>): what is admitted can be reconciled without a panic, and stays where
    it was installed.
  \<^item> \<^emph>\<open>Instance_Controller\<close> (\<open>controllers/addoninstance\<close>, \<open>pkg/client\<close>): the reported health, at 64 bits, and
    that a pulse is seen.
  \<^item> \<^emph>\<open>Entry_Point\<close> (\<open>main.go\<close>, \<open>options.go\<close>): the options from flags, environment and file, the steps of the
    start and the controllers they build. The sub-reconcilers of a running operator are those the flags in
    the cluster select, or the process ends.

  \<^bold>\<open>Bounds and termination\<close>

  Every definition is total: the loops of the source run over finite lists and are structural recursions, so
  there is no fuel. Numbers are unbounded except where the source can wrap: the hash of the status is computed
  on 32-bit words, the parser of durations checks the bounds of \<open>int64\<close> and \<open>uint64\<close> as the library does, and the
  timeout of a heartbeat is a product of 64-bit words. Times are integers of nanoseconds.

  \<^bold>\<open>Errors the proofs show\<close>

  Some lemmas state what the code does where it hardly means to: an Operator shared by two Addons loses its
  route, an Addon recorded twice during its deletion is counted again, the cause of an error of the
  ServiceMonitor is lost, the collision check of the webhook compares the wrong name, a restart loses a
  global pause, and a changed NetworkPolicy does not wake its Addon up.

  \<^bold>\<open>Not modelled\<close>

  The managers and servers themselves, the \<open>SetupWithManager\<close> of the two smaller controllers (each watches its
  own kind only), \<open>cmd/addon-operator-webhook\<close> (which registers the webhook with a server), logging, the
  generated deep copies, the build scripts, the generator of the documentation and test fixtures. The API
  server, the OCM API outside \<open>Api_Mock\<close>, JSON, URLs
  and the decoder of the webhook are parameters. Controllers are modelled one reconciliation at a time: the
  locks that make this right are named where they matter. One read of the OCM client in
  \<open>handleOCMAddOnStatusReporting\<close> is not under its lock; both reports of one reconciliation are taken to see the
  same client.
\<close>

end
